(* ===== verification/Prelude.thy ===== *)
theory Prelude
  imports Main
begin

text \<open>
  Shared vocabulary of the development: results in the style of Rust's \<open>Result\<close>,
  transactions that thread a state and roll back on an error, 64-bit checked
  arithmetic, tables as lists of rows with the three SQL statements the stores
  issue on them, and the string functions of the Rust standard library the
  validators call.  A Rust \<open>String\<close> is the list of its UTF-8 bytes, so \<open>len()\<close>
  is \<^const>\<open>length\<close>.
\<close>

named_theorems tx_simps \<open>when a transaction commits\<close>
named_theorems tx_intros \<open>composition rules for transaction invariants\<close>


section \<open>Results\<close>

text \<open>\<open>try_r r k\<close> is Rust's \<open>r?\<close> followed by the rest \<open>k\<close> of the function.\<close>

definition try_r :: "'e + 'a \<Rightarrow> ('a \<Rightarrow> 'e + 'b) \<Rightarrow> 'e + 'b" where
  "try_r r k = (case r of Inl e \<Rightarrow> Inl e | Inr x \<Rightarrow> k x)"

definition map_err :: "('e \<Rightarrow> 'f) \<Rightarrow> 'e + 'a \<Rightarrow> 'f + 'a" where
  "map_err f r = (case r of Inl e \<Rightarrow> Inl (f e) | Inr x \<Rightarrow> Inr x)"

definition ok_or :: "'e \<Rightarrow> 'a option \<Rightarrow> 'e + 'a" where
  "ok_or e v = (case v of None \<Rightarrow> Inl e | Some x \<Rightarrow> Inr x)"

definition ensure_r :: "bool \<Rightarrow> 'e \<Rightarrow> 'e + unit" where
  "ensure_r b e = (if b then Inr () else Inl e)"

definition is_ok :: "'e + 'a \<Rightarrow> bool" where
  "is_ok r = (case r of Inl _ \<Rightarrow> False | Inr _ \<Rightarrow> True)"

definition ok_option :: "'e + 'a \<Rightarrow> 'a option" where
  "ok_option r = (case r of Inl _ \<Rightarrow> None | Inr x \<Rightarrow> Some x)"

lemma try_r_simps [simp]:
  "try_r (Inl e) k = Inl e"
  "try_r (Inr x) k = k x"
  by (simp_all add: try_r_def)

lemma try_r_Inr_iff [simp]:
  "try_r r k = Inr y \<longleftrightarrow> (\<exists>x. r = Inr x \<and> k x = Inr y)"
  by (cases r) auto

lemma try_r_unit_iff: "try_r r k = Inr y \<longleftrightarrow> r = Inr () \<and> k () = Inr y" for r :: "'e + unit"
  by (cases r) auto

lemma map_err_simps [simp]:
  "map_err f (Inl e) = Inl (f e)"
  "map_err f (Inr x) = Inr x"
  "map_err f r = Inr y \<longleftrightarrow> r = Inr y"
  by (auto simp: map_err_def split: sum.splits)

lemma ok_or_simps [simp]:
  "ok_or e None = Inl e"
  "ok_or e (Some x) = Inr x"
  "ok_or e v = Inr y \<longleftrightarrow> v = Some y"
  by (auto simp: ok_or_def split: option.splits)

lemma ensure_r_simps [simp]:
  "ensure_r True e = Inr ()"
  "ensure_r False e = Inl e"
  "ensure_r b e = Inr u \<longleftrightarrow> b"
  by (auto simp: ensure_r_def)

lemma is_ok_simps [simp]:
  "is_ok (Inr x)"
  "\<not> is_ok (Inl e)"
  "is_ok (map_err f r) = is_ok r"
  by (auto simp: is_ok_def map_err_def split: sum.splits)

lemma is_ok_iff: "is_ok r \<longleftrightarrow> (\<exists>x. r = Inr x)"
  by (cases r) auto

lemma is_ok_unit_iff: "is_ok r \<longleftrightarrow> r = Inr ()" for r :: "'e + unit"
  by (cases r) auto

lemma ok_option_simps [simp]:
  "ok_option (Inl e) = None"
  "ok_option (Inr x) = Some x"
  "ok_option r = Some y \<longleftrightarrow> r = Inr y"
  by (auto simp: ok_option_def split: sum.splits)

text \<open>Branches of a validator: when the whole conditional succeeds.\<close>

lemma if_Inl_iff: "(if b then Inl e else r) = Inr x \<longleftrightarrow> \<not> b \<and> r = Inr x"
  by simp

lemma if_Inr_iff: "(if b then Inr () else r) = Inr () \<longleftrightarrow> b \<or> r = Inr ()"
  by simp

lemma if_else_Inl_iff: "(if b then r else Inl e) = Inr x \<longleftrightarrow> b \<and> r = Inr x"
  by simp

lemma if_check_iff:
  "(if b then (if c then Inr () else Inl e) else r) = Inr () \<longleftrightarrow> (if b then c else r = Inr ())"
  by simp

lemmas branch_iffs = if_Inl_iff if_Inr_iff if_else_Inl_iff if_check_iff

text \<open>\<open>for x in xs { f(x)?; }\<close>: the first failing element ends the loop.\<close>

fun each_r :: "('a \<Rightarrow> 'e + unit) \<Rightarrow> 'a list \<Rightarrow> 'e + unit" where
  "each_r f [] = Inr ()"
| "each_r f (x # xs) = try_r (f x) (\<lambda>_. each_r f xs)"

lemma each_r_ok_iff [simp]: "each_r f xs = Inr u \<longleftrightarrow> (\<forall>x \<in> set xs. f x = Inr ())"
  by (induction xs) auto

text \<open>Collecting an iterator of results: \<open>iter.map(f).collect::<Result<Vec<_>, _>>()\<close>.\<close>

fun collect_r :: "('a \<Rightarrow> 'e + 'b) \<Rightarrow> 'a list \<Rightarrow> 'e + 'b list" where
  "collect_r f [] = Inr []"
| "collect_r f (x # xs) = try_r (f x) (\<lambda>y. try_r (collect_r f xs) (\<lambda>ys. Inr (y # ys)))"

lemma collect_r_ok_iff:
  "collect_r f xs = Inr ys \<longleftrightarrow> list_all2 (\<lambda>x y. f x = Inr y) xs ys"
  by (induction xs arbitrary: ys) (auto simp: list_all2_Cons1)

text \<open>\<open>Option<Result<..>>::transpose\<close> after a \<open>map\<close>.\<close>

definition transpose_r :: "('a \<Rightarrow> 'e + 'b) \<Rightarrow> 'a option \<Rightarrow> 'e + 'b option" where
  "transpose_r f v = (case v of None \<Rightarrow> Inr None | Some x \<Rightarrow> try_r (f x) (\<lambda>y. Inr (Some y)))"

lemma transpose_r_simps [simp]:
  "transpose_r f None = Inr None"
  "transpose_r f (Some x) = try_r (f x) (\<lambda>y. Inr (Some y))"
  by (simp_all add: transpose_r_def)


section \<open>Transactions\<close>

text \<open>
  A transaction body maps the state it starts from to an error, which rolls the
  state back, or to its value and the state it commits.
\<close>

type_synonym ('s, 'e, 'a) tx = "'s \<Rightarrow> 'e + 'a \<times> 's"

definition tx_return :: "'a \<Rightarrow> ('s, 'e, 'a) tx" where
  "tx_return x = (\<lambda>s. Inr (x, s))"

definition tx_fail :: "'e \<Rightarrow> ('s, 'e, 'a) tx" where
  "tx_fail e = (\<lambda>s. Inl e)"

definition tx_bind :: "('s, 'e, 'a) tx \<Rightarrow> ('a \<Rightarrow> ('s, 'e, 'b) tx) \<Rightarrow> ('s, 'e, 'b) tx" where
  "tx_bind m k = (\<lambda>s. case m s of Inl e \<Rightarrow> Inl e | Inr (x, s') \<Rightarrow> k x s')"

definition tx_then :: "('s, 'e, unit) tx \<Rightarrow> ('s, 'e, 'b) tx \<Rightarrow> ('s, 'e, 'b) tx" where
  "tx_then m k = tx_bind m (\<lambda>_. k)"

definition tx_lift :: "'e + 'a \<Rightarrow> ('s, 'e, 'a) tx" where
  "tx_lift r = (\<lambda>s. case r of Inl e \<Rightarrow> Inl e | Inr x \<Rightarrow> Inr (x, s))"

definition tx_require :: "bool \<Rightarrow> 'e \<Rightarrow> ('s, 'e, unit) tx" where
  "tx_require b e = (\<lambda>s. if b then Inr ((), s) else Inl e)"

definition tx_read :: "('s \<Rightarrow> 'a) \<Rightarrow> ('s, 'e, 'a) tx" where
  "tx_read f = (\<lambda>s. Inr (f s, s))"

definition tx_modify :: "('s \<Rightarrow> 's) \<Rightarrow> ('s, 'e, unit) tx" where
  "tx_modify f = (\<lambda>s. Inr ((), f s))"

fun tx_each :: "('a \<Rightarrow> ('s, 'e, unit) tx) \<Rightarrow> 'a list \<Rightarrow> ('s, 'e, unit) tx" where
  "tx_each f [] = tx_return ()"
| "tx_each f (x # xs) = tx_then (f x) (tx_each f xs)"

lemma tx_commit_simps [simp, tx_simps]:
  "tx_return x s = Inr r \<longleftrightarrow> r = (x, s)"
  "\<not> tx_fail e s = Inr r"
  "tx_bind m k s = Inr r \<longleftrightarrow> (\<exists>x s'. m s = Inr (x, s') \<and> k x s' = Inr r)"
  "tx_then m' k' s = Inr r \<longleftrightarrow> (\<exists>s'. m' s = Inr ((), s') \<and> k' s' = Inr r)"
  "tx_lift v s = Inr (x, s') \<longleftrightarrow> v = Inr x \<and> s' = s"
  "tx_require b e s = Inr r' \<longleftrightarrow> b \<and> r' = ((), s)"
  "tx_read f s = Inr (x, s') \<longleftrightarrow> x = f s \<and> s' = s"
  "tx_modify g s = Inr r' \<longleftrightarrow> r' = ((), g s)"
  by (auto simp: tx_return_def tx_fail_def tx_bind_def tx_then_def tx_lift_def tx_require_def
      tx_read_def tx_modify_def split: sum.splits prod.splits)

lemma tx_lift_Inr_pair [simp, tx_simps]:
  "tx_lift v s = Inr r \<longleftrightarrow> (\<exists>x. v = Inr x \<and> r = (x, s))"
  by (cases r) auto

lemma tx_read_pair [simp, tx_simps]:
  "tx_read f s = Inr r \<longleftrightarrow> r = (f s, s)"
  by (cases r) auto

text \<open>Evaluation of a body on a concrete state.\<close>

lemma tx_eval:
  "tx_return x s = Inr (x, s)"
  "tx_fail e s = Inl e"
  "tx_bind m k s = (case m s of Inl e \<Rightarrow> Inl e | Inr (x, s') \<Rightarrow> k x s')"
  "tx_then m' k' s = (case m' s of Inl e \<Rightarrow> Inl e | Inr (_, s') \<Rightarrow> k' s')"
  "tx_lift r s = (case r of Inl e \<Rightarrow> Inl e | Inr x \<Rightarrow> Inr (x, s))"
  "tx_require b e s = (if b then Inr ((), s) else Inl e)"
  "tx_read f s = Inr (f s, s)"
  "tx_modify g s = Inr ((), g s)"
  by (simp_all add: tx_return_def tx_fail_def tx_bind_def tx_then_def tx_lift_def tx_require_def
      tx_read_def tx_modify_def)

lemma tx_bind_assoc: "tx_bind (tx_bind m k) h = tx_bind m (\<lambda>x. tx_bind (k x) h)"
  by (auto simp: tx_bind_def fun_eq_iff split: sum.splits prod.splits)

lemma tx_bind_return [simp]: "tx_bind (tx_return x) k = k x" "tx_bind m tx_return = m"
  by (auto simp: tx_bind_def tx_return_def fun_eq_iff split: sum.splits prod.splits)

text \<open>
  \<open>tx_rel R m\<close>: every commit of \<open>m\<close> relates the state before to the state after by
  \<open>R\<close>.  With a reflexive and transitive \<open>R\<close> it composes, which is what the rules in
  \<open>tx_intros\<close> use; \<open>tx_keeps P\<close> is the special case of an invariant.
\<close>

definition tx_rel :: "('s \<Rightarrow> 's \<Rightarrow> bool) \<Rightarrow> ('s, 'e, 'a) tx \<Rightarrow> bool" where
  "tx_rel R m \<longleftrightarrow> (\<forall>s x s'. m s = Inr (x, s') \<longrightarrow> R s s')"

definition tx_keeps :: "('s \<Rightarrow> bool) \<Rightarrow> ('s, 'e, 'a) tx \<Rightarrow> bool" where
  "tx_keeps P m \<longleftrightarrow> tx_rel (\<lambda>s s'. P s \<longrightarrow> P s') m"

text \<open>A transaction that only reads.\<close>

definition tx_pure :: "('s, 'e, 'a) tx \<Rightarrow> bool" where
  "tx_pure m \<longleftrightarrow> tx_rel (\<lambda>s s'. s' = s) m"

lemma tx_relI: "(\<And>s x s'. m s = Inr (x, s') \<Longrightarrow> R s s') \<Longrightarrow> tx_rel R m"
  by (auto simp: tx_rel_def)

lemma tx_relD: "tx_rel R m \<Longrightarrow> m s = Inr (x, s') \<Longrightarrow> R s s'"
  by (auto simp: tx_rel_def)

lemma tx_keepsI: "(\<And>s x s'. P s \<Longrightarrow> m s = Inr (x, s') \<Longrightarrow> P s') \<Longrightarrow> tx_keeps P m"
  by (auto simp: tx_keeps_def tx_rel_def)

lemma tx_keepsD: "tx_keeps P m \<Longrightarrow> m s = Inr (x, s') \<Longrightarrow> P s \<Longrightarrow> P s'"
  by (auto simp: tx_keeps_def tx_rel_def)

lemma tx_pureI: "(\<And>s x s'. m s = Inr (x, s') \<Longrightarrow> s' = s) \<Longrightarrow> tx_pure m"
  by (auto simp: tx_pure_def tx_rel_def)

lemma tx_pureD: "tx_pure m \<Longrightarrow> m s = Inr (x, s') \<Longrightarrow> s' = s"
  by (auto simp: tx_pure_def tx_rel_def)

text \<open>The contract of a relation that transaction bodies may be composed under.\<close>

locale tx_order =
  fixes R :: "'s \<Rightarrow> 's \<Rightarrow> bool"
  assumes refl: "R s s"
    and trans: "R s s' \<Longrightarrow> R s' s'' \<Longrightarrow> R s s''"
begin

lemma rel_return: "tx_rel R (tx_return x)"
  by (auto intro!: tx_relI simp: refl)

lemma rel_fail: "tx_rel R (tx_fail e)"
  by (auto intro!: tx_relI)

lemma rel_lift: "tx_rel R (tx_lift r)"
  by (auto intro!: tx_relI simp: refl)

lemma rel_require: "tx_rel R (tx_require b e)"
  by (auto intro!: tx_relI simp: refl)

lemma rel_read: "tx_rel R (tx_read f)"
  by (auto intro!: tx_relI simp: refl)

lemma rel_pure: "tx_pure m \<Longrightarrow> tx_rel R m"
  by (auto intro!: tx_relI dest!: tx_pureD simp: refl)

lemma rel_bind: "tx_rel R m \<Longrightarrow> (\<And>x. tx_rel R (k x)) \<Longrightarrow> tx_rel R (tx_bind m k)"
  by (rule tx_relI) (auto dest!: tx_relD intro: trans)

lemma rel_then: "tx_rel R m \<Longrightarrow> tx_rel R k \<Longrightarrow> tx_rel R (tx_then m k)"
  by (rule tx_relI) (auto dest!: tx_relD intro: trans)

lemma rel_if: "tx_rel R m \<Longrightarrow> tx_rel R k \<Longrightarrow> tx_rel R (if b then m else k)"
  by simp

lemma rel_option:
  "tx_rel R m \<Longrightarrow> (\<And>x. tx_rel R (k x)) \<Longrightarrow> tx_rel R (case v of None \<Rightarrow> m | Some x \<Rightarrow> k x)"
  by (cases v) auto

lemma rel_prod: "(\<And>x y. tx_rel R (k x y)) \<Longrightarrow> tx_rel R (case v of (x, y) \<Rightarrow> k x y)"
  by (cases v) auto

lemma rel_each: "(\<And>x. tx_rel R (f x)) \<Longrightarrow> tx_rel R (tx_each f xs)"
  by (induction xs) (auto intro: rel_return rel_then)

lemmas rel_rules = rel_return rel_fail rel_lift rel_require rel_read rel_bind rel_then rel_if
  rel_option rel_prod rel_each

end

interpretation unchanged: tx_order "\<lambda>s s'. s' = s"
  by unfold_locales auto

interpretation preserved: tx_order "\<lambda>s s'. P s \<longrightarrow> P s'" for P
  by unfold_locales auto

lemmas tx_pure_intros [tx_intros] = unchanged.rel_rules [folded tx_pure_def]

lemmas tx_keeps_intros [tx_intros] = preserved.rel_rules [folded tx_keeps_def]

lemma tx_pure_keeps: "tx_pure m \<Longrightarrow> tx_keeps P m"
  by (auto intro!: tx_keepsI dest: tx_pureD)

text \<open>
  \<open>run_tx\<close> is what a caller observes of one attempt: the committed state, or the
  error with the state it started from.
\<close>

definition run_tx :: "('s, 'e, 'a) tx \<Rightarrow> 's \<Rightarrow> ('e + 'a) \<times> 's" where
  "run_tx m s = (case m s of Inl e \<Rightarrow> (Inl e, s) | Inr (x, s') \<Rightarrow> (Inr x, s'))"


section \<open>Checked 64-bit arithmetic\<close>

definition i64_max :: int where
  "i64_max = 9223372036854775807"

definition i64_min :: int where
  "i64_min = - 9223372036854775808"

definition u64_max :: int where
  "u64_max = 18446744073709551615"

text \<open>\<open>i64::checked_add\<close>.\<close>

definition checked_add :: "int \<Rightarrow> int \<Rightarrow> int option" where
  "checked_add a b = (if i64_min \<le> a + b \<and> a + b \<le> i64_max then Some (a + b) else None)"

lemma checked_add_Some_iff: "checked_add a b = Some c \<longleftrightarrow> c = a + b \<and> i64_min \<le> c \<and> c \<le> i64_max"
  by (auto simp: checked_add_def)

lemma checked_add_one: "checked_add a 1 = Some c \<Longrightarrow> c = a + 1"
  by (simp add: checked_add_Some_iff)


section \<open>Tables\<close>

text \<open>
  A table is the list of its rows.  \<open>lookup\<close> is \<open>SELECT .. WHERE key = k\<close> with
  \<open>first()\<close>, \<open>update_where\<close> an \<open>UPDATE .. WHERE p\<close> whose number of changed rows is
  \<open>count_where p\<close>, \<open>delete_where\<close> a \<open>DELETE\<close>; inserting a row whose key is present
  violates the primary key.
\<close>

definition lookup :: "('r \<Rightarrow> 'k) \<Rightarrow> 'r list \<Rightarrow> 'k \<Rightarrow> 'r option" where
  "lookup key t k = find (\<lambda>r. key r = k) t"

definition update_where :: "('r \<Rightarrow> bool) \<Rightarrow> ('r \<Rightarrow> 'r) \<Rightarrow> 'r list \<Rightarrow> 'r list" where
  "update_where p f t = map (\<lambda>r. if p r then f r else r) t"

definition count_where :: "('r \<Rightarrow> bool) \<Rightarrow> 'r list \<Rightarrow> nat" where
  "count_where p t = length (filter p t)"

definition delete_where :: "('r \<Rightarrow> bool) \<Rightarrow> 'r list \<Rightarrow> 'r list" where
  "delete_where p t = filter (\<lambda>r. \<not> p r) t"

definition unique_keys :: "('r \<Rightarrow> 'k) \<Rightarrow> 'r list \<Rightarrow> bool" where
  "unique_keys key t = distinct (map key t)"

lemma lookup_Nil [simp]: "lookup key [] k = None"
  by (simp add: lookup_def)

lemma lookup_Cons [simp]:
  "lookup key (r # t) k = (if key r = k then Some r else lookup key t k)"
  by (simp add: lookup_def)

lemma lookup_SomeD: "lookup key t k = Some r \<Longrightarrow> r \<in> set t \<and> key r = k"
  by (induction t) (auto split: if_splits)

lemma lookup_None_iff: "lookup key t k = None \<longleftrightarrow> k \<notin> key ` set t"
  by (induction t) auto

lemma lookup_append [simp]:
  "lookup key (t @ [r]) k =
     (case lookup key t k of None \<Rightarrow> (if key r = k then Some r else None) | Some x \<Rightarrow> Some x)"
  by (induction t) auto

lemma unique_keys_Nil [simp]: "unique_keys key []"
  by (simp add: unique_keys_def)

lemma unique_keys_append [simp]:
  "unique_keys key (t @ [r]) \<longleftrightarrow> unique_keys key t \<and> lookup key t (key r) = None"
  by (auto simp: unique_keys_def lookup_None_iff)

lemma lookup_iff_mem: "unique_keys key t \<Longrightarrow> lookup key t k = Some r \<longleftrightarrow> r \<in> set t \<and> key r = k"
  by (induction t) (auto simp: unique_keys_def image_iff)

lemma update_where_keys:
  assumes "\<And>r. p r \<Longrightarrow> key (f r) = key r"
  shows "map key (update_where p f t) = map key t"
  using assms by (auto simp: update_where_def)

lemma unique_keys_update_where [simp]:
  "(\<And>r. p r \<Longrightarrow> key (f r) = key r) \<Longrightarrow> unique_keys key (update_where p f t) = unique_keys key t"
  by (simp add: unique_keys_def update_where_keys)

lemma lookup_update_where:
  assumes "\<And>r. p r \<Longrightarrow> key (f r) = key r"
  shows "lookup key (update_where p f t) k =
    map_option (\<lambda>r. if p r then f r else r) (lookup key t k)"
  using assms by (induction t) (auto simp: update_where_def)

lemma unique_keys_delete_where [simp]: "unique_keys key t \<Longrightarrow> unique_keys key (delete_where p t)"
  by (induction t) (auto simp: unique_keys_def delete_where_def)

lemma lookup_delete_where:
  "unique_keys key t \<Longrightarrow> lookup key (delete_where p t) k =
    (case lookup key t k of None \<Rightarrow> None | Some r \<Rightarrow> if p r then None else Some r)"
proof (induction t)
  case (Cons r t)
  then have "lookup key t (key r) = None"
    by (auto simp: unique_keys_def lookup_None_iff)
  moreover have "unique_keys key t"
    using Cons.prems by (simp add: unique_keys_def)
  ultimately show ?case
    using Cons.IH by (auto simp: delete_where_def split: option.splits)
qed (simp add: delete_where_def)

text \<open>On a keyed table, an update restricted to one key changes a row exactly when
  that row satisfies the rest of the condition.\<close>

lemma count_where_key:
  assumes "unique_keys key t"
  shows "count_where (\<lambda>r. key r = k \<and> q r) t =
    (case lookup key t k of None \<Rightarrow> 0 | Some r \<Rightarrow> if q r then 1 else 0)"
  using assms
proof (induction t)
  case (Cons r t)
  have t: "unique_keys key t" "key r \<notin> key ` set t"
    using Cons.prems by (auto simp: unique_keys_def)
  have "filter (\<lambda>x. key x = key r \<and> q x) t = []"
    using t(2) by (induction t) auto
  then show ?case
    using Cons.IH [OF t(1)] by (auto simp: count_where_def)
qed (simp add: count_where_def)

lemma count_where_key_one_iff:
  "unique_keys key t \<Longrightarrow> count_where (\<lambda>r. key r = k \<and> q r) t = 1 \<longleftrightarrow>
    (\<exists>r. lookup key t k = Some r \<and> q r)"
  by (auto simp: count_where_key split: option.splits)


section \<open>Chains\<close>

lemma successively_constant:
  assumes "\<And>a b. R a b \<Longrightarrow> f b = f a" "successively R xs" "x \<in> set xs"
  shows "f x = f (last xs)"
  using assms(2,3)
proof (induction xs arbitrary: x)
  case (Cons a xs)
  show ?case
  proof (cases xs)
    case Nil
    then show ?thesis using Cons.prems by simp
  next
    case (Cons b ys)
    then have "successively R xs" "R a b" "b \<in> set xs" "last (a # xs) = last xs"
      using Cons.prems by simp_all
    then show ?thesis
      using Cons.IH [of b] Cons.IH [of x] assms(1) [of a b] Cons.prems by auto
  qed
qed simp

lemma successively_stutter:
  assumes "successively (\<lambda>a b. b = a \<or> R a b) ss"
  shows "successively R (remdups_adj ss)"
proof -
  have "successively (\<lambda>a b. b = a \<or> R a b) (remdups_adj ss)"
    using assms by (rule successively_remdups_adjI)
  moreover have "successively (\<noteq>) (remdups_adj ss)"
    using distinct_adj_remdups_adj by (simp add: distinct_adj_def)
  ultimately show ?thesis
    by (simp add: successively_conv_nth) metis
qed


section \<open>Strings\<close>

definition is_ascii_digit :: "char \<Rightarrow> bool" where
  "is_ascii_digit c \<longleftrightarrow> 48 \<le> (of_char c :: nat) \<and> (of_char c :: nat) \<le> 57"

definition is_ascii_lower :: "char \<Rightarrow> bool" where
  "is_ascii_lower c \<longleftrightarrow> 97 \<le> (of_char c :: nat) \<and> (of_char c :: nat) \<le> 122"

definition is_ascii_upper :: "char \<Rightarrow> bool" where
  "is_ascii_upper c \<longleftrightarrow> 65 \<le> (of_char c :: nat) \<and> (of_char c :: nat) \<le> 90"

definition is_ascii_alphabetic :: "char \<Rightarrow> bool" where
  "is_ascii_alphabetic c \<longleftrightarrow> is_ascii_lower c \<or> is_ascii_upper c"

definition is_ascii_alphanumeric :: "char \<Rightarrow> bool" where
  "is_ascii_alphanumeric c \<longleftrightarrow> is_ascii_alphabetic c \<or> is_ascii_digit c"

definition is_ascii_hexdigit :: "char \<Rightarrow> bool" where
  "is_ascii_hexdigit c \<longleftrightarrow> is_ascii_digit c
     \<or> (97 \<le> (of_char c :: nat) \<and> (of_char c :: nat) \<le> 102)
     \<or> (65 \<le> (of_char c :: nat) \<and> (of_char c :: nat) \<le> 70)"

lemmas ascii_defs = is_ascii_digit_def is_ascii_lower_def is_ascii_upper_def
  is_ascii_alphabetic_def is_ascii_alphanumeric_def is_ascii_hexdigit_def

definition starts_with :: "string \<Rightarrow> string \<Rightarrow> bool" where
  "starts_with p s \<longleftrightarrow> take (length p) s = p"

text \<open>Decimal rendering, the \<open>Display\<close> of an unsigned integer.\<close>

definition digit_char :: "nat \<Rightarrow> char" where
  "digit_char d = char_of (48 + d)"

fun show_nat :: "nat \<Rightarrow> string" where
  "show_nat n = (if n < 10 then [digit_char n] else show_nat (n div 10) @ [digit_char (n mod 10)])"

declare show_nat.simps [simp del]

text \<open>
  \<open>str::trim\<close> removes Unicode white space.  The encodings are those of the
  \<open>White_Space\<close> code points: U+0009 to U+000D, U+0020, U+0085, U+00A0, U+1680,
  U+2000 to U+200A, U+2028, U+2029, U+202F, U+205F and U+3000.
\<close>

definition white_space_encodings :: "nat list list" where
  "white_space_encodings =
    [[9], [10], [11], [12], [13], [32], [194, 133], [194, 160], [225, 154, 128],
     [226, 128, 128], [226, 128, 129], [226, 128, 130], [226, 128, 131], [226, 128, 132],
     [226, 128, 133], [226, 128, 134], [226, 128, 135], [226, 128, 136], [226, 128, 137],
     [226, 128, 138], [226, 128, 168], [226, 128, 169], [226, 128, 175], [226, 129, 159],
     [227, 128, 128]]"

fun strip_prefix_of :: "nat list list \<Rightarrow> string \<Rightarrow> string option" where
  "strip_prefix_of [] s = None"
| "strip_prefix_of (w # ws) s =
     (if take (length w) (map of_char s) = w then Some (drop (length w) s) else strip_prefix_of ws s)"

fun trim_start_fuel :: "nat \<Rightarrow> string \<Rightarrow> string" where
  "trim_start_fuel 0 s = s"
| "trim_start_fuel (Suc n) s =
     (case strip_prefix_of white_space_encodings s of None \<Rightarrow> s | Some s' \<Rightarrow> trim_start_fuel n s')"

text \<open>\<open>s.trim().is_empty()\<close>; every white-space character has at least one byte, so
  the length of the string is enough fuel.\<close>

definition trim_is_empty :: "string \<Rightarrow> bool" where
  "trim_is_empty s \<longleftrightarrow> trim_start_fuel (length s) s = []"

lemma trim_is_empty_Nil [simp]: "trim_is_empty []"
  by (simp add: trim_is_empty_def)

text \<open>A string that starts with a byte of no white-space encoding is kept by \<open>trim\<close>.\<close>

lemma not_trim_is_empty:
  assumes "of_char c \<notin> {9, 10, 11, 12, 13, 32, 194, 225, 226, 227 :: nat}"
  shows "\<not> trim_is_empty (c # s)"
  using assms by (simp add: trim_is_empty_def white_space_encodings_def)

definition nonempty_opt :: "string option \<Rightarrow> bool" where
  "nonempty_opt v \<longleftrightarrow> (case v of None \<Rightarrow> False | Some s \<Rightarrow> s \<noteq> [])"

end
