(* ===== verification/Identifiers.thy ===== *)
theory Identifiers
  imports Prelude
begin

text \<open>
  Identifier validation (\<open>shared_types/src/validation.rs\<close>, \<open>pg_utils.rs\<close>) and the
  execution credential with the metadata it stamps on runtime resources
  (\<open>shared_types/src/userapp/lifecycle.rs\<close>, \<open>UserAppExecutionContext\<close>).
\<close>


section \<open>Path identifiers\<close>

datatype identifier_validation_error = IdEmpty | IdTooLong | IdInvalidByte

definition validate_identifier_length :: "nat \<Rightarrow> identifier_validation_error + unit" where
  "validate_identifier_length n =
    (if n = 0 then Inl IdEmpty else if n > 64 then Inl IdTooLong else Inr ())"

definition identifier_byte :: "char \<Rightarrow> bool" where
  "identifier_byte c \<longleftrightarrow> is_ascii_alphanumeric c \<or> c = CHR ''_'' \<or> c = CHR ''-''"

definition validate_identifier_bytes :: "string \<Rightarrow> identifier_validation_error + unit" where
  "validate_identifier_bytes bytes =
    try_r (validate_identifier_length (length bytes)) (\<lambda>_.
    each_r (\<lambda>byte. if \<not> identifier_byte byte then Inl IdInvalidByte else Inr ()) bytes)"

definition utf8 :: "nat list \<Rightarrow> string" where
  "utf8 bytes = map char_of bytes"

text \<open>The three messages are rendered in Chinese; their UTF-8 bytes are written out.\<close>

definition identifier_message :: "identifier_validation_error \<Rightarrow> string \<Rightarrow> string \<Rightarrow> string" where
  "identifier_message e field_name value =
    (case e of
       IdEmpty \<Rightarrow> field_name @ utf8
         [32, 228, 184, 141, 232, 131, 189, 228, 184, 186, 231, 169, 186]
     | IdTooLong \<Rightarrow> field_name @ utf8
         [32, 233, 149, 191, 229, 186, 166, 232, 182, 133, 232, 191, 135, 32, 54, 52, 32,
         229, 173, 151, 231, 172, 166, 58, 32]
         @ show_nat (length value)
     | IdInvalidByte \<Rightarrow> field_name @ utf8
         [32, 229, 140, 133, 229, 144, 171, 233, 157, 158, 230, 179, 149, 229, 173, 151,
         231, 172, 166, 58, 32, 39]
         @ value @ utf8
         [39, 239, 188, 140, 228, 187, 133, 229, 133, 129, 232, 174, 184, 229, 173, 151,
         230, 175, 141, 227, 128, 129, 230, 149, 176, 229, 173, 151, 227, 128, 129, 228,
         184, 139, 229, 136, 146, 231, 186, 191, 229, 146, 140, 232, 191, 158, 229, 173,
         151, 231, 172, 166])"

definition validate_identifier :: "string \<Rightarrow> string \<Rightarrow> string + unit" where
  "validate_identifier value field_name =
    map_err (\<lambda>e. identifier_message e field_name value) (validate_identifier_bytes value)"

text \<open>The language the validator accepts.\<close>

definition valid_identifier :: "string \<Rightarrow> bool" where
  "valid_identifier s \<longleftrightarrow> 1 \<le> length s \<and> length s \<le> 64 \<and> (\<forall>c \<in> set s. identifier_byte c)"

lemma validate_identifier_bytes_ok [simp]:
  "validate_identifier_bytes s = Inr u \<longleftrightarrow> valid_identifier s"
  by (auto simp: validate_identifier_bytes_def validate_identifier_length_def valid_identifier_def
      Suc_le_eq split: if_splits)

lemma validate_identifier_ok [simp]: "validate_identifier s f = Inr u \<longleftrightarrow> valid_identifier s"
  by (simp add: validate_identifier_def)

lemma validate_identifier_is_ok [simp]: "is_ok (validate_identifier s f) \<longleftrightarrow> valid_identifier s"
  by (simp add: is_ok_unit_iff)

lemma valid_identifier_nonempty: "valid_identifier s \<Longrightarrow> s \<noteq> []"
  by (auto simp: valid_identifier_def)

lemma valid_identifier_excludes:
  assumes "valid_identifier s"
  shows "CHR ''/'' \<notin> set s" "CHR ''.'' \<notin> set s"
  using assms by (auto simp: valid_identifier_def identifier_byte_def ascii_defs)


section \<open>PostgreSQL identifiers\<close>

datatype pg_identifier_validation_error = PgEmpty | PgTooLong | PgInvalidFirstByte | PgInvalidByte

definition validate_pg_identifier_length :: "nat \<Rightarrow> pg_identifier_validation_error + unit" where
  "validate_pg_identifier_length n =
    (if n = 0 then Inl PgEmpty else if n > 63 then Inl PgTooLong else Inr ())"

definition is_pg_identifier_first_byte :: "char \<Rightarrow> bool" where
  "is_pg_identifier_first_byte c \<longleftrightarrow> is_ascii_alphabetic c \<or> c = CHR ''_''"

definition is_pg_identifier_continuation_byte :: "char \<Rightarrow> bool" where
  "is_pg_identifier_continuation_byte c \<longleftrightarrow> is_ascii_alphanumeric c \<or> c = CHR ''_''"

definition validate_pg_identifier_bytes :: "string \<Rightarrow> pg_identifier_validation_error + unit" where
  "validate_pg_identifier_bytes bytes =
    try_r (validate_pg_identifier_length (length bytes)) (\<lambda>_.
    case bytes of
      [] \<Rightarrow> Inl PgEmpty
    | first # rest \<Rightarrow>
        if \<not> is_pg_identifier_first_byte first then Inl PgInvalidFirstByte
        else each_r (\<lambda>byte. if \<not> is_pg_identifier_continuation_byte byte then Inl PgInvalidByte
                            else Inr ()) rest)"

definition validate_pg_identifier :: "string \<Rightarrow> string + unit" where
  "validate_pg_identifier name =
    map_err (\<lambda>e. case e of
        PgEmpty \<Rightarrow> ''PG identifier must be 1..=63 bytes, got 0''
      | PgTooLong \<Rightarrow> ''PG identifier must be 1..=63 bytes, got '' @ show_nat (length name)
      | PgInvalidFirstByte \<Rightarrow> ''PG identifier must start with letter or '' @ [CHR 39, CHR ''_'', CHR 39]
      | PgInvalidByte \<Rightarrow> ''PG identifier: only [a-zA-Z0-9_] allowed after the first char'')
    (validate_pg_identifier_bytes name)"

definition pg_escape_literal :: "string \<Rightarrow> string" where
  "pg_escape_literal value = concat (map (\<lambda>c. if c = CHR 39 then [CHR 39, CHR 39] else [c]) value)"

lemma pg_identifier_plain:
  assumes "validate_pg_identifier s = Inr u"
  shows "s \<noteq> []" "length s \<le> 63" "\<forall>c \<in> set s. is_pg_identifier_continuation_byte c"
  using assms
  by (auto simp: validate_pg_identifier_def validate_pg_identifier_bytes_def
      validate_pg_identifier_length_def is_pg_identifier_first_byte_def
      is_pg_identifier_continuation_byte_def is_ascii_alphanumeric_def
      split: if_splits list.splits)

text \<open>An accepted identifier needs no quoting: escaping it as a literal changes nothing.\<close>

lemma pg_escape_literal_id: "CHR 39 \<notin> set s \<Longrightarrow> pg_escape_literal s = s"
  by (induction s) (auto simp: pg_escape_literal_def)

lemma pg_identifier_needs_no_escape:
  "validate_pg_identifier s = Inr u \<Longrightarrow> pg_escape_literal s = s"
  by (rule pg_escape_literal_id)
     (auto dest!: pg_identifier_plain(3) simp: is_pg_identifier_continuation_byte_def ascii_defs)


section \<open>Execution credentials\<close>

record execution_context =
  ec_app_id :: string
  ec_lifecycle_id :: string
  ec_operation_id :: string
  ec_executor_id :: string
  ec_request_fingerprint :: string

text \<open>A digest in storage and on the wire is 64 ASCII hex digits.\<close>

definition hex64 :: "string \<Rightarrow> bool" where
  "hex64 s \<longleftrightarrow> length s = 64 \<and> list_all is_ascii_hexdigit s"

definition validate_identity :: "execution_context \<Rightarrow> string \<Rightarrow> string + unit" where
  "validate_identity self app_id =
    (if ec_app_id self \<noteq> app_id then Inl ''Application execution identity mismatch''
     else try_r (each_r (\<lambda>(name, value).
              map_err (\<lambda>_. ''Invalid application execution '' @ name) (validate_identifier value name))
            [(''app_id'', ec_app_id self), (''lifecycle_id'', ec_lifecycle_id self),
             (''operation_id'', ec_operation_id self), (''executor_id'', ec_executor_id self)]) (\<lambda>_.
     if length (ec_request_fingerprint self) \<noteq> 64
        \<or> \<not> list_all is_ascii_hexdigit (ec_request_fingerprint self)
     then Inl ''Invalid application execution fingerprint''
     else Inr ()))"

type_synonym metadata = "string \<Rightarrow> string option"

definition resource_metadata :: "execution_context \<Rightarrow> metadata" where
  "resource_metadata self = map_of
    [(''rcoder.io/application-id'', ec_app_id self),
     (''rcoder.io/lifecycle-id'', ec_lifecycle_id self),
     (''rcoder.io/operation-id'', ec_operation_id self),
     (''rcoder.io/executor-id'', ec_executor_id self),
     (''rcoder.io/request-fingerprint'', ec_request_fingerprint self)]"

definition validate_application_metadata :: "execution_context \<Rightarrow> metadata \<Rightarrow> string + unit" where
  "validate_application_metadata self m =
    try_r (validate_identity self (ec_app_id self)) (\<lambda>_.
    each_r (\<lambda>(key, expected).
        if m key \<noteq> Some expected then Inl (''Application resource identity mismatch: '' @ key)
        else Inr ())
      [(''rcoder.io/application-id'', ec_app_id self),
       (''rcoder.io/lifecycle-id'', ec_lifecycle_id self)])"

definition validate_resource_metadata :: "execution_context \<Rightarrow> metadata \<Rightarrow> string + unit" where
  "validate_resource_metadata self m =
    try_r (validate_application_metadata self m) (\<lambda>_.
    if m ''rcoder.io/request-fingerprint'' \<noteq> Some (ec_request_fingerprint self)
    then Inl ''Application resource configuration fingerprint mismatch''
    else Inr ())"

definition validate_operation_metadata :: "execution_context \<Rightarrow> metadata \<Rightarrow> string + unit" where
  "validate_operation_metadata self m =
    try_r (validate_application_metadata self m) (\<lambda>_.
    each_r (\<lambda>(key, expected).
        if m key \<noteq> Some expected then Inl (''Operation resource identity mismatch: '' @ key)
        else Inr ())
      [(''rcoder.io/operation-id'', ec_operation_id self),
       (''rcoder.io/executor-id'', ec_executor_id self),
       (''rcoder.io/request-fingerprint'', ec_request_fingerprint self)])"

definition valid_context :: "execution_context \<Rightarrow> bool" where
  "valid_context c \<longleftrightarrow> valid_identifier (ec_app_id c) \<and> valid_identifier (ec_lifecycle_id c)
     \<and> valid_identifier (ec_operation_id c) \<and> valid_identifier (ec_executor_id c)
     \<and> hex64 (ec_request_fingerprint c)"

lemma validate_identity_ok [simp]:
  "validate_identity c a = Inr u \<longleftrightarrow> ec_app_id c = a \<and> valid_context c"
  by (auto simp: validate_identity_def valid_context_def hex64_def)

lemma validate_application_metadata_ok [simp]:
  "validate_application_metadata c m = Inr u \<longleftrightarrow> valid_context c
     \<and> m ''rcoder.io/application-id'' = Some (ec_app_id c)
     \<and> m ''rcoder.io/lifecycle-id'' = Some (ec_lifecycle_id c)"
  by (auto simp: validate_application_metadata_def)

lemma validate_resource_metadata_ok [simp]:
  "validate_resource_metadata c m = Inr u \<longleftrightarrow> validate_application_metadata c m = Inr ()
     \<and> m ''rcoder.io/request-fingerprint'' = Some (ec_request_fingerprint c)"
  by (auto simp: validate_resource_metadata_def)

lemma validate_operation_metadata_ok [simp]:
  "validate_operation_metadata c m = Inr u \<longleftrightarrow> validate_application_metadata c m = Inr ()
     \<and> m ''rcoder.io/operation-id'' = Some (ec_operation_id c)
     \<and> m ''rcoder.io/executor-id'' = Some (ec_executor_id c)
     \<and> m ''rcoder.io/request-fingerprint'' = Some (ec_request_fingerprint c)"
  by (auto simp: validate_operation_metadata_def)

lemma resource_metadata_get [simp]:
  "resource_metadata c ''rcoder.io/application-id'' = Some (ec_app_id c)"
  "resource_metadata c ''rcoder.io/lifecycle-id'' = Some (ec_lifecycle_id c)"
  "resource_metadata c ''rcoder.io/operation-id'' = Some (ec_operation_id c)"
  "resource_metadata c ''rcoder.io/executor-id'' = Some (ec_executor_id c)"
  "resource_metadata c ''rcoder.io/request-fingerprint'' = Some (ec_request_fingerprint c)"
  by (simp_all add: resource_metadata_def)

end
