(* ===== verification/Json.thy ===== *)
theory Json
  imports Prelude "HOL-Library.Monad_Syntax" "HOL-Library.List_Lexorder" "HOL-Library.Char_ord"
begin

text \<open>
  JSON values as \<open>serde_json::Value\<close> has them, and the combinators the typed
  decoders are written with.  An object is the list of its entries in ascending key
  order, the iteration order of \<open>serde_json::Map\<close> without the \<open>preserve_order\<close> feature,
  so structural equality is equality of values.  A TEXT column that holds a document
  is a \<open>json_text\<close>: the value it parses to, or text that does not parse.

  The decoders follow what \<open>serde\<close> documents for a derived \<open>Deserialize\<close> on an object:
  a missing or null \<open>Option\<close> field is \<open>None\<close>, a field with a default may be missing,
  any other missing field is an error, and unknown fields are ignored unless the
  type denies them.  Non-integral numbers and the positional array form of a struct,
  which no writer of this system produces, are outside the model.
\<close>

datatype json =
    JNull
  | JBool bool
  | JNum int
  | JStr string
  | JArr "json list"
  | JObj "(string \<times> json) list"

datatype json_text = JsonText json | NotJson string

text \<open>\<open>serde_json::to_string\<close> and \<open>serde_json::from_str::<Value>\<close>.\<close>

definition to_text :: "json \<Rightarrow> json_text" where
  "to_text v = JsonText v"

definition from_text :: "json_text \<Rightarrow> json option" where
  "from_text t = (case t of JsonText v \<Rightarrow> Some v | NotJson _ \<Rightarrow> None)"

lemma from_to_text [simp]: "from_text (to_text v) = Some v"
  by (simp add: from_text_def to_text_def)


section \<open>Reading values\<close>

definition is_null :: "json \<Rightarrow> bool" where
  "is_null v \<longleftrightarrow> v = JNull"

definition as_object :: "json \<Rightarrow> (string \<times> json) list option" where
  "as_object v = (case v of JObj m \<Rightarrow> Some m | _ \<Rightarrow> None)"

definition is_object :: "json \<Rightarrow> bool" where
  "is_object v \<longleftrightarrow> as_object v \<noteq> None"

definition as_str :: "json \<Rightarrow> string option" where
  "as_str v = (case v of JStr s \<Rightarrow> Some s | _ \<Rightarrow> None)"

definition as_bool :: "json \<Rightarrow> bool option" where
  "as_bool v = (case v of JBool b \<Rightarrow> Some b | _ \<Rightarrow> None)"

text \<open>\<open>Value::as_u64\<close>.\<close>

definition as_u64 :: "json \<Rightarrow> int option" where
  "as_u64 v = (case v of JNum n \<Rightarrow> if 0 \<le> n \<and> n \<le> u64_max then Some n else None | _ \<Rightarrow> None)"

text \<open>\<open>Value::get\<close> with a string index.\<close>

definition json_get :: "string \<Rightarrow> json \<Rightarrow> json option" where
  "json_get k v = (case v of JObj m \<Rightarrow> map_of m k | _ \<Rightarrow> None)"

text \<open>\<open>Value::pointer\<close> for a path of object keys.\<close>

fun json_pointer :: "string list \<Rightarrow> json \<Rightarrow> json option" where
  "json_pointer [] v = Some v"
| "json_pointer (k # ks) v = (case json_get k v of None \<Rightarrow> None | Some w \<Rightarrow> json_pointer ks w)"

text \<open>\<open>Map::insert\<close> and \<open>Map::remove\<close> on the ordered entries.\<close>

fun obj_insert :: "string \<Rightarrow> json \<Rightarrow> (string \<times> json) list \<Rightarrow> (string \<times> json) list" where
  "obj_insert k v [] = [(k, v)]"
| "obj_insert k v ((k', v') # m) =
     (if k = k' then (k, v) # m
      else if k < k' then (k, v) # (k', v') # m
      else (k', v') # obj_insert k v m)"

definition obj_remove :: "string \<Rightarrow> (string \<times> json) list \<Rightarrow> (string \<times> json) list" where
  "obj_remove k m = filter (\<lambda>e. fst e \<noteq> k) m"

definition obj_sorted :: "(string \<times> json) list \<Rightarrow> bool" where
  "obj_sorted m \<longleftrightarrow> sorted_wrt (<) (map fst m)"

text \<open>\<open>value[key] = v\<close>: a null becomes an object, and anything else that is not an object
  panics, which is \<open>None\<close> here.\<close>

definition json_set :: "string \<Rightarrow> json \<Rightarrow> json \<Rightarrow> json option" where
  "json_set k v j =
    (case j of JNull \<Rightarrow> Some (JObj [(k, v)]) | JObj m \<Rightarrow> Some (JObj (obj_insert k v m)) | _ \<Rightarrow> None)"

lemma map_of_obj_insert [simp]:
  "map_of (obj_insert k v m) x = (if x = k then Some v else map_of m x)"
  by (induction m) auto

lemma map_of_obj_remove [simp]:
  "map_of (obj_remove k m) x = (if x = k then None else map_of m x)"
  by (induction m) (auto simp: obj_remove_def)

lemma fst_set_obj_insert [simp]: "fst ` set (obj_insert k v m) = insert k (fst ` set m)"
  by (induction k v m rule: obj_insert.induct) (simp_all add: insert_commute)

lemma obj_sorted_insert [simp]: "obj_sorted m \<Longrightarrow> obj_sorted (obj_insert k v m)"
proof (induction m)
  case (Cons e m)
  obtain k' v' where e: "e = (k', v')"
    by (cases e)
  have m: "obj_sorted m" "\<forall>x \<in> fst ` set m. k' < x"
    using Cons.prems e by (auto simp: obj_sorted_def)
  have "obj_sorted (obj_insert k v m)"
    using Cons.IH m(1) .
  then show ?case
    using m e Cons.prems fst_set_obj_insert [of k v m]
    by (auto simp: obj_sorted_def simp del: fst_set_obj_insert
        dest: order.strict_trans elim!: linorder_neqE)
qed (simp add: obj_sorted_def)

lemma obj_remove_absent: "k \<notin> fst ` set m \<Longrightarrow> obj_remove k m = m"
  by (induction m) (auto simp: obj_remove_def)

lemma obj_remove_insert: "obj_remove k (obj_insert k v m) = obj_remove k m"
  by (induction m) (auto simp: obj_remove_def)


section \<open>Typed decoders\<close>

definition dec_str :: "json \<Rightarrow> string option" where
  "dec_str = as_str"

definition dec_bool :: "json \<Rightarrow> bool option" where
  "dec_bool = as_bool"

definition dec_i64 :: "json \<Rightarrow> int option" where
  "dec_i64 v = (case v of JNum n \<Rightarrow> if i64_min \<le> n \<and> n \<le> i64_max then Some n else None | _ \<Rightarrow> None)"

definition dec_u64 :: "json \<Rightarrow> int option" where
  "dec_u64 = as_u64"

definition dec_u32 :: "json \<Rightarrow> int option" where
  "dec_u32 v = (case v of JNum n \<Rightarrow> if 0 \<le> n \<and> n \<le> 4294967295 then Some n else None | _ \<Rightarrow> None)"

text \<open>A field of type \<open>Option<T>\<close> on its own.\<close>

definition dec_opt :: "(json \<Rightarrow> 'a option) \<Rightarrow> json \<Rightarrow> 'a option option" where
  "dec_opt d v = (if v = JNull then Some None else map_option Some (d v))"

fun dec_all :: "(json \<Rightarrow> 'a option) \<Rightarrow> json list \<Rightarrow> 'a list option" where
  "dec_all d [] = Some []"
| "dec_all d (v # vs) = do { x \<leftarrow> d v; xs \<leftarrow> dec_all d vs; Some (x # xs) }"

definition dec_list :: "(json \<Rightarrow> 'a option) \<Rightarrow> json \<Rightarrow> 'a list option" where
  "dec_list d v = (case v of JArr vs \<Rightarrow> dec_all d vs | _ \<Rightarrow> None)"

text \<open>A unit-only enum is the name of its variant.\<close>

definition dec_enum :: "(string \<Rightarrow> 'a option) \<Rightarrow> json \<Rightarrow> 'a option" where
  "dec_enum of_name v = Option.bind (as_str v) of_name"

definition field :: "string \<Rightarrow> (json \<Rightarrow> 'a option) \<Rightarrow> (string \<times> json) list \<Rightarrow> 'a option" where
  "field k d m = Option.bind (map_of m k) d"

definition opt_field :: "string \<Rightarrow> (json \<Rightarrow> 'a option) \<Rightarrow> (string \<times> json) list \<Rightarrow> 'a option option" where
  "opt_field k d m = (case map_of m k of None \<Rightarrow> Some None | Some v \<Rightarrow> dec_opt d v)"

definition default_field :: "string \<Rightarrow> 'a \<Rightarrow> (json \<Rightarrow> 'a option) \<Rightarrow> (string \<times> json) list \<Rightarrow> 'a option" where
  "default_field k dflt d m = (case map_of m k of None \<Rightarrow> Some dflt | Some v \<Rightarrow> d v)"

definition deny_unknown :: "string list \<Rightarrow> (string \<times> json) list \<Rightarrow> unit option" where
  "deny_unknown ks m = (if list_all (\<lambda>e. fst e \<in> set ks) m then Some () else None)"

definition dec_any :: "json \<Rightarrow> json option" where
  "dec_any v = Some v"

definition enc_opt :: "('a \<Rightarrow> json) \<Rightarrow> 'a option \<Rightarrow> json" where
  "enc_opt f v = (case v of None \<Rightarrow> JNull | Some x \<Rightarrow> f x)"

text \<open>\<open>skip_serializing_if = "Option::is_none"\<close>.\<close>

definition skip_none :: "string \<Rightarrow> ('a \<Rightarrow> json) \<Rightarrow> 'a option \<Rightarrow> (string \<times> json) list" where
  "skip_none k f v = (case v of None \<Rightarrow> [] | Some x \<Rightarrow> [(k, f x)])"

lemmas dec_simps = dec_str_def dec_bool_def dec_i64_def dec_u64_def dec_u32_def dec_opt_def
  dec_list_def dec_enum_def field_def opt_field_def default_field_def deny_unknown_def dec_any_def
  as_str_def as_bool_def as_u64_def as_object_def

text \<open>The law every typed wire format of this system obeys on the values its writer emits.\<close>

locale json_codec =
  fixes enc :: "'a \<Rightarrow> json"
    and dec :: "json \<Rightarrow> 'a option"
    and ok :: "'a \<Rightarrow> bool"
  assumes dec_enc: "ok x \<Longrightarrow> dec (enc x) = Some x"
begin

lemma enc_inj: "ok x \<Longrightarrow> ok y \<Longrightarrow> enc x = enc y \<Longrightarrow> x = y"
  by (metis dec_enc option.inject)

lemma dec_enc_all: "list_all ok xs \<Longrightarrow> dec_all dec (map enc xs) = Some xs"
  by (induction xs) (auto simp: dec_enc)

lemma dec_enc_list: "list_all ok xs \<Longrightarrow> dec_list dec (JArr (map enc xs)) = Some xs"
  by (simp add: dec_list_def dec_enc_all)

lemma field_enc: "ok x \<Longrightarrow> map_of m k = Some (enc x) \<Longrightarrow> field k dec m = Some x"
  by (simp add: field_def dec_enc)

lemma text_round_trip: "ok x \<Longrightarrow> Option.bind (from_text (to_text (enc x))) dec = Some x"
  by (simp add: dec_enc)

end

interpretation str_json: json_codec JStr dec_str "\<lambda>_. True"
  by unfold_locales (simp add: dec_simps)

interpretation bool_json: json_codec JBool dec_bool "\<lambda>_. True"
  by unfold_locales (simp add: dec_simps)

interpretation i64_json: json_codec JNum dec_i64 "\<lambda>n. i64_min \<le> n \<and> n \<le> i64_max"
  by unfold_locales (simp add: dec_simps)

interpretation u64_json: json_codec JNum dec_u64 "\<lambda>n. 0 \<le> n \<and> n \<le> u64_max"
  by unfold_locales (simp add: dec_simps)

text \<open>The law of a closed vocabulary of names: a persisted name stands for exactly one
  value, and every other text is refused.\<close>

locale name_codec =
  fixes name :: "'a \<Rightarrow> string"
    and of_name :: "string \<Rightarrow> 'a option"
  assumes of_name_iff: "of_name s = Some x \<longleftrightarrow> s = name x"
begin

lemma of_name_name [simp]: "of_name (name x) = Some x"
  by (simp add: of_name_iff)

lemma name_inj: "name x = name y \<longleftrightarrow> x = y"
  by (metis of_name_name option.inject)

lemma of_name_unknown: "of_name s = None \<longleftrightarrow> (\<forall>x. s \<noteq> name x)"
  by (cases "of_name s") (auto simp: of_name_iff)

lemma dec_enum_name [simp]: "dec_enum of_name (JStr (name x)) = Some x"
  by (simp add: dec_simps)

end

sublocale name_codec \<subseteq> wire: json_codec "\<lambda>x. JStr (name x)" "dec_enum of_name" "\<lambda>_. True"
  by unfold_locales simp

text \<open>A vocabulary given as a table of variant and wire name.\<close>

definition name_in :: "('a \<times> string) list \<Rightarrow> string \<Rightarrow> 'a option" where
  "name_in tbl s = map_option fst (find (\<lambda>p. snd p = s) tbl)"

definition name_of :: "('a \<times> string) list \<Rightarrow> 'a \<Rightarrow> string" where
  "name_of tbl x = the (map_of tbl x)"

lemma name_in_Nil [simp]: "name_in [] s = None"
  by (simp add: name_in_def)

lemma name_in_Cons [simp]: "name_in ((x, n) # tbl) s = (if n = s then Some x else name_in tbl s)"
  by (simp add: name_in_def)

lemma name_in_iff_mem:
  assumes "distinct (map snd tbl)"
  shows "name_in tbl s = Some x \<longleftrightarrow> (x, s) \<in> set tbl"
  using assms by (induction tbl) (auto simp: image_iff split: if_splits)

text \<open>That a table names every variant, without looking at the names.\<close>

lemmas name_table_simps = list.set image_insert image_empty fst_conv insert_iff simp_thms

lemma name_codec_table:
  assumes "distinct (map fst tbl)" "distinct (map snd tbl)" "\<And>x. x \<in> fst ` set tbl"
  shows "name_codec (name_of tbl) (name_in tbl)"
proof
  fix s x
  obtain n where n: "(x, n) \<in> set tbl"
    using assms(3) [of x] by auto
  then have "map_of tbl x = Some n"
    using assms(1) by (simp add: map_of_is_SomeI)
  moreover have "(x, s) \<in> set tbl \<longleftrightarrow> s = n"
    using n assms(1) by (auto dest: eq_key_imp_eq_value)
  ultimately show "name_in tbl s = Some x \<longleftrightarrow> s = name_of tbl x"
    by (simp add: name_in_iff_mem [OF assms(2)] name_of_def)
qed

end
