(* ===== verification/Lifecycle.thy ===== *)
theory Lifecycle
  imports Identifiers Json
begin

text \<open>
  The control-plane contracts of \<open>shared_types/src/userapp/lifecycle.rs\<close>: application
  and operation records, resource scopes and their conflict matrix, operation kinds,
  control commands, runtime policies, metadata patches and the store's errors.
  Timestamps are microseconds since the epoch.
\<close>


section \<open>Scopes\<close>

datatype operation_scope = Scope_Dev | Scope_Prod | Scope_Application

text \<open>\<open>UserAppOperationScope::ALL\<close> enumerates the type.\<close>

definition scope_all :: "operation_scope list" where
  "scope_all = [Scope_Dev, Scope_Prod, Scope_Application]"

instantiation operation_scope :: enum
begin

definition "enum_operation_scope = scope_all"

definition "enum_all_operation_scope P \<longleftrightarrow> list_all P scope_all"

definition "enum_ex_operation_scope P \<longleftrightarrow> list_ex P scope_all"

instance
proof
  have all: "(UNIV :: operation_scope set) = set scope_all"
    by (auto simp: scope_all_def intro: operation_scope.exhaust)
  show "(UNIV :: operation_scope set) = set enum_class.enum"
    using all by (simp add: enum_operation_scope_def)
  show "distinct (enum_class.enum :: operation_scope list)"
    by (simp add: enum_operation_scope_def scope_all_def)
  show "enum_class.enum_all P \<longleftrightarrow> Ball UNIV P" for P :: "operation_scope \<Rightarrow> bool"
    unfolding all by (simp add: enum_all_operation_scope_def list_all_iff)
  show "enum_class.enum_ex P \<longleftrightarrow> Bex UNIV P" for P :: "operation_scope \<Rightarrow> bool"
    unfolding all by (simp add: enum_ex_operation_scope_def list_ex_iff)
qed

end

lemma scope_all_set [simp]: "set scope_all = UNIV"
  by (auto simp: scope_all_def intro: operation_scope.exhaust)

lemma all_scope_iff: "(\<forall>s. P s) \<longleftrightarrow> P Scope_Dev \<and> P Scope_Prod \<and> P Scope_Application"
  by (metis operation_scope.exhaust)

lemma ex_scope_iff: "(\<exists>s. P s) \<longleftrightarrow> P Scope_Dev \<or> P Scope_Prod \<or> P Scope_Application"
  by (metis operation_scope.exhaust)

fun slot_key :: "operation_scope \<Rightarrow> string" where
  "slot_key Scope_Dev = ''dev''"
| "slot_key Scope_Prod = ''prod''"
| "slot_key Scope_Application = ''application''"

fun userapp_scope_blocks_request :: "operation_scope \<Rightarrow> operation_scope \<Rightarrow> bool" where
  "userapp_scope_blocks_request Scope_Application blocker = True"
| "userapp_scope_blocks_request Scope_Dev blocker \<longleftrightarrow> blocker \<in> {Scope_Dev, Scope_Application}"
| "userapp_scope_blocks_request Scope_Prod blocker \<longleftrightarrow> blocker \<in> {Scope_Prod, Scope_Application}"

text \<open>The contract: two scopes may be in flight together only when they are the two
  different environments.\<close>

lemma scope_blocks_iff:
  "userapp_scope_blocks_request r b \<longleftrightarrow> r = b \<or> r = Scope_Application \<or> b = Scope_Application"
  by (cases r; cases b) auto

lemma scope_blocks_sym: "userapp_scope_blocks_request r b = userapp_scope_blocks_request b r"
  by (auto simp: scope_blocks_iff)


section \<open>Operation kinds\<close>

datatype operation_kind =
    Kind_EnsureBuilder
  | Kind_AdoptBuilder
  | Kind_AdoptApplication
  | Kind_StopBuilder
  | Kind_RestartBuilder
  | Kind_Create
  | Kind_StartDeployment
  | Kind_RestartDeployment
  | Kind_Update
  | Kind_Start
  | Kind_Restart
  | Kind_Stop
  | Kind_SetRecyclePolicy
  | Kind_HotDeploy
  | Kind_DeleteCompute
  | Kind_PurgeResources
  | Kind_DestroyDevStorage
  | Kind_DestroyProdStorage
  | Kind_ClearDevStorage
  | Kind_ClearProdStorage
  | Kind_ResetDevDatabasePassword
  | Kind_ResetProdDatabasePassword
  | Kind_PrepareProdDatabase
  | Kind_DeleteApplication

definition supports_hot_deployment :: "operation_kind \<Rightarrow> bool" where
  "supports_hot_deployment k \<longleftrightarrow> k \<in> {Kind_HotDeploy, Kind_StartDeployment, Kind_RestartDeployment}"

definition ends_lifecycle :: "operation_kind \<Rightarrow> bool" where
  "ends_lifecycle k \<longleftrightarrow> k = Kind_DeleteApplication"

fun kind_scope :: "operation_kind \<Rightarrow> operation_scope" where
  "kind_scope Kind_EnsureBuilder = Scope_Dev"
| "kind_scope Kind_AdoptBuilder = Scope_Dev"
| "kind_scope Kind_AdoptApplication = Scope_Prod"
| "kind_scope Kind_StopBuilder = Scope_Dev"
| "kind_scope Kind_RestartBuilder = Scope_Dev"
| "kind_scope Kind_Create = Scope_Prod"
| "kind_scope Kind_StartDeployment = Scope_Prod"
| "kind_scope Kind_RestartDeployment = Scope_Prod"
| "kind_scope Kind_Update = Scope_Prod"
| "kind_scope Kind_Start = Scope_Prod"
| "kind_scope Kind_Restart = Scope_Prod"
| "kind_scope Kind_Stop = Scope_Prod"
| "kind_scope Kind_SetRecyclePolicy = Scope_Prod"
| "kind_scope Kind_HotDeploy = Scope_Prod"
| "kind_scope Kind_DeleteCompute = Scope_Prod"
| "kind_scope Kind_PurgeResources = Scope_Application"
| "kind_scope Kind_DestroyDevStorage = Scope_Dev"
| "kind_scope Kind_DestroyProdStorage = Scope_Prod"
| "kind_scope Kind_ClearDevStorage = Scope_Dev"
| "kind_scope Kind_ClearProdStorage = Scope_Prod"
| "kind_scope Kind_ResetDevDatabasePassword = Scope_Dev"
| "kind_scope Kind_ResetProdDatabasePassword = Scope_Prod"
| "kind_scope Kind_PrepareProdDatabase = Scope_Prod"
| "kind_scope Kind_DeleteApplication = Scope_Application"

definition affects_builder :: "operation_kind \<Rightarrow> bool" where
  "affects_builder k \<longleftrightarrow> kind_scope k = Scope_Dev"

lemma ends_lifecycle_scope: "ends_lifecycle k \<Longrightarrow> kind_scope k = Scope_Application"
  by (simp add: ends_lifecycle_def)


section \<open>Application state and slots\<close>

datatype lifecycle_state = App_Active | App_Deleting | App_Deleted

record active_operations =
  ao_dev :: "string option"
  ao_prod :: "string option"
  ao_application :: "string option"

definition active_operations_default :: active_operations where
  "active_operations_default = \<lparr>ao_dev = None, ao_prod = None, ao_application = None\<rparr>"

fun slot :: "active_operations \<Rightarrow> operation_scope \<Rightarrow> string option" where
  "slot ao Scope_Dev = ao_dev ao"
| "slot ao Scope_Prod = ao_prod ao"
| "slot ao Scope_Application = ao_application ao"

fun set_slot :: "operation_scope \<Rightarrow> string option \<Rightarrow> active_operations \<Rightarrow> active_operations" where
  "set_slot Scope_Dev v ao = ao\<lparr>ao_dev := v\<rparr>"
| "set_slot Scope_Prod v ao = ao\<lparr>ao_prod := v\<rparr>"
| "set_slot Scope_Application v ao = ao\<lparr>ao_application := v\<rparr>"

definition slots_is_empty :: "active_operations \<Rightarrow> bool" where
  "slots_is_empty ao \<longleftrightarrow> ao_dev ao = None \<and> ao_prod ao = None \<and> ao_application ao = None"

definition occupied_scopes :: "active_operations \<Rightarrow> operation_scope list" where
  "occupied_scopes ao =
    filter (\<lambda>s. slot ao s \<noteq> None) [Scope_Application, Scope_Dev, Scope_Prod]"

lemma slot_set_slot [simp]: "slot (set_slot s v ao) s' = (if s' = s then v else slot ao s')"
  by (cases s; cases s') auto

lemma active_operations_eqI:
  fixes a b :: active_operations
  assumes "\<And>s. slot a s = slot b s"
  shows "a = b"
  using assms [of Scope_Dev] assms [of Scope_Prod] assms [of Scope_Application]
  by (cases a; cases b) simp

lemma slot_default [simp]: "slot active_operations_default s = None"
  by (cases s) (simp_all add: active_operations_default_def)

lemma slots_is_empty_iff: "slots_is_empty ao \<longleftrightarrow> (\<forall>s. slot ao s = None)"
  by (simp add: slots_is_empty_def all_scope_iff)

lemma occupied_scopes_set: "set (occupied_scopes ao) = {s. slot ao s \<noteq> None}"
  by (auto simp: occupied_scopes_def set_eq_iff all_scope_iff)

text \<open>
  The slot discipline: no two occupied scopes conflict, and different scopes hold
  different operations.
\<close>

definition slots_exclusive :: "active_operations \<Rightarrow> bool" where
  "slots_exclusive ao \<longleftrightarrow>
    (\<forall>s s'. s \<noteq> s' \<longrightarrow> slot ao s \<noteq> None \<longrightarrow> slot ao s' \<noteq> None \<longrightarrow>
       \<not> userapp_scope_blocks_request s s' \<and> slot ao s \<noteq> slot ao s')"

lemma slots_exclusive_code:
  "slots_exclusive ao \<longleftrightarrow>
    (ao_application ao = None \<or> ao_dev ao = None \<and> ao_prod ao = None)
    \<and> (ao_dev ao = None \<or> ao_prod ao = None \<or> ao_dev ao \<noteq> ao_prod ao)"
  by (auto simp: slots_exclusive_def all_scope_iff)

lemma slots_exclusive_clear: "slots_exclusive ao \<Longrightarrow> slots_exclusive (set_slot s None ao)"
  by (auto simp: slots_exclusive_def)

lemma slots_exclusive_set:
  assumes "slots_exclusive ao"
    and "\<And>b. userapp_scope_blocks_request s b \<Longrightarrow> slot ao b = None"
    and "\<And>b. slot ao b \<noteq> Some i"
  shows "slots_exclusive (set_slot s (Some i) ao)"
  unfolding slots_exclusive_def
proof (intro allI impI)
  fix a b
  assume ab: "a \<noteq> b" "slot (set_slot s (Some i) ao) a \<noteq> None" "slot (set_slot s (Some i) ao) b \<noteq> None"
  consider "a = s" | "b = s" | "a \<noteq> s" "b \<noteq> s" by blast
  then show "\<not> userapp_scope_blocks_request a b
      \<and> slot (set_slot s (Some i) ao) a \<noteq> slot (set_slot s (Some i) ao) b"
  proof cases
    case 1
    then show ?thesis using ab assms(2) [of b] assms(3) [of b] by auto
  next
    case 2
    then show ?thesis
      using ab assms(2) [of a] assms(3) [of a] scope_blocks_sym [of a s] by auto
  next
    case 3
    then show ?thesis using ab assms(1) unfolding slots_exclusive_def by auto
  qed
qed


section \<open>Operation states and the executor claim\<close>

datatype operation_state =
    Op_Pending | Op_Running | Op_WaitingRetry | Op_RecoveryRequired | Op_Succeeded | Op_Failed

definition op_is_terminal :: "operation_state \<Rightarrow> bool" where
  "op_is_terminal s \<longleftrightarrow> s \<in> {Op_Succeeded, Op_Failed}"

lemma op_is_terminal_simps [simp]:
  "\<not> op_is_terminal Op_Pending"
  "\<not> op_is_terminal Op_Running"
  "\<not> op_is_terminal Op_WaitingRetry"
  "\<not> op_is_terminal Op_RecoveryRequired"
  "op_is_terminal Op_Succeeded"
  "op_is_terminal Op_Failed"
  by (simp_all add: op_is_terminal_def)

datatype progress_claim = AcquireExecutor | RetainExecutor

definition authorize_userapp_progress_claim ::
  "operation_state \<Rightarrow> operation_state \<Rightarrow> bool \<Rightarrow> progress_claim option" where
  "authorize_userapp_progress_claim current_state progress_state executor_matches =
    (if current_state \<in> {Op_Pending, Op_WaitingRetry} \<and> progress_state = Op_Running
     then Some AcquireExecutor
     else if current_state = Op_Running \<and> executor_matches then Some RetainExecutor
     else None)"

lemma authorize_acquire_iff:
  "authorize_userapp_progress_claim c p m = Some AcquireExecutor \<longleftrightarrow>
    (c = Op_Pending \<or> c = Op_WaitingRetry) \<and> p = Op_Running"
  by (auto simp: authorize_userapp_progress_claim_def)

lemma authorize_retain_iff:
  "authorize_userapp_progress_claim c p m = Some RetainExecutor \<longleftrightarrow> c = Op_Running \<and> m"
  by (auto simp: authorize_userapp_progress_claim_def)


section \<open>Policies, commands and metadata patches\<close>

record runtime_policy =
  rp_recycle_enabled :: "bool option"
  rp_idle_timeout_seconds :: "int option"
  rp_wake_on_traffic :: "bool option"

definition runtime_policy_default :: runtime_policy where
  "runtime_policy_default =
    \<lparr>rp_recycle_enabled = None, rp_idle_timeout_seconds = None, rp_wake_on_traffic = None\<rparr>"

text \<open>\<open>Option::or\<close>.\<close>

definition opt_or :: "'a option \<Rightarrow> 'a option \<Rightarrow> 'a option" where
  "opt_or a b = (case a of None \<Rightarrow> b | Some _ \<Rightarrow> a)"

definition policy_merge :: "runtime_policy \<Rightarrow> runtime_policy \<Rightarrow> runtime_policy" where
  "policy_merge self patch =
    \<lparr>rp_recycle_enabled = opt_or (rp_recycle_enabled patch) (rp_recycle_enabled self),
     rp_idle_timeout_seconds = opt_or (rp_idle_timeout_seconds patch) (rp_idle_timeout_seconds self),
     rp_wake_on_traffic = opt_or (rp_wake_on_traffic patch) (rp_wake_on_traffic self)\<rparr>"

lemma policy_merge_idem [simp]: "policy_merge (policy_merge p q) q = policy_merge p q"
  by (auto simp: policy_merge_def opt_or_def split: option.splits)

lemma policy_merge_assoc: "policy_merge (policy_merge p q) r = policy_merge p (policy_merge q r)"
  by (auto simp: policy_merge_def opt_or_def split: option.splits)

lemma policy_merge_default [simp]:
  "policy_merge p runtime_policy_default = p"
  "policy_merge runtime_policy_default p = p"
  by (cases p; auto simp: policy_merge_def runtime_policy_default_def opt_or_def split: option.splits)+

datatype control_command =
    Cmd_Deploy (deploy_restart: bool) (deploy_input_digest: string) (deploy_serving_recovery: bool)
  | Cmd_StopBuilder
  | Cmd_RestartBuilder
  | Cmd_Create (create_input_digest: string)
  | Cmd_Update (update_input_digest: string)
  | Cmd_Start (start_traffic: bool)
  | Cmd_Restart
  | Cmd_PrepareProdDatabase
  | Cmd_Stop (stop_wake_on_traffic: bool)
  | Cmd_SetRecyclePolicy (set_policy: runtime_policy)
  | Cmd_DeleteResources (delete_purge: bool) (delete_expected_version: "string option")
  | Cmd_DeleteApplication
  | Cmd_DestroyStorage (destroy_production: bool)
  | Cmd_ResetDatabasePassword (reset_production: bool) (reset_username: string)
  | Cmd_ClearStorage (clear_production: bool)

fun is_traffic_wake :: "control_command \<Rightarrow> bool" where
  "is_traffic_wake (Cmd_Start traffic) = traffic"
| "is_traffic_wake (Cmd_Deploy restart _ serving_recovery) = (if restart then False else serving_recovery)"
| "is_traffic_wake _ = False"

fun command_kind :: "control_command \<Rightarrow> operation_kind" where
  "command_kind Cmd_StopBuilder = Kind_StopBuilder"
| "command_kind Cmd_RestartBuilder = Kind_RestartBuilder"
| "command_kind (Cmd_Create _) = Kind_Create"
| "command_kind (Cmd_Deploy restart _ _) = (if restart then Kind_RestartDeployment else Kind_StartDeployment)"
| "command_kind (Cmd_Update _) = Kind_Update"
| "command_kind (Cmd_Start _) = Kind_Start"
| "command_kind Cmd_Restart = Kind_Restart"
| "command_kind Cmd_PrepareProdDatabase = Kind_PrepareProdDatabase"
| "command_kind (Cmd_Stop _) = Kind_Stop"
| "command_kind (Cmd_SetRecyclePolicy _) = Kind_SetRecyclePolicy"
| "command_kind (Cmd_DeleteResources purge _) = (if purge then Kind_PurgeResources else Kind_DeleteCompute)"
| "command_kind Cmd_DeleteApplication = Kind_DeleteApplication"
| "command_kind (Cmd_DestroyStorage production) =
     (if production then Kind_DestroyProdStorage else Kind_DestroyDevStorage)"
| "command_kind (Cmd_ResetDatabasePassword production _) =
     (if production then Kind_ResetProdDatabasePassword else Kind_ResetDevDatabasePassword)"
| "command_kind (Cmd_ClearStorage production) =
     (if production then Kind_ClearProdStorage else Kind_ClearDevStorage)"

text \<open>\<open>None\<close> keeps a field, \<open>Some None\<close> clears it.\<close>

record metadata_patch =
  mp_app_id :: string
  mp_lifecycle_id :: string
  mp_expected_revision :: int
  mp_name :: "string option option"
  mp_tenant_id :: "string option option"
  mp_space_id :: "string option option"


section \<open>Records\<close>

record lifecycle_record =
  lr_runtime_policy :: runtime_policy
  lr_app_id :: string
  lr_lifecycle_id :: string
  lr_lifecycle_epoch :: int
  lr_metadata_revision :: int
  lr_state :: lifecycle_state
  lr_name :: "string option"
  lr_tenant_id :: "string option"
  lr_space_id :: "string option"
  lr_created_at :: int
  lr_active_operations :: active_operations

record operation_record =
  or_runtime_policy_on_success :: "runtime_policy option"
  or_command :: "control_command option"
  or_admitted_metadata :: "metadata_patch option"
  or_operation_id :: string
  or_app_id :: string
  or_lifecycle_id :: string
  or_request_id :: "string option"
  or_request_fingerprint :: string
  or_kind :: operation_kind
  or_scope :: operation_scope
  or_state :: operation_state
  or_revision :: int
  or_executor_id :: "string option"
  or_step :: string
  or_checkpoint :: json
  or_error_code :: "string option"
  or_error_message :: "string option"
  or_created_at :: int

record operation_blocker =
  ob_scope :: operation_scope
  ob_operation_id :: string
  ob_kind :: operation_kind
  ob_state :: operation_state
  ob_step :: string

definition blocker :: "operation_record \<Rightarrow> operation_blocker" where
  "blocker self = \<lparr>ob_scope = or_scope self, ob_operation_id = or_operation_id self,
     ob_kind = or_kind self, ob_state = or_state self, ob_step = or_step self\<rparr>"

datatype store_error =
    OwnershipConflict
  | LifecycleConflict
  | OperationInProgress operation_blocker
  | VersionConflict
  | RequestReplayConflict string
  | NotFound
  | InvalidOperation string
  | Storage string

record active_operation_records =
  ar_dev :: "operation_record option"
  ar_prod :: "operation_record option"
  ar_application :: "operation_record option"

definition active_records_default :: active_operation_records where
  "active_records_default = \<lparr>ar_dev = None, ar_prod = None, ar_application = None\<rparr>"

fun record_slot :: "active_operation_records \<Rightarrow> operation_scope \<Rightarrow> operation_record option" where
  "record_slot ar Scope_Dev = ar_dev ar"
| "record_slot ar Scope_Prod = ar_prod ar"
| "record_slot ar Scope_Application = ar_application ar"

fun set_record_slot ::
  "operation_scope \<Rightarrow> operation_record option \<Rightarrow> active_operation_records \<Rightarrow> active_operation_records" where
  "set_record_slot Scope_Dev v ar = ar\<lparr>ar_dev := v\<rparr>"
| "set_record_slot Scope_Prod v ar = ar\<lparr>ar_prod := v\<rparr>"
| "set_record_slot Scope_Application v ar = ar\<lparr>ar_application := v\<rparr>"

lemma record_slot_set [simp]:
  "record_slot (set_record_slot s v ar) s' = (if s' = s then v else record_slot ar s')"
  by (cases s; cases s') auto

lemma record_slot_default [simp]: "record_slot active_records_default s = None"
  by (cases s) (simp_all add: active_records_default_def)

text \<open>\<open>UserAppActiveOperationRecords::iter\<close>.\<close>

definition record_iter :: "active_operation_records \<Rightarrow> operation_record list" where
  "record_iter ar = concat (map (\<lambda>v. case v of None \<Rightarrow> [] | Some r \<Rightarrow> [r])
     [ar_dev ar, ar_prod ar, ar_application ar])"

lemma record_iter_set: "op \<in> set (record_iter ar) \<longleftrightarrow> (\<exists>s. record_slot ar s = Some op)"
  by (auto simp: record_iter_def ex_scope_iff split: option.splits)

record control_snapshot =
  cs_application :: lifecycle_record
  cs_operations :: active_operation_records

record admission_request =
  ad_runtime_policy_on_success :: "runtime_policy option"
  ad_command :: "control_command option"
  ad_metadata :: "metadata_patch option"
  ad_app_id :: string
  ad_lifecycle_id :: "string option"
  ad_operation_id :: string
  ad_request_id :: "string option"
  ad_request_fingerprint :: string
  ad_kind :: operation_kind

datatype admission_outcome = Accepted operation_record | Existing operation_record

record operation_progress =
  pg_app_id :: string
  pg_operation_id :: string
  pg_lifecycle_id :: string
  pg_expected_revision :: int
  pg_executor_id :: string
  pg_state :: operation_state
  pg_step :: string
  pg_checkpoint :: json
  pg_error_code :: "string option"
  pg_error_message :: "string option"


section \<open>Wake fences\<close>

datatype wake_fence_state = Fence_Clear | Fence_Blocked | Fence_Unconfirmed

record wake_fence_snapshot =
  wf_app_id :: string
  wf_state :: wake_fence_state

definition from_confirmed_headers ::
  "string \<Rightarrow> lifecycle_state \<Rightarrow> operation_kind list \<Rightarrow> wake_fence_snapshot" where
  "from_confirmed_headers app_id lifecycle_state active_kinds =
    (let blocked = lifecycle_state \<noteq> App_Active \<or>
           list_ex (\<lambda>kind. kind \<in> {Kind_DeleteCompute, Kind_PurgeResources, Kind_DeleteApplication})
             active_kinds
     in \<lparr>wf_app_id = app_id, wf_state = (if blocked then Fence_Blocked else Fence_Clear)\<rparr>)"

end
