(* ===== verification/Lifecycle_Wire.thy ===== *)
theory Lifecycle_Wire
  imports Lifecycle
begin

text \<open>
  The JSON formats of the control-plane contracts, from the \<open>serde\<close> attributes in
  \<open>shared_types/src/userapp/lifecycle.rs\<close>: execution contexts, runtime policies, tagged
  control commands and metadata patches with their three-valued fields.
\<close>


section \<open>Operation kinds\<close>

text \<open>A derived \<open>Serialize\<close> on a unit-only enum writes the variant's name.\<close>

definition kind_wire_names :: "(operation_kind \<times> string) list" where
  "kind_wire_names =
    [(Kind_EnsureBuilder, ''EnsureBuilder''),
     (Kind_AdoptBuilder, ''AdoptBuilder''),
     (Kind_AdoptApplication, ''AdoptApplication''),
     (Kind_StopBuilder, ''StopBuilder''),
     (Kind_RestartBuilder, ''RestartBuilder''),
     (Kind_Create, ''Create''),
     (Kind_StartDeployment, ''StartDeployment''),
     (Kind_RestartDeployment, ''RestartDeployment''),
     (Kind_Update, ''Update''),
     (Kind_Start, ''Start''),
     (Kind_Restart, ''Restart''),
     (Kind_Stop, ''Stop''),
     (Kind_SetRecyclePolicy, ''SetRecyclePolicy''),
     (Kind_HotDeploy, ''HotDeploy''),
     (Kind_DeleteCompute, ''DeleteCompute''),
     (Kind_PurgeResources, ''PurgeResources''),
     (Kind_DestroyDevStorage, ''DestroyDevStorage''),
     (Kind_DestroyProdStorage, ''DestroyProdStorage''),
     (Kind_ClearDevStorage, ''ClearDevStorage''),
     (Kind_ClearProdStorage, ''ClearProdStorage''),
     (Kind_ResetDevDatabasePassword, ''ResetDevDatabasePassword''),
     (Kind_ResetProdDatabasePassword, ''ResetProdDatabasePassword''),
     (Kind_PrepareProdDatabase, ''PrepareProdDatabase''),
     (Kind_DeleteApplication, ''DeleteApplication'')]"

abbreviation kind_of_wire :: "string \<Rightarrow> operation_kind option" where
  "kind_of_wire \<equiv> name_in kind_wire_names"

abbreviation kind_wire :: "operation_kind \<Rightarrow> string" where
  "kind_wire \<equiv> name_of kind_wire_names"

definition dec_kind :: "json \<Rightarrow> operation_kind option" where
  "dec_kind = dec_enum kind_of_wire"

lemma kind_wire_names_total: "k \<in> fst ` set kind_wire_names"
  by (cases k) (simp_all only: name_table_simps kind_wire_names_def)

interpretation wire_kind: name_codec kind_wire kind_of_wire
proof (rule name_codec_table)
  show "distinct (map fst kind_wire_names)" "distinct (map snd kind_wire_names)"
    by (simp_all add: kind_wire_names_def)
qed (rule kind_wire_names_total)


section \<open>Execution contexts\<close>

definition enc_execution_context :: "execution_context \<Rightarrow> json" where
  "enc_execution_context c = JObj
    [(''app_id'', JStr (ec_app_id c)), (''executor_id'', JStr (ec_executor_id c)),
     (''lifecycle_id'', JStr (ec_lifecycle_id c)), (''operation_id'', JStr (ec_operation_id c)),
     (''request_fingerprint'', JStr (ec_request_fingerprint c))]"

definition dec_execution_context :: "json \<Rightarrow> execution_context option" where
  "dec_execution_context j = do {
     m \<leftarrow> as_object j;
     app_id \<leftarrow> field ''app_id'' dec_str m;
     lifecycle_id \<leftarrow> field ''lifecycle_id'' dec_str m;
     operation_id \<leftarrow> field ''operation_id'' dec_str m;
     executor_id \<leftarrow> field ''executor_id'' dec_str m;
     request_fingerprint \<leftarrow> field ''request_fingerprint'' dec_str m;
     Some \<lparr>ec_app_id = app_id, ec_lifecycle_id = lifecycle_id, ec_operation_id = operation_id,
       ec_executor_id = executor_id, ec_request_fingerprint = request_fingerprint\<rparr> }"

interpretation context_json: json_codec enc_execution_context dec_execution_context "\<lambda>_. True"
  by unfold_locales (simp add: enc_execution_context_def dec_execution_context_def dec_simps)


section \<open>Runtime policies\<close>

definition enc_runtime_policy :: "runtime_policy \<Rightarrow> json" where
  "enc_runtime_policy p = JObj
    [(''idle_timeout_seconds'', enc_opt JNum (rp_idle_timeout_seconds p)),
     (''recycle_enabled'', enc_opt JBool (rp_recycle_enabled p)),
     (''wake_on_traffic'', enc_opt JBool (rp_wake_on_traffic p))]"

definition dec_runtime_policy :: "json \<Rightarrow> runtime_policy option" where
  "dec_runtime_policy j = do {
     m \<leftarrow> as_object j;
     recycle_enabled \<leftarrow> opt_field ''recycle_enabled'' dec_bool m;
     idle_timeout_seconds \<leftarrow> opt_field ''idle_timeout_seconds'' dec_u64 m;
     wake_on_traffic \<leftarrow> opt_field ''wake_on_traffic'' dec_bool m;
     Some \<lparr>rp_recycle_enabled = recycle_enabled, rp_idle_timeout_seconds = idle_timeout_seconds,
       rp_wake_on_traffic = wake_on_traffic\<rparr> }"

text \<open>\<open>idle_timeout_seconds\<close> is a \<open>u64\<close>.\<close>

definition policy_in_range :: "runtime_policy \<Rightarrow> bool" where
  "policy_in_range p \<longleftrightarrow>
    (case rp_idle_timeout_seconds p of None \<Rightarrow> True | Some n \<Rightarrow> 0 \<le> n \<and> n \<le> u64_max)"

interpretation policy_json: json_codec enc_runtime_policy dec_runtime_policy policy_in_range
  by unfold_locales
     (auto simp: enc_runtime_policy_def dec_runtime_policy_def policy_in_range_def dec_simps
        enc_opt_def split: option.splits)


section \<open>Control commands\<close>

text \<open>\<open>#[serde(tag = "type", rename_all = "snake_case")]\<close>; \<open>serving_recovery\<close> is skipped when
  false.\<close>

fun enc_control_command :: "control_command \<Rightarrow> json" where
  "enc_control_command (Cmd_Deploy restart digest serving_recovery) = JObj
     ([(''input_digest'', JStr digest), (''restart'', JBool restart)]
      @ (if serving_recovery then [(''serving_recovery'', JBool True)] else [])
      @ [(''type'', JStr ''deploy'')])"
| "enc_control_command Cmd_StopBuilder = JObj [(''type'', JStr ''stop_builder'')]"
| "enc_control_command Cmd_RestartBuilder = JObj [(''type'', JStr ''restart_builder'')]"
| "enc_control_command (Cmd_Create digest) = JObj
     [(''input_digest'', JStr digest), (''type'', JStr ''create'')]"
| "enc_control_command (Cmd_Update digest) = JObj
     [(''input_digest'', JStr digest), (''type'', JStr ''update'')]"
| "enc_control_command (Cmd_Start traffic) = JObj
     [(''traffic'', JBool traffic), (''type'', JStr ''start'')]"
| "enc_control_command Cmd_Restart = JObj [(''type'', JStr ''restart'')]"
| "enc_control_command Cmd_PrepareProdDatabase = JObj [(''type'', JStr ''prepare_prod_database'')]"
| "enc_control_command (Cmd_Stop wake_on_traffic) = JObj
     [(''type'', JStr ''stop''), (''wake_on_traffic'', JBool wake_on_traffic)]"
| "enc_control_command (Cmd_SetRecyclePolicy policy) = JObj
     [(''policy'', enc_runtime_policy policy), (''type'', JStr ''set_recycle_policy'')]"
| "enc_control_command (Cmd_DeleteResources purge expected) = JObj
     [(''expected_resource_version'', enc_opt JStr expected), (''purge'', JBool purge),
      (''type'', JStr ''delete_resources'')]"
| "enc_control_command Cmd_DeleteApplication = JObj [(''type'', JStr ''delete_application'')]"
| "enc_control_command (Cmd_DestroyStorage production) = JObj
     [(''production'', JBool production), (''type'', JStr ''destroy_storage'')]"
| "enc_control_command (Cmd_ResetDatabasePassword production username) = JObj
     [(''production'', JBool production), (''type'', JStr ''reset_database_password''),
      (''username'', JStr username)]"
| "enc_control_command (Cmd_ClearStorage production) = JObj
     [(''production'', JBool production), (''type'', JStr ''clear_storage'')]"

definition dec_control_command :: "json \<Rightarrow> control_command option" where
  "dec_control_command j = do {
     m \<leftarrow> as_object j;
     tag \<leftarrow> field ''type'' dec_str m;
     (if tag = ''deploy'' then do {
        restart \<leftarrow> field ''restart'' dec_bool m;
        input_digest \<leftarrow> field ''input_digest'' dec_str m;
        serving_recovery \<leftarrow> default_field ''serving_recovery'' False dec_bool m;
        Some (Cmd_Deploy restart input_digest serving_recovery) }
      else if tag = ''stop_builder'' then Some Cmd_StopBuilder
      else if tag = ''restart_builder'' then Some Cmd_RestartBuilder
      else if tag = ''create'' then map_option Cmd_Create (field ''input_digest'' dec_str m)
      else if tag = ''update'' then map_option Cmd_Update (field ''input_digest'' dec_str m)
      else if tag = ''start'' then map_option Cmd_Start (field ''traffic'' dec_bool m)
      else if tag = ''restart'' then Some Cmd_Restart
      else if tag = ''prepare_prod_database'' then Some Cmd_PrepareProdDatabase
      else if tag = ''stop'' then map_option Cmd_Stop (field ''wake_on_traffic'' dec_bool m)
      else if tag = ''set_recycle_policy''
        then map_option Cmd_SetRecyclePolicy (field ''policy'' dec_runtime_policy m)
      else if tag = ''delete_resources'' then do {
        purge \<leftarrow> field ''purge'' dec_bool m;
        expected \<leftarrow> opt_field ''expected_resource_version'' dec_str m;
        Some (Cmd_DeleteResources purge expected) }
      else if tag = ''delete_application'' then Some Cmd_DeleteApplication
      else if tag = ''destroy_storage''
        then map_option Cmd_DestroyStorage (field ''production'' dec_bool m)
      else if tag = ''reset_database_password'' then do {
        production \<leftarrow> field ''production'' dec_bool m;
        username \<leftarrow> field ''username'' dec_str m;
        Some (Cmd_ResetDatabasePassword production username) }
      else if tag = ''clear_storage''
        then map_option Cmd_ClearStorage (field ''production'' dec_bool m)
      else None) }"

definition command_in_range :: "control_command \<Rightarrow> bool" where
  "command_in_range c \<longleftrightarrow> (case c of Cmd_SetRecyclePolicy p \<Rightarrow> policy_in_range p | _ \<Rightarrow> True)"

interpretation command_json: json_codec enc_control_command dec_control_command command_in_range
proof
  show "dec_control_command (enc_control_command c) = Some c" if "command_in_range c" for c
    using that
    by (cases c)
       (auto simp: dec_control_command_def command_in_range_def dec_simps enc_opt_def
          policy_json.dec_enc split: option.splits)
qed


section \<open>Metadata patches\<close>

text \<open>A missing field is \<open>None\<close>; a present one, null included, goes through
  \<open>deserialize_metadata_field\<close>.\<close>

definition deserialize_metadata_field :: "string \<Rightarrow> (string \<times> json) list \<Rightarrow> string option option option" where
  "deserialize_metadata_field k m =
    (case map_of m k of None \<Rightarrow> Some None | Some v \<Rightarrow> map_option Some (dec_opt dec_str v))"

definition enc_metadata_patch :: "metadata_patch \<Rightarrow> json" where
  "enc_metadata_patch p = JObj
    ([(''app_id'', JStr (mp_app_id p)), (''expected_revision'', JNum (mp_expected_revision p)),
      (''lifecycle_id'', JStr (mp_lifecycle_id p))]
     @ skip_none ''name'' (enc_opt JStr) (mp_name p)
     @ skip_none ''space_id'' (enc_opt JStr) (mp_space_id p)
     @ skip_none ''tenant_id'' (enc_opt JStr) (mp_tenant_id p))"

definition dec_metadata_patch :: "json \<Rightarrow> metadata_patch option" where
  "dec_metadata_patch j = do {
     m \<leftarrow> as_object j;
     app_id \<leftarrow> field ''app_id'' dec_str m;
     lifecycle_id \<leftarrow> field ''lifecycle_id'' dec_str m;
     expected_revision \<leftarrow> field ''expected_revision'' dec_i64 m;
     name \<leftarrow> deserialize_metadata_field ''name'' m;
     tenant_id \<leftarrow> deserialize_metadata_field ''tenant_id'' m;
     space_id \<leftarrow> deserialize_metadata_field ''space_id'' m;
     Some \<lparr>mp_app_id = app_id, mp_lifecycle_id = lifecycle_id,
       mp_expected_revision = expected_revision, mp_name = name, mp_tenant_id = tenant_id,
       mp_space_id = space_id\<rparr> }"

definition patch_in_range :: "metadata_patch \<Rightarrow> bool" where
  "patch_in_range p \<longleftrightarrow> i64_min \<le> mp_expected_revision p \<and> mp_expected_revision p \<le> i64_max"

lemma metadata_field_present:
  "map_of m k = Some (enc_opt JStr v) \<Longrightarrow> deserialize_metadata_field k m = Some (Some v)"
  by (cases v) (simp_all add: deserialize_metadata_field_def enc_opt_def dec_simps)

lemma metadata_field_absent: "map_of m k = None \<Longrightarrow> deserialize_metadata_field k m = Some None"
  by (simp add: deserialize_metadata_field_def)

interpretation patch_json: json_codec enc_metadata_patch dec_metadata_patch patch_in_range
proof
  fix p assume "patch_in_range p"
  then show "dec_metadata_patch (enc_metadata_patch p) = Some p"
    by (cases p; cases "mp_name p"; cases "mp_tenant_id p"; cases "mp_space_id p")
       (auto simp: enc_metadata_patch_def dec_metadata_patch_def skip_none_def patch_in_range_def
          field_def dec_str_def dec_i64_def as_str_def as_object_def
          metadata_field_present metadata_field_absent)
qed

end
