(* ===== verification/Ip_Address.thy ===== *)
theory Ip_Address
  imports Prelude
begin

text \<open>
  \<open>std::net::IpAddr\<close> as the storage-clear evidence uses it: parsing from text,
  \<open>is_unspecified\<close> and the \<open>Display\<close> of a socket address.  An IPv4 address is its four
  octets, an IPv6 address its eight segments.
\<close>

datatype ip_addr = V4 "nat list" | V6 "nat list"

definition is_unspecified :: "ip_addr \<Rightarrow> bool" where
  "is_unspecified a = (case a of V4 o4 \<Rightarrow> list_all ((=) 0) o4 | V6 s8 \<Rightarrow> list_all ((=) 0) s8)"


section \<open>Parsing\<close>

definition digit_value :: "nat \<Rightarrow> char \<Rightarrow> nat option" where
  "digit_value radix c =
    (let n = of_char c :: nat;
         v = (if 48 \<le> n \<and> n \<le> 57 then n - 48
              else if 97 \<le> n \<and> n \<le> 122 then n - 87
              else if 65 \<le> n \<and> n \<le> 90 then n - 55 else radix)
     in if v < radix then Some v else None)"

text \<open>At most \<open>max_digits\<close> digits; the value must stay below \<open>bound\<close>.\<close>

fun read_digits :: "nat \<Rightarrow> nat \<Rightarrow> nat \<Rightarrow> nat \<Rightarrow> nat \<Rightarrow> string \<Rightarrow> (nat \<times> nat \<times> string) option" where
  "read_digits radix bound max_digits count acc [] = Some (acc, count, [])"
| "read_digits radix bound max_digits count acc (c # s) =
    (case digit_value radix c of
       None \<Rightarrow> Some (acc, count, c # s)
     | Some d \<Rightarrow>
         if count = max_digits then None
         else if acc * radix + d \<ge> bound then None
         else read_digits radix bound max_digits (Suc count) (acc * radix + d) s)"

definition read_number :: "nat \<Rightarrow> nat \<Rightarrow> nat \<Rightarrow> bool \<Rightarrow> string \<Rightarrow> (nat \<times> string) option" where
  "read_number radix bound max_digits allow_zero_prefix s =
    (case read_digits radix bound max_digits 0 0 s of
       None \<Rightarrow> None
     | Some (v, count, rest) \<Rightarrow>
         if count = 0 then None
         else if \<not> allow_zero_prefix \<and> s \<noteq> [] \<and> hd s = CHR ''0'' \<and> count > 1 then None
         else Some (v, rest))"

definition read_char :: "char \<Rightarrow> string \<Rightarrow> string option" where
  "read_char c s = (case s of [] \<Rightarrow> None | x # xs \<Rightarrow> if x = c then Some xs else None)"

definition read_separator :: "char \<Rightarrow> nat \<Rightarrow> (string \<Rightarrow> ('a \<times> string) option) \<Rightarrow> string \<Rightarrow> ('a \<times> string) option" where
  "read_separator sep i p s = (if i = 0 then p s else Option.bind (read_char sep s) p)"

text \<open>The loops run over the indices of the slots they fill.\<close>

fun read_octets :: "nat list \<Rightarrow> string \<Rightarrow> (nat list \<times> string) option" where
  "read_octets [] s = Some ([], s)"
| "read_octets (i # is) s =
    (case read_separator (CHR ''.'') i (read_number 10 256 3 False) s of
       None \<Rightarrow> None
     | Some (v, s') \<Rightarrow> map_option (\<lambda>(vs, s''). (v # vs, s'')) (read_octets is s'))"

definition read_ipv4_addr :: "string \<Rightarrow> (nat list \<times> string) option" where
  "read_ipv4_addr = read_octets [0, 1, 2, 3]"

text \<open>Groups of an IPv6 address: the flag says that the last two came from a trailing
  IPv4 address, which needs two free slots.\<close>

fun read_groups :: "nat list \<Rightarrow> string \<Rightarrow> nat list \<times> bool \<times> string" where
  "read_groups [] s = ([], False, s)"
| "read_groups (i # is) s =
    (case (if is \<noteq> [] then read_separator (CHR '':'') i read_ipv4_addr s else None) of
       Some (o4, s') \<Rightarrow> ([o4 ! 0 * 256 + o4 ! 1, o4 ! 2 * 256 + o4 ! 3], True, s')
     | None \<Rightarrow>
         (case read_separator (CHR '':'') i (read_number 16 65536 4 True) s of
            None \<Rightarrow> ([], False, s)
          | Some (g, s') \<Rightarrow> (case read_groups is s' of (gs, v4, s'') \<Rightarrow> (g # gs, v4, s''))))"

definition read_ipv6_addr :: "string \<Rightarrow> (nat list \<times> string) option" where
  "read_ipv6_addr s =
    (case read_groups [0, 1, 2, 3, 4, 5, 6, 7] s of (front, front_v4, s') \<Rightarrow>
       if length front = 8 then Some (front, s')
       else if front_v4 then None
       else (case Option.bind (read_char (CHR '':'') s') (read_char (CHR '':'')) of
               None \<Rightarrow> None
             | Some s'' \<Rightarrow>
                 (case read_groups (take (8 - (length front + 1)) [0, 1, 2, 3, 4, 5, 6]) s'' of
                    (back, _, rest) \<Rightarrow>
                      Some (front @ replicate (8 - length front - length back) 0 @ back, rest))))"

definition parse_ip :: "string \<Rightarrow> ip_addr option" where
  "parse_ip s =
    (case read_ipv4_addr s of
       Some (o4, []) \<Rightarrow> Some (V4 o4)
     | Some (_, _ # _) \<Rightarrow> None
     | None \<Rightarrow>
         (case read_ipv6_addr s of Some (s8, []) \<Rightarrow> Some (V6 s8) | _ \<Rightarrow> None))"


section \<open>Display\<close>

fun join :: "string \<Rightarrow> string list \<Rightarrow> string" where
  "join sep [] = []"
| "join sep [x] = x"
| "join sep (x # y # xs) = x @ sep @ join sep (y # xs)"

definition show_v4 :: "nat list \<Rightarrow> string" where
  "show_v4 o4 = join ''.'' (map show_nat o4)"

definition hex_char :: "nat \<Rightarrow> char" where
  "hex_char d = char_of (if d < 10 then 48 + d else 87 + d)"

fun show_hex :: "nat \<Rightarrow> string" where
  "show_hex n = (if n < 16 then [hex_char n] else show_hex (n div 16) @ [hex_char (n mod 16)])"

declare show_hex.simps [simp del]

text \<open>Length of the run of zero segments that starts at each position.\<close>

fun zero_runs :: "nat list \<Rightarrow> nat list" where
  "zero_runs [] = []"
| "zero_runs (s # ss) =
    (let rs = zero_runs ss in
     (if s = 0 then Suc (case rs of [] \<Rightarrow> 0 | r # _ \<Rightarrow> r) else 0) # rs)"

fun first_longest :: "nat \<Rightarrow> nat list \<Rightarrow> nat \<times> nat" where
  "first_longest i [] = (0, 0)"
| "first_longest i (r # rs) =
    (case first_longest (Suc i) rs of (j, best) \<Rightarrow> if r \<ge> best then (i, r) else (j, best))"

definition show_v6 :: "nat list \<Rightarrow> string" where
  "show_v6 s8 =
    (if take 6 s8 = [0, 0, 0, 0, 0, 65535]
     then ''::ffff:'' @ show_v4 [s8 ! 6 div 256, s8 ! 6 mod 256, s8 ! 7 div 256, s8 ! 7 mod 256]
     else case first_longest 0 (zero_runs s8) of (start, len) \<Rightarrow>
       if len > 1
       then join '':'' (map show_hex (take start s8)) @ ''::''
            @ join '':'' (map show_hex (drop (start + len) s8))
       else join '':'' (map show_hex s8))"

definition show_socket_addr :: "ip_addr \<Rightarrow> nat \<Rightarrow> string" where
  "show_socket_addr a port =
    (case a of
       V4 o4 \<Rightarrow> show_v4 o4 @ '':'' @ show_nat port
     | V6 s8 \<Rightarrow> ''['' @ show_v6 s8 @ '']:'' @ show_nat port)"

lemmas ip_eval = parse_ip_def read_ipv4_addr_def read_ipv6_addr_def read_separator_def
  read_number_def digit_value_def read_char_def

lemma parse_ip_examples:
  "parse_ip ''10.0.0.7'' = Some (V4 [10, 0, 0, 7])"
  "parse_ip ''10.0.0.07'' = None"
  by (simp_all add: ip_eval)

lemma show_socket_addr_example:
  "show_socket_addr (V4 [10, 0, 0, 7]) 60000 = ''10.0.0.7:60000''"
  by (simp add: show_socket_addr_def show_v4_def show_nat.simps digit_char_def
      String.char_of_eq_iff)

end
