(* ===== verification/Resource_Evidence.thy ===== *)
theory Resource_Evidence
  imports Lifecycle_Wire Ip_Address
begin

text \<open>
  Physical identities and the evidence captured before a destructive operation:
  \<open>container/service_type.rs\<close>, \<open>app_resource_deletion.rs\<close>, \<open>userapp/resource_binding.rs\<close>,
  \<open>userapp/dev_cleanup.rs\<close>, the receipts of \<open>userapp/operation_lease.rs\<close> and the workspace
  endpoint of \<open>userapp/workspace_clear.rs\<close>, all under \<open>shared_types/src\<close>.
\<close>


section \<open>Service families\<close>

datatype service_type =
    WebAgentRunner | ComputerAgentRunner | ComputerNormalProject | Userapp | UserappBuilder

fun show_service_type :: "service_type \<Rightarrow> string" where
  "show_service_type WebAgentRunner = ''web-agent-runner''"
| "show_service_type ComputerAgentRunner = ''computer-agent-runner''"
| "show_service_type ComputerNormalProject = ''computer-normal-project''"
| "show_service_type Userapp = ''user-app''"
| "show_service_type UserappBuilder = ''user-app-builder''"

text \<open>\<open>FromStr\<close>: the canonical words, the hyphenated ones and the retired spellings.\<close>

definition service_type_words :: "(service_type \<times> string) list" where
  "service_type_words =
    [(Userapp, ''userapp''), (UserappBuilder, ''userapp-builder''),
     (Userapp, ''user-app''), (UserappBuilder, ''user-app-builder''),
     (WebAgentRunner, ''web-agent-runner''), (ComputerAgentRunner, ''computer-agent-runner''),
     (ComputerNormalProject, ''computer-normal-project''), (ComputerNormalProject, ''normalProject''),
     (WebAgentRunner, ''WebAgentRunner''), (ComputerAgentRunner, ''ComputerAgentRunner''),
     (ComputerNormalProject, ''ComputerNormalProject''),
     (Userapp, ''UserApp''), (Userapp, ''Userapp''),
     (UserappBuilder, ''UserAppBuilder''), (UserappBuilder, ''UserappBuilder''),
     (WebAgentRunner, ''RCoder''), (WebAgentRunner, ''rcoder''),
     (Userapp, ''application''), (Userapp, ''app'')]"

datatype service_type_error = EmptyServiceType | InvalidServiceType string

definition parse_service_type :: "string \<Rightarrow> service_type_error + service_type" where
  "parse_service_type s =
    (if trim_is_empty s then Inl EmptyServiceType
     else ok_or (InvalidServiceType s) (name_in service_type_words s))"

definition dec_service_type :: "json \<Rightarrow> service_type option" where
  "dec_service_type j = Option.bind (as_str j) (\<lambda>s. ok_option (parse_service_type s))"

interpretation service_type_json: json_codec "\<lambda>t. JStr (show_service_type t)" dec_service_type "\<lambda>_. True"
proof
  show "dec_service_type (JStr (show_service_type t)) = Some t" for t
    by (cases t)
       (simp_all add: dec_service_type_def parse_service_type_def service_type_words_def
          as_str_def not_trim_is_empty)
qed


section \<open>Resource identities\<close>

datatype resource_kind =
    Res_Container | Res_Deployment | Res_StatefulSet | Res_Service | Res_ConfigMap | Res_Secret
  | Res_HttpRoute | Res_PersistentVolumeClaim | Res_HostPath | Res_File

definition resource_kind_names :: "(resource_kind \<times> string) list" where
  "resource_kind_names =
    [(Res_Container, ''Container''), (Res_Deployment, ''Deployment''),
     (Res_StatefulSet, ''StatefulSet''), (Res_Service, ''Service''), (Res_ConfigMap, ''ConfigMap''),
     (Res_Secret, ''Secret''), (Res_HttpRoute, ''HttpRoute''),
     (Res_PersistentVolumeClaim, ''PersistentVolumeClaim''), (Res_HostPath, ''HostPath''),
     (Res_File, ''File'')]"

lemma resource_kind_names_total: "k \<in> fst ` set resource_kind_names"
  by (cases k) (simp_all only: name_table_simps resource_kind_names_def)

interpretation resource_kind: name_codec "name_of resource_kind_names" "name_in resource_kind_names"
proof (rule name_codec_table)
  show "distinct (map fst resource_kind_names)" "distinct (map snd resource_kind_names)"
    by (simp_all add: resource_kind_names_def)
qed (rule resource_kind_names_total)

record resource_identity =
  ri_kind :: resource_kind
  ri_name :: string
  ri_uid :: string
  ri_resource_version :: "string option"

definition enc_resource_identity :: "resource_identity \<Rightarrow> json" where
  "enc_resource_identity r = JObj
    [(''kind'', JStr (name_of resource_kind_names (ri_kind r))), (''name'', JStr (ri_name r)),
     (''resource_version'', enc_opt JStr (ri_resource_version r)), (''uid'', JStr (ri_uid r))]"

definition dec_resource_identity :: "json \<Rightarrow> resource_identity option" where
  "dec_resource_identity j = do {
     m \<leftarrow> as_object j;
     kind \<leftarrow> field ''kind'' (dec_enum (name_in resource_kind_names)) m;
     name \<leftarrow> field ''name'' dec_str m;
     uid \<leftarrow> field ''uid'' dec_str m;
     resource_version \<leftarrow> opt_field ''resource_version'' dec_str m;
     Some \<lparr>ri_kind = kind, ri_name = name, ri_uid = uid, ri_resource_version = resource_version\<rparr> }"

interpretation resource_json: json_codec enc_resource_identity dec_resource_identity "\<lambda>_. True"
  by unfold_locales
     (auto simp: enc_resource_identity_def dec_resource_identity_def dec_simps enc_opt_def
        split: option.splits)

record directory_identity =
  di_device :: int
  di_inode :: int

record captured_directory =
  cd_path :: string
  cd_identity :: "directory_identity option"

definition dec_directory_identity :: "json \<Rightarrow> directory_identity option" where
  "dec_directory_identity j = do {
     m \<leftarrow> as_object j;
     deny_unknown [''device'', ''inode''] m;
     device \<leftarrow> field ''device'' dec_u64 m;
     inode \<leftarrow> field ''inode'' dec_u64 m;
     Some \<lparr>di_device = device, di_inode = inode\<rparr> }"

definition dec_captured_directory :: "json \<Rightarrow> captured_directory option" where
  "dec_captured_directory j = do {
     m \<leftarrow> as_object j;
     deny_unknown [''path'', ''identity''] m;
     path \<leftarrow> field ''path'' dec_str m;
     identity \<leftarrow> opt_field ''identity'' dec_directory_identity m;
     Some \<lparr>cd_path = path, cd_identity = identity\<rparr> }"

text \<open>\<open>Path::is_absolute\<close> on Unix.\<close>

definition is_absolute :: "string \<Rightarrow> bool" where
  "is_absolute p = starts_with ''/'' p"

record deletion_snapshot =
  ds_app_id :: string
  ds_operation_id :: string
  ds_resources :: "resource_identity list"
  ds_directories :: "captured_directory list option"

definition dec_deletion_snapshot :: "json \<Rightarrow> deletion_snapshot option" where
  "dec_deletion_snapshot j = do {
     m \<leftarrow> as_object j;
     app_id \<leftarrow> field ''app_id'' dec_str m;
     operation_id \<leftarrow> field ''operation_id'' dec_str m;
     resources \<leftarrow> field ''resources'' (dec_list dec_resource_identity) m;
     directories \<leftarrow> opt_field ''directories'' (dec_list dec_captured_directory) m;
     Some \<lparr>ds_app_id = app_id, ds_operation_id = operation_id, ds_resources = resources,
       ds_directories = directories\<rparr> }"

record mutation_target =
  mt_context :: execution_context
  mt_resource :: resource_identity

definition enc_mutation_target :: "mutation_target \<Rightarrow> json" where
  "enc_mutation_target t = JObj
    [(''context'', enc_execution_context (mt_context t)),
     (''resource'', enc_resource_identity (mt_resource t))]"

definition dec_mutation_target :: "json \<Rightarrow> mutation_target option" where
  "dec_mutation_target j = do {
     m \<leftarrow> as_object j;
     ctx \<leftarrow> field ''context'' dec_execution_context m;
     resource \<leftarrow> field ''resource'' dec_resource_identity m;
     Some \<lparr>mt_context = ctx, mt_resource = resource\<rparr> }"

interpretation mutation_target_json: json_codec enc_mutation_target dec_mutation_target "\<lambda>_. True"
  by unfold_locales
     (simp add: enc_mutation_target_def dec_mutation_target_def field_def as_object_def
        context_json.dec_enc resource_json.dec_enc)


section \<open>Bindings and lease receipts\<close>

record resource_binding =
  rb_app_id :: string
  rb_lifecycle_id :: string
  rb_service_type :: service_type
  rb_physical_uid :: string
  rb_adopted_by_operation :: string

text \<open>Only the retired \<open>user_id\<close> is tolerated beside the current fields.\<close>

definition dec_resource_binding :: "json \<Rightarrow> resource_binding option" where
  "dec_resource_binding j = do {
     m \<leftarrow> as_object j;
     deny_unknown [''app_id'', ''user_id'', ''lifecycle_id'', ''service_type'', ''physical_uid'',
       ''adopted_by_operation''] m;
     app_id \<leftarrow> field ''app_id'' dec_str m;
     user_id \<leftarrow> opt_field ''user_id'' dec_str m;
     lifecycle_id \<leftarrow> field ''lifecycle_id'' dec_str m;
     service_type \<leftarrow> field ''service_type'' dec_service_type m;
     physical_uid \<leftarrow> field ''physical_uid'' dec_str m;
     adopted_by_operation \<leftarrow> field ''adopted_by_operation'' dec_str m;
     Some \<lparr>rb_app_id = app_id, rb_lifecycle_id = lifecycle_id, rb_service_type = service_type,
       rb_physical_uid = physical_uid, rb_adopted_by_operation = adopted_by_operation\<rparr> }"

definition validate_binding :: "resource_binding \<Rightarrow> execution_context \<Rightarrow> string \<Rightarrow> string + unit" where
  "validate_binding self context physical_uid =
    try_r (validate_identity context (rb_app_id self)) (\<lambda>_.
    if rb_lifecycle_id self \<noteq> ec_lifecycle_id context
       \<or> rb_service_type self \<notin> {UserappBuilder, Userapp}
       \<or> rb_physical_uid self = []
       \<or> rb_physical_uid self \<noteq> physical_uid
       \<or> rb_adopted_by_operation self = []
    then Inl ''Physical resource binding does not match the current lifecycle''
    else Inr ())"

definition builder_identity_is_bound ::
  "execution_context \<Rightarrow> metadata \<Rightarrow> string \<Rightarrow> resource_binding option \<Rightarrow> string + bool" where
  "builder_identity_is_bound context m physical_uid binding =
    try_r (validate_identity context (ec_app_id context)) (\<lambda>_.
    try_r (each_r (\<lambda>(key, expected).
        case m key of
          Some value \<Rightarrow> if value \<noteq> [] \<and> value \<noteq> expected
            then Inl (''Builder resource identity conflicts at '' @ key) else Inr ()
        | None \<Rightarrow> Inr ())
      [(''rcoder.io/application-id'', ec_app_id context),
       (''rcoder.io/lifecycle-id'', ec_lifecycle_id context)]) (\<lambda>_.
    try_r (case binding of None \<Rightarrow> Inr () | Some b \<Rightarrow> validate_binding b context physical_uid) (\<lambda>_.
    if is_ok (validate_application_metadata context m) then Inr True
    else case binding of
        Some b \<Rightarrow> try_r (validate_binding b context physical_uid) (\<lambda>_. Inr True)
      | None \<Rightarrow> Inr False)))"

datatype lease_receipt =
    DockerLease (docker_service_type: service_type) (docker_device: int) (docker_inode: int)
      (docker_token: string)
  | KubernetesLease (k8s_service_type: service_type) (k8s_namespace: string) (k8s_name: string)
      (k8s_uid: string) (k8s_resource_version: string) (k8s_token: string)

fun receipt_service_type :: "lease_receipt \<Rightarrow> service_type" where
  "receipt_service_type (DockerLease t _ _ _) = t"
| "receipt_service_type (KubernetesLease t _ _ _ _ _) = t"

definition enc_lease_receipt :: "lease_receipt \<Rightarrow> json" where
  "enc_lease_receipt r =
    (case r of
       DockerLease t device inode token \<Rightarrow> JObj
         [(''device'', JNum device), (''inode'', JNum inode), (''runtime'', JStr ''docker''),
          (''service_type'', JStr (show_service_type t)), (''token'', JStr token)]
     | KubernetesLease t namespace name uid resource_version token \<Rightarrow> JObj
         [(''name'', JStr name), (''namespace'', JStr namespace),
          (''resource_version'', JStr resource_version), (''runtime'', JStr ''kubernetes''),
          (''service_type'', JStr (show_service_type t)), (''token'', JStr token),
          (''uid'', JStr uid)])"

definition dec_lease_receipt :: "json \<Rightarrow> lease_receipt option" where
  "dec_lease_receipt j = do {
     m \<leftarrow> as_object j;
     tag \<leftarrow> field ''runtime'' dec_str m;
     (if tag = ''docker'' then do {
        deny_unknown [''runtime'', ''service_type'', ''device'', ''inode'', ''token''] m;
        service_type \<leftarrow> field ''service_type'' dec_service_type m;
        device \<leftarrow> field ''device'' dec_u64 m;
        inode \<leftarrow> field ''inode'' dec_u64 m;
        token \<leftarrow> field ''token'' dec_str m;
        Some (DockerLease service_type device inode token) }
      else if tag = ''kubernetes'' then do {
        deny_unknown [''runtime'', ''service_type'', ''namespace'', ''name'', ''uid'',
          ''resource_version'', ''token''] m;
        service_type \<leftarrow> field ''service_type'' dec_service_type m;
        namespace \<leftarrow> field ''namespace'' dec_str m;
        name \<leftarrow> field ''name'' dec_str m;
        uid \<leftarrow> field ''uid'' dec_str m;
        resource_version \<leftarrow> field ''resource_version'' dec_str m;
        token \<leftarrow> field ''token'' dec_str m;
        Some (KubernetesLease service_type namespace name uid resource_version token) }
      else None) }"

definition receipt_in_range :: "lease_receipt \<Rightarrow> bool" where
  "receipt_in_range r \<longleftrightarrow> (case r of
      DockerLease _ device inode _ \<Rightarrow> 0 \<le> device \<and> device \<le> u64_max \<and> 0 \<le> inode \<and> inode \<le> u64_max
    | KubernetesLease _ _ _ _ _ _ \<Rightarrow> True)"

interpretation receipt_json: json_codec enc_lease_receipt dec_lease_receipt receipt_in_range
  by unfold_locales
     (auto simp: enc_lease_receipt_def dec_lease_receipt_def receipt_in_range_def field_def
        deny_unknown_def dec_str_def dec_u64_def as_str_def as_u64_def as_object_def
        service_type_json.dec_enc split: lease_receipt.splits)

definition validate_receipt :: "lease_receipt \<Rightarrow> string + unit" where
  "validate_receipt self =
    (if receipt_service_type self \<notin> {Userapp, UserappBuilder} then Inl ''Invalid operation lease family''
     else try_r (case self of
         DockerLease _ _ inode token \<Rightarrow>
           if inode \<noteq> 0 then Inr token else Inl ''Incomplete operation lease receipt''
       | KubernetesLease _ namespace name uid resource_version token \<Rightarrow>
           if namespace \<noteq> [] \<and> name \<noteq> [] \<and> uid \<noteq> [] \<and> resource_version \<noteq> []
           then Inr token else Inl ''Incomplete operation lease receipt'') (\<lambda>token.
       map_err (\<lambda>_. ''Invalid operation lease token'') (validate_identifier token ''lease token'')))"

record lease_binding =
  lb_context :: execution_context
  lb_receipt :: lease_receipt


section \<open>Development cleanup receipts\<close>

record builder_deletion_snapshot =
  bs_resource_binding :: "resource_binding option"
  bs_app_id :: string
  bs_operation_id :: string
  bs_resources :: "resource_identity list"
  bs_docker_bind_cleanup :: bool

record registry_identity =
  rg_generation :: string
  rg_container_id :: string

record collaborator_receipt =
  cr_runtime :: builder_deletion_snapshot
  cr_lease :: "lease_receipt option"
  cr_registry :: "registry_identity option"

record dev_deletion_receipt =
  dr_runtime :: builder_deletion_snapshot
  dr_registry :: "registry_identity option"
  dr_lease :: "lease_receipt option"
  dr_collaborators :: "collaborator_receipt list"
  dr_directories :: "captured_directory list option"

definition dec_builder_deletion_snapshot :: "json \<Rightarrow> builder_deletion_snapshot option" where
  "dec_builder_deletion_snapshot j = do {
     m \<leftarrow> as_object j;
     resource_binding \<leftarrow> opt_field ''resource_binding'' dec_resource_binding m;
     app_id \<leftarrow> field ''app_id'' dec_str m;
     operation_id \<leftarrow> field ''operation_id'' dec_str m;
     resources \<leftarrow> field ''resources'' (dec_list dec_resource_identity) m;
     docker_bind_cleanup \<leftarrow> field ''docker_bind_cleanup'' dec_bool m;
     Some \<lparr>bs_resource_binding = resource_binding, bs_app_id = app_id,
       bs_operation_id = operation_id, bs_resources = resources,
       bs_docker_bind_cleanup = docker_bind_cleanup\<rparr> }"

definition dec_registry_identity :: "json \<Rightarrow> registry_identity option" where
  "dec_registry_identity j = do {
     m \<leftarrow> as_object j;
     generation \<leftarrow> field ''generation'' dec_str m;
     container_id \<leftarrow> field ''container_id'' dec_str m;
     Some \<lparr>rg_generation = generation, rg_container_id = container_id\<rparr> }"

definition dec_collaborator_receipt :: "json \<Rightarrow> collaborator_receipt option" where
  "dec_collaborator_receipt j = do {
     m \<leftarrow> as_object j;
     runtime \<leftarrow> field ''runtime'' dec_builder_deletion_snapshot m;
     lease \<leftarrow> opt_field ''lease'' dec_lease_receipt m;
     registry \<leftarrow> opt_field ''registry'' dec_registry_identity m;
     Some \<lparr>cr_runtime = runtime, cr_lease = lease, cr_registry = registry\<rparr> }"

definition dec_dev_deletion_receipt :: "json \<Rightarrow> dev_deletion_receipt option" where
  "dec_dev_deletion_receipt j = do {
     m \<leftarrow> as_object j;
     runtime \<leftarrow> field ''runtime'' dec_builder_deletion_snapshot m;
     registry \<leftarrow> opt_field ''registry'' dec_registry_identity m;
     lease \<leftarrow> opt_field ''lease'' dec_lease_receipt m;
     collaborators \<leftarrow> default_field ''collaborators'' [] (dec_list dec_collaborator_receipt) m;
     directories \<leftarrow> opt_field ''directories'' (dec_list dec_captured_directory) m;
     Some \<lparr>dr_runtime = runtime, dr_registry = registry, dr_lease = lease,
       dr_collaborators = collaborators, dr_directories = directories\<rparr> }"
end
