(* ===== verification/Operation_Evidence.thy ===== *)
theory Operation_Evidence
  imports Resource_Evidence
begin

text \<open>
  Typed checkpoints of destructive and database operations and their validation against
  the operation they belong to: deletion, storage destruction and storage clear
  (\<open>app_resource_deletion.rs\<close>), builder control targets and creation evidence
  (\<open>userapp/builder_control.rs\<close>), database password and preparation evidence
  (\<open>userapp/db_password.rs\<close>).
\<close>


section \<open>Belonging to an operation\<close>

text \<open>The comparison every evidence type repeats: the five fields of the execution
  context are those of the stored operation and of its recorded executor.\<close>

definition context_of_operation :: "execution_context \<Rightarrow> operation_record \<Rightarrow> bool" where
  "context_of_operation c op \<longleftrightarrow>
    ec_app_id c = or_app_id op \<and> ec_lifecycle_id c = or_lifecycle_id op
    \<and> ec_operation_id c = or_operation_id op \<and> or_executor_id op = Some (ec_executor_id c)
    \<and> ec_request_fingerprint c = or_request_fingerprint op"

lemma context_of_operation_unique:
  "context_of_operation c op \<Longrightarrow> context_of_operation d op \<Longrightarrow> c = d"
  by (auto simp: context_of_operation_def intro: execution_context.equality)


section \<open>Deletion\<close>

datatype deletion_stage =
    Del_Captured | Del_ComputeRemoved | Del_ProductionStorageRemoved | Del_DevelopmentRemoved

definition deletion_stage_names :: "(deletion_stage \<times> string) list" where
  "deletion_stage_names =
    [(Del_Captured, ''captured''), (Del_ComputeRemoved, ''compute_removed''),
     (Del_ProductionStorageRemoved, ''production_storage_removed''),
     (Del_DevelopmentRemoved, ''development_removed'')]"

record deletion_checkpoint =
  dc_stage :: deletion_stage
  dc_schema_version :: int
  dc_context :: execution_context
  dc_kind :: operation_kind
  dc_production :: deletion_snapshot
  dc_development :: "dev_deletion_receipt option"

definition dec_deletion_checkpoint :: "json \<Rightarrow> deletion_checkpoint option" where
  "dec_deletion_checkpoint j = do {
     m \<leftarrow> as_object j;
     deny_unknown [''stage'', ''schema_version'', ''context'', ''kind'', ''production'',
       ''development''] m;
     stage \<leftarrow> field ''stage'' (dec_enum (name_in deletion_stage_names)) m;
     schema_version \<leftarrow> field ''schema_version'' dec_u32 m;
     ctx \<leftarrow> field ''context'' dec_execution_context m;
     kind \<leftarrow> field ''kind'' dec_kind m;
     production \<leftarrow> field ''production'' dec_deletion_snapshot m;
     development \<leftarrow> opt_field ''development'' dec_dev_deletion_receipt m;
     Some \<lparr>dc_stage = stage, dc_schema_version = schema_version, dc_context = ctx,
       dc_kind = kind, dc_production = production, dc_development = development\<rparr> }"

definition validate_deletion_resources :: "string \<Rightarrow> resource_identity list \<Rightarrow> string + unit" where
  "validate_deletion_resources operation_id resources =
    try_r (validate_identifier operation_id ''resource_operation_id'') (\<lambda>_.
    each_r (\<lambda>resource.
        if ri_name resource = [] \<or> ri_uid resource = []
        then Inl ''Deletion resource identity is incomplete''
        else if ri_kind resource \<noteq> Res_Container \<and> \<not> nonempty_opt (ri_resource_version resource)
        then Inl ''Kubernetes deletion resource version is missing''
        else Inr ()) resources)"

definition registry_incomplete :: "registry_identity option \<Rightarrow> bool" where
  "registry_incomplete r = (case r of None \<Rightarrow> False | Some i \<Rightarrow> rg_container_id i = [])"

definition validate_deletion_checkpoint :: "deletion_checkpoint \<Rightarrow> string + unit" where
  "validate_deletion_checkpoint self =
    (if dc_schema_version self \<noteq> 1
     then Inl ''Unsupported application deletion checkpoint version''
     else try_r (validate_identity (dc_context self) (ec_app_id (dc_context self))) (\<lambda>_.
     try_r (if dc_kind self = Kind_DeleteCompute then Inr False
            else if dc_kind self \<in> {Kind_PurgeResources, Kind_DeleteApplication} then Inr True
            else Inl ''Operation kind does not support this deletion checkpoint'') (\<lambda>needs_development.
     if ds_app_id (dc_production self) \<noteq> ec_app_id (dc_context self)
        \<or> (dc_development self \<noteq> None) \<noteq> needs_development
     then Inl ''Deletion checkpoint application or resource scope mismatch''
     else if \<not> needs_development
        \<and> dc_stage self \<in> {Del_ProductionStorageRemoved, Del_DevelopmentRemoved}
     then Inl ''Compute-only deletion cannot complete storage cleanup''
     else try_r (validate_deletion_resources (ds_operation_id (dc_production self))
                   (ds_resources (dc_production self))) (\<lambda>_.
     case dc_development self of
       None \<Rightarrow> Inr ()
     | Some development \<Rightarrow>
         if bs_app_id (dr_runtime development) \<noteq> ec_app_id (dc_context self)
         then Inl ''Development deletion checkpoint belongs to another application''
         else try_r (validate_deletion_resources (bs_operation_id (dr_runtime development))
                       (bs_resources (dr_runtime development))) (\<lambda>_.
         if registry_incomplete (dr_registry development)
         then Inl ''Development registry identity is incomplete''
         else Inr ())))))"

definition validate_deletion_operation :: "deletion_checkpoint \<Rightarrow> operation_record \<Rightarrow> string + unit" where
  "validate_deletion_operation self operation =
    try_r (validate_deletion_checkpoint self) (\<lambda>_.
    if ec_app_id (dc_context self) \<noteq> or_app_id operation
       \<or> ec_lifecycle_id (dc_context self) \<noteq> or_lifecycle_id operation
       \<or> ec_operation_id (dc_context self) \<noteq> or_operation_id operation
       \<or> or_executor_id operation \<noteq> Some (ec_executor_id (dc_context self))
       \<or> ec_request_fingerprint (dc_context self) \<noteq> or_request_fingerprint operation
       \<or> dc_kind self \<noteq> or_kind operation
    then Inl ''Deletion checkpoint does not belong to the stored operation''
    else Inr ())"

lemma validate_deletion_operation_ok [simp]:
  "validate_deletion_operation c op = Inr u \<longleftrightarrow>
    validate_deletion_checkpoint c = Inr () \<and> context_of_operation (dc_context c) op
    \<and> dc_kind c = or_kind op"
  by (auto simp: validate_deletion_operation_def context_of_operation_def)

text \<open>A compute-only deletion never carries a stage beyond the removal of compute.\<close>

lemma deletion_stage_of_compute:
  assumes "validate_deletion_checkpoint c = Inr u" "dc_kind c = Kind_DeleteCompute"
  shows "dc_stage c \<in> {Del_Captured, Del_ComputeRemoved}"
  using assms
  by (cases "dc_stage c") (auto simp: validate_deletion_checkpoint_def split: if_splits)


section \<open>Storage destruction\<close>

record storage_destruction =
  sd_context :: execution_context
  sd_production :: "deletion_snapshot option"
  sd_development :: dev_deletion_receipt

definition destruction_complete_step :: string where
  "destruction_complete_step = ''development_storage_removed''"

definition dec_storage_destruction :: "json \<Rightarrow> storage_destruction option" where
  "dec_storage_destruction j = do {
     m \<leftarrow> as_object j;
     deny_unknown [''context'', ''production'', ''development''] m;
     ctx \<leftarrow> field ''context'' dec_execution_context m;
     production \<leftarrow> opt_field ''production'' dec_deletion_snapshot m;
     development \<leftarrow> field ''development'' dec_dev_deletion_receipt m;
     Some \<lparr>sd_context = ctx, sd_production = production, sd_development = development\<rparr> }"

definition validate_storage_destruction :: "storage_destruction \<Rightarrow> string + unit" where
  "validate_storage_destruction self =
    try_r (validate_identity (sd_context self) (ec_app_id (sd_context self))) (\<lambda>_.
    try_r (case sd_production self of
        None \<Rightarrow> Inr ()
      | Some production \<Rightarrow>
          if ds_app_id production \<noteq> ec_app_id (sd_context self)
          then Inl ''Storage destruction production ownership mismatch''
          else validate_deletion_resources (ds_operation_id production) (ds_resources production)) (\<lambda>_.
    if bs_app_id (dr_runtime (sd_development self)) \<noteq> ec_app_id (sd_context self)
    then Inl ''Storage destruction development ownership mismatch''
    else try_r (validate_deletion_resources (bs_operation_id (dr_runtime (sd_development self)))
                  (bs_resources (dr_runtime (sd_development self)))) (\<lambda>_.
    if registry_incomplete (dr_registry (sd_development self))
    then Inl ''Storage destruction registry identity is incomplete''
    else Inr ())))"


section \<open>Storage clear\<close>

record workspace_endpoint =
  we_container_id :: string
  we_address :: ip_addr

definition base_url :: "workspace_endpoint \<Rightarrow> string" where
  "base_url self = ''http://'' @ show_socket_addr (we_address self) 60000"

definition dec_ip_addr :: "json \<Rightarrow> ip_addr option" where
  "dec_ip_addr j = Option.bind (as_str j) parse_ip"

definition dec_workspace_endpoint :: "json \<Rightarrow> workspace_endpoint option" where
  "dec_workspace_endpoint j = do {
     m \<leftarrow> as_object j;
     container_id \<leftarrow> field ''container_id'' dec_str m;
     address \<leftarrow> field ''address'' dec_ip_addr m;
     Some \<lparr>we_container_id = container_id, we_address = address\<rparr> }"

datatype storage_clear_target =
    Clear_Development string string workspace_endpoint dev_deletion_receipt
  | Clear_Production deletion_snapshot "captured_directory list"

record storage_clear =
  sc_context :: execution_context
  sc_target :: storage_clear_target

definition clear_complete_step :: string where
  "clear_complete_step = ''storage_contents_cleared''"

definition dec_storage_clear_target :: "json \<Rightarrow> storage_clear_target option" where
  "dec_storage_clear_target j = do {
     m \<leftarrow> as_object j;
     tag \<leftarrow> field ''type'' dec_str m;
     (if tag = ''development'' then do {
        url \<leftarrow> field ''base_url'' dec_str m;
        instance_id \<leftarrow> field ''instance_id'' dec_str m;
        endpoint \<leftarrow> field ''endpoint'' dec_workspace_endpoint m;
        receipt \<leftarrow> field ''receipt'' dec_dev_deletion_receipt m;
        Some (Clear_Development url instance_id endpoint receipt) }
      else if tag = ''production'' then do {
        snapshot \<leftarrow> field ''snapshot'' dec_deletion_snapshot m;
        directories \<leftarrow> field ''directories'' (dec_list dec_captured_directory) m;
        Some (Clear_Production snapshot directories) }
      else None) }"

definition dec_storage_clear :: "json \<Rightarrow> storage_clear option" where
  "dec_storage_clear j = do {
     m \<leftarrow> as_object j;
     deny_unknown [''context'', ''target''] m;
     ctx \<leftarrow> field ''context'' dec_execution_context m;
     target \<leftarrow> field ''target'' dec_storage_clear_target m;
     Some \<lparr>sc_context = ctx, sc_target = target\<rparr> }"

definition validate_storage_clear :: "storage_clear \<Rightarrow> string + unit" where
  "validate_storage_clear self =
    try_r (validate_identity (sc_context self) (ec_app_id (sc_context self))) (\<lambda>_.
    case sc_target self of
      Clear_Production snapshot directories \<Rightarrow>
        if ds_app_id snapshot \<noteq> ec_app_id (sc_context self)
           \<or> list_ex (\<lambda>directory. \<not> is_absolute (cd_path directory)) directories
        then Inl ''Storage clear production target mismatch''
        else validate_deletion_resources (ds_operation_id snapshot) (ds_resources snapshot)
    | Clear_Development url instance_id endpoint receipt \<Rightarrow>
        if url = [] \<or> instance_id = [] \<or> we_container_id endpoint = []
           \<or> is_unspecified (we_address endpoint) \<or> url \<noteq> base_url endpoint
           \<or> bs_app_id (dr_runtime receipt) \<noteq> ec_app_id (sc_context self)
        then Inl ''Storage clear development target mismatch''
        else try_r (validate_deletion_resources (bs_operation_id (dr_runtime receipt))
                      (bs_resources (dr_runtime receipt))) (\<lambda>_.
        try_r (if bs_docker_bind_cleanup (dr_runtime receipt)
               then (case bs_resources (dr_runtime receipt) of
                   [container] \<Rightarrow>
                     if ri_kind container \<noteq> Res_Container
                        \<or> ri_uid container \<noteq> we_container_id endpoint
                     then Inl ''Storage clear endpoint differs from captured container''
                     else Inr ()
                 | _ \<Rightarrow> Inl ''Storage clear Docker target must name one container'')
               else if \<not> list_ex (\<lambda>resource. ri_kind resource = Res_StatefulSet)
                         (bs_resources (dr_runtime receipt))
               then Inl ''Storage clear Kubernetes workload receipt is missing''
               else Inr ()) (\<lambda>_.
        if registry_incomplete (dr_registry receipt)
        then Inl ''Storage clear registry identity is incomplete''
        else Inr ())))"


section \<open>Builder control targets\<close>

datatype builder_startup_mode = PreserveBusinessIntent | ManagementOnly

definition startup_mode_names :: "(builder_startup_mode \<times> string) list" where
  "startup_mode_names =
    [(PreserveBusinessIntent, ''preserve_business_intent''), (ManagementOnly, ''management_only'')]"

definition is_preserve :: "builder_startup_mode \<Rightarrow> bool" where
  "is_preserve mode \<longleftrightarrow> mode = PreserveBusinessIntent"

record pod_identity =
  pi_name :: string
  pi_uid :: string
  pi_resource_version :: string

definition dec_pod_identity :: "json \<Rightarrow> pod_identity option" where
  "dec_pod_identity j = do {
     m \<leftarrow> as_object j;
     name \<leftarrow> field ''name'' dec_str m;
     uid \<leftarrow> field ''uid'' dec_str m;
     resource_version \<leftarrow> field ''resource_version'' dec_str m;
     Some \<lparr>pi_name = name, pi_uid = uid, pi_resource_version = resource_version\<rparr> }"

definition pod_incomplete :: "pod_identity \<Rightarrow> bool" where
  "pod_incomplete pod \<longleftrightarrow> pi_name pod = [] \<or> pi_uid pod = [] \<or> pi_resource_version pod = []"

record orphan_stop_target =
  os_resource_binding :: "resource_binding option"
  os_context :: execution_context
  os_orphan_pod :: pod_identity
  os_controller_name :: string
  os_controller_uid :: string

definition validate_orphan_stop_target :: "orphan_stop_target \<Rightarrow> string + unit" where
  "validate_orphan_stop_target self =
    try_r (validate_identity (os_context self) (ec_app_id (os_context self))) (\<lambda>_.
    try_r (case os_resource_binding self of
        None \<Rightarrow> Inr ()
      | Some binding \<Rightarrow> validate_binding binding (os_context self) (os_controller_uid self)) (\<lambda>_.
    if os_controller_name self = [] \<or> os_controller_uid self = []
       \<or> pod_incomplete (os_orphan_pod self)
    then Inl ''Orphan builder physical identity missing''
    else Inr ()))"

record builder_control_target =
  bt_resource_binding :: "resource_binding option"
  bt_context :: execution_context
  bt_workload :: "resource_identity option"
  bt_pod :: "pod_identity option"
  bt_restart_image :: "string option"
  bt_restart_runtime_workspace :: "string option"
  bt_builder_startup_mode :: builder_startup_mode

text \<open>The fields both readers share; \<open>Observation\<close> ignores every other key.\<close>

definition from_observation_checkpoint :: "json \<Rightarrow> builder_control_target option" where
  "from_observation_checkpoint j = do {
     m \<leftarrow> as_object j;
     resource_binding \<leftarrow> opt_field ''resource_binding'' dec_resource_binding m;
     ctx \<leftarrow> field ''context'' dec_execution_context m;
     workload \<leftarrow> opt_field ''workload'' dec_resource_identity m;
     pod \<leftarrow> opt_field ''pod'' dec_pod_identity m;
     restart_image \<leftarrow> opt_field ''restart_image'' dec_str m;
     restart_runtime_workspace \<leftarrow> opt_field ''restart_runtime_workspace'' dec_str m;
     builder_startup_mode \<leftarrow> default_field ''builder_startup_mode'' PreserveBusinessIntent
       (dec_enum (name_in startup_mode_names)) m;
     Some \<lparr>bt_resource_binding = resource_binding, bt_context = ctx, bt_workload = workload,
       bt_pod = pod, bt_restart_image = restart_image,
       bt_restart_runtime_workspace = restart_runtime_workspace,
       bt_builder_startup_mode = builder_startup_mode\<rparr> }"

text \<open>The strict wire reader accepts the ledger's own keys beside the target and types them.\<close>

definition dec_builder_control_target :: "json \<Rightarrow> builder_control_target option" where
  "dec_builder_control_target j = do {
     m \<leftarrow> as_object j;
     deny_unknown [''resource_binding'', ''context'', ''workload'', ''pod'', ''restart_image'',
       ''restart_runtime_workspace'', ''builder_startup_mode'', ''builder_compute_single_write'',
       ''builder_volumes'', ''builder_restart_template'', ''builder_restart_template_history'',
       ''builder_restart_stop_observation'', ''kubernetes_restart_stop_confirmation''] m;
     single_write \<leftarrow> default_field ''builder_compute_single_write'' False dec_bool m;
     volumes \<leftarrow> default_field ''builder_volumes'' [] (dec_list dec_resource_identity) m;
     history \<leftarrow> default_field ''builder_restart_template_history'' [] (dec_list dec_any) m;
     from_observation_checkpoint j }"

lemma strict_target_is_observed:
  "dec_builder_control_target j = Some t \<Longrightarrow> from_observation_checkpoint j = Some t"
  by (auto simp: dec_builder_control_target_def bind_eq_Some_conv)

definition userapp_dev_workspace :: "string \<Rightarrow> string" where
  "userapp_dev_workspace app_id = ''/home/user/'' @ app_id"

definition validate_builder_control_target :: "builder_control_target \<Rightarrow> string + unit" where
  "validate_builder_control_target self =
    try_r (validate_identity (bt_context self) (ec_app_id (bt_context self))) (\<lambda>_.
    if (case bt_restart_image self of None \<Rightarrow> False | Some img \<Rightarrow> trim_is_empty img)
    then Inl ''Builder restart image is empty''
    else if (case bt_restart_runtime_workspace self of
         None \<Rightarrow> False
       | Some root \<Rightarrow>
           root \<noteq> userapp_dev_workspace (ec_app_id (bt_context self))
           \<or> (case bt_workload self of None \<Rightarrow> True | Some workload \<Rightarrow> ri_kind workload \<noteq> Res_StatefulSet))
    then Inl ''Builder restart workspace requires the captured dev StatefulSet source root''
    else try_r (case bt_workload self of
        Some workload \<Rightarrow>
          if ri_name workload = [] \<or> ri_uid workload = []
          then Inl ''Builder compute identity is missing''
          else try_r (case bt_resource_binding self of
              None \<Rightarrow> Inr ()
            | Some binding \<Rightarrow> validate_binding binding (bt_context self) (ri_uid workload)) (\<lambda>_.
          if ri_kind workload = Res_Container \<and> bt_pod self = None then Inr ()
          else if ri_kind workload = Res_StatefulSet \<and> nonempty_opt (ri_resource_version workload)
          then Inr ()
          else Inl ''Builder control requires a compute-only resource identity'')
      | None \<Rightarrow>
          if bt_pod self \<noteq> None \<or> bt_resource_binding self \<noteq> None
          then Inl ''Builder pod has no captured workload''
          else Inr ()) (\<lambda>_.
    if (case bt_pod self of None \<Rightarrow> False | Some pod \<Rightarrow> pod_incomplete pod)
    then Inl ''Builder pod identity is incomplete''
    else Inr ()))"

text \<open>A valid target never names anything but builder compute.\<close>

lemma builder_target_compute_only:
  assumes "validate_builder_control_target t = Inr u" "bt_workload t = Some w"
  shows "ri_kind w \<in> {Res_Container, Res_StatefulSet}" "ri_uid w \<noteq> []"
  using assms by (auto simp: validate_builder_control_target_def split: if_splits)

end
