(* ===== verification/Database_Evidence.thy ===== *)
theory Database_Evidence
  imports Operation_Evidence
begin

text \<open>
  Evidence of explicit database password writes and of database preparation
  (\<open>shared_types/src/userapp/db_password.rs\<close>).
\<close>

record runtime_configuration_target =
  rt_physical_uid :: string
  rt_deployment_generation :: string

definition dec_runtime_configuration_target :: "json \<Rightarrow> runtime_configuration_target option" where
  "dec_runtime_configuration_target j = do {
     m \<leftarrow> as_object j;
     physical_uid \<leftarrow> field ''physical_uid'' dec_str m;
     deployment_generation \<leftarrow> field ''deployment_generation'' dec_str m;
     Some \<lparr>rt_physical_uid = physical_uid, rt_deployment_generation = deployment_generation\<rparr> }"


section \<open>Password writes\<close>

datatype database_password_stage = Pw_Captured | Pw_WriteSubmitted | Pw_Verified | Pw_Cancelled

definition password_stage_names :: "(database_password_stage \<times> string) list" where
  "password_stage_names =
    [(Pw_Captured, ''captured''), (Pw_WriteSubmitted, ''write_submitted''),
     (Pw_Verified, ''verified''), (Pw_Cancelled, ''cancelled'')]"

datatype database_password_target =
    Pw_Dev builder_control_target
  | Pw_Prod runtime_configuration_target

text \<open>Adjacently tagged: \<open>scope\<close> names the variant, \<open>target\<close> carries its content.\<close>

definition dec_database_password_target :: "json \<Rightarrow> database_password_target option" where
  "dec_database_password_target j = do {
     m \<leftarrow> as_object j;
     tag \<leftarrow> field ''scope'' dec_str m;
     (if tag = ''dev'' then map_option Pw_Dev (field ''target'' dec_builder_control_target m)
      else if tag = ''prod''
      then map_option Pw_Prod (field ''target'' dec_runtime_configuration_target m)
      else None) }"

record database_password_evidence =
  pe_receipt_protocol :: "int option"
  pe_context :: execution_context
  pe_username :: string
  pe_target :: database_password_target
  pe_stage :: database_password_stage

definition dec_database_password_evidence :: "json \<Rightarrow> database_password_evidence option" where
  "dec_database_password_evidence j = do {
     m \<leftarrow> as_object j;
     deny_unknown [''receipt_protocol'', ''context'', ''username'', ''target'', ''stage''] m;
     receipt_protocol \<leftarrow> opt_field ''receipt_protocol'' dec_u32 m;
     ctx \<leftarrow> field ''context'' dec_execution_context m;
     username \<leftarrow> field ''username'' dec_str m;
     target \<leftarrow> field ''target'' dec_database_password_target m;
     stage \<leftarrow> field ''stage'' (dec_enum (name_in password_stage_names)) m;
     Some \<lparr>pe_receipt_protocol = receipt_protocol, pe_context = ctx, pe_username = username,
       pe_target = target, pe_stage = stage\<rparr> }"

definition unknown_receipt_protocol :: "int option \<Rightarrow> bool" where
  "unknown_receipt_protocol p = (case p of None \<Rightarrow> False | Some version \<Rightarrow> version \<noteq> 1)"

definition validate_password_operation ::
  "database_password_evidence \<Rightarrow> operation_record \<Rightarrow> string + unit" where
  "validate_password_operation self operation =
    try_r (validate_identity (pe_context self) (or_app_id operation)) (\<lambda>_.
    if unknown_receipt_protocol (pe_receipt_protocol self)
    then Inl ''Unknown database password receipt protocol''
    else if ec_lifecycle_id (pe_context self) \<noteq> or_lifecycle_id operation
       \<or> ec_operation_id (pe_context self) \<noteq> or_operation_id operation
       \<or> ec_request_fingerprint (pe_context self) \<noteq> or_request_fingerprint operation
       \<or> or_executor_id operation \<noteq> Some (ec_executor_id (pe_context self))
    then Inl ''Database password evidence has a different execution identity''
    else case or_command operation of
      Some (Cmd_ResetDatabasePassword production username) \<Rightarrow>
        try_r (validate_pg_identifier (pe_username self)) (\<lambda>_.
        if username \<noteq> pe_username self
           \<or> or_kind operation \<noteq> command_kind (Cmd_ResetDatabasePassword production username)
        then Inl ''Database password target account differs from admission''
        else case pe_target self of
          Pw_Dev target \<Rightarrow>
            if \<not> production \<and> or_scope operation = Scope_Dev
            then try_r (validate_builder_control_target target) (\<lambda>_.
              if bt_context target \<noteq> pe_context self
                 \<or> bt_workload target = None
                 \<or> (case bt_workload target of
                       None \<Rightarrow> False
                     | Some workload \<Rightarrow> ri_kind workload = Res_StatefulSet \<and> bt_pod target = None)
              then Inl ''Database password target requires a captured builder and physical pod''
              else Inr ())
            else Inl ''Database password target scope differs from admission''
        | Pw_Prod target \<Rightarrow>
            if production \<and> or_scope operation = Scope_Prod
            then (if rt_physical_uid target = [] \<or> rt_deployment_generation target = []
              then Inl ''Database password target requires a physical identity and generation''
              else Inr ())
            else Inl ''Database password target scope differs from admission'')
    | _ \<Rightarrow> Inl ''Database password evidence requires its original command'')"

lemma password_operation_context:
  "validate_password_operation e op = Inr u \<Longrightarrow> context_of_operation (pe_context e) op"
  by (auto simp: validate_password_operation_def context_of_operation_def split: if_splits)

record explicit_deployment_password_evidence =
  xe_receipt_protocol :: "int option"
  xe_context :: execution_context
  xe_username :: string
  xe_explicit_pg_target :: runtime_configuration_target
  xe_stage :: database_password_stage

definition dec_explicit_deployment_password_evidence ::
  "json \<Rightarrow> explicit_deployment_password_evidence option" where
  "dec_explicit_deployment_password_evidence j = do {
     m \<leftarrow> as_object j;
     deny_unknown [''receipt_protocol'', ''context'', ''username'', ''explicit_pg_target'',
       ''stage''] m;
     receipt_protocol \<leftarrow> opt_field ''receipt_protocol'' dec_u32 m;
     ctx \<leftarrow> field ''context'' dec_execution_context m;
     username \<leftarrow> field ''username'' dec_str m;
     target \<leftarrow> field ''explicit_pg_target'' dec_runtime_configuration_target m;
     stage \<leftarrow> field ''stage'' (dec_enum (name_in password_stage_names)) m;
     Some \<lparr>xe_receipt_protocol = receipt_protocol, xe_context = ctx, xe_username = username,
       xe_explicit_pg_target = target, xe_stage = stage\<rparr> }"

definition validate_explicit_password_operation ::
  "explicit_deployment_password_evidence \<Rightarrow> operation_record \<Rightarrow> string + unit" where
  "validate_explicit_password_operation self operation =
    try_r (validate_identity (xe_context self) (or_app_id operation)) (\<lambda>_.
    if unknown_receipt_protocol (xe_receipt_protocol self)
    then Inl ''Unknown deployment password receipt protocol''
    else if ec_lifecycle_id (xe_context self) \<noteq> or_lifecycle_id operation
       \<or> ec_operation_id (xe_context self) \<noteq> or_operation_id operation
       \<or> ec_request_fingerprint (xe_context self) \<noteq> or_request_fingerprint operation
       \<or> or_executor_id operation \<noteq> Some (ec_executor_id (xe_context self))
    then Inl ''Deployment password evidence has a different execution identity''
    else try_r (validate_pg_identifier (xe_username self)) (\<lambda>_.
    case or_command operation of
      Some (Cmd_Deploy restart input_digest serving_recovery) \<Rightarrow>
        if or_kind operation \<notin> {Kind_StartDeployment, Kind_RestartDeployment}
           \<or> or_kind operation \<noteq> command_kind (Cmd_Deploy restart input_digest serving_recovery)
           \<or> or_scope operation \<noteq> Scope_Prod
        then Inl ''Deployment password evidence differs from admission''
        else if rt_physical_uid (xe_explicit_pg_target self) = []
           \<or> rt_deployment_generation (xe_explicit_pg_target self) = []
        then Inl ''Deployment password target requires a physical identity and generation''
        else Inr ()
    | _ \<Rightarrow> Inl ''Deployment password evidence requires its original command''))"


section \<open>Preparation\<close>

datatype database_preparation_stage = Prep_Captured | Prep_StartSubmitted | Prep_ManagementReady

definition preparation_stage_names :: "(database_preparation_stage \<times> string) list" where
  "preparation_stage_names =
    [(Prep_Captured, ''captured''), (Prep_StartSubmitted, ''start_submitted''),
     (Prep_ManagementReady, ''management_ready'')]"

record database_preparation_evidence =
  pp_target :: mutation_target
  pp_deployment_generation :: string
  pp_stage :: database_preparation_stage
  pp_management :: "runtime_configuration_target option"

definition dec_database_preparation_evidence :: "json \<Rightarrow> database_preparation_evidence option" where
  "dec_database_preparation_evidence j = do {
     m \<leftarrow> as_object j;
     deny_unknown [''target'', ''deployment_generation'', ''stage'', ''management''] m;
     target \<leftarrow> field ''target'' dec_mutation_target m;
     deployment_generation \<leftarrow> field ''deployment_generation'' dec_str m;
     stage \<leftarrow> field ''stage'' (dec_enum (name_in preparation_stage_names)) m;
     management \<leftarrow> opt_field ''management'' dec_runtime_configuration_target m;
     Some \<lparr>pp_target = target, pp_deployment_generation = deployment_generation,
       pp_stage = stage, pp_management = management\<rparr> }"

definition validate_preparation_operation ::
  "database_preparation_evidence \<Rightarrow> operation_record \<Rightarrow> string + unit" where
  "validate_preparation_operation self operation =
    (let context = mt_context (pp_target self); resource = mt_resource (pp_target self) in
     try_r (validate_identity context (or_app_id operation)) (\<lambda>_.
     if or_kind operation \<noteq> Kind_PrepareProdDatabase
        \<or> or_command operation \<noteq> Some Cmd_PrepareProdDatabase
        \<or> or_scope operation \<noteq> Scope_Prod
        \<or> ec_lifecycle_id context \<noteq> or_lifecycle_id operation
        \<or> ec_operation_id context \<noteq> or_operation_id operation
        \<or> ec_request_fingerprint context \<noteq> or_request_fingerprint operation
        \<or> or_executor_id operation \<noteq> Some (ec_executor_id context)
     then Inl ''Database preparation execution identity mismatch''
     else if ri_uid resource = [] \<or> ri_name resource = [] \<or> pp_deployment_generation self = []
        \<or> ri_kind resource \<notin> {Res_Container, Res_Deployment}
        \<or> (ri_kind resource = Res_Deployment \<and> \<not> nonempty_opt (ri_resource_version resource))
     then Inl ''Database preparation requires a captured physical workload''
     else case (pp_stage self, pp_management self) of
        (Prep_ManagementReady, Some management) \<Rightarrow>
          if rt_physical_uid management \<noteq> []
             \<and> rt_deployment_generation management = pp_deployment_generation self
             \<and> (ri_kind resource \<noteq> Res_Container \<or> rt_physical_uid management = ri_uid resource)
          then Inr ()
          else Inl ''Database preparation management evidence is incomplete''
      | (Prep_Captured, None) \<Rightarrow> Inr ()
      | (Prep_StartSubmitted, None) \<Rightarrow> Inr ()
      | _ \<Rightarrow> Inl ''Database preparation management evidence is incomplete''))"

lemma preparation_operation_context:
  "validate_preparation_operation e op = Inr u \<Longrightarrow> context_of_operation (mt_context (pp_target e)) op"
  by (auto simp: validate_preparation_operation_def context_of_operation_def Let_def split: if_splits)

end
