(* ===== verification/Lifecycle_Domain.thy ===== *)
theory Lifecycle_Domain
  imports Database_Evidence
begin

text \<open>
  The pure transitions of \<open>rcoder-storage/src/userapp_lifecycle/domain.rs\<close>: admission,
  progress and the evidence rules each family of operations imposes on it.  The clock
  and the UUID generator are arguments (\<open>now\<close>, \<open>uuid\<close>).
\<close>

definition identity :: "string \<Rightarrow> int \<Rightarrow> string \<Rightarrow> store_error + lifecycle_record" where
  "identity uuid now app_id =
    try_r (map_err InvalidOperation (validate_identifier app_id ''app_id'')) (\<lambda>_.
    Inr \<lparr>lr_runtime_policy = runtime_policy_default, lr_app_id = app_id, lr_lifecycle_id = uuid,
      lr_lifecycle_epoch = 1, lr_metadata_revision = 1, lr_state = App_Active, lr_name = None,
      lr_tenant_id = None, lr_space_id = None, lr_created_at = now,
      lr_active_operations = active_operations_default\<rparr>)"

definition validate_active :: "lifecycle_record \<Rightarrow> store_error + unit" where
  "validate_active app = (if lr_state app \<noteq> App_Active then Inl LifecycleConflict else Inr ())"

definition operation_owns_any_slot :: "lifecycle_record \<Rightarrow> string \<Rightarrow> bool" where
  "operation_owns_any_slot app operation_id \<longleftrightarrow>
    list_ex (\<lambda>scope. slot (lr_active_operations app) scope = Some operation_id)
      [Scope_Application, Scope_Dev, Scope_Prod]"

definition slot_matches_operation :: "lifecycle_record \<Rightarrow> operation_record \<Rightarrow> bool" where
  "slot_matches_operation app operation \<longleftrightarrow>
    slot (lr_active_operations app) (or_scope operation) = Some (or_operation_id operation)"

lemma validate_active_ok [simp]: "validate_active app = Inr u \<longleftrightarrow> lr_state app = App_Active"
  by (simp add: validate_active_def)

lemma operation_owns_any_slot_iff:
  "operation_owns_any_slot app i \<longleftrightarrow> (\<exists>s. slot (lr_active_operations app) s = Some i)"
  by (auto simp: operation_owns_any_slot_def ex_scope_iff)

lemma slot_matches_owns: "slot_matches_operation app op \<Longrightarrow> operation_owns_any_slot app (or_operation_id op)"
  by (auto simp: slot_matches_operation_def operation_owns_any_slot_iff)


section \<open>Admission\<close>

definition validate_request_id :: "string \<Rightarrow> store_error + unit" where
  "validate_request_id request_id =
    (if trim_is_empty request_id \<or> length request_id > 128
     then Inl (InvalidOperation ''request identity must contain between 1 and 128 bytes'')
     else Inr ())"

definition patch_metadata :: "lifecycle_record \<Rightarrow> metadata_patch \<Rightarrow> store_error + lifecycle_record" where
  "patch_metadata app patch =
    try_r (validate_active app) (\<lambda>_.
    if lr_app_id app \<noteq> mp_app_id patch \<or> lr_lifecycle_id app \<noteq> mp_lifecycle_id patch
    then Inl LifecycleConflict
    else if lr_metadata_revision app \<noteq> mp_expected_revision patch
    then Inl VersionConflict
    else let updated = app\<lparr>
           lr_name := (case mp_name patch of None \<Rightarrow> lr_name app | Some name \<Rightarrow> name),
           lr_tenant_id := (case mp_tenant_id patch of None \<Rightarrow> lr_tenant_id app | Some tenant \<Rightarrow> tenant),
           lr_space_id := (case mp_space_id patch of None \<Rightarrow> lr_space_id app | Some space \<Rightarrow> space)\<rparr>
         in if updated \<noteq> app
            then try_r (ok_or (InvalidOperation ''metadata revision exhausted'')
                          (checked_add (lr_metadata_revision app) 1)) (\<lambda>revision.
                   Inr (updated\<lparr>lr_metadata_revision := revision\<rparr>))
            else Inr app)"

text \<open>The first in-flight operation whose scope conflicts with the requested one,
  application-wide operations first.\<close>

definition find_blocker ::
  "operation_scope \<Rightarrow> active_operation_records \<Rightarrow> (operation_scope \<times> operation_record) option" where
  "find_blocker scope active =
    (case filter (\<lambda>b. userapp_scope_blocks_request scope b \<and> record_slot active b \<noteq> None)
            [Scope_Application, Scope_Dev, Scope_Prod] of
       [] \<Rightarrow> None
     | b # _ \<Rightarrow> map_option (\<lambda>operation. (b, operation)) (record_slot active b))"

text \<open>The operation an \<open>EnsureBuilder\<close> request may join.\<close>

definition joinable ::
  "lifecycle_record \<Rightarrow> admission_request \<Rightarrow> operation_record \<Rightarrow> bool" where
  "joinable app request joined \<longleftrightarrow>
    \<not> op_is_terminal (or_state joined)
    \<and> or_state joined \<noteq> Op_RecoveryRequired
    \<and> or_kind joined = Kind_EnsureBuilder
    \<and> ad_kind request = or_kind joined
    \<and> or_lifecycle_id joined = lr_lifecycle_id app
    \<and> or_request_fingerprint joined = ad_request_fingerprint request
    \<and> or_command joined = ad_command request
    \<and> or_runtime_policy_on_success joined = ad_runtime_policy_on_success request
    \<and> or_admitted_metadata joined = ad_metadata request"

definition admitted_operation :: "int \<Rightarrow> lifecycle_record \<Rightarrow> admission_request \<Rightarrow> operation_record" where
  "admitted_operation now app request =
    \<lparr>or_runtime_policy_on_success = ad_runtime_policy_on_success request,
     or_command = ad_command request, or_admitted_metadata = ad_metadata request,
     or_operation_id = ad_operation_id request, or_app_id = lr_app_id app,
     or_lifecycle_id = lr_lifecycle_id app, or_request_id = ad_request_id request,
     or_request_fingerprint = ad_request_fingerprint request, or_kind = ad_kind request,
     or_scope = kind_scope (ad_kind request), or_state = Op_Pending, or_revision = 1,
     or_executor_id = None, or_step = ''admitted'', or_checkpoint = JNull,
     or_error_code = None, or_error_message = None, or_created_at = now\<rparr>"

definition validate_admission_request :: "admission_request \<Rightarrow> store_error + unit" where
  "validate_admission_request request =
    (if ad_runtime_policy_on_success request \<noteq> None
        \<and> ad_kind request \<notin> {Kind_Create, Kind_Update, Kind_StartDeployment, Kind_RestartDeployment}
     then Inl (InvalidOperation ''Configuration policy projection requires a create or update operation'')
     else if (case ad_command request of
           Some (Cmd_SetRecyclePolicy policy) \<Rightarrow>
             rp_recycle_enabled policy = None \<and> rp_idle_timeout_seconds policy = None
             \<and> rp_wake_on_traffic policy = None
         | _ \<Rightarrow> False)
     then Inl (InvalidOperation ''At least one runtime policy field is required'')
     else if (case ad_command request of
           None \<Rightarrow> False | Some command \<Rightarrow> command_kind command \<noteq> ad_kind request)
     then Inl (InvalidOperation ''Control command does not match operation kind'')
     else try_r (map_err (\<lambda>_. InvalidOperation ''invalid operation identity'')
                   (validate_identifier (ad_operation_id request) ''operation_id'')) (\<lambda>_.
     try_r (case ad_request_id request of None \<Rightarrow> Inr () | Some i \<Rightarrow> validate_request_id i) (\<lambda>_.
     if ad_operation_id request = [] \<or> ad_request_fingerprint request = []
        \<or> ad_request_id request = Some []
     then Inl (InvalidOperation ''operation identity and fingerprint must be nonempty'')
     else Inr ())))"

text \<open>Past the replay and join checks: the conflict matrix, the metadata intent and the slot.\<close>

definition admit_fresh ::
  "int \<Rightarrow> lifecycle_record \<Rightarrow> admission_request \<Rightarrow> active_operation_records \<Rightarrow>
   store_error + (admission_outcome \<times> lifecycle_record)" where
  "admit_fresh now app request active =
    (let scope = kind_scope (ad_kind request) in
     case find_blocker scope active of
       Some (blocker_scope, operation) \<Rightarrow>
         Inl (OperationInProgress ((blocker operation)\<lparr>ob_scope := blocker_scope\<rparr>))
     | None \<Rightarrow>
         try_r (case ad_metadata request of None \<Rightarrow> Inr app | Some patch \<Rightarrow> patch_metadata app patch) (\<lambda>app.
         let operation = admitted_operation now app request;
             app = app\<lparr>lr_active_operations :=
               set_slot scope (Some (or_operation_id operation)) (lr_active_operations app)\<rparr>;
             app = (if ends_lifecycle (or_kind operation) then app\<lparr>lr_state := App_Deleting\<rparr> else app)
         in Inr (Accepted operation, app)))"

definition admission ::
  "int \<Rightarrow> lifecycle_record \<Rightarrow> admission_request \<Rightarrow> operation_record option \<Rightarrow>
   active_operation_records \<Rightarrow> store_error + (admission_outcome \<times> lifecycle_record)" where
  "admission now app request duplicate active =
    try_r (validate_admission_request request) (\<lambda>_.
    if (case ad_lifecycle_id request of None \<Rightarrow> False | Some i \<Rightarrow> i \<noteq> lr_lifecycle_id app)
       \<or> (lr_lifecycle_epoch app > 1 \<and> ad_lifecycle_id request = None)
    then Inl LifecycleConflict
    else case duplicate of
      Some dup \<Rightarrow>
        if or_lifecycle_id dup \<noteq> lr_lifecycle_id app then Inl LifecycleConflict
        else if or_kind dup \<noteq> ad_kind request
           \<or> or_scope dup \<noteq> kind_scope (ad_kind request)
           \<or> or_command dup \<noteq> ad_command request
           \<or> or_runtime_policy_on_success dup \<noteq> ad_runtime_policy_on_success request
           \<or> or_request_fingerprint dup \<noteq> ad_request_fingerprint request
           \<or> or_admitted_metadata dup \<noteq> ad_metadata request
        then Inl (InvalidOperation ''request identity was reused with different parameters'')
        else Inr (Existing dup, app)
    | None \<Rightarrow>
        try_r (validate_active app) (\<lambda>_.
        let scope = kind_scope (ad_kind request);
            joined = (if scope = Scope_Dev then ar_dev active else None)
        in case joined of
          Some j \<Rightarrow>
            if joinable app request j then Inr (Existing j, app)
            else admit_fresh now app request active
        | None \<Rightarrow> admit_fresh now app request active))"


section \<open>Evidence rules of progress\<close>

definition fence_released_evidence_key :: string where
  "fence_released_evidence_key = ''fence_released_evidence''"

definition failure_checkpoint_preserved :: "json \<Rightarrow> json \<Rightarrow> bool" where
  "failure_checkpoint_preserved previous nxt \<longleftrightarrow>
    previous = nxt
    \<or> (case as_object nxt of
         None \<Rightarrow> False
       | Some m \<Rightarrow>
           let m' = obj_remove fence_released_evidence_key m in
           (is_null previous \<and> m' = []) \<or> previous = JObj m')"

text \<open>The stage a deletion must have confirmed before it may succeed.\<close>

definition final_deletion_stage :: "operation_kind \<Rightarrow> deletion_stage" where
  "final_deletion_stage kind =
    (if kind = Kind_DeleteCompute then Del_ComputeRemoved else Del_DevelopmentRemoved)"

definition validate_deletion_progress ::
  "operation_record \<Rightarrow> operation_progress \<Rightarrow> store_error + unit" where
  "validate_deletion_progress operation progress =
    (if or_kind operation \<notin> {Kind_DeleteCompute, Kind_PurgeResources, Kind_DeleteApplication}
     then Inr ()
     else if pg_state progress \<in> {Op_Failed, Op_RecoveryRequired}
     then (if failure_checkpoint_preserved (or_checkpoint operation) (pg_checkpoint progress)
           then Inr ()
           else Inl (InvalidOperation ''Deletion failure must preserve its last recorded evidence''))
     else if pg_state progress = Op_Running \<and> is_null (pg_checkpoint progress)
        \<and> is_null (or_checkpoint operation)
     then Inr ()
     else try_r (ok_or (InvalidOperation ''Deletion progress requires a complete typed checkpoint'')
                   (dec_deletion_checkpoint (pg_checkpoint progress))) (\<lambda>nxt.
     try_r (map_err InvalidOperation (validate_deletion_operation nxt operation)) (\<lambda>_.
     if is_null (or_checkpoint operation)
     then (if pg_state progress \<noteq> Op_Running \<or> dc_stage nxt \<noteq> Del_Captured
           then Inl (InvalidOperation ''Deletion must first record its captured resources'')
           else Inr ())
     else try_r (ok_or (InvalidOperation ''Stored deletion evidence requires explicit reconciliation'')
                   (dec_deletion_checkpoint (or_checkpoint operation))) (\<lambda>previous.
     if nxt\<lparr>dc_stage := dc_stage previous\<rparr> \<noteq> previous
     then Inl (InvalidOperation ''Deletion resource evidence cannot change during execution'')
     else if pg_state progress = Op_Succeeded
     then (let required = final_deletion_stage (or_kind operation) in
           if dc_stage nxt \<noteq> required \<or> dc_stage previous \<noteq> required
           then Inl (InvalidOperation ''Deletion cannot succeed before its final confirmed stage'')
           else Inr ())
     else if pg_state progress \<noteq> Op_Running
        \<or> (dc_stage previous, dc_stage nxt) \<notin>
            {(Del_Captured, Del_ComputeRemoved),
             (Del_ComputeRemoved, Del_ProductionStorageRemoved),
             (Del_ProductionStorageRemoved, Del_DevelopmentRemoved)}
     then Inl (InvalidOperation ''Deletion stages must advance in order'')
     else Inr ()))))"

definition validate_storage_destruction_progress ::
  "operation_record \<Rightarrow> operation_progress \<Rightarrow> store_error + unit" where
  "validate_storage_destruction_progress operation progress =
    (if or_kind operation \<notin> {Kind_DestroyProdStorage, Kind_DestroyDevStorage} then Inr ()
     else let production = (or_kind operation = Kind_DestroyProdStorage) in
     if pg_state progress \<in> {Op_Failed, Op_RecoveryRequired}
     then (if failure_checkpoint_preserved (or_checkpoint operation) (pg_checkpoint progress)
           then Inr ()
           else Inl (InvalidOperation ''Storage failure must preserve captured identities''))
     else if pg_state progress = Op_Running \<and> is_null (pg_checkpoint progress)
        \<and> is_null (or_checkpoint operation)
     then Inr ()
     else try_r (ok_or (InvalidOperation ''Storage destruction requires typed resource evidence'')
                   (dec_storage_destruction (pg_checkpoint progress))) (\<lambda>evidence.
     try_r (map_err InvalidOperation (validate_storage_destruction evidence)) (\<lambda>_.
     if ec_app_id (sd_context evidence) \<noteq> or_app_id operation
        \<or> ec_lifecycle_id (sd_context evidence) \<noteq> or_lifecycle_id operation
        \<or> ec_operation_id (sd_context evidence) \<noteq> or_operation_id operation
        \<or> Some (ec_executor_id (sd_context evidence)) \<noteq> or_executor_id operation
        \<or> ec_request_fingerprint (sd_context evidence) \<noteq> or_request_fingerprint operation
        \<or> (sd_production evidence \<noteq> None) \<noteq> production
     then Inl (InvalidOperation ''Storage evidence does not match operation identity or scope'')
     else if is_null (or_checkpoint operation)
     then (if pg_state progress = Op_Running \<and> pg_step progress = ''storage_captured'' then Inr ()
           else Inl (InvalidOperation ''Storage destruction must capture resources before execution''))
     else if pg_checkpoint progress \<noteq> or_checkpoint operation
     then Inl (InvalidOperation ''Storage destruction cannot replace captured resources'')
     else let ordered =
            (if or_step operation = ''storage_captured''
                \<and> pg_step progress = ''production_storage_removed'' then production
             else if or_step operation = ''storage_captured''
                \<and> pg_step progress = destruction_complete_step then \<not> production
             else if or_step operation = ''production_storage_removed''
                \<and> pg_step progress = destruction_complete_step then production
             else False)
     in if (pg_state progress = Op_Running \<and> ordered)
           \<or> (pg_state progress = Op_Succeeded \<and> or_step operation = destruction_complete_step)
        then Inr ()
        else Inl (InvalidOperation ''Storage destruction must confirm each stage before success''))))"

definition clear_scope_matches :: "bool \<Rightarrow> lifecycle_record \<Rightarrow> storage_clear_target \<Rightarrow> bool" where
  "clear_scope_matches production app target =
    (case target of
       Clear_Production snapshot directories \<Rightarrow>
         production \<and> ds_app_id snapshot = lr_app_id app
         \<and> list_all (\<lambda>directory. is_absolute (cd_path directory)) directories
     | Clear_Development url _ _ receipt \<Rightarrow>
         \<not> production \<and> bs_app_id (dr_runtime receipt) = lr_app_id app \<and> url \<noteq> [])"

definition validate_storage_clear_progress ::
  "lifecycle_record \<Rightarrow> operation_record \<Rightarrow> operation_progress \<Rightarrow> store_error + unit" where
  "validate_storage_clear_progress app operation progress =
    (if or_kind operation \<notin> {Kind_ClearProdStorage, Kind_ClearDevStorage} then Inr ()
     else let production = (or_kind operation = Kind_ClearProdStorage) in
     if pg_state progress \<in> {Op_Failed, Op_RecoveryRequired}
     then (if failure_checkpoint_preserved (or_checkpoint operation) (pg_checkpoint progress)
           then Inr ()
           else Inl (InvalidOperation ''Storage clear failure must preserve its target evidence''))
     else if pg_state progress = Op_Running \<and> is_null (pg_checkpoint progress)
        \<and> is_null (or_checkpoint operation)
     then Inr ()
     else try_r (ok_or (InvalidOperation ''Storage clear requires typed target evidence'')
                   (dec_storage_clear (pg_checkpoint progress))) (\<lambda>evidence.
     try_r (map_err InvalidOperation (validate_storage_clear evidence)) (\<lambda>_.
     try_r (map_err InvalidOperation (validate_identity (sc_context evidence) (or_app_id operation))) (\<lambda>_.
     if ec_lifecycle_id (sc_context evidence) \<noteq> or_lifecycle_id operation
        \<or> ec_operation_id (sc_context evidence) \<noteq> or_operation_id operation
        \<or> ec_request_fingerprint (sc_context evidence) \<noteq> or_request_fingerprint operation
        \<or> Some (ec_executor_id (sc_context evidence)) \<noteq> or_executor_id operation
     then Inl (InvalidOperation ''Storage clear evidence does not belong to the operation'')
     else if \<not> clear_scope_matches production app (sc_target evidence)
     then Inl (InvalidOperation ''Storage clear target scope mismatch'')
     else if is_null (or_checkpoint operation)
     then (if pg_state progress = Op_Running \<and> pg_step progress = ''clear_target_captured'' then Inr ()
           else Inl (InvalidOperation ''Storage clear must capture targets before execution''))
     else if or_checkpoint operation \<noteq> pg_checkpoint progress
     then Inl (InvalidOperation ''Storage clear cannot change captured targets'')
     else if (pg_state progress = Op_Running \<and> or_step operation = ''clear_target_captured''
              \<and> pg_step progress = clear_complete_step)
        \<or> (pg_state progress = Op_Succeeded \<and> or_step operation = clear_complete_step)
     then Inr ()
     else Inl (InvalidOperation ''Storage clear cannot succeed before confirmed completion'')))))"

definition password_order_error :: store_error where
  "password_order_error = InvalidOperation
    ''Database password writes require ordered physical evidence; uncertain writes remain protected''"

definition validate_database_password_progress ::
  "operation_record \<Rightarrow> operation_progress \<Rightarrow> store_error + unit" where
  "validate_database_password_progress operation progress =
    (if or_kind operation \<notin> {Kind_ResetDevDatabasePassword, Kind_ResetProdDatabasePassword}
     then Inr ()
     else if is_null (or_checkpoint operation)
     then (if failure_checkpoint_preserved (or_checkpoint operation) (pg_checkpoint progress)
           then (if pg_state progress \<in> {Op_Failed, Op_RecoveryRequired}
                    \<or> (pg_state progress = Op_Running \<and> pg_step progress = ''claimed'')
                 then Inr () else Inl password_order_error)
           else try_r (ok_or password_order_error
                         (dec_database_password_evidence (pg_checkpoint progress))) (\<lambda>evidence.
                try_r (map_err InvalidOperation (validate_password_operation evidence operation)) (\<lambda>_.
                if pg_state progress = Op_Running \<and> pe_stage evidence = Pw_Captured
                then Inr () else Inl password_order_error)))
     else try_r (ok_or password_order_error
                   (dec_database_password_evidence (or_checkpoint operation))) (\<lambda>before.
     try_r (ok_or password_order_error
              (dec_database_password_evidence (pg_checkpoint progress))) (\<lambda>after.
     try_r (map_err InvalidOperation (validate_password_operation before operation)) (\<lambda>_.
     try_r (map_err InvalidOperation (validate_password_operation after operation)) (\<lambda>_.
     if pe_receipt_protocol before \<noteq> pe_receipt_protocol after
        \<or> pe_context before \<noteq> pe_context after
        \<or> pe_username before \<noteq> pe_username after
        \<or> pe_target before \<noteq> pe_target after
     then Inl password_order_error
     else if pg_state progress = Op_RecoveryRequired \<and> before = after then Inr ()
     else if pg_state progress = Op_Failed \<and> before = after
        \<and> pe_stage before \<in> {Pw_Captured, Pw_Cancelled}
     then Inr ()
     else if pg_state progress = Op_Succeeded \<and> before = after \<and> pe_stage before = Pw_Verified
     then Inr ()
     else if pg_state progress = Op_Running
        \<and> (before = after
           \<or> (pe_stage before, pe_stage after) \<in>
               {(Pw_Captured, Pw_WriteSubmitted), (Pw_WriteSubmitted, Pw_Verified),
                (Pw_WriteSubmitted, Pw_Cancelled)})
     then Inr ()
     else Inl password_order_error)))))"

definition preparation_order_error :: store_error where
  "preparation_order_error = InvalidOperation
    ''Database management preparation requires ordered identity-bound evidence''"

definition validate_database_preparation_progress ::
  "operation_record \<Rightarrow> operation_progress \<Rightarrow> store_error + unit" where
  "validate_database_preparation_progress operation progress =
    (if or_kind operation \<noteq> Kind_PrepareProdDatabase then Inr ()
     else if is_null (or_checkpoint operation)
        \<and> failure_checkpoint_preserved (or_checkpoint operation) (pg_checkpoint progress)
     then (if pg_state progress \<in> {Op_Failed, Op_RecoveryRequired}
              \<or> (pg_state progress = Op_Running \<and> pg_step progress = ''claimed'')
           then Inr () else Inl preparation_order_error)
     else try_r (ok_or preparation_order_error
                   (dec_database_preparation_evidence (pg_checkpoint progress))) (\<lambda>after.
     try_r (map_err InvalidOperation (validate_preparation_operation after operation)) (\<lambda>_.
     if is_null (or_checkpoint operation)
     then (if pg_state progress = Op_Running \<and> pp_stage after = Prep_Captured
           then Inr () else Inl preparation_order_error)
     else try_r (ok_or preparation_order_error
                   (dec_database_preparation_evidence (or_checkpoint operation))) (\<lambda>before.
     try_r (map_err InvalidOperation (validate_preparation_operation before operation)) (\<lambda>_.
     if pp_target before \<noteq> pp_target after
        \<or> pp_deployment_generation before \<noteq> pp_deployment_generation after
     then Inl preparation_order_error
     else if before = after
        \<and> (pg_state progress = Op_RecoveryRequired
           \<or> (pg_state progress = Op_Failed \<and> pp_stage before = Prep_Captured)
           \<or> (pg_state progress = Op_Succeeded \<and> pp_stage before = Prep_ManagementReady))
     then Inr ()
     else if pg_state progress = Op_Running
        \<and> (before = after
           \<or> (pp_stage before, pp_stage after) \<in>
               {(Prep_Captured, Prep_StartSubmitted), (Prep_StartSubmitted, Prep_ManagementReady)})
     then Inr ()
     else Inl preparation_order_error)))))"


section \<open>Progress\<close>

text \<open>The runtime policy a successful operation publishes.\<close>

definition applied_policy :: "operation_record \<Rightarrow> runtime_policy option" where
  "applied_policy operation =
    (case or_command operation of
       Some (Cmd_SetRecyclePolicy policy) \<Rightarrow> Some policy
     | Some (Cmd_Start _) \<Rightarrow> Some (runtime_policy_default\<lparr>rp_wake_on_traffic := Some True\<rparr>)
     | Some Cmd_Restart \<Rightarrow> Some (runtime_policy_default\<lparr>rp_wake_on_traffic := Some True\<rparr>)
     | None \<Rightarrow> or_runtime_policy_on_success operation
     | Some (Cmd_Create _) \<Rightarrow> or_runtime_policy_on_success operation
     | Some (Cmd_Update _) \<Rightarrow> or_runtime_policy_on_success operation
     | Some (Cmd_Deploy _ _ _) \<Rightarrow> or_runtime_policy_on_success operation
     | Some _ \<Rightarrow> None)"

text \<open>The effect of a terminal commit on the application: policy, own slot, lifecycle state.\<close>

definition settle_app ::
  "lifecycle_record \<Rightarrow> operation_record \<Rightarrow> operation_progress \<Rightarrow> store_error + lifecycle_record" where
  "settle_app app operation progress =
    try_r (case applied_policy operation of
        Some policy \<Rightarrow>
          if pg_state progress = Op_Succeeded
          then (let applied = policy_merge (lr_runtime_policy app) policy in
                if applied \<noteq> lr_runtime_policy app
                then try_r (ok_or (InvalidOperation ''metadata revision exhausted'')
                              (checked_add (lr_metadata_revision app) 1)) (\<lambda>revision.
                       Inr (app\<lparr>lr_metadata_revision := revision, lr_runtime_policy := applied\<rparr>))
                else Inr app)
          else Inr app
      | None \<Rightarrow> Inr app) (\<lambda>app.
    let app = app\<lparr>lr_active_operations := set_slot (or_scope operation) None (lr_active_operations app)\<rparr>
    in Inr (if ends_lifecycle (or_kind operation)
            then app\<lparr>lr_state := (if pg_state progress = Op_Succeeded then App_Deleted else App_Active)\<rparr>
            else app))"

text \<open>The part of \<open>advance\<close> behind the executor claim: the state rules, the evidence rules
  of each family of kinds, and the commit.\<close>

definition apply_progress ::
  "lifecycle_record \<Rightarrow> operation_record \<Rightarrow> operation_progress \<Rightarrow>
   store_error + (lifecycle_record \<times> operation_record)" where
  "apply_progress app operation progress =
    (if op_is_terminal (or_state operation) \<or> pg_state progress = Op_Pending \<or> pg_step progress = []
     then Inl (InvalidOperation ''invalid operation state transition'')
     else if pg_state progress = Op_Failed \<and> ends_lifecycle (or_kind operation)
        \<and> (or_step operation \<noteq> ''claimed'' \<or> \<not> is_null (or_checkpoint operation))
     then Inl (InvalidOperation ''incomplete deletion requires recovery, not terminal failure'')
     else try_r (validate_deletion_progress operation progress) (\<lambda>_.
     try_r (validate_storage_destruction_progress operation progress) (\<lambda>_.
     try_r (validate_storage_clear_progress app operation progress) (\<lambda>_.
     try_r (validate_database_password_progress operation progress) (\<lambda>_.
     try_r (validate_database_preparation_progress operation progress) (\<lambda>_.
     try_r (if op_is_terminal (pg_state progress) then settle_app app operation progress else Inr app) (\<lambda>app.
     try_r (ok_or (InvalidOperation ''operation revision exhausted'')
              (checked_add (or_revision operation) 1)) (\<lambda>revision.
     Inr (app, operation\<lparr>or_revision := revision, or_state := pg_state progress,
       or_step := pg_step progress, or_checkpoint := pg_checkpoint progress,
       or_error_code := pg_error_code progress, or_error_message := pg_error_message progress\<rparr>)))))))))"

definition advance ::
  "lifecycle_record \<Rightarrow> operation_record \<Rightarrow> operation_progress \<Rightarrow>
   store_error + (lifecycle_record \<times> operation_record)" where
  "advance app operation progress =
    (if lr_lifecycle_id app \<noteq> pg_lifecycle_id progress
        \<or> or_lifecycle_id operation \<noteq> pg_lifecycle_id progress
     then Inl LifecycleConflict
     else if slot (lr_active_operations app) (or_scope operation) \<noteq> Some (or_operation_id operation)
        \<or> or_revision operation \<noteq> pg_expected_revision progress
     then Inl VersionConflict
     else try_r (map_err (\<lambda>_. InvalidOperation ''invalid executor identity'')
                   (validate_identifier (pg_executor_id progress) ''executor_id'')) (\<lambda>_.
     try_r (ok_or (InvalidOperation ''operation requires an exclusive execution claim'')
              (authorize_userapp_progress_claim (or_state operation) (pg_state progress)
                 (or_executor_id operation = Some (pg_executor_id progress)))) (\<lambda>claim.
     apply_progress app
       (if claim = AcquireExecutor then operation\<lparr>or_executor_id := Some (pg_executor_id progress)\<rparr>
        else operation)
       progress)))"

end
