(* ===== verification/Domain_Laws.thy ===== *)
theory Domain_Laws
  imports Lifecycle_Domain
begin

text \<open>
  Inversion and frame lemmas of the transitions in \<open>Lifecycle_Domain\<close>: what an accepted
  admission and an accepted progress update say about their arguments, and which fields
  they leave alone.
\<close>


section \<open>Admission\<close>

lemma find_blocker_None_iff:
  "find_blocker s active = None \<longleftrightarrow>
    (\<forall>b. userapp_scope_blocks_request s b \<longrightarrow> record_slot active b = None)"
  by (cases s) (auto simp: find_blocker_def all_scope_iff)

lemma find_blocker_SomeD:
  "find_blocker s active = Some (b, op) \<Longrightarrow>
    userapp_scope_blocks_request s b \<and> record_slot active b = Some op"
  by (cases s) (auto simp: find_blocker_def split: if_splits)

lemma patch_metadata_frame:
  assumes "patch_metadata app p = Inr app'"
  shows "lr_state app = App_Active" "lr_state app' = lr_state app" "lr_app_id app' = lr_app_id app"
    "lr_lifecycle_id app' = lr_lifecycle_id app" "lr_lifecycle_epoch app' = lr_lifecycle_epoch app"
    "lr_runtime_policy app' = lr_runtime_policy app" "lr_created_at app' = lr_created_at app"
    "lr_active_operations app' = lr_active_operations app"
    "lr_metadata_revision app = mp_expected_revision p"
  using assms by (auto simp: patch_metadata_def Let_def split: if_splits)

lemma patch_metadata_revision:
  assumes "patch_metadata app p = Inr app'"
  shows "app' = app \<or> lr_metadata_revision app' = lr_metadata_revision app + 1"
  using assms by (auto simp: patch_metadata_def Let_def checked_add_Some_iff split: if_splits)

lemma admission_Accepted_fresh:
  assumes "admission now app rq dup active = Inr (Accepted op, app')"
  shows "validate_admission_request rq = Inr () \<and> dup = None \<and> lr_state app = App_Active
    \<and> \<not> (case ad_lifecycle_id rq of None \<Rightarrow> False | Some i \<Rightarrow> i \<noteq> lr_lifecycle_id app)
    \<and> \<not> (lr_lifecycle_epoch app > 1 \<and> ad_lifecycle_id rq = None)
    \<and> admit_fresh now app rq active = Inr (Accepted op, app')"
  using assms by (simp add: admission_def Let_def split: if_splits option.splits)

lemma admit_fresh_AcceptedE:
  assumes "admit_fresh now app rq active = Inr (Accepted op, app')"
  obtains app1 where
    "find_blocker (kind_scope (ad_kind rq)) active = None"
    "(case ad_metadata rq of None \<Rightarrow> Inr app | Some p \<Rightarrow> patch_metadata app p) = Inr app1"
    "op = admitted_operation now app1 rq"
    "app' = app1\<lparr>lr_active_operations :=
         set_slot (kind_scope (ad_kind rq)) (Some (ad_operation_id rq)) (lr_active_operations app1),
       lr_state := (if ends_lifecycle (ad_kind rq) then App_Deleting else lr_state app1)\<rparr>"
proof (cases "find_blocker (kind_scope (ad_kind rq)) active")
  case None
  then obtain app1 where a: "(case ad_metadata rq of None \<Rightarrow> Inr app | Some p \<Rightarrow> patch_metadata app p) = Inr app1"
    "op = admitted_operation now app1 rq"
    "app' = (if ends_lifecycle (or_kind op)
       then app1\<lparr>lr_active_operations := set_slot (kind_scope (ad_kind rq)) (Some (or_operation_id op))
              (lr_active_operations app1), lr_state := App_Deleting\<rparr>
       else app1\<lparr>lr_active_operations := set_slot (kind_scope (ad_kind rq)) (Some (or_operation_id op))
              (lr_active_operations app1)\<rparr>)"
    using assms unfolding admit_fresh_def Let_def by auto
  have "or_kind op = ad_kind rq" "or_operation_id op = ad_operation_id rq"
    using a(2) by (simp_all add: admitted_operation_def)
  with a(3) have "app' = app1\<lparr>lr_active_operations :=
         set_slot (kind_scope (ad_kind rq)) (Some (ad_operation_id rq)) (lr_active_operations app1),
       lr_state := (if ends_lifecycle (ad_kind rq) then App_Deleting else lr_state app1)\<rparr>"
    by (cases "ends_lifecycle (ad_kind rq)") simp_all
  with None a(1,2) show thesis
    by (rule that)
next
  case (Some p)
  then show thesis
    using assms by (cases p) (simp add: admit_fresh_def Let_def)
qed

lemma metadata_intent_frame:
  assumes "(case m of None \<Rightarrow> Inr app | Some p \<Rightarrow> patch_metadata app p) = Inr app1"
  shows "lr_state app1 = lr_state app" "lr_app_id app1 = lr_app_id app"
    "lr_lifecycle_id app1 = lr_lifecycle_id app" "lr_lifecycle_epoch app1 = lr_lifecycle_epoch app"
    "lr_runtime_policy app1 = lr_runtime_policy app" "lr_created_at app1 = lr_created_at app"
    "lr_active_operations app1 = lr_active_operations app"
    "lr_metadata_revision app1 \<ge> lr_metadata_revision app"
  using assms
  by (auto split: option.splits dest: patch_metadata_frame patch_metadata_revision)

section \<open>Progress\<close>

text \<open>The operation as the progress claim leaves it.\<close>

definition claimed_operation :: "operation_record \<Rightarrow> operation_progress \<Rightarrow> operation_record" where
  "claimed_operation op pg =
    (if or_state op = Op_Running then op else op\<lparr>or_executor_id := Some (pg_executor_id pg)\<rparr>)"

definition progressed_operation :: "operation_record \<Rightarrow> operation_progress \<Rightarrow> operation_record" where
  "progressed_operation op pg = (claimed_operation op pg)
    \<lparr>or_revision := or_revision op + 1, or_state := pg_state pg, or_step := pg_step pg,
     or_checkpoint := pg_checkpoint pg, or_error_code := pg_error_code pg,
     or_error_message := pg_error_message pg\<rparr>"

lemma claimed_operation_simps [simp]:
  "or_runtime_policy_on_success (claimed_operation op pg) = or_runtime_policy_on_success op"
  "or_command (claimed_operation op pg) = or_command op"
  "or_admitted_metadata (claimed_operation op pg) = or_admitted_metadata op"
  "or_operation_id (claimed_operation op pg) = or_operation_id op"
  "or_app_id (claimed_operation op pg) = or_app_id op"
  "or_lifecycle_id (claimed_operation op pg) = or_lifecycle_id op"
  "or_request_id (claimed_operation op pg) = or_request_id op"
  "or_request_fingerprint (claimed_operation op pg) = or_request_fingerprint op"
  "or_kind (claimed_operation op pg) = or_kind op"
  "or_scope (claimed_operation op pg) = or_scope op"
  "or_state (claimed_operation op pg) = or_state op"
  "or_revision (claimed_operation op pg) = or_revision op"
  "or_step (claimed_operation op pg) = or_step op"
  "or_checkpoint (claimed_operation op pg) = or_checkpoint op"
  "or_error_code (claimed_operation op pg) = or_error_code op"
  "or_error_message (claimed_operation op pg) = or_error_message op"
  "or_created_at (claimed_operation op pg) = or_created_at op"
  by (simp_all add: claimed_operation_def)

lemma progressed_operation_simps [simp]:
  "or_runtime_policy_on_success (progressed_operation op pg) = or_runtime_policy_on_success op"
  "or_command (progressed_operation op pg) = or_command op"
  "or_admitted_metadata (progressed_operation op pg) = or_admitted_metadata op"
  "or_operation_id (progressed_operation op pg) = or_operation_id op"
  "or_app_id (progressed_operation op pg) = or_app_id op"
  "or_lifecycle_id (progressed_operation op pg) = or_lifecycle_id op"
  "or_request_id (progressed_operation op pg) = or_request_id op"
  "or_request_fingerprint (progressed_operation op pg) = or_request_fingerprint op"
  "or_kind (progressed_operation op pg) = or_kind op"
  "or_scope (progressed_operation op pg) = or_scope op"
  "or_state (progressed_operation op pg) = pg_state pg"
  "or_revision (progressed_operation op pg) = or_revision op + 1"
  "or_executor_id (progressed_operation op pg) = or_executor_id (claimed_operation op pg)"
  "or_step (progressed_operation op pg) = pg_step pg"
  "or_checkpoint (progressed_operation op pg) = pg_checkpoint pg"
  "or_error_code (progressed_operation op pg) = pg_error_code pg"
  "or_error_message (progressed_operation op pg) = pg_error_message pg"
  "or_created_at (progressed_operation op pg) = or_created_at op"
  by (simp_all add: progressed_operation_def)

text \<open>When a claim is granted, and what it leaves as the executor.\<close>

definition claim_granted :: "operation_record \<Rightarrow> operation_progress \<Rightarrow> bool" where
  "claim_granted op pg \<longleftrightarrow>
    (or_state op \<in> {Op_Pending, Op_WaitingRetry} \<and> pg_state pg = Op_Running)
    \<or> (or_state op = Op_Running \<and> or_executor_id op = Some (pg_executor_id pg))"

lemma claim_granted_executor:
  "claim_granted op pg \<Longrightarrow> or_executor_id (claimed_operation op pg) = Some (pg_executor_id pg)"
  by (auto simp: claim_granted_def claimed_operation_def)

lemma authorize_claimed:
  assumes "authorize_userapp_progress_claim (or_state op) (pg_state pg)
      (or_executor_id op = Some (pg_executor_id pg)) = Some claim"
  shows "claim_granted op pg
    \<and> (if claim = AcquireExecutor then op\<lparr>or_executor_id := Some (pg_executor_id pg)\<rparr> else op)
       = claimed_operation op pg"
proof (cases claim)
  case AcquireExecutor
  with assms have "or_state op = Op_Pending \<or> or_state op = Op_WaitingRetry" "pg_state pg = Op_Running"
    by (simp_all add: authorize_acquire_iff)
  with AcquireExecutor show ?thesis
    by (auto simp only: claim_granted_def claimed_operation_def if_True if_False simp_thms
        operation_state.distinct insert_iff)
next
  case RetainExecutor
  with assms have "or_state op = Op_Running" "or_executor_id op = Some (pg_executor_id pg)"
    by (simp_all add: authorize_retain_iff)
  with RetainExecutor show ?thesis
    by (simp only: claim_granted_def claimed_operation_def if_True if_False simp_thms
        progress_claim.distinct)
qed

lemma apply_progress_okE:
  assumes "apply_progress app op pg = Inr (app', op')"
  obtains
    "\<not> op_is_terminal (or_state op)" "pg_state pg \<noteq> Op_Pending" "pg_step pg \<noteq> []"
    "pg_state pg = Op_Failed \<and> ends_lifecycle (or_kind op) \<longrightarrow>
       or_step op = ''claimed'' \<and> or_checkpoint op = JNull"
    "validate_deletion_progress op pg = Inr ()"
    "validate_storage_destruction_progress op pg = Inr ()"
    "validate_storage_clear_progress app op pg = Inr ()"
    "validate_database_password_progress op pg = Inr ()"
    "validate_database_preparation_progress op pg = Inr ()"
    "(if op_is_terminal (pg_state pg) then settle_app app op pg else Inr app) = Inr app'"
    "op' = op\<lparr>or_revision := or_revision op + 1, or_state := pg_state pg, or_step := pg_step pg,
       or_checkpoint := pg_checkpoint pg, or_error_code := pg_error_code pg,
       or_error_message := pg_error_message pg\<rparr>"
    "or_revision op + 1 \<le> i64_max"
proof -
  note a = assms [unfolded apply_progress_def]
  have g: "\<not> (op_is_terminal (or_state op) \<or> pg_state pg = Op_Pending \<or> pg_step pg = [])"
    "\<not> (pg_state pg = Op_Failed \<and> ends_lifecycle (or_kind op)
        \<and> (or_step op \<noteq> ''claimed'' \<or> \<not> is_null (or_checkpoint op)))"
    using a by (metis Inl_Inr_False)+
  show thesis
    using a g by (intro that) (auto simp only: if_False try_r_unit_iff try_r_Inr_iff ok_or_simps
        checked_add_Some_iff is_null_def prod.inject sum.inject)
qed

lemma advance_okE:
  assumes "advance app op pg = Inr (app', op')"
  obtains
    "lr_lifecycle_id app = pg_lifecycle_id pg" "or_lifecycle_id op = pg_lifecycle_id pg"
    "slot_matches_operation app op" "or_revision op = pg_expected_revision pg"
    "valid_identifier (pg_executor_id pg)" "claim_granted op pg"
    "pg_state pg \<noteq> Op_Pending" "pg_step pg \<noteq> []"
    "pg_state pg = Op_Failed \<and> ends_lifecycle (or_kind op) \<longrightarrow>
       or_step op = ''claimed'' \<and> or_checkpoint op = JNull"
    "validate_deletion_progress (claimed_operation op pg) pg = Inr ()"
    "validate_storage_destruction_progress (claimed_operation op pg) pg = Inr ()"
    "validate_storage_clear_progress app (claimed_operation op pg) pg = Inr ()"
    "validate_database_password_progress (claimed_operation op pg) pg = Inr ()"
    "validate_database_preparation_progress (claimed_operation op pg) pg = Inr ()"
    "(if op_is_terminal (pg_state pg) then settle_app app (claimed_operation op pg) pg else Inr app)
       = Inr app'"
    "op' = progressed_operation op pg" "or_revision op + 1 \<le> i64_max"
proof -
  note a = assms [unfolded advance_def]
  have g: "\<not> (lr_lifecycle_id app \<noteq> pg_lifecycle_id pg \<or> or_lifecycle_id op \<noteq> pg_lifecycle_id pg)"
    "\<not> (slot (lr_active_operations app) (or_scope op) \<noteq> Some (or_operation_id op)
        \<or> or_revision op \<noteq> pg_expected_revision pg)"
    using a by (metis Inl_Inr_False)+
  obtain claim where c:
    "valid_identifier (pg_executor_id pg)"
    "authorize_userapp_progress_claim (or_state op) (pg_state pg)
      (or_executor_id op = Some (pg_executor_id pg)) = Some claim"
    "apply_progress app (if claim = AcquireExecutor
       then op\<lparr>or_executor_id := Some (pg_executor_id pg)\<rparr> else op) pg = Inr (app', op')"
    using a g by (auto simp only: if_False try_r_Inr_iff ok_or_simps map_err_simps validate_identifier_ok)
  have "apply_progress app (claimed_operation op pg) pg = Inr (app', op')"
    using c(3) unfolding authorize_claimed [OF c(2), THEN conjunct2] .
  then show thesis
    using g authorize_claimed [OF c(2)] c(1)
    by (elim apply_progress_okE; intro that)
       (simp_all only: slot_matches_operation_def progressed_operation_def claimed_operation_simps
          simp_thms de_Morgan_disj)
qed

end
