(* ===== verification/Evidence_Protocol.thy ===== *)
theory Evidence_Protocol
  imports Domain_Laws
begin

text \<open>
  Runs of one operation and the contract the five families of evidence rules share.
  A run is a sequence of accepted progress updates of the same operation; the
  application record may change between two of them, because operations of the other
  environment commit in between.  The locale states what a family's validator promises
  of a single update, and derives what the whole history of a successful operation looks
  like; it is interpreted on the validators of \<open>domain.rs\<close>.
\<close>

inductive op_run :: "operation_record \<Rightarrow> operation_progress list \<Rightarrow> operation_record \<Rightarrow> bool" where
  op_run_nil: "op_run op [] op"
| op_run_snoc: "op_run op pgs op' \<Longrightarrow> advance app op' pg = Inr (app', op'') \<Longrightarrow> op_run op (pgs @ [pg]) op''"

inductive_cases op_run_nilE [elim!]: "op_run op [] op'"

lemma op_run_identity:
  assumes "op_run op pgs op'"
  shows "or_kind op' = or_kind op \<and> or_scope op' = or_scope op
    \<and> or_operation_id op' = or_operation_id op \<and> or_app_id op' = or_app_id op
    \<and> or_lifecycle_id op' = or_lifecycle_id op \<and> or_command op' = or_command op
    \<and> or_request_fingerprint op' = or_request_fingerprint op
    \<and> or_revision op' = or_revision op + int (length pgs)"
  using assms by (induction rule: op_run.induct) (auto elim!: advance_okE)

text \<open>Runs computed from one application record.\<close>

fun advance_all ::
  "lifecycle_record \<Rightarrow> operation_record \<Rightarrow> operation_progress list \<Rightarrow>
   store_error + (lifecycle_record \<times> operation_record)" where
  "advance_all app op [] = Inr (app, op)"
| "advance_all app op (pg # pgs) = try_r (advance app op pg) (\<lambda>(app, op). advance_all app op pgs)"

lemma op_run_Cons: "op_run op' pgs op'' \<Longrightarrow> advance app op pg = Inr (app', op') \<Longrightarrow> op_run op (pg # pgs) op''"
  by (induction rule: op_run.induct)
     (use op_run_snoc [OF op_run_nil] op_run_snoc in \<open>force+\<close>)

lemma advance_all_run: "advance_all app op pgs = Inr (app', op') \<Longrightarrow> op_run op pgs op'"
  by (induction pgs arbitrary: app op) (auto intro: op_run_nil op_run_Cons)

text \<open>The evidence recorded while running, in order; \<open>view\<close> reads a step and a checkpoint.\<close>

definition recorded ::
  "(string \<Rightarrow> json \<Rightarrow> 'e option) \<Rightarrow> operation_progress list \<Rightarrow> 'e list" where
  "recorded view pgs = List.map_filter
    (\<lambda>pg. if pg_state pg = Op_Running then view (pg_step pg) (pg_checkpoint pg) else None) pgs"

lemma recorded_Nil [simp]: "recorded view [] = []"
  by (simp add: recorded_def)

lemma recorded_snoc:
  "recorded view (pgs @ [pg]) = recorded view pgs @
    (case (if pg_state pg = Op_Running then view (pg_step pg) (pg_checkpoint pg) else None) of
       None \<Rightarrow> [] | Some e \<Rightarrow> [e])"
  by (simp add: recorded_def map_filter_def split: option.splits)

text \<open>An admitted operation before its first progress update.\<close>

definition unstarted :: "operation_record \<Rightarrow> bool" where
  "unstarted op \<longleftrightarrow> or_state op = Op_Pending \<and> or_checkpoint op = JNull"

lemma admitted_unstarted [simp]: "unstarted (admitted_operation now app rq)"
  by (simp add: unstarted_def admitted_operation_def)

locale evidence_rule =
  fixes kinds :: "operation_kind set"
    and rule :: "operation_record \<Rightarrow> operation_progress \<Rightarrow> bool"
    and view :: "string \<Rightarrow> json \<Rightarrow> 'e option"
    and start :: "'e \<Rightarrow> bool"
    and step :: "'e \<Rightarrow> 'e \<Rightarrow> bool"
    and final :: "operation_record \<Rightarrow> 'e \<Rightarrow> bool"
  assumes advance_rule:
      "advance app op pg = Inr (app', op') \<Longrightarrow> or_kind op \<in> kinds \<Longrightarrow> rule (claimed_operation op pg) pg"
    and view_null: "view s JNull = None"
    and rule_states: "or_kind op \<in> kinds \<Longrightarrow> rule op pg \<Longrightarrow> pg_state pg \<noteq> Op_WaitingRetry"
    and rule_first:
      "or_kind op \<in> kinds \<Longrightarrow> rule op pg \<Longrightarrow> or_checkpoint op = JNull \<Longrightarrow> pg_state pg = Op_Running \<Longrightarrow>
        view (pg_step pg) (pg_checkpoint pg) = Some e \<Longrightarrow> start e"
    and rule_next:
      "or_kind op \<in> kinds \<Longrightarrow> rule op pg \<Longrightarrow> or_checkpoint op \<noteq> JNull \<Longrightarrow> pg_state pg = Op_Running \<Longrightarrow>
        \<exists>e e'. view (or_step op) (or_checkpoint op) = Some e
          \<and> view (pg_step pg) (pg_checkpoint pg) = Some e' \<and> step e e'"
    and rule_success:
      "or_kind op \<in> kinds \<Longrightarrow> rule op pg \<Longrightarrow> pg_state pg = Op_Succeeded \<Longrightarrow>
        \<exists>e. view (or_step op) (or_checkpoint op) = Some e \<and> final op e"
    and final_frame: "final (claimed_operation op pg) e \<Longrightarrow> final (progressed_operation op pg) e"
begin

definition chain :: "'e list \<Rightarrow> bool" where
  "chain es \<longleftrightarrow> es \<noteq> [] \<and> start (hd es) \<and> successively step es"

lemma chain_single: "start e \<Longrightarrow> chain [e]"
  by (simp add: chain_def)

lemma chain_snoc: "chain es \<Longrightarrow> step (last es) e \<Longrightarrow> chain (es @ [e])"
  by (auto simp: chain_def successively_append_iff)

text \<open>While the operation runs, its checkpoint is the last element of the chain.\<close>

definition tracked :: "operation_progress list \<Rightarrow> operation_record \<Rightarrow> bool" where
  "tracked pgs op \<longleftrightarrow>
    (recorded view pgs = [] \<and> view (or_step op) (or_checkpoint op) = None)
    \<or> (chain (recorded view pgs) \<and> view (or_step op) (or_checkpoint op) = Some (last (recorded view pgs)))"

lemma running_step:
  assumes "advance app op pg = Inr (app', op')" "or_kind op \<in> kinds" "tracked pgs op"
    and "pg_state pg = Op_Running"
  shows "tracked (pgs @ [pg]) op'"
proof -
  have op': "op' = progressed_operation op pg"
    using assms(1) by (rule advance_okE)
  have rule: "rule (claimed_operation op pg) pg"
    using advance_rule assms(1,2) .
  show ?thesis
  proof (cases "or_checkpoint op = JNull")
    case True
    with assms(3) have "recorded view pgs = []"
      by (auto simp: tracked_def view_null)
    moreover have "start e" if "view (pg_step pg) (pg_checkpoint pg) = Some e" for e
      using rule_first [OF _ rule] that True assms(2,4) by simp
    ultimately show ?thesis
      using op' assms(4) by (auto simp: tracked_def recorded_snoc chain_single split: option.split)
  next
    case False
    then obtain e e' where e: "view (or_step op) (or_checkpoint op) = Some e"
      "view (pg_step pg) (pg_checkpoint pg) = Some e'" "step e e'"
      using rule_next [OF _ rule] assms(2,4) by auto
    with assms(3) have "chain (recorded view pgs)" "last (recorded view pgs) = e"
      by (auto simp: tracked_def)
    with e op' assms(4) show ?thesis
      by (auto simp: tracked_def recorded_snoc intro: chain_snoc)
  qed
qed

lemma run_tracked:
  assumes "op_run op pgs op'" "or_kind op \<in> kinds" "unstarted op"
  shows "or_state op' \<noteq> Op_WaitingRetry
    \<and> (or_state op' \<in> {Op_Pending, Op_Running} \<longrightarrow> tracked pgs op')
    \<and> (or_state op' = Op_Succeeded \<longrightarrow> chain (recorded view pgs) \<and> final op' (last (recorded view pgs)))"
  using assms
proof (induction rule: op_run.induct)
  case (op_run_nil op)
  then show ?case
    by (simp add: tracked_def view_null unstarted_def)
next
  case (op_run_snoc op pgs op' app pg app' op'')
  note IH = op_run_snoc.IH [OF op_run_snoc.prems]
  have op'': "op'' = progressed_operation op' pg" and claim: "claim_granted op' pg"
    and np: "pg_state pg \<noteq> Op_Pending"
    using op_run_snoc.hyps(2) by (auto elim: advance_okE)
  have kind: "or_kind op' = or_kind op" "or_kind op' \<in> kinds"
    using op_run_identity [OF op_run_snoc.hyps(1)] op_run_snoc.prems by simp_all
  have rule: "rule (claimed_operation op' pg) pg"
    using advance_rule op_run_snoc.hyps(2) kind(2) .
  have tr: "tracked pgs op'"
    using IH claim by (auto simp: claim_granted_def)
  have "pg_state pg \<noteq> Op_WaitingRetry"
    using rule_states [OF _ rule] kind by simp
  moreover have "tracked (pgs @ [pg]) op''" if "pg_state pg = Op_Running"
    using running_step op_run_snoc.hyps(2) kind(2) tr that .
  moreover have "chain (recorded view (pgs @ [pg])) \<and> final op'' (last (recorded view (pgs @ [pg])))"
    if "pg_state pg = Op_Succeeded"
    using rule_success [OF _ rule that] tr kind that final_frame op''
    by (auto simp: tracked_def recorded_snoc)
  ultimately show ?case
    using op'' np by auto
qed

lemma success_history:
  "op_run op pgs op' \<Longrightarrow> or_kind op \<in> kinds \<Longrightarrow> unstarted op \<Longrightarrow> or_state op' = Op_Succeeded \<Longrightarrow>
    chain (recorded view pgs) \<and> final op' (last (recorded view pgs))"
  using run_tracked by blast

end

end
