(* ===== verification/Evidence_Histories.thy ===== *)
theory Evidence_Histories
  imports Evidence_Protocol
begin

text \<open>
  The five families of evidence rules in \<open>domain.rs\<close> as instances of the contract in
  \<open>Evidence_Protocol\<close>, and what the recorded evidence of a successful operation of each
  family looks like.
\<close>

section \<open>Deletion\<close>

definition deletion_kinds :: "operation_kind set" where
  "deletion_kinds = {Kind_DeleteCompute, Kind_PurgeResources, Kind_DeleteApplication}"

fun next_deletion_stage :: "deletion_stage \<Rightarrow> deletion_stage option" where
  "next_deletion_stage Del_Captured = Some Del_ComputeRemoved"
| "next_deletion_stage Del_ComputeRemoved = Some Del_ProductionStorageRemoved"
| "next_deletion_stage Del_ProductionStorageRemoved = Some Del_DevelopmentRemoved"
| "next_deletion_stage Del_DevelopmentRemoved = None"

definition deletion_step :: "deletion_checkpoint \<Rightarrow> deletion_checkpoint \<Rightarrow> bool" where
  "deletion_step e e' \<longleftrightarrow>
    e' = e\<lparr>dc_stage := dc_stage e'\<rparr> \<and> next_deletion_stage (dc_stage e) = Some (dc_stage e')"

lemma next_deletion_stage_pairs:
  "next_deletion_stage a = Some b \<longleftrightarrow>
    (a, b) \<in> {(Del_Captured, Del_ComputeRemoved),
             (Del_ComputeRemoved, Del_ProductionStorageRemoved),
             (Del_ProductionStorageRemoved, Del_DevelopmentRemoved)}"
  by (cases a; cases b) auto

lemma dec_null [simp]:
  "dec_deletion_checkpoint JNull = None"
  "dec_storage_destruction JNull = None"
  "dec_storage_clear JNull = None"
  "dec_database_password_evidence JNull = None"
  "dec_database_preparation_evidence JNull = None"
  by (simp_all add: dec_deletion_checkpoint_def dec_storage_destruction_def dec_storage_clear_def
      dec_database_password_evidence_def dec_database_preparation_evidence_def as_object_def)

lemma same_evidence_swap:
  "nxt\<lparr>dc_stage := dc_stage prev\<rparr> = prev \<Longrightarrow> nxt = prev\<lparr>dc_stage := dc_stage nxt\<rparr>"
  for nxt prev :: deletion_checkpoint
  by (cases nxt; cases prev) auto

definition deletion_final :: "operation_record \<Rightarrow> deletion_checkpoint \<Rightarrow> bool" where
  "deletion_final op e \<longleftrightarrow> dc_stage e = final_deletion_stage (or_kind op)
    \<and> validate_deletion_operation e op = Inr ()"

lemma context_of_progressed [simp]:
  "context_of_operation c (progressed_operation op pg) = context_of_operation c (claimed_operation op pg)"
  by (simp add: context_of_operation_def)

lemma deletion_rule_success:
  assumes "or_kind op \<in> deletion_kinds" "validate_deletion_progress op pg = Inr ()"
    and "pg_state pg = Op_Succeeded"
  obtains e where "dec_deletion_checkpoint (or_checkpoint op) = Some e"
    "deletion_final op e"
proof -
  obtain e e' where e: "dec_deletion_checkpoint (or_checkpoint op) = Some e"
    "validate_deletion_operation e' op = Inr ()" "e'\<lparr>dc_stage := dc_stage e\<rparr> = e"
    "dc_stage e' = dc_stage e" "dc_stage e = final_deletion_stage (or_kind op)"
    using assms by (auto simp: validate_deletion_progress_def deletion_kinds_def is_null_def Let_def
        split: if_splits)
  moreover have "e' = e"
    using same_evidence_swap [OF e(3)] e(4) by (cases e) auto
  ultimately show thesis
    using that by (auto simp: deletion_final_def)
qed

lemma deletion_rule_next:
  assumes "or_kind op \<in> deletion_kinds" "validate_deletion_progress op pg = Inr ()"
    and "or_checkpoint op \<noteq> JNull" "pg_state pg = Op_Running"
  obtains e e' where "dec_deletion_checkpoint (or_checkpoint op) = Some e"
    "dec_deletion_checkpoint (pg_checkpoint pg) = Some e'" "deletion_step e e'"
proof -
  obtain e e' where e: "dec_deletion_checkpoint (or_checkpoint op) = Some e"
    "dec_deletion_checkpoint (pg_checkpoint pg) = Some e'"
    "e'\<lparr>dc_stage := dc_stage e\<rparr> = e" "next_deletion_stage (dc_stage e) = Some (dc_stage e')"
    using assms
    by (auto simp: validate_deletion_progress_def deletion_kinds_def is_null_def Let_def
        next_deletion_stage_pairs split: if_splits)
  then show thesis
    using that by (auto simp: deletion_step_def dest: same_evidence_swap)
qed

interpretation deletion: evidence_rule deletion_kinds
  "\<lambda>op pg. validate_deletion_progress op pg = Inr ()"
  "\<lambda>_. dec_deletion_checkpoint"
  "\<lambda>e. dc_stage e = Del_Captured"
  deletion_step
  deletion_final
proof
  show "validate_deletion_progress (claimed_operation op pg) pg = Inr ()"
    if "advance app op pg = Inr (app', op')" for app op pg app' op'
    using that by (rule advance_okE)
  show "dec_deletion_checkpoint JNull = None" by simp
  show "pg_state pg \<noteq> Op_WaitingRetry"
    if "or_kind op \<in> deletion_kinds" "validate_deletion_progress op pg = Inr ()" for op pg
    using that by (auto simp: validate_deletion_progress_def deletion_kinds_def is_null_def Let_def
        split: if_splits)
  show "dc_stage e = Del_Captured"
    if "or_kind op \<in> deletion_kinds" "validate_deletion_progress op pg = Inr ()"
      "or_checkpoint op = JNull" "pg_state pg = Op_Running"
      "dec_deletion_checkpoint (pg_checkpoint pg) = Some e" for op pg e
    using that by (auto simp: validate_deletion_progress_def deletion_kinds_def is_null_def
        split: if_splits)
  show "\<exists>e e'. dec_deletion_checkpoint (or_checkpoint op) = Some e
      \<and> dec_deletion_checkpoint (pg_checkpoint pg) = Some e' \<and> deletion_step e e'"
    if "or_kind op \<in> deletion_kinds" "validate_deletion_progress op pg = Inr ()"
      "or_checkpoint op \<noteq> JNull" "pg_state pg = Op_Running" for op pg
    using deletion_rule_next [OF that] by blast
  show "\<exists>e. dec_deletion_checkpoint (or_checkpoint op) = Some e
      \<and> deletion_final op e"
    if "or_kind op \<in> deletion_kinds" "validate_deletion_progress op pg = Inr ()"
      "pg_state pg = Op_Succeeded" for op pg
    using deletion_rule_success [OF that] by blast
  show "deletion_final (progressed_operation op pg) e"
    if "deletion_final (claimed_operation op pg) e" for op pg e
    using that by (simp add: deletion_final_def)
qed


section \<open>Storage destruction\<close>

text \<open>The captured identities never change; what advances is the step.\<close>

definition destruction_kinds :: "operation_kind set" where
  "destruction_kinds = {Kind_DestroyProdStorage, Kind_DestroyDevStorage}"

type_synonym destruction_view = "json \<times> storage_destruction \<times> string"

definition destruction_view :: "string \<Rightarrow> json \<Rightarrow> destruction_view option" where
  "destruction_view s c = map_option (\<lambda>e. (c, e, s)) (dec_storage_destruction c)"

definition destruction_start :: "destruction_view \<Rightarrow> bool" where
  "destruction_start v = (case v of (c, e, s) \<Rightarrow> s = ''storage_captured'')"

definition destruction_step :: "destruction_view \<Rightarrow> destruction_view \<Rightarrow> bool" where
  "destruction_step v w = (case (v, w) of ((c, e, s), (c', e', s')) \<Rightarrow>
    c' = c \<and> e' = e \<and>
    (if sd_production e \<noteq> None
     then (s, s') \<in> {(''storage_captured'', ''production_storage_removed''),
                     (''production_storage_removed'', destruction_complete_step)}
     else (s, s') = (''storage_captured'', destruction_complete_step)))"

definition destruction_final :: "operation_record \<Rightarrow> destruction_view \<Rightarrow> bool" where
  "destruction_final op v = (case v of (c, e, s) \<Rightarrow> s = destruction_complete_step
    \<and> (sd_production e \<noteq> None \<longleftrightarrow> or_kind op = Kind_DestroyProdStorage)
    \<and> context_of_operation (sd_context e) op)"

lemma destruction_rule_typed:
  assumes "or_kind op \<in> destruction_kinds" "validate_storage_destruction_progress op pg = Inr ()"
    and "or_checkpoint op \<noteq> JNull" "pg_state pg \<notin> {Op_Failed, Op_RecoveryRequired}"
  obtains e where "dec_storage_destruction (pg_checkpoint pg) = Some e"
    "pg_checkpoint pg = or_checkpoint op"
    "sd_production e \<noteq> None \<longleftrightarrow> or_kind op = Kind_DestroyProdStorage"
    "context_of_operation (sd_context e) op"
    "(pg_state pg = Op_Running \<and> destruction_step (pg_checkpoint pg, e, or_step op) (pg_checkpoint pg, e, pg_step pg))
     \<or> (pg_state pg = Op_Succeeded \<and> or_step op = destruction_complete_step)"
proof -
  have n: "or_kind op \<in> {Kind_DestroyProdStorage, Kind_DestroyDevStorage}"
    using assms(1) by (simp add: destruction_kinds_def)
  obtain e where e: "dec_storage_destruction (pg_checkpoint pg) = Some e"
    using assms(2-4) n by (auto simp: validate_storage_destruction_progress_def is_null_def Let_def
      split: if_splits)
  show thesis
    using assms(2-4) n e
    by (intro that [OF e])
       (auto simp: validate_storage_destruction_progress_def is_null_def Let_def destruction_step_def
        context_of_operation_def
        split: if_splits)
qed

interpretation destruction: evidence_rule destruction_kinds
  "\<lambda>op pg. validate_storage_destruction_progress op pg = Inr ()"
  destruction_view destruction_start destruction_step destruction_final
proof
  show "validate_storage_destruction_progress (claimed_operation op pg) pg = Inr ()"
    if "advance app op pg = Inr (app', op')" for app op pg app' op'
    using that by (rule advance_okE)
  show "destruction_view s JNull = None" for s
    by (simp add: destruction_view_def)
  show "pg_state pg \<noteq> Op_WaitingRetry"
    if "or_kind op \<in> destruction_kinds" "validate_storage_destruction_progress op pg = Inr ()" for op pg
    using that by (auto simp: validate_storage_destruction_progress_def destruction_kinds_def
        is_null_def Let_def split: if_splits)
  show "destruction_start e"
    if "or_kind op \<in> destruction_kinds" "validate_storage_destruction_progress op pg = Inr ()"
      "or_checkpoint op = JNull" "pg_state pg = Op_Running"
      "destruction_view (pg_step pg) (pg_checkpoint pg) = Some e" for op pg e
    using that by (auto simp: validate_storage_destruction_progress_def destruction_kinds_def
        is_null_def destruction_view_def destruction_start_def Let_def split: if_splits)
  show "\<exists>e e'. destruction_view (or_step op) (or_checkpoint op) = Some e
      \<and> destruction_view (pg_step pg) (pg_checkpoint pg) = Some e' \<and> destruction_step e e'"
    if "or_kind op \<in> destruction_kinds" "validate_storage_destruction_progress op pg = Inr ()"
      "or_checkpoint op \<noteq> JNull" "pg_state pg = Op_Running" for op pg
    using that by (elim destruction_rule_typed) (auto simp: destruction_view_def)
  show "\<exists>e. destruction_view (or_step op) (or_checkpoint op) = Some e
      \<and> destruction_final op e"
    if a: "or_kind op \<in> destruction_kinds" "validate_storage_destruction_progress op pg = Inr ()"
      "pg_state pg = Op_Succeeded" for op pg
  proof -
    have "or_checkpoint op \<noteq> JNull"
      using a by (auto simp: validate_storage_destruction_progress_def destruction_kinds_def
        is_null_def Let_def split: if_splits)
    with a show ?thesis
      by (elim destruction_rule_typed) (auto simp: destruction_view_def destruction_final_def)
  qed
  show "destruction_final (progressed_operation op pg) e"
    if "destruction_final (claimed_operation op pg) e" for op pg e
    using that by (simp add: destruction_final_def split: prod.splits)
qed


section \<open>Storage clear\<close>

definition clear_kinds :: "operation_kind set" where
  "clear_kinds = {Kind_ClearProdStorage, Kind_ClearDevStorage}"

type_synonym clear_view = "json \<times> storage_clear \<times> string"

definition clear_view :: "string \<Rightarrow> json \<Rightarrow> clear_view option" where
  "clear_view s c = map_option (\<lambda>e. (c, e, s)) (dec_storage_clear c)"

definition clear_start :: "clear_view \<Rightarrow> bool" where
  "clear_start v = (case v of (c, e, s) \<Rightarrow> s = ''clear_target_captured'')"

definition clear_step :: "clear_view \<Rightarrow> clear_view \<Rightarrow> bool" where
  "clear_step v w = (case (v, w) of ((c, e, s), (c', e', s')) \<Rightarrow>
    c' = c \<and> e' = e \<and> s = ''clear_target_captured'' \<and> s' = clear_complete_step)"

definition clear_final :: "operation_record \<Rightarrow> clear_view \<Rightarrow> bool" where
  "clear_final op v = (case v of (c, e, s) \<Rightarrow>
    s = clear_complete_step \<and> context_of_operation (sc_context e) op)"

lemma clear_rule_typed:
  assumes "or_kind op \<in> clear_kinds" "validate_storage_clear_progress app op pg = Inr ()"
    and "pg_state pg \<notin> {Op_Failed, Op_RecoveryRequired}" "pg_checkpoint pg \<noteq> JNull \<or> or_checkpoint op \<noteq> JNull"
  obtains e where "dec_storage_clear (pg_checkpoint pg) = Some e"
    "context_of_operation (sc_context e) op"
    "(or_checkpoint op = JNull \<and> pg_state pg = Op_Running \<and> pg_step pg = ''clear_target_captured'')
     \<or> (pg_checkpoint pg = or_checkpoint op \<and> pg_state pg = Op_Running
        \<and> clear_step (pg_checkpoint pg, e, or_step op) (pg_checkpoint pg, e, pg_step pg))
     \<or> (pg_checkpoint pg = or_checkpoint op \<and> pg_state pg = Op_Succeeded \<and> or_step op = clear_complete_step)"
proof -
  have k: "\<not> or_kind op \<notin> {Kind_ClearProdStorage, Kind_ClearDevStorage}"
    using assms(1) by (simp add: clear_kinds_def)
  have a: "\<not> (pg_state pg = Op_Running \<and> pg_checkpoint pg = JNull \<and> or_checkpoint op = JNull)"
    using assms(4) by blast
  obtain e where e: "dec_storage_clear (pg_checkpoint pg) = Some e"
    and c: "validate_identity (sc_context e) (or_app_id op) = Inr ()"
      "ec_lifecycle_id (sc_context e) = or_lifecycle_id op"
      "ec_operation_id (sc_context e) = or_operation_id op"
      "ec_request_fingerprint (sc_context e) = or_request_fingerprint op"
      "Some (ec_executor_id (sc_context e)) = or_executor_id op"
    and s: "if or_checkpoint op = JNull
      then pg_state pg = Op_Running \<and> pg_step pg = ''clear_target_captured''
      else or_checkpoint op = pg_checkpoint pg
        \<and> ((pg_state pg = Op_Running \<and> or_step op = ''clear_target_captured''
            \<and> pg_step pg = clear_complete_step)
           \<or> (pg_state pg = Op_Succeeded \<and> or_step op = clear_complete_step))"
    using assms(2,3) k a
    unfolding validate_storage_clear_progress_def is_null_def Let_def
    by (simp only: if_False simp_thms try_r_unit_iff try_r_Inr_iff ok_or_simps map_err_simps
        branch_iffs de_Morgan_disj not_not Inl_Inr_False) (elim exE conjE, rule that, (assumption | simp)+)
  show thesis
    using c s by (intro that [OF e]) (auto simp: context_of_operation_def clear_step_def split: if_splits)
qed

interpretation clear: evidence_rule clear_kinds
  "\<lambda>op pg. \<exists>app. validate_storage_clear_progress app op pg = Inr ()"
  clear_view clear_start clear_step clear_final
proof
  show "\<exists>app. validate_storage_clear_progress app (claimed_operation op pg) pg = Inr ()"
    if "advance app op pg = Inr (app', op')" for app op pg app' op'
    using that by (blast elim: advance_okE)
  show "clear_view s JNull = None" for s
    by (simp add: clear_view_def)
  have waiting: "pg_state pg \<noteq> Op_WaitingRetry \<and> (pg_state pg = Op_Succeeded \<longrightarrow> or_checkpoint op \<noteq> JNull)"
    if "or_kind op \<in> clear_kinds" "validate_storage_clear_progress app op pg = Inr ()" for app op pg
    using that by (auto simp: validate_storage_clear_progress_def clear_kinds_def
        is_null_def Let_def split: if_splits)
  then show "pg_state pg \<noteq> Op_WaitingRetry"
    if "or_kind op \<in> clear_kinds" "\<exists>app. validate_storage_clear_progress app op pg = Inr ()" for op pg
    using that by blast
  show "clear_start e"
    if "or_kind op \<in> clear_kinds" "\<exists>app. validate_storage_clear_progress app op pg = Inr ()"
      "or_checkpoint op = JNull" "pg_state pg = Op_Running"
      "clear_view (pg_step pg) (pg_checkpoint pg) = Some e" for op pg e
    using that by (elim exE clear_rule_typed) (auto simp: clear_view_def clear_start_def clear_step_def)
  show "\<exists>e e'. clear_view (or_step op) (or_checkpoint op) = Some e
      \<and> clear_view (pg_step pg) (pg_checkpoint pg) = Some e' \<and> clear_step e e'"
    if "or_kind op \<in> clear_kinds" "\<exists>app. validate_storage_clear_progress app op pg = Inr ()"
      "or_checkpoint op \<noteq> JNull" "pg_state pg = Op_Running" for op pg
    using that by (elim exE clear_rule_typed) (auto simp: clear_view_def)
  show "\<exists>e. clear_view (or_step op) (or_checkpoint op) = Some e \<and> clear_final op e"
    if "or_kind op \<in> clear_kinds" "\<exists>app. validate_storage_clear_progress app op pg = Inr ()"
      "pg_state pg = Op_Succeeded" for op pg
  proof -
    have "or_checkpoint op \<noteq> JNull"
      using waiting that by blast
    with that show ?thesis
      by (elim exE clear_rule_typed) (auto simp: clear_view_def clear_final_def)
  qed
  show "clear_final (progressed_operation op pg) e"
    if "clear_final (claimed_operation op pg) e" for op pg e
    using that by (simp add: clear_final_def split: prod.splits)
qed


section \<open>Database password writes and preparation\<close>

text \<open>A checkpoint that only carries the released-fence marker holds no typed evidence.\<close>

lemma preserved_null_only_fence:
  assumes "failure_checkpoint_preserved JNull c" "as_object c = Some m" "k \<noteq> fence_released_evidence_key"
  shows "map_of m k = None"
proof -
  have "obj_remove fence_released_evidence_key m = []"
    using assms by (auto simp: failure_checkpoint_preserved_def is_null_def as_object_def Let_def
        split: json.splits)
  then show ?thesis
    using map_of_obj_remove [of fence_released_evidence_key m k] assms(3) by simp
qed

lemma preserved_null_password:
  "failure_checkpoint_preserved JNull c \<Longrightarrow> dec_database_password_evidence c = None"
  using preserved_null_only_fence [of c _ "''stage''"]
  by (cases "as_object c")
     (auto simp: dec_database_password_evidence_def field_def fence_released_evidence_key_def
       split: bind_splits)

lemma preserved_null_preparation:
  "failure_checkpoint_preserved JNull c \<Longrightarrow> dec_database_preparation_evidence c = None"
  using preserved_null_only_fence [of c _ "''stage''"]
  by (cases "as_object c")
     (auto simp: dec_database_preparation_evidence_def field_def fence_released_evidence_key_def
       split: bind_splits)

definition password_kinds :: "operation_kind set" where
  "password_kinds = {Kind_ResetDevDatabasePassword, Kind_ResetProdDatabasePassword}"

definition password_final :: "operation_record \<Rightarrow> database_password_evidence \<Rightarrow> bool" where
  "password_final op e \<longleftrightarrow> pe_stage e = Pw_Verified \<and> validate_password_operation e op = Inr ()"

definition password_step :: "database_password_evidence \<Rightarrow> database_password_evidence \<Rightarrow> bool" where
  "password_step e e' \<longleftrightarrow> e' = e\<lparr>pe_stage := pe_stage e'\<rparr> \<and>
    (pe_stage e' = pe_stage e \<or>
     (pe_stage e, pe_stage e') \<in>
       {(Pw_Captured, Pw_WriteSubmitted), (Pw_WriteSubmitted, Pw_Verified),
        (Pw_WriteSubmitted, Pw_Cancelled)})"

lemma password_same_evidence:
  "pe_receipt_protocol a = pe_receipt_protocol b \<Longrightarrow> pe_context a = pe_context b \<Longrightarrow>
   pe_username a = pe_username b \<Longrightarrow> pe_target a = pe_target b \<Longrightarrow> b = a\<lparr>pe_stage := pe_stage b\<rparr>"
  for a b :: database_password_evidence
  by (cases a; cases b) auto

lemma password_rule_next:
  assumes "or_kind op \<in> password_kinds" "validate_database_password_progress op pg = Inr ()"
    and "or_checkpoint op \<noteq> JNull"
  obtains e e' where "dec_database_password_evidence (or_checkpoint op) = Some e"
    "dec_database_password_evidence (pg_checkpoint pg) = Some e'"
    "validate_password_operation e op = Inr ()"
    "pg_state pg = Op_Running \<longrightarrow> password_step e e'"
    "pg_state pg \<noteq> Op_Running \<longrightarrow> e' = e"
    "pg_state pg = Op_Failed \<longrightarrow> pe_stage e \<in> {Pw_Captured, Pw_Cancelled}"
    "pg_state pg = Op_Succeeded \<longrightarrow> pe_stage e = Pw_Verified"
    "pg_state pg \<in> {Op_Running, Op_RecoveryRequired, Op_Failed, Op_Succeeded}"
proof -
  have k: "\<not> or_kind op \<notin> {Kind_ResetDevDatabasePassword, Kind_ResetProdDatabasePassword}"
    using assms(1) by (simp add: password_kinds_def)
  obtain e e' where e: "dec_database_password_evidence (or_checkpoint op) = Some e"
      "dec_database_password_evidence (pg_checkpoint pg) = Some e'"
      "validate_password_operation e op = Inr ()"
    and r: "pe_receipt_protocol e = pe_receipt_protocol e'" "pe_context e = pe_context e'"
      "pe_username e = pe_username e'" "pe_target e = pe_target e'"
    and s: "(pg_state pg = Op_RecoveryRequired \<and> e = e')
      \<or> (pg_state pg = Op_Failed \<and> e = e' \<and> pe_stage e \<in> {Pw_Captured, Pw_Cancelled})
      \<or> (pg_state pg = Op_Succeeded \<and> e = e' \<and> pe_stage e = Pw_Verified)
      \<or> (pg_state pg = Op_Running \<and> (e = e'
           \<or> (pe_stage e, pe_stage e') \<in> {(Pw_Captured, Pw_WriteSubmitted),
                (Pw_WriteSubmitted, Pw_Verified), (Pw_WriteSubmitted, Pw_Cancelled)}))"
    using assms(2,3) k
    unfolding validate_database_password_progress_def is_null_def
    by (simp only: if_False simp_thms try_r_Inr_iff ok_or_simps map_err_simps branch_iffs
        de_Morgan_disj not_not) (elim exE conjE, rule that, (assumption | simp)+)
  show thesis
    using s password_same_evidence [OF r] by (intro that [OF e]) (auto simp: password_step_def)
qed

interpretation password: evidence_rule password_kinds
  "\<lambda>op pg. validate_database_password_progress op pg = Inr ()"
  "\<lambda>_. dec_database_password_evidence" "\<lambda>e. pe_stage e = Pw_Captured" password_step
  password_final
proof
  have first: "pg_state pg \<in> {Op_Failed, Op_RecoveryRequired, Op_Running}
      \<and> (\<forall>e. dec_database_password_evidence (pg_checkpoint pg) = Some e \<longrightarrow> pe_stage e = Pw_Captured)"
    if "or_kind op \<in> password_kinds" "validate_database_password_progress op pg = Inr ()"
      "or_checkpoint op = JNull" for op pg
    using that preserved_null_password [of "pg_checkpoint pg"]
    by (auto simp: validate_database_password_progress_def password_kinds_def is_null_def split: if_splits)
  show "validate_database_password_progress (claimed_operation op pg) pg = Inr ()"
    if "advance app op pg = Inr (app', op')" for app op pg app' op'
    using that by (rule advance_okE)
  show "dec_database_password_evidence JNull = None" by simp
  show "pg_state pg \<noteq> Op_WaitingRetry"
    if "or_kind op \<in> password_kinds" "validate_database_password_progress op pg = Inr ()" for op pg
    using first [OF that] that by (cases "or_checkpoint op = JNull") (auto elim: password_rule_next)
  show "pe_stage e = Pw_Captured"
    if "or_kind op \<in> password_kinds" "validate_database_password_progress op pg = Inr ()"
      "or_checkpoint op = JNull" "pg_state pg = Op_Running"
      "dec_database_password_evidence (pg_checkpoint pg) = Some e" for op pg e
    using first [OF that(1-3)] that(5) by blast
  show "\<exists>e e'. dec_database_password_evidence (or_checkpoint op) = Some e
      \<and> dec_database_password_evidence (pg_checkpoint pg) = Some e' \<and> password_step e e'"
    if "or_kind op \<in> password_kinds" "validate_database_password_progress op pg = Inr ()"
      "or_checkpoint op \<noteq> JNull" "pg_state pg = Op_Running" for op pg
    using that by (elim password_rule_next) auto
  show "\<exists>e. dec_database_password_evidence (or_checkpoint op) = Some e \<and> password_final op e"
    if "or_kind op \<in> password_kinds" "validate_database_password_progress op pg = Inr ()"
      "pg_state pg = Op_Succeeded" for op pg
    using first [OF that(1,2)] that
    by (cases "or_checkpoint op = JNull") (auto simp: password_final_def elim: password_rule_next)
  show "password_final (progressed_operation op pg) e"
    if "password_final (claimed_operation op pg) e" for op pg e
    using that unfolding password_final_def validate_password_operation_def
      progressed_operation_simps claimed_operation_simps .
qed

definition preparation_step ::
  "database_preparation_evidence \<Rightarrow> database_preparation_evidence \<Rightarrow> bool" where
  "preparation_step e e' \<longleftrightarrow> pp_target e' = pp_target e
    \<and> pp_deployment_generation e' = pp_deployment_generation e
    \<and> (e' = e \<or> (pp_stage e, pp_stage e') \<in>
        {(Prep_Captured, Prep_StartSubmitted), (Prep_StartSubmitted, Prep_ManagementReady)})"

definition preparation_final :: "operation_record \<Rightarrow> database_preparation_evidence \<Rightarrow> bool" where
  "preparation_final op e \<longleftrightarrow>
    pp_stage e = Prep_ManagementReady \<and> validate_preparation_operation e op = Inr ()"

lemma preparation_rule_next:
  assumes "or_kind op = Kind_PrepareProdDatabase" "validate_database_preparation_progress op pg = Inr ()"
    and "or_checkpoint op \<noteq> JNull"
  obtains e e' where "dec_database_preparation_evidence (or_checkpoint op) = Some e"
    "dec_database_preparation_evidence (pg_checkpoint pg) = Some e'"
    "validate_preparation_operation e op = Inr ()"
    "pg_state pg = Op_Running \<longrightarrow> preparation_step e e'"
    "pg_state pg \<noteq> Op_Running \<longrightarrow> e' = e"
    "pg_state pg = Op_Failed \<longrightarrow> pp_stage e = Prep_Captured"
    "pg_state pg = Op_Succeeded \<longrightarrow> pp_stage e = Prep_ManagementReady"
    "pg_state pg \<in> {Op_Running, Op_RecoveryRequired, Op_Failed, Op_Succeeded}"
proof -
  obtain e e' where e: "dec_database_preparation_evidence (or_checkpoint op) = Some e"
      "dec_database_preparation_evidence (pg_checkpoint pg) = Some e'"
      "validate_preparation_operation e op = Inr ()"
    and r: "pp_target e = pp_target e'" "pp_deployment_generation e = pp_deployment_generation e'"
    and s: "(e = e' \<and> (pg_state pg = Op_RecoveryRequired
           \<or> (pg_state pg = Op_Failed \<and> pp_stage e = Prep_Captured)
           \<or> (pg_state pg = Op_Succeeded \<and> pp_stage e = Prep_ManagementReady)))
      \<or> (pg_state pg = Op_Running \<and> (e = e' \<or> (pp_stage e, pp_stage e') \<in>
           {(Prep_Captured, Prep_StartSubmitted), (Prep_StartSubmitted, Prep_ManagementReady)}))"
    using assms
    unfolding validate_database_preparation_progress_def is_null_def
    by (simp only: if_False simp_thms try_r_Inr_iff ok_or_simps map_err_simps branch_iffs
        de_Morgan_disj not_not) (elim exE conjE, rule that, (assumption | simp)+)
  show thesis
    using s r by (intro that [OF e]) (auto simp: preparation_step_def)
qed

interpretation preparation: evidence_rule "{Kind_PrepareProdDatabase}"
  "\<lambda>op pg. validate_database_preparation_progress op pg = Inr ()"
  "\<lambda>_. dec_database_preparation_evidence" "\<lambda>e. pp_stage e = Prep_Captured" preparation_step
  preparation_final
proof
  have first: "pg_state pg \<in> {Op_Failed, Op_RecoveryRequired, Op_Running}
      \<and> (\<forall>e. dec_database_preparation_evidence (pg_checkpoint pg) = Some e \<longrightarrow> pp_stage e = Prep_Captured)"
    if "or_kind op \<in> {Kind_PrepareProdDatabase}" "validate_database_preparation_progress op pg = Inr ()"
      "or_checkpoint op = JNull" for op pg
    using that preserved_null_preparation [of "pg_checkpoint pg"]
    by (auto simp: validate_database_preparation_progress_def is_null_def split: if_splits)
  show "validate_database_preparation_progress (claimed_operation op pg) pg = Inr ()"
    if "advance app op pg = Inr (app', op')" for app op pg app' op'
    using that by (rule advance_okE)
  show "dec_database_preparation_evidence JNull = None" by simp
  show "pg_state pg \<noteq> Op_WaitingRetry"
    if "or_kind op \<in> {Kind_PrepareProdDatabase}" "validate_database_preparation_progress op pg = Inr ()" for op pg
    using first [OF that] that by (cases "or_checkpoint op = JNull") (auto elim: preparation_rule_next)
  show "pp_stage e = Prep_Captured"
    if "or_kind op \<in> {Kind_PrepareProdDatabase}" "validate_database_preparation_progress op pg = Inr ()"
      "or_checkpoint op = JNull" "pg_state pg = Op_Running"
      "dec_database_preparation_evidence (pg_checkpoint pg) = Some e" for op pg e
    using first [OF that(1-3)] that(5) by blast
  show "\<exists>e e'. dec_database_preparation_evidence (or_checkpoint op) = Some e
      \<and> dec_database_preparation_evidence (pg_checkpoint pg) = Some e' \<and> preparation_step e e'"
    if "or_kind op \<in> {Kind_PrepareProdDatabase}" "validate_database_preparation_progress op pg = Inr ()"
      "or_checkpoint op \<noteq> JNull" "pg_state pg = Op_Running" for op pg
    using that by simp (elim preparation_rule_next, auto)
  show "\<exists>e. dec_database_preparation_evidence (or_checkpoint op) = Some e \<and> preparation_final op e"
    if "or_kind op \<in> {Kind_PrepareProdDatabase}" "validate_database_preparation_progress op pg = Inr ()"
      "pg_state pg = Op_Succeeded" for op pg
    using first [OF that(1,2)] that
    by (cases "or_checkpoint op = JNull") (auto simp: preparation_final_def elim: preparation_rule_next)
  show "preparation_final (progressed_operation op pg) e"
    if "preparation_final (claimed_operation op pg) e" for op pg e
    using that unfolding preparation_final_def validate_preparation_operation_def
      progressed_operation_simps claimed_operation_simps .
qed


section \<open>The shape of a successful history\<close>

text \<open>The stages a deletion of the given kind passes, in order.\<close>

definition deletion_path :: "operation_kind \<Rightarrow> deletion_stage list" where
  "deletion_path kind =
    (if kind = Kind_DeleteCompute then [Del_Captured, Del_ComputeRemoved]
     else [Del_Captured, Del_ComputeRemoved, Del_ProductionStorageRemoved, Del_DevelopmentRemoved])"

fun stages_after :: "deletion_stage \<Rightarrow> deletion_stage list" where
  "stages_after Del_Captured = [Del_ComputeRemoved, Del_ProductionStorageRemoved, Del_DevelopmentRemoved]"
| "stages_after Del_ComputeRemoved = [Del_ProductionStorageRemoved, Del_DevelopmentRemoved]"
| "stages_after Del_ProductionStorageRemoved = [Del_DevelopmentRemoved]"
| "stages_after Del_DevelopmentRemoved = []"

lemma next_stages_after: "next_deletion_stage s = Some s' \<Longrightarrow> stages_after s = s' # stages_after s'"
  by (cases s) auto

lemma deletion_successively:
  "successively deletion_step (e # es) \<Longrightarrow>
    \<exists>n. es = map (\<lambda>s. e\<lparr>dc_stage := s\<rparr>) (take n (stages_after (dc_stage e)))"
proof (induction es arbitrary: e)
  case (Cons e1 es)
  then have s: "e1 = e\<lparr>dc_stage := dc_stage e1\<rparr>" "next_deletion_stage (dc_stage e) = Some (dc_stage e1)"
    and c: "successively deletion_step (e1 # es)"
    by (simp_all add: deletion_step_def)
  obtain n where n: "es = map (\<lambda>s. e1\<lparr>dc_stage := s\<rparr>) (take n (stages_after (dc_stage e1)))"
    using Cons.IH [OF c] by blast
  have "e1\<lparr>dc_stage := s\<rparr> = e\<lparr>dc_stage := s\<rparr>" for s
    using s(1) by (cases e; cases e1) auto
  then have "e1 # es = map (\<lambda>s. e\<lparr>dc_stage := s\<rparr>) (take (Suc n) (stages_after (dc_stage e)))"
    using n s next_stages_after [OF s(2)] by simp
  then show ?case by (rule exI)
qed (auto intro: exI [of _ 0])

lemma take_cases3: "take n [a, b, c] \<in> {[], [a], [a, b], [a, b, c]}"
  by (cases n; cases "n - 1"; cases "n - 2") (auto simp: take_Cons split: nat.splits)

lemma deletion_history_path:
  assumes "deletion.chain es" "deletion_final op (last es)"
  shows "es = map (\<lambda>s. (last es)\<lparr>dc_stage := s\<rparr>) (deletion_path (or_kind op))"
proof -
  obtain e es' where es: "es = e # es'" "dc_stage e = Del_Captured" "successively deletion_step (e # es')"
    using assms(1) by (cases es) (auto simp: deletion.chain_def)
  obtain n where n: "es' = map (\<lambda>s. e\<lparr>dc_stage := s\<rparr>) (take n (stages_after Del_Captured))"
    using deletion_successively [OF es(3)] es(2) by auto
  have e: "e\<lparr>dc_stage := Del_Captured\<rparr> = e"
    using es(2) by (cases e) simp
  have "dc_stage (last es) = final_deletion_stage (or_kind op)"
    using assms(2) by (simp add: deletion_final_def)
  then show ?thesis
    using take_cases3 [of n Del_ComputeRemoved Del_ProductionStorageRemoved Del_DevelopmentRemoved]
    by (auto simp: es(1,2) n e final_deletion_stage_def deletion_path_def split: if_splits)
qed

definition destruction_path :: "operation_kind \<Rightarrow> string list" where
  "destruction_path kind =
    (if kind = Kind_DestroyProdStorage
     then [''storage_captured'', ''production_storage_removed'', destruction_complete_step]
     else [''storage_captured'', destruction_complete_step])"

lemma complete_step_distinct [simp]:
  "''storage_captured'' \<noteq> destruction_complete_step" "''production_storage_removed'' \<noteq> destruction_complete_step"
  "destruction_complete_step \<noteq> ''storage_captured''" "destruction_complete_step \<noteq> ''production_storage_removed''"
  "clear_complete_step \<noteq> ''clear_target_captured''" "''clear_target_captured'' \<noteq> clear_complete_step"
  by (simp_all add: destruction_complete_step_def clear_complete_step_def)

lemma destruction_step_iff:
  "destruction_step (c, e, s) w \<longleftrightarrow> (\<exists>s'. w = (c, e, s') \<and>
    (if sd_production e \<noteq> None
     then s = ''storage_captured'' \<and> s' = ''production_storage_removed''
       \<or> s = ''production_storage_removed'' \<and> s' = destruction_complete_step
     else s = ''storage_captured'' \<and> s' = destruction_complete_step))"
  by (cases w) (auto simp: destruction_step_def)

lemma clear_step_iff:
  "clear_step (c, e, s) w \<longleftrightarrow> w = (c, e, clear_complete_step) \<and> s = ''clear_target_captured''"
  by (cases w) (auto simp: clear_step_def)

lemma destruction_successively:
  assumes "successively destruction_step ((c, e, s) # vs)"
  shows "s = destruction_complete_step \<Longrightarrow> vs = []"
    and "s = ''production_storage_removed'' \<Longrightarrow> vs = [] \<or> vs = [(c, e, destruction_complete_step)]"
    and "s = ''storage_captured'' \<Longrightarrow> sd_production e = None \<Longrightarrow>
      vs = [] \<or> vs = [(c, e, destruction_complete_step)]"
    and "s = ''storage_captured'' \<Longrightarrow> sd_production e \<noteq> None \<Longrightarrow>
      vs \<in> {[], [(c, e, ''production_storage_removed'')],
            [(c, e, ''production_storage_removed''), (c, e, destruction_complete_step)]}"
proof -
  have stop: "vs = []" if "successively destruction_step ((c, e, destruction_complete_step) # vs)" for vs c e
    using that by (cases vs) (auto simp: destruction_step_iff split: if_splits)
  have mid: "vs = [] \<or> vs = [(c, e, destruction_complete_step)]"
    if "successively destruction_step ((c, e, ''production_storage_removed'') # vs)" for vs c e
    using that by (cases vs) (auto simp: destruction_step_iff dest: stop split: if_splits)
  show "s = destruction_complete_step \<Longrightarrow> vs = []"
    using assms stop by blast
  show "s = ''production_storage_removed'' \<Longrightarrow> vs = [] \<or> vs = [(c, e, destruction_complete_step)]"
    using assms mid by blast
  show "vs = [] \<or> vs = [(c, e, destruction_complete_step)]"
    if "s = ''storage_captured''" "sd_production e = None"
    using assms that by (cases vs) (auto simp: destruction_step_iff dest: stop)
  show "vs \<in> {[], [(c, e, ''production_storage_removed'')],
      [(c, e, ''production_storage_removed''), (c, e, destruction_complete_step)]}"
    if "s = ''storage_captured''" "sd_production e \<noteq> None"
    using assms that by (cases vs) (auto simp: destruction_step_iff dest: mid)
qed

lemma destruction_history_path:
  assumes "destruction.chain vs" "destruction_final op (last vs)"
  shows "\<exists>c e. vs = map (\<lambda>s. (c, e, s)) (destruction_path (or_kind op)) \<and> context_of_operation (sd_context e) op"
proof -
  obtain c e vs' where vs: "vs = (c, e, ''storage_captured'') # vs'"
    and s: "successively destruction_step ((c, e, ''storage_captured'') # vs')"
    using assms(1) by (cases vs) (auto simp: destruction.chain_def destruction_start_def)
  show ?thesis
  proof (cases "sd_production e = None")
    case True
    then show ?thesis
      using destruction_successively(3) [OF s refl] assms(2) vs
      by (auto simp: destruction_final_def destruction_path_def intro!: exI [of _ c] exI [of _ e])
  next
    case False
    then show ?thesis
      using destruction_successively(4) [OF s refl] assms(2) vs
      by (auto simp: destruction_final_def destruction_path_def intro!: exI [of _ c] exI [of _ e])
  qed
qed

lemma clear_history_path:
  assumes "clear.chain vs" "clear_final op (last vs)"
  shows "\<exists>c e. vs = [(c, e, ''clear_target_captured''), (c, e, clear_complete_step)]
    \<and> context_of_operation (sc_context e) op"
proof -
  obtain c e vs' where vs: "vs = (c, e, ''clear_target_captured'') # vs'"
    and s: "successively clear_step ((c, e, ''clear_target_captured'') # vs')"
    using assms(1) by (cases vs) (auto simp: clear.chain_def clear_start_def)
  have "vs' = [] \<or> vs' = [(c, e, clear_complete_step)]"
    using s by (cases vs'; cases "tl vs'") (auto simp: clear_step_iff)
  then show ?thesis
    using vs assms(2) by (auto simp: clear_final_def)
qed

text \<open>Password and preparation evidence may be repeated; the stages still follow one path.\<close>

abbreviation password_edge :: "database_password_stage \<Rightarrow> database_password_stage \<Rightarrow> bool" where
  "password_edge a b \<equiv> (a, b) \<in> {(Pw_Captured, Pw_WriteSubmitted), (Pw_WriteSubmitted, Pw_Verified),
    (Pw_WriteSubmitted, Pw_Cancelled)}"

lemma password_edges:
  assumes "successively password_edge (Pw_Captured # ss)"
  shows "ss \<in> {[], [Pw_WriteSubmitted], [Pw_WriteSubmitted, Pw_Verified], [Pw_WriteSubmitted, Pw_Cancelled]}"
  using assms by (cases ss; cases "tl ss"; cases "tl (tl ss)") auto

lemma password_history_path:
  assumes "password.chain es" "password_final op (last es)"
  shows "remdups_adj (map pe_stage es) = [Pw_Captured, Pw_WriteSubmitted, Pw_Verified]"
proof -
  let ?ss = "remdups_adj (map pe_stage es)"
  have ne: "es \<noteq> []" and h: "pe_stage (hd es) = Pw_Captured"
    and s: "successively (\<lambda>a b. b = a \<or> password_edge a b) (map pe_stage es)"
    using assms(1) by (auto simp: password.chain_def successively_map password_step_def
        elim!: successively_mono)
  have "hd ?ss = Pw_Captured" "last ?ss = Pw_Verified" "?ss \<noteq> []"
    using ne h assms(2) by (simp_all add: hd_map last_map last_remdups_adj password_final_def)
  then show ?thesis
    using password_edges [of "tl ?ss"] successively_stutter [OF s] by (cases ?ss) auto
qed

lemma password_chain_same:
  assumes "successively password_step es" "e \<in> set es"
  shows "(pe_receipt_protocol e, pe_context e, pe_username e, pe_target e) =
    (pe_receipt_protocol (last es), pe_context (last es), pe_username (last es), pe_target (last es))"
proof (rule successively_constant [OF _ assms])
  fix a b assume "password_step a b"
  then show "(pe_receipt_protocol b, pe_context b, pe_username b, pe_target b) =
      (pe_receipt_protocol a, pe_context a, pe_username a, pe_target a)"
    by (cases a; cases b) (simp add: password_step_def)
qed

abbreviation preparation_edge :: "database_preparation_stage \<Rightarrow> database_preparation_stage \<Rightarrow> bool" where
  "preparation_edge a b \<equiv>
    (a, b) \<in> {(Prep_Captured, Prep_StartSubmitted), (Prep_StartSubmitted, Prep_ManagementReady)}"

lemma preparation_edges:
  assumes "successively preparation_edge (Prep_Captured # ss)"
  shows "ss \<in> {[], [Prep_StartSubmitted], [Prep_StartSubmitted, Prep_ManagementReady]}"
  using assms by (cases ss; cases "tl ss"; cases "tl (tl ss)") auto

lemma preparation_history_path:
  assumes "preparation.chain es" "preparation_final op (last es)"
  shows "remdups_adj (map pp_stage es) = [Prep_Captured, Prep_StartSubmitted, Prep_ManagementReady]"
proof -
  let ?ss = "remdups_adj (map pp_stage es)"
  have ne: "es \<noteq> []" and h: "pp_stage (hd es) = Prep_Captured"
    and s: "successively (\<lambda>a b. b = a \<or> preparation_edge a b) (map pp_stage es)"
    using assms(1) by (auto simp: preparation.chain_def successively_map preparation_step_def
        elim!: successively_mono)
  have "hd ?ss = Prep_Captured" "last ?ss = Prep_ManagementReady" "?ss \<noteq> []"
    using ne h assms(2) by (simp_all add: hd_map last_map last_remdups_adj preparation_final_def)
  then show ?thesis
    using preparation_edges [of "tl ?ss"] successively_stutter [OF s] by (cases ?ss) auto
qed

lemma preparation_chain_same:
  assumes "successively preparation_step es" "e \<in> set es"
  shows "(pp_target e, pp_deployment_generation e) = (pp_target (last es), pp_deployment_generation (last es))"
  by (rule successively_constant [OF _ assms]) (simp add: preparation_step_def)

end
