(* ===== verification/Samples.thy ===== *)
theory Samples
  imports Evidence_Histories
begin

text \<open>
  A concrete application, operation and progress updates, on which the theorems of the
  component theories are instantiated.
\<close>

definition sample_context :: execution_context where
  "sample_context = \<lparr>ec_app_id = ''app'', ec_lifecycle_id = ''life'', ec_operation_id = ''op'',
     ec_executor_id = ''exec'', ec_request_fingerprint = replicate 64 (CHR ''0'')\<rparr>"

definition sample_app :: "operation_scope \<Rightarrow> lifecycle_record" where
  "sample_app scope = \<lparr>lr_runtime_policy = runtime_policy_default, lr_app_id = ''app'', lr_lifecycle_id = ''life'',
      lr_lifecycle_epoch = 1, lr_metadata_revision = 1, lr_state = App_Active, lr_name = None,
      lr_tenant_id = None, lr_space_id = None, lr_created_at = 0,
      lr_active_operations = set_slot scope (Some ''op'') active_operations_default\<rparr>"

definition sample_operation :: "operation_kind \<Rightarrow> control_command option \<Rightarrow> operation_record" where
  "sample_operation kind command =
    \<lparr>or_runtime_policy_on_success = None, or_command = command, or_admitted_metadata = None,
     or_operation_id = ''op'', or_app_id = ''app'', or_lifecycle_id = ''life'', or_request_id = None,
     or_request_fingerprint = replicate 64 (CHR ''0''), or_kind = kind, or_scope = kind_scope kind,
     or_state = Op_Pending, or_revision = 1, or_executor_id = None, or_step = ''admitted'',
     or_checkpoint = JNull, or_error_code = None, or_error_message = None, or_created_at = 0\<rparr>"

definition sample_progress :: "int \<Rightarrow> operation_state \<Rightarrow> string \<Rightarrow> json \<Rightarrow> operation_progress" where
  "sample_progress revision state step checkpoint =
    \<lparr>pg_app_id = ''app'', pg_operation_id = ''op'', pg_lifecycle_id = ''life'',
     pg_expected_revision = revision, pg_executor_id = ''exec'', pg_state = state, pg_step = step,
     pg_checkpoint = checkpoint, pg_error_code = None, pg_error_message = None\<rparr>"

definition sample_snapshot :: json where
  "sample_snapshot = JObj [(''app_id'', JStr ''app''), (''operation_id'', JStr ''op''), (''resources'', JArr [])]"

definition sample_deletion_checkpoint :: "string \<Rightarrow> json" where
  "sample_deletion_checkpoint stage = JObj
    [(''context'', enc_execution_context sample_context), (''development'', JNull),
     (''kind'', JStr (kind_wire Kind_DeleteCompute)),
     (''production'', sample_snapshot),
     (''schema_version'', JNum 1), (''stage'', JStr stage)]"

definition sample_deletion_run :: "operation_progress list" where
  "sample_deletion_run =
    [sample_progress 1 Op_Running ''claimed'' JNull,
     sample_progress 2 Op_Running ''captured'' (sample_deletion_checkpoint ''captured''),
     sample_progress 3 Op_Running ''removed'' (sample_deletion_checkpoint ''compute_removed''),
     sample_progress 4 Op_Succeeded ''done'' (sample_deletion_checkpoint ''compute_removed'')]"

lemma sample_context_ok [simp]: "valid_context sample_context"
  by (simp add: valid_context_def sample_context_def valid_identifier_def identifier_byte_def
      hex64_def ascii_defs list_all_iff)

lemma sample_identifiers [simp]: "valid_identifier ''exec''" "valid_identifier ''op''"
  by (simp_all add: valid_identifier_def identifier_byte_def ascii_defs)

lemma validate_identifier_valid [simp]: "valid_identifier s \<Longrightarrow> validate_identifier s f = Inr ()"
  by simp

lemma validate_identity_valid [simp]: "valid_context c \<Longrightarrow> validate_identity c (ec_app_id c) = Inr ()"
  by simp

lemma sample_context_simps [simp]:
  "ec_app_id sample_context = ''app''" "ec_lifecycle_id sample_context = ''life''"
  "ec_operation_id sample_context = ''op''" "ec_executor_id sample_context = ''exec''"
  "ec_request_fingerprint sample_context = replicate 64 (CHR ''0'')"
  by (simp_all add: sample_context_def)

definition sample_receipt :: json where
  "sample_receipt = JObj [(''runtime'', JObj [(''app_id'', JStr ''app''), (''docker_bind_cleanup'', JBool False),
     (''operation_id'', JStr ''op''), (''resources'', JArr [])])]"

definition sample_destruction_checkpoint :: json where
  "sample_destruction_checkpoint = JObj
    [(''context'', enc_execution_context sample_context), (''development'', sample_receipt),
     (''production'', sample_snapshot)]"

definition sample_destruction_run :: "operation_progress list" where
  "sample_destruction_run =
    [sample_progress 1 Op_Running ''claimed'' JNull,
     sample_progress 2 Op_Running ''storage_captured'' sample_destruction_checkpoint,
     sample_progress 3 Op_Running ''production_storage_removed'' sample_destruction_checkpoint,
     sample_progress 4 Op_Running destruction_complete_step sample_destruction_checkpoint,
     sample_progress 5 Op_Succeeded ''done'' sample_destruction_checkpoint]"

definition sample_clear_checkpoint :: json where
  "sample_clear_checkpoint = JObj
    [(''context'', enc_execution_context sample_context),
     (''target'', JObj [(''directories'', JArr []), (''snapshot'', sample_snapshot), (''type'', JStr ''production'')])]"

definition sample_clear_run :: "operation_progress list" where
  "sample_clear_run =
    [sample_progress 1 Op_Running ''claimed'' JNull,
     sample_progress 2 Op_Running ''clear_target_captured'' sample_clear_checkpoint,
     sample_progress 3 Op_Running clear_complete_step sample_clear_checkpoint,
     sample_progress 4 Op_Succeeded ''done'' sample_clear_checkpoint]"

definition sample_runtime_target :: json where
  "sample_runtime_target = JObj [(''deployment_generation'', JStr ''g''), (''physical_uid'', JStr ''u'')]"

definition sample_password_checkpoint :: "string \<Rightarrow> json" where
  "sample_password_checkpoint stage = JObj
    [(''context'', enc_execution_context sample_context), (''stage'', JStr stage),
     (''target'', JObj [(''scope'', JStr ''prod''), (''target'', sample_runtime_target)]),
     (''username'', JStr ''admin'')]"

definition sample_password_run :: "operation_progress list" where
  "sample_password_run =
    [sample_progress 1 Op_Running ''claimed'' JNull,
     sample_progress 2 Op_Running ''captured'' (sample_password_checkpoint ''captured''),
     sample_progress 3 Op_Running ''write'' (sample_password_checkpoint ''write_submitted''),
     sample_progress 4 Op_Running ''verified'' (sample_password_checkpoint ''verified''),
     sample_progress 5 Op_Succeeded ''done'' (sample_password_checkpoint ''verified'')]"

definition sample_workload :: resource_identity where
  "sample_workload = \<lparr>ri_kind = Res_Container, ri_name = ''c'', ri_uid = ''u'', ri_resource_version = None\<rparr>"

definition sample_preparation_checkpoint :: "string \<Rightarrow> json \<Rightarrow> json" where
  "sample_preparation_checkpoint stage management = JObj
    [(''deployment_generation'', JStr ''g''), (''management'', management), (''stage'', JStr stage),
     (''target'', enc_mutation_target \<lparr>mt_context = sample_context, mt_resource = sample_workload\<rparr>)]"

definition sample_preparation_run :: "operation_progress list" where
  "sample_preparation_run =
    [sample_progress 1 Op_Running ''claimed'' JNull,
     sample_progress 2 Op_Running ''captured'' (sample_preparation_checkpoint ''captured'' JNull),
     sample_progress 3 Op_Running ''start'' (sample_preparation_checkpoint ''start_submitted'' JNull),
     sample_progress 4 Op_Running ''ready'' (sample_preparation_checkpoint ''management_ready'' sample_runtime_target),
     sample_progress 5 Op_Succeeded ''done'' (sample_preparation_checkpoint ''management_ready'' sample_runtime_target)]"

lemma sample_snapshot_decode [simp]:
  "dec_deletion_snapshot sample_snapshot = Some \<lparr>ds_app_id = ''app'', ds_operation_id = ''op'',
     ds_resources = [], ds_directories = None\<rparr>"
  by (simp add: dec_deletion_snapshot_def sample_snapshot_def dec_simps)

lemma sample_receipt_decode [simp]:
  "dec_dev_deletion_receipt sample_receipt = Some \<lparr>
     dr_runtime = \<lparr>bs_resource_binding = None, bs_app_id = ''app'', bs_operation_id = ''op'',
       bs_resources = [], bs_docker_bind_cleanup = False\<rparr>,
     dr_registry = None, dr_lease = None, dr_collaborators = [], dr_directories = None\<rparr>"
  by (simp add: dec_dev_deletion_receipt_def dec_builder_deletion_snapshot_def sample_receipt_def dec_simps)

lemma sample_deletion_decode:
  "name_in deletion_stage_names s = Some stage \<Longrightarrow>
    dec_deletion_checkpoint (sample_deletion_checkpoint s) =
    Some \<lparr>dc_stage = stage, dc_schema_version = 1, dc_context = sample_context, dc_kind = Kind_DeleteCompute,
     dc_production = \<lparr>ds_app_id = ''app'', ds_operation_id = ''op'', ds_resources = [], ds_directories = None\<rparr>,
     dc_development = None\<rparr>"
  by (simp add: dec_deletion_checkpoint_def sample_deletion_checkpoint_def dec_simps
      context_json.dec_enc dec_kind_def)

lemma sample_destruction_decode:
  "dec_storage_destruction sample_destruction_checkpoint =
    Some \<lparr>sd_context = sample_context,
     sd_production = Some \<lparr>ds_app_id = ''app'', ds_operation_id = ''op'', ds_resources = [], ds_directories = None\<rparr>,
     sd_development = the (dec_dev_deletion_receipt sample_receipt)\<rparr>"
  by (simp add: dec_storage_destruction_def sample_destruction_checkpoint_def dec_simps
      context_json.dec_enc) (simp add: sample_snapshot_def)

lemma sample_clear_decode:
  "dec_storage_clear sample_clear_checkpoint =
    Some \<lparr>sc_context = sample_context, sc_target = Clear_Production
      \<lparr>ds_app_id = ''app'', ds_operation_id = ''op'', ds_resources = [], ds_directories = None\<rparr> []\<rparr>"
  by (simp add: dec_storage_clear_def dec_storage_clear_target_def sample_clear_checkpoint_def dec_simps
      context_json.dec_enc)

lemma sample_runtime_target_decode [simp]:
  "dec_runtime_configuration_target sample_runtime_target =
    Some \<lparr>rt_physical_uid = ''u'', rt_deployment_generation = ''g''\<rparr>"
  by (simp add: dec_runtime_configuration_target_def sample_runtime_target_def dec_simps)

lemma sample_password_decode:
  "name_in password_stage_names s = Some stage \<Longrightarrow>
    dec_database_password_evidence (sample_password_checkpoint s) =
    Some \<lparr>pe_receipt_protocol = None, pe_context = sample_context, pe_username = ''admin'',
      pe_target = Pw_Prod \<lparr>rt_physical_uid = ''u'', rt_deployment_generation = ''g''\<rparr>, pe_stage = stage\<rparr>"
  by (simp add: dec_database_password_evidence_def dec_database_password_target_def
      sample_password_checkpoint_def dec_simps context_json.dec_enc)

lemma sample_runtime_target_not_null [simp]: "sample_runtime_target \<noteq> JNull"
  by (simp add: sample_runtime_target_def)

lemma sample_preparation_decode:
  assumes "name_in preparation_stage_names s = Some stage"
  shows "dec_database_preparation_evidence (sample_preparation_checkpoint s JNull) =
      Some \<lparr>pp_target = \<lparr>mt_context = sample_context, mt_resource = sample_workload\<rparr>,
        pp_deployment_generation = ''g'', pp_stage = stage, pp_management = None\<rparr>"
    and "dec_database_preparation_evidence (sample_preparation_checkpoint s sample_runtime_target) =
      Some \<lparr>pp_target = \<lparr>mt_context = sample_context, mt_resource = sample_workload\<rparr>,
        pp_deployment_generation = ''g'', pp_stage = stage,
        pp_management = Some \<lparr>rt_physical_uid = ''u'', rt_deployment_generation = ''g''\<rparr>\<rparr>"
  using assms by (simp_all add: dec_database_preparation_evidence_def sample_preparation_checkpoint_def
      dec_simps mutation_target_json.dec_enc)

lemma sample_checkpoints_not_null [simp]:
  "sample_deletion_checkpoint s \<noteq> JNull" "sample_destruction_checkpoint \<noteq> JNull"
  "sample_clear_checkpoint \<noteq> JNull" "sample_password_checkpoint s \<noteq> JNull"
  "sample_preparation_checkpoint s j \<noteq> JNull"
  by (simp_all add: sample_deletion_checkpoint_def sample_destruction_checkpoint_def
      sample_clear_checkpoint_def sample_password_checkpoint_def sample_preparation_checkpoint_def)

lemma sample_evidence_not_preserved [simp]:
  "failure_checkpoint_preserved JNull JNull"
  "\<not> failure_checkpoint_preserved JNull (sample_password_checkpoint s)"
  "\<not> failure_checkpoint_preserved JNull (sample_preparation_checkpoint s j)"
  by (simp_all add: failure_checkpoint_preserved_def as_object_def Let_def obj_remove_def
      fence_released_evidence_key_def sample_password_checkpoint_def sample_preparation_checkpoint_def)

lemma sample_account_ok [simp]: "validate_pg_identifier ''admin'' = Inr ()"
  by (simp add: validate_pg_identifier_def validate_pg_identifier_bytes_def
      validate_pg_identifier_length_def is_pg_identifier_first_byte_def
      is_pg_identifier_continuation_byte_def ascii_defs)

lemma sample_unstarted [simp]: "unstarted (sample_operation kind command)"
  by (simp add: unstarted_def sample_operation_def)

lemmas advance_eval = advance_def sample_app_def sample_operation_def sample_progress_def
  authorize_userapp_progress_claim_def active_operations_default_def
  apply_progress_def validate_deletion_progress_def is_null_def validate_storage_destruction_progress_def
  validate_storage_clear_progress_def validate_database_password_progress_def
  validate_database_preparation_progress_def checked_add_def i64_min_def i64_max_def
  ends_lifecycle_def validate_deletion_operation_def validate_deletion_checkpoint_def
  validate_deletion_resources_def final_deletion_stage_def settle_app_def applied_policy_def

end
