(* ===== verification/Operation_Histories.thy ===== *)
theory Operation_Histories
  imports Samples
begin

text \<open>
  What the whole history of an operation looks like: the evidence a successful operation
  has recorded, and the executor that recorded it.
\<close>


text \<open>
  C17. A deletion that succeeds has recorded exactly the stages of its kind, in order and each
  once, and every recorded checkpoint is the same captured evidence, bound to the operation's
  own execution context, with only the stage changed: captured and compute removed for a
  compute deletion, then production storage and development for a purge or an application
  deletion.
\<close>

theorem deletion_history:
  assumes "op_run op pgs op'" "or_kind op \<in> deletion_kinds" "unstarted op" "or_state op' = Op_Succeeded"
  shows "\<exists>e. recorded (\<lambda>_. dec_deletion_checkpoint) pgs
      = map (\<lambda>stage. e\<lparr>dc_stage := stage\<rparr>) (deletion_path (or_kind op))
    \<and> validate_deletion_operation e op' = Inr ()"
proof -
  let ?es = "recorded (\<lambda>_. dec_deletion_checkpoint) pgs"
  have h: "deletion.chain ?es" "deletion_final op' (last ?es)"
    using deletion.success_history [OF assms] by blast+
  have "or_kind op' = or_kind op"
    using op_run_identity [OF assms(1)] by blast
  with deletion_history_path [OF h] h(2) show ?thesis
    by (auto simp: deletion_final_def)
qed

lemma sample_deletion_ok:
  "\<exists>app op. advance_all (sample_app Scope_Prod)
     (sample_operation Kind_DeleteCompute (Some (Cmd_DeleteResources False None))) sample_deletion_run
     = Inr (app, op) \<and> or_state op = Op_Succeeded"
  by (simp add: sample_deletion_run_def advance_eval sample_deletion_decode deletion_stage_names_def)

theorem deletion_history_witness:
  "\<exists>e. recorded (\<lambda>_. dec_deletion_checkpoint) sample_deletion_run
    = [e\<lparr>dc_stage := Del_Captured\<rparr>, e\<lparr>dc_stage := Del_ComputeRemoved\<rparr>]"
proof -
  obtain app' op' where r: "advance_all (sample_app Scope_Prod)
      (sample_operation Kind_DeleteCompute (Some (Cmd_DeleteResources False None))) sample_deletion_run
      = Inr (app', op')" "or_state op' = Op_Succeeded"
    using sample_deletion_ok by blast
  show ?thesis
    using deletion_history [OF advance_all_run [OF r(1)] _ sample_unstarted r(2)]
    by (auto simp: sample_operation_def deletion_kinds_def deletion_path_def)
qed

text \<open>
  C18. Storage destruction: a successful run captured the identities once, kept the captured
  checkpoint byte for byte, and confirmed the production volume before the development one
  (the development step alone for a development destruction).
\<close>

theorem destruction_history:
  assumes "op_run op pgs op'" "or_kind op \<in> destruction_kinds" "unstarted op" "or_state op' = Op_Succeeded"
  shows "\<exists>c e. recorded destruction_view pgs = map (\<lambda>step. (c, e, step)) (destruction_path (or_kind op))
    \<and> context_of_operation (sd_context e) op'"
  using destruction.success_history [OF assms] destruction_history_path op_run_identity [OF assms(1)] by metis

lemma sample_destruction_ok:
  "\<exists>app op. advance_all (sample_app Scope_Prod)
     (sample_operation Kind_DestroyProdStorage (Some (Cmd_DestroyStorage True))) sample_destruction_run
     = Inr (app, op) \<and> or_state op = Op_Succeeded"
  by (simp add: sample_destruction_run_def advance_eval sample_destruction_decode
      validate_storage_destruction_def registry_incomplete_def destruction_complete_step_def)

theorem destruction_history_witness:
  "\<exists>c e. recorded destruction_view sample_destruction_run
    = [(c, e, ''storage_captured''), (c, e, ''production_storage_removed''), (c, e, destruction_complete_step)]"
proof -
  obtain app' op' where r: "advance_all (sample_app Scope_Prod)
      (sample_operation Kind_DestroyProdStorage (Some (Cmd_DestroyStorage True))) sample_destruction_run
      = Inr (app', op')" "or_state op' = Op_Succeeded"
    using sample_destruction_ok by blast
  show ?thesis
    using destruction_history [OF advance_all_run [OF r(1)] _ sample_unstarted r(2)]
    by (auto simp: sample_operation_def destruction_kinds_def destruction_path_def)
qed

text \<open>
  C19. Storage clear: a successful run recorded its target exactly once before clearing and
  confirmed the clear on the same, unchanged target evidence of its own execution context.
\<close>

theorem clear_history:
  assumes "op_run op pgs op'" "or_kind op \<in> clear_kinds" "unstarted op" "or_state op' = Op_Succeeded"
  shows "\<exists>c e. recorded clear_view pgs
      = [(c, e, ''clear_target_captured''), (c, e, clear_complete_step)]
    \<and> context_of_operation (sc_context e) op'"
  using clear.success_history [OF assms] clear_history_path by blast

lemma sample_clear_ok:
  "\<exists>app op. advance_all (sample_app Scope_Prod)
     (sample_operation Kind_ClearProdStorage (Some (Cmd_ClearStorage True))) sample_clear_run
     = Inr (app, op) \<and> or_state op = Op_Succeeded"
  by (simp add: sample_clear_run_def advance_eval sample_clear_decode
      validate_storage_clear_def clear_complete_step_def clear_scope_matches_def)

theorem clear_history_witness:
  "\<exists>c e. recorded clear_view sample_clear_run = [(c, e, ''clear_target_captured''), (c, e, clear_complete_step)]"
proof -
  obtain app' op' where r: "advance_all (sample_app Scope_Prod)
      (sample_operation Kind_ClearProdStorage (Some (Cmd_ClearStorage True))) sample_clear_run
      = Inr (app', op')" "or_state op' = Op_Succeeded"
    using sample_clear_ok by blast
  show ?thesis
    using clear_history [OF advance_all_run [OF r(1)] _ sample_unstarted r(2)]
    by (auto simp: sample_operation_def clear_kinds_def)
qed

text \<open>
  C20. A database password reset that succeeds passed the stages captured, write submitted and
  verified, repetitions aside, on one and the same target, account, protocol and execution
  context; the final evidence is valid for the stored operation and its admitted command.
\<close>

theorem password_history:
  assumes "op_run op pgs op'" "or_kind op \<in> password_kinds" "unstarted op" "or_state op' = Op_Succeeded"
  shows "let es = recorded (\<lambda>_. dec_database_password_evidence) pgs in
    remdups_adj (map pe_stage es) = [Pw_Captured, Pw_WriteSubmitted, Pw_Verified]
    \<and> (\<forall>e \<in> set es. (pe_receipt_protocol e, pe_context e, pe_username e, pe_target e) =
         (pe_receipt_protocol (last es), pe_context (last es), pe_username (last es), pe_target (last es)))
    \<and> validate_password_operation (last es) op' = Inr ()"
proof -
  let ?es = "recorded (\<lambda>_. dec_database_password_evidence) pgs"
  have h: "password.chain ?es" "password_final op' (last ?es)"
    using password.success_history [OF assms] by blast+
  then have "successively password_step ?es"
    by (simp add: password.chain_def)
  with h show ?thesis
    using password_history_path [OF h] password_chain_same by (simp add: Let_def password_final_def)
qed

lemma sample_password_ok:
  "\<exists>app op. advance_all (sample_app Scope_Prod)
     (sample_operation Kind_ResetProdDatabasePassword (Some (Cmd_ResetDatabasePassword True ''admin'')))
     sample_password_run = Inr (app, op) \<and> or_state op = Op_Succeeded"
  by (simp add: sample_password_run_def advance_eval sample_password_decode password_stage_names_def
      validate_password_operation_def unknown_receipt_protocol_def)

theorem password_history_witness:
  "remdups_adj (map pe_stage (recorded (\<lambda>_. dec_database_password_evidence) sample_password_run))
    = [Pw_Captured, Pw_WriteSubmitted, Pw_Verified]"
proof -
  obtain app' op' where r: "advance_all (sample_app Scope_Prod)
     (sample_operation Kind_ResetProdDatabasePassword (Some (Cmd_ResetDatabasePassword True ''admin'')))
     sample_password_run = Inr (app', op')" "or_state op' = Op_Succeeded"
    using sample_password_ok by blast
  show ?thesis
    using password_history [OF advance_all_run [OF r(1)] _ sample_unstarted r(2)]
    by (auto simp: sample_operation_def password_kinds_def Let_def)
qed


text \<open>
  C21. Preparing a production database succeeds only after captured, start submitted and
  management ready, all on one captured workload and deployment generation; the final
  evidence names the ready management endpoint of that generation.
\<close>

theorem preparation_history:
  assumes "op_run op pgs op'" "or_kind op = Kind_PrepareProdDatabase" "unstarted op" "or_state op' = Op_Succeeded"
  shows "let es = recorded (\<lambda>_. dec_database_preparation_evidence) pgs in
    remdups_adj (map pp_stage es) = [Prep_Captured, Prep_StartSubmitted, Prep_ManagementReady]
    \<and> (\<forall>e \<in> set es. pp_target e = pp_target (last es)
         \<and> pp_deployment_generation e = pp_deployment_generation (last es))
    \<and> validate_preparation_operation (last es) op' = Inr ()"
proof -
  let ?es = "recorded (\<lambda>_. dec_database_preparation_evidence) pgs"
  have h: "preparation.chain ?es" "preparation_final op' (last ?es)"
    using preparation.success_history [OF assms(1) _ assms(3,4)] assms(2) by simp_all
  then have "successively preparation_step ?es"
    by (simp add: preparation.chain_def)
  with h show ?thesis
    using preparation_history_path [OF h] preparation_chain_same
    by (simp add: Let_def preparation_final_def)
qed

lemma sample_preparation_ok:
  "\<exists>app op. advance_all (sample_app Scope_Prod)
     (sample_operation Kind_PrepareProdDatabase (Some Cmd_PrepareProdDatabase))
     sample_preparation_run = Inr (app, op) \<and> or_state op = Op_Succeeded"
  by (simp add: sample_preparation_run_def advance_eval sample_preparation_decode preparation_stage_names_def
      validate_preparation_operation_def sample_workload_def)

theorem preparation_history_witness:
  "remdups_adj (map pp_stage (recorded (\<lambda>_. dec_database_preparation_evidence) sample_preparation_run))
    = [Prep_Captured, Prep_StartSubmitted, Prep_ManagementReady]"
proof -
  obtain app' op' where r: "advance_all (sample_app Scope_Prod)
     (sample_operation Kind_PrepareProdDatabase (Some Cmd_PrepareProdDatabase))
     sample_preparation_run = Inr (app', op')" "or_state op' = Op_Succeeded"
    using sample_preparation_ok by blast
  show ?thesis
    using preparation_history [OF advance_all_run [OF r(1)] _ sample_unstarted r(2)]
    by (auto simp: sample_operation_def Let_def)
qed


text \<open>
  C22. An uncertain database write is never given up: once a write has been submitted, no
  update may end the operation or drop the evidence; it can only be repeated, confirmed,
  cancelled by evidence, or handed to recovery with the evidence unchanged.
\<close>

theorem uncertain_write_protected:
  assumes "advance app op pg = Inr (app', op')" "or_kind op \<in> password_kinds"
    and "dec_database_password_evidence (or_checkpoint op) = Some e" "pe_stage e = Pw_WriteSubmitted"
  shows "\<exists>e'. dec_database_password_evidence (or_checkpoint op') = Some e' \<and> pe_target e' = pe_target e
    \<and> (or_state op' = Op_Running \<and> pe_stage e' \<in> {Pw_WriteSubmitted, Pw_Verified, Pw_Cancelled}
       \<or> or_state op' = Op_RecoveryRequired \<and> e' = e)"
proof -
  have v: "validate_database_password_progress (claimed_operation op pg) pg = Inr ()"
    and op': "op' = progressed_operation op pg"
    using assms(1) by (auto elim: advance_okE)
  have "or_checkpoint op \<noteq> JNull"
    using assms(3) by auto
  then obtain e' where "dec_database_password_evidence (pg_checkpoint pg) = Some e'"
    "pg_state pg = Op_Running \<longrightarrow> password_step e e'" "pg_state pg \<noteq> Op_Running \<longrightarrow> e' = e"
    "pg_state pg = Op_Running \<or> pg_state pg = Op_RecoveryRequired"
    using assms(2-4) v by (elim password_rule_next [rotated]) auto
  moreover have "pe_target e' = pe_target e" if "password_step e e'"
    using that by (cases e; cases e') (auto simp: password_step_def)
  ultimately show ?thesis
    using op' assms(4) by (auto simp: password_step_def)
qed

theorem uncertain_write_protected_witness:
  "\<exists>app op pg app' op'. advance app op pg = Inr (app', op') \<and> or_kind op \<in> password_kinds
    \<and> map_option pe_stage (dec_database_password_evidence (or_checkpoint op)) = Some Pw_WriteSubmitted
    \<and> or_state op' \<noteq> Op_Failed"
proof -
  let ?op = "(sample_operation Kind_ResetProdDatabasePassword (Some (Cmd_ResetDatabasePassword True ''admin'')))
    \<lparr>or_state := Op_Running, or_executor_id := Some ''exec'', or_step := ''write'',
     or_checkpoint := sample_password_checkpoint ''write_submitted''\<rparr>"
  let ?pg = "sample_progress 1 Op_RecoveryRequired ''unknown'' (sample_password_checkpoint ''write_submitted'')"
  obtain app' op' where r: "advance (sample_app Scope_Prod) ?op ?pg = Inr (app', op')"
    by (simp add: advance_eval sample_password_decode password_stage_names_def
        validate_password_operation_def unknown_receipt_protocol_def)
  have k: "or_kind ?op \<in> password_kinds"
    by (simp add: sample_operation_def password_kinds_def)
  obtain e where e: "dec_database_password_evidence (or_checkpoint ?op) = Some e" "pe_stage e = Pw_WriteSubmitted"
    by (simp add: sample_password_decode password_stage_names_def)
  show ?thesis
    using uncertain_write_protected [OF r k e] r k e by fastforce
qed

text \<open>
  C23. Executor exclusivity: from the moment an operation runs until it is handed back for a
  retry, every accepted update comes from the executor that claimed it, names the revision it
  read, and moves the revision by one; no update is accepted after a terminal state or while
  recovery is required.
\<close>

theorem executor_exclusive:
  assumes "op_run op pgs op'" "or_state op = Op_Running" "\<forall>pg \<in> set pgs. pg_state pg \<noteq> Op_WaitingRetry"
  shows "(\<forall>pg \<in> set pgs. or_executor_id op = Some (pg_executor_id pg))
    \<and> map pg_expected_revision pgs = map (\<lambda>i. or_revision op + int i) [0..<length pgs]
    \<and> (\<forall>pg \<in> set (butlast pgs). pg_state pg = Op_Running)"
proof -
  have "or_executor_id op' = or_executor_id op \<and> or_state op' \<notin> {Op_Pending, Op_WaitingRetry}
      \<and> (or_state op' = Op_Running \<longrightarrow> (\<forall>pg \<in> set pgs. pg_state pg = Op_Running))
      \<and> (\<forall>pg \<in> set pgs. or_executor_id op = Some (pg_executor_id pg))
      \<and> map pg_expected_revision pgs = map (\<lambda>i. or_revision op + int i) [0..<length pgs]
      \<and> (\<forall>pg \<in> set (butlast pgs). pg_state pg = Op_Running)"
    using assms
  proof (induction rule: op_run.induct)
    case (op_run_snoc op pgs op' app pg app' op'')
    have a: "claim_granted op' pg" "op'' = progressed_operation op' pg" "pg_state pg \<noteq> Op_Pending"
      "or_revision op' = pg_expected_revision pg"
      using op_run_snoc.hyps(2) by (auto elim: advance_okE)
    have r: "or_revision op' = or_revision op + int (length pgs)"
      using op_run_identity [OF op_run_snoc.hyps(1)] by blast
    show ?case
      using op_run_snoc.IH op_run_snoc.prems a r by (auto simp: claim_granted_def claimed_operation_def)
  qed simp
  then show ?thesis by blast
qed

theorem executor_exclusive_witness:
  "list_all (\<lambda>pg. pg_executor_id pg = ''exec'') (tl sample_deletion_run)"
proof -
  let ?op = "sample_operation Kind_DeleteCompute (Some (Cmd_DeleteResources False None))"
  obtain app op where f: "advance (sample_app Scope_Prod) ?op (hd sample_deletion_run) = Inr (app, op)"
    and r: "is_ok (advance_all app op (tl sample_deletion_run))"
    using sample_deletion_ok by (auto simp: sample_deletion_run_def is_ok_iff split: prod.splits)
  have op: "or_state op = Op_Running" "or_executor_id op = Some ''exec''"
    using f by (auto elim!: advance_okE simp: sample_deletion_run_def sample_progress_def sample_operation_def
        claimed_operation_def)
  obtain op' where "op_run op (tl sample_deletion_run) op'"
    using r advance_all_run by (force simp: is_ok_iff)
  then show ?thesis
    using executor_exclusive [of op "tl sample_deletion_run" op'] op
    by (simp add: sample_deletion_run_def sample_progress_def)
qed

end
