(* ===== verification/Codec.thy ===== *)
theory Codec
  imports Lifecycle_Domain
begin

text \<open>
  Rows of the lifecycle tables (\<open>rcoder-storage/src/db/models.rs\<close>) and the checked
  conversion between them and the public records
  (\<open>userapp_lifecycle/common/codec.rs\<close>).  What a transaction takes from its surroundings
  is the record \<open>env\<close>: the clock in microseconds, a fresh UUID, and the libraries it calls,
  which are parameters of the model: the bytes of SHA-256, whether
  \<open>DateTime::from_timestamp_micros\<close> accepts a value, the RFC 3339 reader and writer of
  \<open>chrono\<close> (times are nanoseconds since the epoch there) and the parser of \<open>serde_json\<close> on
  the text of a private input.  One transaction reads the clock once in the model; the
  column values it fills are bookkeeping timestamps.
\<close>

record env =
  ev_now :: int
  ev_uuid :: string
  ev_sha256 :: "string \<Rightarrow> nat list"
  ev_timestamp :: "int \<Rightarrow> bool"
  ev_read_datetime :: "string \<Rightarrow> int option"
  ev_show_datetime :: "int \<Rightarrow> string"
  ev_parse_json :: "string \<Rightarrow> json option"


section \<open>Names\<close>

definition lifecycle_names :: "(lifecycle_state \<times> string) list" where
  "lifecycle_names = [(App_Active, ''active''), (App_Deleting, ''deleting''), (App_Deleted, ''deleted'')]"

definition scope_names :: "(operation_scope \<times> string) list" where
  "scope_names = [(Scope_Dev, ''dev''), (Scope_Prod, ''prod''), (Scope_Application, ''application'')]"

definition state_names :: "(operation_state \<times> string) list" where
  "state_names =
    [(Op_Pending, ''pending''), (Op_Running, ''running''), (Op_WaitingRetry, ''waiting_retry''),
     (Op_RecoveryRequired, ''recovery_required''), (Op_Succeeded, ''succeeded''), (Op_Failed, ''failed'')]"

definition kind_names :: "(operation_kind \<times> string) list" where
  "kind_names =
    [(Kind_EnsureBuilder, ''ensure_builder''), (Kind_AdoptBuilder, ''adopt_builder''),
     (Kind_AdoptApplication, ''adopt_application''),
     (Kind_StopBuilder, ''stop_builder''), (Kind_RestartBuilder, ''restart_builder''),
     (Kind_Create, ''create''), (Kind_StartDeployment, ''start_deployment''),
     (Kind_RestartDeployment, ''restart_deployment''),
     (Kind_Update, ''update''), (Kind_Start, ''start''), (Kind_Restart, ''restart''), (Kind_Stop, ''stop''),
     (Kind_SetRecyclePolicy, ''set_recycle_policy''), (Kind_HotDeploy, ''hot_deploy''),
     (Kind_DeleteCompute, ''delete_compute''),
     (Kind_PurgeResources, ''purge_resources''), (Kind_DestroyDevStorage, ''destroy_dev_storage''),
     (Kind_DestroyProdStorage, ''destroy_prod_storage''), (Kind_ClearDevStorage, ''clear_dev_storage''),
     (Kind_ResetDevDatabasePassword, ''reset_dev_database_password''),
     (Kind_ResetProdDatabasePassword, ''reset_prod_database_password''),
     (Kind_PrepareProdDatabase, ''prepare_prod_database''),
     (Kind_ClearProdStorage, ''clear_prod_storage''), (Kind_DeleteApplication, ''delete_application'')]"

abbreviation lifecycle_name :: "lifecycle_state \<Rightarrow> string" where
  "lifecycle_name \<equiv> name_of lifecycle_names"

abbreviation scope_name :: "operation_scope \<Rightarrow> string" where
  "scope_name \<equiv> name_of scope_names"

abbreviation state_name :: "operation_state \<Rightarrow> string" where
  "state_name \<equiv> name_of state_names"

abbreviation kind_name :: "operation_kind \<Rightarrow> string" where
  "kind_name \<equiv> name_of kind_names"

lemma name_tables_total:
  shows lifecycle_names_total: "a \<in> fst ` set lifecycle_names"
    and scope_names_total: "b \<in> fst ` set scope_names"
    and state_names_total: "c \<in> fst ` set state_names"
    and kind_names_total: "d \<in> fst ` set kind_names"
proof -
  show "a \<in> fst ` set lifecycle_names" by (cases a) (simp_all only: name_table_simps lifecycle_names_def)
  show "b \<in> fst ` set scope_names" by (cases b) (simp_all only: name_table_simps scope_names_def)
  show "c \<in> fst ` set state_names" by (cases c) (simp_all only: name_table_simps state_names_def)
  show "d \<in> fst ` set kind_names" by (cases d) (simp_all only: name_table_simps kind_names_def)
qed

interpretation lifecycle_codec: name_codec lifecycle_name "name_in lifecycle_names"
  by (rule name_codec_table [OF _ _ lifecycle_names_total]) (simp_all add: lifecycle_names_def)

interpretation scope_codec: name_codec scope_name "name_in scope_names"
  by (rule name_codec_table [OF _ _ scope_names_total]) (simp_all add: scope_names_def)

interpretation state_codec: name_codec state_name "name_in state_names"
  by (rule name_codec_table [OF _ _ state_names_total]) (simp_all add: state_names_def)

interpretation kind_codec: name_codec kind_name "name_in kind_names"
  by (rule name_codec_table [OF _ _ kind_names_total]) (simp_all add: kind_names_def)

text \<open>The decoders fail on an unknown name.\<close>

definition lifecycle_of :: "string \<Rightarrow> string + lifecycle_state" where
  "lifecycle_of value = ok_or ''unknown persisted UserAppLifecycleState'' (name_in lifecycle_names value)"

definition scope_of :: "string \<Rightarrow> string + operation_scope" where
  "scope_of value = ok_or ''unknown persisted UserAppOperationScope'' (name_in scope_names value)"

definition state_of :: "string \<Rightarrow> string + operation_state" where
  "state_of value = ok_or ''unknown persisted UserAppOperationState'' (name_in state_names value)"

definition kind_of :: "string \<Rightarrow> string + operation_kind" where
  "kind_of value = ok_or ''unknown persisted UserAppOperationKind'' (name_in kind_names value)"

lemma name_decoders [simp]:
  "lifecycle_of (lifecycle_name a) = Inr a" "scope_of (scope_name b) = Inr b"
  "state_of (state_name c) = Inr c" "kind_of (kind_name d) = Inr d"
  by (simp_all add: lifecycle_of_def scope_of_def state_of_def kind_of_def)

lemma name_decoders_iff:
  "lifecycle_of v = Inr a \<longleftrightarrow> v = lifecycle_name a" "scope_of v = Inr b \<longleftrightarrow> v = scope_name b"
  "state_of v = Inr c \<longleftrightarrow> v = state_name c" "kind_of v = Inr d \<longleftrightarrow> v = kind_name d"
  by (simp_all add: lifecycle_of_def scope_of_def state_of_def kind_of_def
      lifecycle_codec.of_name_iff scope_codec.of_name_iff state_codec.of_name_iff kind_codec.of_name_iff)


section \<open>Rows\<close>

record application_row =
  ap_app_id :: string
  ap_lifecycle_id :: string
  ap_lifecycle_epoch :: int
  ap_lifecycle_state :: string
  ap_metadata_revision :: int
  ap_control_revision :: int
  ap_name :: "string option"
  ap_tenant_id :: "string option"
  ap_space_id :: "string option"
  ap_recycle_enabled :: "bool option"
  ap_wake_on_traffic :: "bool option"
  ap_idle_timeout_seconds :: "int option"
  ap_created_at_us :: int
  ap_updated_at_us :: int

record operation_row =
  ow_operation_id :: string
  ow_app_id :: string
  ow_lifecycle_id :: string
  ow_kind :: string
  ow_scope :: string
  ow_state :: string
  ow_revision :: int
  ow_origin_request_id :: "string option"
  ow_request_fingerprint :: string
  ow_executor_id :: "string option"
  ow_step :: string
  ow_error_code :: "string option"
  ow_error_message :: "string option"
  ow_payload_version :: int
  ow_command_json :: "json_text option"
  ow_admitted_metadata_json :: "json_text option"
  ow_runtime_policy_on_success_json :: "json_text option"
  ow_checkpoint_json :: json_text
  ow_created_at_us :: int
  ow_updated_at_us :: int
  ow_terminal_at_us :: "int option"

record slots_row =
  sl_app_id :: string
  sl_lifecycle_id :: string
  sl_dev_operation_id :: "string option"
  sl_prod_operation_id :: "string option"
  sl_application_operation_id :: "string option"



section \<open>Checked conversion\<close>

definition timestamp :: "env \<Rightarrow> int \<Rightarrow> string + int" where
  "timestamp ev value =
    (if ev_timestamp ev value then Inr value
     else Inl ''persisted UTC microsecond timestamp is out of range'')"

definition positive :: "int \<Rightarrow> string + int" where
  "positive value =
    (if value \<ge> 1 then Inr value else Inl ''persisted revision or epoch must be positive'')"

definition nonempty :: "string \<Rightarrow> string + unit" where
  "nonempty value = ensure_r (value \<noteq> []) ''persisted identity is empty''"

text \<open>\<open>i64::try_from(u64)\<close> and \<open>u64::try_from(i64)\<close> on an optional value.\<close>

definition i64_of_u64 :: "int option \<Rightarrow> string + int option" where
  "i64_of_u64 v = transpose_r (\<lambda>n. if n \<le> i64_max then Inr n
     else Inl ''idle timeout exceeds database integer range'') v"

definition u64_of_i64 :: "int option \<Rightarrow> string + int option" where
  "u64_of_i64 v = transpose_r (\<lambda>n. if 0 \<le> n then Inr n else Inl ''negative persisted idle timeout'') v"

definition application_of_row :: "env \<Rightarrow> application_row \<Rightarrow> slots_row \<Rightarrow> string + lifecycle_record" where
  "application_of_row ev row slots =
    try_r (nonempty (ap_app_id row)) (\<lambda>_.
    try_r (nonempty (ap_lifecycle_id row)) (\<lambda>_.
    try_r (ensure_r (ap_app_id row = sl_app_id slots \<and> ap_lifecycle_id row = sl_lifecycle_id slots)
             ''active operation slots belong to a different lifecycle'') (\<lambda>_.
    try_r (ensure_r (sl_application_operation_id slots = None
               \<or> (sl_dev_operation_id slots = None \<and> sl_prod_operation_id slots = None))
             ''application operation overlaps an environment operation'') (\<lambda>_.
    try_r (case (sl_dev_operation_id slots, sl_prod_operation_id slots) of
        (Some d, Some p) \<Rightarrow> ensure_r (d \<noteq> p) ''same operation occupies both environment slots''
      | _ \<Rightarrow> Inr ()) (\<lambda>_.
    try_r (each_r (\<lambda>v. case v of None \<Rightarrow> Inr () | Some i \<Rightarrow> nonempty i)
             [sl_dev_operation_id slots, sl_prod_operation_id slots, sl_application_operation_id slots]) (\<lambda>_.
    try_r (positive (ap_lifecycle_epoch row)) (\<lambda>epoch.
    try_r (positive (ap_metadata_revision row)) (\<lambda>revision.
    try_r (lifecycle_of (ap_lifecycle_state row)) (\<lambda>state.
    try_r (timestamp ev (ap_created_at_us row)) (\<lambda>created_at.
    try_r (u64_of_i64 (ap_idle_timeout_seconds row)) (\<lambda>idle_timeout.
    Inr \<lparr>lr_runtime_policy = \<lparr>rp_recycle_enabled = ap_recycle_enabled row,
           rp_idle_timeout_seconds = idle_timeout, rp_wake_on_traffic = ap_wake_on_traffic row\<rparr>,
      lr_app_id = ap_app_id row, lr_lifecycle_id = ap_lifecycle_id row, lr_lifecycle_epoch = epoch,
      lr_metadata_revision = revision, lr_state = state, lr_name = ap_name row,
      lr_tenant_id = ap_tenant_id row, lr_space_id = ap_space_id row, lr_created_at = created_at,
      lr_active_operations = \<lparr>ao_dev = sl_dev_operation_id slots, ao_prod = sl_prod_operation_id slots,
        ao_application = sl_application_operation_id slots\<rparr>\<rparr>)))))))))))"

text \<open>The column \<open>control_revision\<close> is not part of the model struct; statements leave it
  alone unless they name it, and a new row gets its default 1.\<close>

definition application_row_of :: "lifecycle_record \<Rightarrow> int \<Rightarrow> string + application_row" where
  "application_row_of record now_us =
    try_r (positive (lr_lifecycle_epoch record)) (\<lambda>epoch.
    try_r (positive (lr_metadata_revision record)) (\<lambda>revision.
    try_r (i64_of_u64 (rp_idle_timeout_seconds (lr_runtime_policy record))) (\<lambda>idle_timeout.
    Inr \<lparr>ap_app_id = lr_app_id record, ap_lifecycle_id = lr_lifecycle_id record,
      ap_lifecycle_epoch = epoch, ap_lifecycle_state = lifecycle_name (lr_state record),
      ap_metadata_revision = revision, ap_control_revision = 1, ap_name = lr_name record,
      ap_tenant_id = lr_tenant_id record, ap_space_id = lr_space_id record,
      ap_recycle_enabled = rp_recycle_enabled (lr_runtime_policy record),
      ap_wake_on_traffic = rp_wake_on_traffic (lr_runtime_policy record),
      ap_idle_timeout_seconds = idle_timeout, ap_created_at_us = lr_created_at record,
      ap_updated_at_us = now_us\<rparr>)))"

text \<open>\<open>serde_json::from_str\<close> into a typed value.\<close>

definition from_str :: "string \<Rightarrow> (json \<Rightarrow> 'a option) \<Rightarrow> json_text \<Rightarrow> string + 'a" where
  "from_str context dec text = ok_or context (Option.bind (from_text text) dec)"

definition operation_of_row :: "env \<Rightarrow> operation_row \<Rightarrow> string + operation_record" where
  "operation_of_row ev row =
    try_r (ensure_r (ow_payload_version row = 1) ''unsupported operation payload version'') (\<lambda>_.
    try_r (each_r nonempty [ow_operation_id row, ow_app_id row, ow_lifecycle_id row]) (\<lambda>_.
    try_r (state_of (ow_state row)) (\<lambda>state.
    try_r (kind_of (ow_kind row)) (\<lambda>kind.
    try_r (scope_of (ow_scope row)) (\<lambda>scope.
    try_r (ensure_r (kind_scope kind = scope) ''persisted operation kind/scope mismatch'') (\<lambda>_.
    try_r (ensure_r (op_is_terminal state = (ow_terminal_at_us row \<noteq> None))
             ''persisted operation terminal marker mismatch'') (\<lambda>_.
    try_r (if state = Op_Running
           then ensure_r (nonempty_opt (ow_executor_id row)) ''running operation is missing executor identity''
           else Inr ()) (\<lambda>_.
    try_r (ensure_r (hex64 (ow_request_fingerprint row)) ''invalid persisted request fingerprint'') (\<lambda>_.
    try_r (transpose_r (from_str ''decode operation command payload'' dec_control_command)
             (ow_command_json row)) (\<lambda>command.
    try_r (transpose_r (from_str ''decode admitted metadata payload'' dec_metadata_patch)
             (ow_admitted_metadata_json row)) (\<lambda>admitted_metadata.
    try_r (transpose_r (from_str ''decode runtime policy payload'' dec_runtime_policy)
             (ow_runtime_policy_on_success_json row)) (\<lambda>runtime_policy_on_success.
    try_r (positive (ow_revision row)) (\<lambda>revision.
    try_r (from_str ''decode operation checkpoint payload'' dec_any (ow_checkpoint_json row)) (\<lambda>checkpoint.
    try_r (timestamp ev (ow_created_at_us row)) (\<lambda>created_at.
    Inr \<lparr>or_runtime_policy_on_success = runtime_policy_on_success, or_command = command,
      or_admitted_metadata = admitted_metadata, or_operation_id = ow_operation_id row,
      or_app_id = ow_app_id row, or_lifecycle_id = ow_lifecycle_id row,
      or_request_id = ow_origin_request_id row, or_request_fingerprint = ow_request_fingerprint row,
      or_kind = kind, or_scope = scope, or_state = state, or_revision = revision,
      or_executor_id = ow_executor_id row, or_step = ow_step row, or_checkpoint = checkpoint,
      or_error_code = ow_error_code row, or_error_message = ow_error_message row,
      or_created_at = created_at\<rparr>)))))))))))))))"

definition operation_row_of :: "operation_record \<Rightarrow> int \<Rightarrow> int option \<Rightarrow> string + operation_row" where
  "operation_row_of record now_us previous_terminal_us =
    try_r (ensure_r (kind_scope (or_kind record) = or_scope record) ''operation kind/scope mismatch'') (\<lambda>_.
    try_r (positive (or_revision record)) (\<lambda>revision.
    Inr \<lparr>ow_operation_id = or_operation_id record, ow_app_id = or_app_id record,
      ow_lifecycle_id = or_lifecycle_id record, ow_kind = kind_name (or_kind record),
      ow_scope = scope_name (or_scope record), ow_state = state_name (or_state record),
      ow_revision = revision, ow_origin_request_id = or_request_id record,
      ow_request_fingerprint = or_request_fingerprint record, ow_executor_id = or_executor_id record,
      ow_step = or_step record, ow_error_code = or_error_code record,
      ow_error_message = or_error_message record, ow_payload_version = 1,
      ow_command_json = map_option (\<lambda>c. to_text (enc_control_command c)) (or_command record),
      ow_admitted_metadata_json = map_option (\<lambda>m. to_text (enc_metadata_patch m)) (or_admitted_metadata record),
      ow_runtime_policy_on_success_json =
        map_option (\<lambda>p. to_text (enc_runtime_policy p)) (or_runtime_policy_on_success record),
      ow_checkpoint_json = to_text (or_checkpoint record),
      ow_created_at_us = or_created_at record, ow_updated_at_us = now_us,
      ow_terminal_at_us = (if op_is_terminal (or_state record)
        then Some (case previous_terminal_us of None \<Rightarrow> now_us | Some t \<Rightarrow> t) else None)\<rparr>))"


section \<open>Round trips\<close>

text \<open>What the Rust types guarantee of a record, and what a stored operation satisfies.\<close>

definition operation_typed :: "env \<Rightarrow> operation_record \<Rightarrow> bool" where
  "operation_typed ev op \<longleftrightarrow>
    pred_option policy_in_range (or_runtime_policy_on_success op)
    \<and> pred_option command_in_range (or_command op)
    \<and> pred_option patch_in_range (or_admitted_metadata op)
    \<and> ev_timestamp ev (or_created_at op)"

definition operation_storable :: "env \<Rightarrow> operation_record \<Rightarrow> bool" where
  "operation_storable ev op \<longleftrightarrow> operation_typed ev op
    \<and> or_operation_id op \<noteq> [] \<and> or_app_id op \<noteq> [] \<and> or_lifecycle_id op \<noteq> []
    \<and> or_scope op = kind_scope (or_kind op)
    \<and> (or_state op = Op_Running \<longrightarrow> nonempty_opt (or_executor_id op))
    \<and> hex64 (or_request_fingerprint op) \<and> 1 \<le> or_revision op"

lemma positive_iff [simp]: "positive v = Inr w \<longleftrightarrow> w = v \<and> 1 \<le> v"
  by (auto simp: positive_def)

lemma nonempty_iff [simp]: "nonempty v = Inr u \<longleftrightarrow> v \<noteq> []"
  by (simp add: nonempty_def)

lemma timestamp_iff [simp]: "timestamp ev v = Inr w \<longleftrightarrow> w = v \<and> ev_timestamp ev v"
  by (auto simp: timestamp_def)

lemma transpose_from_str:
  assumes "json_codec enc dec ok" "pred_option ok v"
  shows "transpose_r (from_str c dec) (map_option (\<lambda>x. to_text (enc x)) v) = Inr v"
  using assms by (cases v) (simp_all add: from_str_def json_codec_def)

lemma operation_round_trip:
  assumes "operation_row_of op now t = Inr row" "operation_storable ev op"
  shows "operation_of_row ev row = Inr op"
proof -
  note s = assms(2) [unfolded operation_storable_def operation_typed_def]
  have p: "positive (or_revision op) = Inr (or_revision op)" "timestamp ev (or_created_at op) = Inr (or_created_at op)"
    using s by simp_all
  have k: "kind_scope (or_kind op) = or_scope op"
    using s by simp
  have e: "(if or_state op = Op_Running then ensure_r (nonempty_opt (or_executor_id op)) m else Inr ()) = Inr ()" for m
    using s by simp
  have i: "each_r nonempty [or_operation_id op, or_app_id op, or_lifecycle_id op] = Inr ()"
    using s by simp
  note j = transpose_from_str [OF command_json.json_codec_axioms] transpose_from_str [OF patch_json.json_codec_axioms]
    transpose_from_str [OF policy_json.json_codec_axioms]
  note row = assms(1) [unfolded operation_row_of_def k p, simplified, symmetric]
  show ?thesis
    unfolding operation_of_row_def row
    using s by (simp add: p k e i j from_str_def dec_any_def del: try_r_Inr_iff each_r.simps)
qed

lemma dec_i64_iff: "dec_i64 v = Some n \<longleftrightarrow> v = JNum n \<and> i64_min \<le> n \<and> n \<le> i64_max"
  by (cases v) (auto simp: dec_i64_def)

lemma dec_u64_iff: "dec_u64 v = Some n \<longleftrightarrow> v = JNum n \<and> 0 \<le> n \<and> n \<le> u64_max"
  by (cases v) (auto simp: dec_u64_def as_u64_def)

lemma dec_policy_in_range: "dec_runtime_policy j = Some p \<Longrightarrow> policy_in_range p"
proof -
  assume a: "dec_runtime_policy j = Some p"
  then obtain m i where "opt_field ''idle_timeout_seconds'' dec_u64 m = Some i" "rp_idle_timeout_seconds p = i"
    by (auto simp: dec_runtime_policy_def bind_eq_Some_conv)
  then show ?thesis
    by (auto simp: policy_in_range_def opt_field_def dec_opt_def dec_u64_iff
        split: option.splits if_splits)
qed

lemma dec_patch_in_range: "dec_metadata_patch j = Some p \<Longrightarrow> patch_in_range p"
proof -
  assume a: "dec_metadata_patch j = Some p"
  then obtain m i where "field ''expected_revision'' dec_i64 m = Some i" "mp_expected_revision p = i"
    by (auto simp: dec_metadata_patch_def bind_eq_Some_conv)
  then show ?thesis
    by (auto simp: patch_in_range_def field_def bind_eq_Some_conv dec_i64_iff)
qed

lemma dec_command_in_range:
  assumes "dec_control_command j = Some (Cmd_SetRecyclePolicy p)"
  shows "policy_in_range p"
proof -
  obtain m where "field ''policy'' dec_runtime_policy m = Some p"
    using assms unfolding dec_control_command_def bind_eq_Some_conv
    by (elim exE conjE) (simp split: if_splits add: bind_eq_Some_conv)
  then show ?thesis
    by (auto simp: field_def bind_eq_Some_conv intro: dec_policy_in_range)
qed


lemma dec_any_command_in_range: "dec_control_command j = Some c \<Longrightarrow> command_in_range c"
  by (cases c) (auto simp: command_in_range_def dest: dec_command_in_range)

lemma transpose_from_str_range:
  "transpose_r (from_str c dec) v = Inr w \<Longrightarrow> (\<And>j x. dec j = Some x \<Longrightarrow> ok x) \<Longrightarrow> pred_option ok w"
  by (cases v) (auto simp: from_str_def bind_eq_Some_conv)

lemma operation_of_rowE:
  assumes "operation_of_row ev row = Inr op"
  obtains "operation_storable ev op"
    "ow_operation_id row = or_operation_id op" "ow_app_id row = or_app_id op"
    "ow_lifecycle_id row = or_lifecycle_id op" "ow_kind row = kind_name (or_kind op)"
    "ow_scope row = scope_name (or_scope op)" "ow_state row = state_name (or_state op)"
    "ow_revision row = or_revision op" "ow_executor_id row = or_executor_id op"
    "ow_terminal_at_us row \<noteq> None \<longleftrightarrow> op_is_terminal (or_state op)"
    "ow_step row = or_step op" "ow_payload_version row = 1"
proof -
  note a = assms [unfolded operation_of_row_def try_r_Inr_iff ensure_r_simps sum.inject]
  from a obtain u state kind scope w command metadata policy revision checkpoint created where
    e: "each_r nonempty [ow_operation_id row, ow_app_id row, ow_lifecycle_id row] = Inr u"
      "state_of (ow_state row) = Inr state" "kind_of (ow_kind row) = Inr kind"
      "scope_of (ow_scope row) = Inr scope" "kind_scope kind = scope"
      "op_is_terminal state = (ow_terminal_at_us row \<noteq> None)"
      "(if state = Op_Running
        then ensure_r (nonempty_opt (ow_executor_id row)) ''running operation is missing executor identity''
        else Inr ()) = Inr w" "hex64 (ow_request_fingerprint row)" "ow_payload_version row = 1"
      "positive (ow_revision row) = Inr revision" "timestamp ev (ow_created_at_us row) = Inr created"
    and c: "transpose_r (from_str ''decode operation command payload'' dec_control_command)
          (ow_command_json row) = Inr command"
       "transpose_r (from_str ''decode admitted metadata payload'' dec_metadata_patch)
          (ow_admitted_metadata_json row) = Inr metadata"
       "transpose_r (from_str ''decode runtime policy payload'' dec_runtime_policy)
          (ow_runtime_policy_on_success_json row) = Inr policy"
    and op: "op = \<lparr>or_runtime_policy_on_success = policy, or_command = command,
      or_admitted_metadata = metadata, or_operation_id = ow_operation_id row,
      or_app_id = ow_app_id row, or_lifecycle_id = ow_lifecycle_id row,
      or_request_id = ow_origin_request_id row, or_request_fingerprint = ow_request_fingerprint row,
      or_kind = kind, or_scope = scope, or_state = state, or_revision = revision,
      or_executor_id = ow_executor_id row, or_step = ow_step row, or_checkpoint = checkpoint,
      or_error_code = ow_error_code row, or_error_message = ow_error_message row,
      or_created_at = created\<rparr>"
    by (elim exE conjE) (rule that, (assumption | rule sym)+)
  have "pred_option command_in_range command" "pred_option patch_in_range metadata"
    "pred_option policy_in_range policy"
    by (rule transpose_from_str_range [OF c(1) dec_any_command_in_range]
        transpose_from_str_range [OF c(2) dec_patch_in_range]
        transpose_from_str_range [OF c(3) dec_policy_in_range]; assumption)+
  then have "operation_storable ev op"
    using e by (auto simp: op operation_storable_def operation_typed_def split: if_splits)
  then show thesis
    using e by (intro that) (auto simp: op name_decoders_iff)
qed

definition application_storable :: "env \<Rightarrow> lifecycle_record \<Rightarrow> bool" where
  "application_storable ev app \<longleftrightarrow> lr_app_id app \<noteq> [] \<and> lr_lifecycle_id app \<noteq> []
    \<and> 1 \<le> lr_lifecycle_epoch app \<and> 1 \<le> lr_metadata_revision app \<and> ev_timestamp ev (lr_created_at app)
    \<and> slots_exclusive (lr_active_operations app) \<and> (\<forall>s. slot (lr_active_operations app) s \<noteq> Some [])
    \<and> (case rp_idle_timeout_seconds (lr_runtime_policy app) of None \<Rightarrow> True | Some n \<Rightarrow> 0 \<le> n)"

text \<open>The slots row of an application.\<close>

definition slots_row_of :: "lifecycle_record \<Rightarrow> slots_row" where
  "slots_row_of app = \<lparr>sl_app_id = lr_app_id app, sl_lifecycle_id = lr_lifecycle_id app,
    sl_dev_operation_id = ao_dev (lr_active_operations app),
    sl_prod_operation_id = ao_prod (lr_active_operations app),
    sl_application_operation_id = ao_application (lr_active_operations app)\<rparr>"

text \<open>The columns a record determines.\<close>

definition row_matches :: "lifecycle_record \<Rightarrow> application_row \<Rightarrow> bool" where
  "row_matches app row \<longleftrightarrow>
    ap_app_id row = lr_app_id app \<and> ap_lifecycle_id row = lr_lifecycle_id app
    \<and> ap_lifecycle_epoch row = lr_lifecycle_epoch app
    \<and> ap_lifecycle_state row = lifecycle_name (lr_state app)
    \<and> ap_metadata_revision row = lr_metadata_revision app
    \<and> ap_name row = lr_name app \<and> ap_tenant_id row = lr_tenant_id app \<and> ap_space_id row = lr_space_id app
    \<and> ap_recycle_enabled row = rp_recycle_enabled (lr_runtime_policy app)
    \<and> ap_wake_on_traffic row = rp_wake_on_traffic (lr_runtime_policy app)
    \<and> ap_idle_timeout_seconds row = rp_idle_timeout_seconds (lr_runtime_policy app)
    \<and> ap_created_at_us row = lr_created_at app"

lemma application_row_of_matches: "application_row_of app now = Inr row \<Longrightarrow> row_matches app row"
  by (auto simp: application_row_of_def row_matches_def i64_of_u64_def transpose_r_def split: option.splits if_splits)

lemma u64_of_i64_iff: "u64_of_i64 v = Inr w \<longleftrightarrow> w = v \<and> (case v of None \<Rightarrow> True | Some n \<Rightarrow> 0 \<le> n)"
  by (cases v) (auto simp: u64_of_i64_def)

text \<open>A row and a slots row decode to a record exactly when they are its rows and the
  record may be stored.\<close>

lemma application_of_row_iff:
  "application_of_row ev row sl = Inr app \<longleftrightarrow>
    row_matches app row \<and> sl = slots_row_of app \<and> application_storable ev app"
proof -
  have pair: "(case (a, b) of (Some d, Some p) \<Rightarrow> ensure_r (d \<noteq> p) m | _ \<Rightarrow> Inr ()) = Inr ()
      \<longleftrightarrow> (a = None \<or> b = None \<or> a \<noteq> b)" for a b :: "string option" and m :: string
    by (auto split: option.splits)
  have each: "each_r (\<lambda>v. case v of None \<Rightarrow> Inr () | Some i \<Rightarrow> nonempty i) [a, b, c] = Inr ()
      \<longleftrightarrow> a \<noteq> Some [] \<and> b \<noteq> Some [] \<and> c \<noteq> Some []" for a b c
    by (auto split: option.splits)
  show ?thesis
    unfolding application_of_row_def
    by (simp only: try_r_unit_iff try_r_Inr_iff nonempty_iff ensure_r_simps positive_iff timestamp_iff
        name_decoders_iff u64_of_i64_iff pair each)
       (cases row; cases sl; cases app; cases "lr_runtime_policy app"; cases "lr_active_operations app";
        auto simp: row_matches_def slots_row_of_def application_storable_def slots_exclusive_code
          all_scope_iff)
qed

end
