(* ===== verification/Tables.thy ===== *)
theory Tables
  imports Codec
begin

text \<open>
  The tables of the lifecycle database (\<open>rcoder-storage/src/db/models.rs\<close>,
  \<open>schema/userapp-pg-v1.sql\<close> and its additive versions) as one record of lists of rows,
  with the CHECK, key and foreign-key constraints the statements run under.  A statement
  that violates a constraint fails with a storage error, whose text belongs to the
  database and is not modelled.
\<close>

record request_row =
  rq_app_id :: string
  rq_request_id :: string
  rq_target_kind :: string
  rq_operation_id :: "string option"
  rq_lifecycle_id :: "string option"
  rq_previous_lifecycle_id :: "string option"
  rq_new_lifecycle_id :: "string option"
  rq_created_at_us :: int

record input_row =
  in_operation_id :: string
  in_app_id :: string
  in_lifecycle_id :: string
  in_payload_version :: int
  in_payload :: string
  in_payload_digest :: string
  in_created_at_us :: int

record lease_row =
  le_operation_id :: string
  le_app_id :: string
  le_lifecycle_id :: string
  le_executor_id :: string
  le_request_fingerprint :: string
  le_receipt_version :: int
  le_receipt_json :: json_text
  le_created_at_us :: int

record deadline_row =
  dl_operation_id :: string
  dl_app_id :: string
  dl_lifecycle_id :: string
  dl_deadline_ms :: int

record control_deadline_row =
  kd_operation_id :: string
  kd_app_id :: string
  kd_lifecycle_id :: string
  kd_deadline_ms :: int
  kd_unheld_observed_ms :: "int option"

record binding_row =
  bi_service_type :: string
  bi_physical_uid :: string
  bi_app_id :: string
  bi_lifecycle_id :: string
  bi_adopted_by_operation :: string
  bi_created_at_us :: int

record witness_row =
  wi_app_id :: string
  wi_lifecycle_id :: string
  wi_witness_json :: json_text
  wi_created_at_us :: int

record activity_row =
  ac_app_id :: string
  ac_lifecycle_id :: string
  ac_scope :: string
  ac_last_accessed_at_us :: int
  ac_updated_at_us :: int

record config_version_row =
  cv_app_id :: string
  cv_lifecycle_id :: string
  cv_scope :: string
  cv_version :: int
  cv_request_id :: string
  cv_expected_revision :: int
  cv_payload_version :: int
  cv_pg_username :: string
  cv_pg_password :: string
  cv_created_at_us :: int

record config_row =
  cf_app_id :: string
  cf_lifecycle_id :: string
  cf_scope :: string
  cf_revision :: int
  cf_saved_version :: int
  cf_applied_version :: "int option"
  cf_applying_version :: "int option"
  cf_applying_operation_id :: "string option"
  cf_updated_at_us :: int

record operation_config_row =
  oc_operation_id :: string
  oc_app_id :: string
  oc_lifecycle_id :: string
  oc_scope :: string
  oc_config_version :: int
  oc_physical_uid :: "string option"
  oc_deployment_generation :: "string option"
  oc_credential_state :: string
  oc_business_state :: string
  oc_created_at_us :: int
  oc_updated_at_us :: int

record intent_row =
  it_app_id :: string
  it_scope :: string
  it_lifecycle_id :: string
  it_generation :: int
  it_revision :: int
  it_desired_state :: string
  it_control_operation_id :: "string option"
  it_updated_at_us :: int

record control_row =
  cc_operation_id :: string
  cc_app_id :: string
  cc_lifecycle_id :: string
  cc_scope :: string
  cc_generation :: int
  cc_revision :: int
  cc_action :: string
  cc_state :: string
  cc_request_id :: string
  cc_request_fingerprint :: string
  cc_executor_id :: "string option"
  cc_stage :: string
  cc_evidence_json :: json_text
  cc_checkpoint_json :: json_text
  cc_lease_json :: "json_text option"
  cc_error_code :: "string option"
  cc_error_message :: "string option"
  cc_created_at_us :: int
  cc_updated_at_us :: int
  cc_terminal_at_us :: "int option"

record store =
  st_apps :: "application_row list"
  st_ops :: "operation_row list"
  st_slots :: "slots_row list"
  st_requests :: "request_row list"
  st_inputs :: "input_row list"
  st_leases :: "lease_row list"
  st_deadlines :: "deadline_row list"
  st_control_deadlines :: "control_deadline_row list"
  st_bindings :: "binding_row list"
  st_witnesses :: "witness_row list"
  st_activity :: "activity_row list"
  st_config_versions :: "config_version_row list"
  st_configs :: "config_row list"
  st_operation_configs :: "operation_config_row list"
  st_intents :: "intent_row list"
  st_controls :: "control_row list"

type_synonym 'a action = "(store, store_error, 'a) tx"

definition empty_store :: store where
  "empty_store = \<lparr>st_apps = [], st_ops = [], st_slots = [], st_requests = [], st_inputs = [],
     st_leases = [], st_deadlines = [], st_control_deadlines = [], st_bindings = [], st_witnesses = [],
     st_activity = [], st_config_versions = [], st_configs = [], st_operation_configs = [],
     st_intents = [], st_controls = []\<rparr>"

definition constraint_violation :: store_error where
  "constraint_violation = Storage ''constraint violation''"

text \<open>\<open>.map_err(storage)\<close>.\<close>

definition storage_r :: "string + 'a \<Rightarrow> store_error + 'a" where
  "storage_r r = map_err Storage r"

lemma storage_r_iff [simp]: "storage_r r = Inr x \<longleftrightarrow> r = Inr x"
  by (simp add: storage_r_def)


section \<open>Constraints\<close>

definition application_checks :: "application_row \<Rightarrow> bool" where
  "application_checks row \<longleftrightarrow> ap_app_id row \<noteq> [] \<and> ap_lifecycle_id row \<noteq> []
    \<and> 1 \<le> ap_lifecycle_epoch row \<and> ap_lifecycle_state row \<in> {''active'', ''deleting'', ''deleted''}
    \<and> 1 \<le> ap_metadata_revision row \<and> 1 \<le> ap_control_revision row
    \<and> (case ap_idle_timeout_seconds row of None \<Rightarrow> True | Some n \<Rightarrow> 0 \<le> n)"

text \<open>The \<open>operation_scope\<close> constraint lists the kinds each scope admits.\<close>

definition dev_kinds :: "string list" where
  "dev_kinds = [''ensure_builder'', ''adopt_builder'', ''stop_builder'', ''restart_builder'',
     ''destroy_dev_storage'', ''clear_dev_storage'', ''reset_dev_database_password'']"

definition prod_kinds :: "string list" where
  "prod_kinds = [''create'', ''start_deployment'', ''restart_deployment'', ''update'', ''start'',
     ''restart'', ''stop'', ''set_recycle_policy'', ''hot_deploy'', ''delete_compute'',
     ''destroy_prod_storage'', ''clear_prod_storage'', ''reset_prod_database_password'',
     ''prepare_prod_database'']"

definition application_kinds :: "string list" where
  "application_kinds = [''purge_resources'', ''delete_application'']"

definition operation_scope_check :: "string \<Rightarrow> string \<Rightarrow> bool" where
  "operation_scope_check scope kind \<longleftrightarrow>
    (scope = ''dev'' \<and> kind \<in> set dev_kinds)
    \<or> (scope = ''prod'' \<and> kind \<in> set prod_kinds)
    \<or> (scope = ''application'' \<and> kind \<in> set application_kinds)"

definition operation_checks :: "operation_row \<Rightarrow> bool" where
  "operation_checks row \<longleftrightarrow> ow_operation_id row \<noteq> [] \<and> ow_lifecycle_id row \<noteq> []
    \<and> ow_state row \<in> {''pending'', ''running'', ''waiting_retry'', ''recovery_required'', ''succeeded'', ''failed''}
    \<and> 1 \<le> ow_revision row \<and> length (ow_request_fingerprint row) = 64 \<and> ow_payload_version row = 1
    \<and> operation_scope_check (ow_scope row) (ow_kind row)
    \<and> (ow_state row \<in> {''succeeded'', ''failed''} \<longleftrightarrow> ow_terminal_at_us row \<noteq> None)
    \<and> (ow_state row = ''running'' \<longrightarrow> nonempty_opt (ow_executor_id row))"

definition slots_checks :: "slots_row \<Rightarrow> bool" where
  "slots_checks row \<longleftrightarrow>
    (sl_application_operation_id row = None
      \<or> sl_dev_operation_id row = None \<and> sl_prod_operation_id row = None)
    \<and> (sl_dev_operation_id row = None \<or> sl_prod_operation_id row = None
      \<or> sl_dev_operation_id row \<noteq> sl_prod_operation_id row)"

text \<open>Foreign keys into \<open>userapps\<close> and \<open>userapp_operations\<close>.\<close>

definition app_exists :: "store \<Rightarrow> string \<Rightarrow> bool" where
  "app_exists st app_id \<longleftrightarrow> list_ex (\<lambda>row. ap_app_id row = app_id) (st_apps st)"

definition lifecycle_exists :: "store \<Rightarrow> string \<Rightarrow> string \<Rightarrow> bool" where
  "lifecycle_exists st app_id lifecycle_id \<longleftrightarrow>
    list_ex (\<lambda>row. ap_app_id row = app_id \<and> ap_lifecycle_id row = lifecycle_id) (st_apps st)"

definition operation_exists :: "store \<Rightarrow> string \<Rightarrow> string \<Rightarrow> string \<Rightarrow> bool" where
  "operation_exists st operation_id app_id lifecycle_id \<longleftrightarrow>
    list_ex (\<lambda>row. ow_operation_id row = operation_id \<and> ow_app_id row = app_id
      \<and> ow_lifecycle_id row = lifecycle_id) (st_ops st)"

definition operation_ref :: "store \<Rightarrow> string option \<Rightarrow> string \<Rightarrow> string \<Rightarrow> bool" where
  "operation_ref st v app_id lifecycle_id =
    (case v of None \<Rightarrow> True | Some i \<Rightarrow> operation_exists st i app_id lifecycle_id)"

definition slots_refs :: "store \<Rightarrow> slots_row \<Rightarrow> bool" where
  "slots_refs st row \<longleftrightarrow> lifecycle_exists st (sl_app_id row) (sl_lifecycle_id row)
    \<and> operation_ref st (sl_dev_operation_id row) (sl_app_id row) (sl_lifecycle_id row)
    \<and> operation_ref st (sl_prod_operation_id row) (sl_app_id row) (sl_lifecycle_id row)
    \<and> operation_ref st (sl_application_operation_id row) (sl_app_id row) (sl_lifecycle_id row)"

text \<open>Rows that still name a lifecycle keep it from being renamed.\<close>

definition lifecycle_referenced :: "store \<Rightarrow> string \<Rightarrow> string \<Rightarrow> bool" where
  "lifecycle_referenced st app_id lifecycle_id \<longleftrightarrow>
    list_ex (\<lambda>row. sl_app_id row = app_id \<and> sl_lifecycle_id row = lifecycle_id) (st_slots st)
    \<or> list_ex (\<lambda>row. ac_app_id row = app_id \<and> ac_lifecycle_id row = lifecycle_id) (st_activity st)"

definition request_checks :: "request_row \<Rightarrow> bool" where
  "request_checks row \<longleftrightarrow> rq_request_id row \<noteq> []
    \<and> ((rq_target_kind row = ''control'' \<and> rq_operation_id row \<noteq> None \<and> rq_lifecycle_id row \<noteq> None
         \<and> rq_previous_lifecycle_id row = None \<and> rq_new_lifecycle_id row = None)
       \<or> (rq_target_kind row = ''recreate'' \<and> rq_operation_id row = None \<and> rq_lifecycle_id row = None
         \<and> nonempty_opt (rq_previous_lifecycle_id row) \<and> nonempty_opt (rq_new_lifecycle_id row)
         \<and> rq_previous_lifecycle_id row \<noteq> rq_new_lifecycle_id row))"

definition request_refs :: "store \<Rightarrow> request_row \<Rightarrow> bool" where
  "request_refs st row \<longleftrightarrow> app_exists st (rq_app_id row)
    \<and> (case (rq_operation_id row, rq_lifecycle_id row) of
         (Some i, Some l) \<Rightarrow> operation_exists st i (rq_app_id row) l | _ \<Rightarrow> True)"

text \<open>Every kind except \<open>AdoptApplication\<close> passes the scope constraint in its own scope.\<close>

lemma operation_scope_check_kind:
  "operation_scope_check (scope_name (kind_scope k)) (kind_name k) \<longleftrightarrow> k \<noteq> Kind_AdoptApplication"
  by (cases k)
     (simp_all add: operation_scope_check_def name_of_def scope_names_def kind_names_def dev_kinds_def
        prod_kinds_def application_kinds_def)

end
