(* ===== verification/Repo.thy ===== *)
theory Repo
  imports Tables
begin

text \<open>
  Row access (\<open>userapp_lifecycle/common/repo.rs\<close>).  The two backends run the same
  statements: PostgreSQL as written, Turso after \<open>sql\<close> has rewritten the placeholders.
  PostgreSQL's \<open>FOR UPDATE\<close> and Turso's immediate transactions serialize the writers of an
  application, which is why a transaction is one step on the store.
\<close>


section \<open>Statement text\<close>

datatype backend = Postgres | Turso

text \<open>The scanner of \<open>sql\<close>: \<open>quote\<close> is the delimiter of the quoted text it is in.\<close>

fun translate :: "char option \<Rightarrow> string \<Rightarrow> string" where
  "translate q [] = []"
| "translate (Some d) (c # cs) =
     (if c = d
      then (case cs of
              c' # cs' \<Rightarrow> if c' = d then c # d # translate (Some d) cs' else c # translate None cs
            | [] \<Rightarrow> [c])
      else c # translate (Some d) cs)"
| "translate None (c # cs) =
     (if c = CHR 39 \<or> c = CHR 34 then c # translate (Some c) cs
      else if c = CHR ''$'' \<and> (case cs of [] \<Rightarrow> False | c' # _ \<Rightarrow> is_ascii_digit c')
      then CHR ''?'' # translate None cs
      else c # translate None cs)"

fun sql :: "backend \<Rightarrow> string \<Rightarrow> string" where
  "sql Postgres source = source"
| "sql Turso source = translate None source"


section \<open>Statements\<close>

text \<open>\<open>UPDATE .. WHERE p\<close> that must change one row: none fails with \<open>e\<close>, and a row that
  would break a constraint fails with a storage error.\<close>

definition update_one ::
  "(store \<Rightarrow> 'r list) \<Rightarrow> (('r list \<Rightarrow> 'r list) \<Rightarrow> store \<Rightarrow> store) \<Rightarrow>
   ('r \<Rightarrow> bool) \<Rightarrow> ('r \<Rightarrow> 'r) \<Rightarrow> (store \<Rightarrow> 'r \<Rightarrow> bool) \<Rightarrow> store_error \<Rightarrow> unit action" where
  "update_one get upd p f ok e = (\<lambda>st.
    if count_where p (get st) \<noteq> 1 then Inl e
    else if \<not> list_all (\<lambda>r. p r \<longrightarrow> ok st (f r)) (get st) then Inl constraint_violation
    else Inr ((), upd (update_where p f) st))"

definition insert_row ::
  "(('r list \<Rightarrow> 'r list) \<Rightarrow> store \<Rightarrow> store) \<Rightarrow> (store \<Rightarrow> bool) \<Rightarrow> 'r \<Rightarrow> unit action" where
  "insert_row upd ok row = (\<lambda>st.
    if ok st then Inr ((), upd (\<lambda>t. t @ [row]) st) else Inl constraint_violation)"

text \<open>\<open>UPDATE .. WHERE p\<close> whatever the number of rows.\<close>

definition update_rows ::
  "(store \<Rightarrow> 'r list) \<Rightarrow> (('r list \<Rightarrow> 'r list) \<Rightarrow> store \<Rightarrow> store) \<Rightarrow>
   ('r \<Rightarrow> bool) \<Rightarrow> ('r \<Rightarrow> 'r) \<Rightarrow> (store \<Rightarrow> 'r \<Rightarrow> bool) \<Rightarrow> unit action" where
  "update_rows get upd p f ok = (\<lambda>st.
    if \<not> list_all (\<lambda>r. p r \<longrightarrow> ok st (f r)) (get st) then Inl constraint_violation
    else Inr ((), upd (update_where p f) st))"

text \<open>A panic of the body ends the job with an unknown outcome; the transaction it dropped
  is rolled back.\<close>

definition panicked :: store_error where
  "panicked = Storage ''database execution outcome is unknown; query the original operation identity''"

text \<open>\<open>DELETE .. WHERE p\<close>, and the same where one row must go.\<close>

definition delete_rows ::
  "(('r list \<Rightarrow> 'r list) \<Rightarrow> store \<Rightarrow> store) \<Rightarrow> ('r \<Rightarrow> bool) \<Rightarrow> unit action" where
  "delete_rows upd p = tx_modify (upd (delete_where p))"

definition delete_one ::
  "(store \<Rightarrow> 'r list) \<Rightarrow> (('r list \<Rightarrow> 'r list) \<Rightarrow> store \<Rightarrow> store) \<Rightarrow> ('r \<Rightarrow> bool) \<Rightarrow>
   store_error \<Rightarrow> unit action" where
  "delete_one get upd p e = (\<lambda>st.
    if count_where p (get st) \<noteq> 1 then Inl e else Inr ((), upd (delete_where p) st))"

text \<open>\<open>SELECT .. WHERE p AND key > after ORDER BY key LIMIT n\<close>.\<close>

definition page :: "('r \<Rightarrow> string) \<Rightarrow> ('r \<Rightarrow> bool) \<Rightarrow> string option \<Rightarrow> nat \<Rightarrow> 'r list \<Rightarrow> 'r list" where
  "page key p after n rows =
    take n (sort_key key (filter (\<lambda>r. p r \<and> (case after of None \<Rightarrow> [] | Some a \<Rightarrow> a) < key r) rows))"

text \<open>A root token every writer of an application competes on; absent rows have none.\<close>

definition claim_app :: "string \<Rightarrow> unit action" where
  "claim_app app_id =
    tx_bind (tx_read (\<lambda>st. lookup ap_app_id (st_apps st) app_id)) (\<lambda>found.
    case found of
      None \<Rightarrow> tx_return ()
    | Some row \<Rightarrow>
        tx_bind (tx_lift (ok_or (InvalidOperation ''Application control revision exhausted'')
          (if ap_control_revision row > 0 then checked_add (ap_control_revision row) 1 else None))) (\<lambda>next_revision.
        update_one st_apps st_apps_update
          (\<lambda>r. ap_app_id r = app_id \<and> ap_control_revision r = ap_control_revision row
            \<and> ap_lifecycle_id r = ap_lifecycle_id row \<and> ap_lifecycle_state r = ap_lifecycle_state row)
          (\<lambda>r. r\<lparr>ap_control_revision := next_revision\<rparr>) (\<lambda>_. application_checks) VersionConflict))"

definition repo_app :: "env \<Rightarrow> string \<Rightarrow> lifecycle_record option action" where
  "repo_app ev app_id =
    tx_bind (tx_read (\<lambda>st. lookup ap_app_id (st_apps st) app_id)) (\<lambda>found.
    case found of
      None \<Rightarrow> tx_return None
    | Some row \<Rightarrow>
        tx_bind (tx_read (\<lambda>st. lookup sl_app_id (st_slots st) app_id)) (\<lambda>slots.
        tx_bind (tx_lift (ok_or (InvalidOperation ''Application active-operation slots are missing'') slots)) (\<lambda>slots.
        tx_lift (map_err Storage (try_r (application_of_row ev row slots) (\<lambda>app. Inr (Some app)))))))"

definition repo_operation :: "env \<Rightarrow> string \<Rightarrow> string \<Rightarrow> operation_record option action" where
  "repo_operation ev app_id i =
    tx_bind (tx_read (\<lambda>st. lookup ow_operation_id (st_ops st) i)) (\<lambda>row.
    tx_lift (storage_r (transpose_r (operation_of_row ev)
      (case row of None \<Rightarrow> None | Some r \<Rightarrow> if ow_app_id r = app_id then Some r else None))))"

text \<open>\<open>.await?.ok_or(e)?\<close>.\<close>

definition tx_some :: "store_error \<Rightarrow> 'a option \<Rightarrow> 'a action" where
  "tx_some e v = tx_lift (ok_or e v)"

fun active_scopes ::
  "env \<Rightarrow> lifecycle_record \<Rightarrow> operation_scope list \<Rightarrow> active_operation_records \<Rightarrow>
   active_operation_records action" where
  "active_scopes ev app [] records = tx_return records"
| "active_scopes ev app (scope # scopes) records =
     (case slot (lr_active_operations app) scope of
        None \<Rightarrow> active_scopes ev app scopes records
      | Some i \<Rightarrow>
          tx_bind (repo_operation ev (lr_app_id app) i) (\<lambda>found.
          tx_bind (tx_some (InvalidOperation ''Active operation record is missing'') found) (\<lambda>op.
          if or_lifecycle_id op \<noteq> lr_lifecycle_id app \<or> or_scope op \<noteq> scope \<or> op_is_terminal (or_state op)
          then tx_fail (InvalidOperation ''Active operation identity/scope/state is inconsistent'')
          else active_scopes ev app scopes (set_record_slot scope (Some op) records))))"

definition active :: "env \<Rightarrow> lifecycle_record \<Rightarrow> active_operation_records action" where
  "active ev app = active_scopes ev app scope_all active_records_default"

definition repo_request :: "string \<Rightarrow> string \<Rightarrow> request_row option action" where
  "repo_request app_id request_id =
    tx_read (\<lambda>st. lookup (\<lambda>r. (rq_app_id r, rq_request_id r)) (st_requests st) (app_id, request_id))"

definition request_operation :: "env \<Rightarrow> string \<Rightarrow> request_row \<Rightarrow> operation_record option action" where
  "request_operation ev app_id request =
    (if rq_target_kind request = ''recreate'' then tx_return None
     else if rq_target_kind request \<noteq> ''control'' \<or> rq_app_id request \<noteq> app_id
     then tx_fail (InvalidOperation ''Invalid request mapping'')
     else tx_bind (tx_some (InvalidOperation ''Control request has no operation'') (rq_operation_id request)) (\<lambda>i.
       tx_bind (repo_operation ev app_id i) (\<lambda>found.
       tx_bind (tx_some (InvalidOperation ''Request operation is missing'') found) (\<lambda>op.
       if rq_lifecycle_id request \<noteq> Some (or_lifecycle_id op) then tx_fail LifecycleConflict
       else tx_return (Some op)))))"

definition create_slots :: "string \<Rightarrow> string \<Rightarrow> unit action" where
  "create_slots app_id lifecycle_id =
    (let row = \<lparr>sl_app_id = app_id, sl_lifecycle_id = lifecycle_id, sl_dev_operation_id = None,
           sl_prod_operation_id = None, sl_application_operation_id = None\<rparr> in
     insert_row st_slots_update
       (\<lambda>st. lookup sl_app_id (st_slots st) app_id = None \<and> slots_checks row \<and> slots_refs st row) row)"

text \<open>\<open>INSERT .. ON CONFLICT(app_id) DO NOTHING\<close> and whether it inserted.\<close>

definition insert_application :: "application_row \<Rightarrow> bool action" where
  "insert_application row = (\<lambda>st.
    if \<not> application_checks row then Inl constraint_violation
    else if lookup ap_app_id (st_apps st) (ap_app_id row) \<noteq> None then Inr (False, st)
    else Inr (True, st_apps_update (\<lambda>t. t @ [row]) st))"

definition ensure_with_created :: "env \<Rightarrow> lifecycle_record \<Rightarrow> (lifecycle_record \<times> bool) action" where
  "ensure_with_created ev proposed =
    tx_bind (tx_lift (storage_r (application_row_of proposed (ev_now ev)))) (\<lambda>row.
    tx_bind (insert_application row) (\<lambda>inserted.
    tx_then (claim_app (ap_app_id row))
   (tx_then (if inserted then create_slots (ap_app_id row) (ap_lifecycle_id row) else tx_return ())
   (tx_bind (repo_app ev (ap_app_id row)) (\<lambda>found.
    tx_bind (tx_some NotFound found) (\<lambda>app.
    tx_return (app, inserted)))))))"

definition ensure :: "env \<Rightarrow> lifecycle_record \<Rightarrow> lifecycle_record action" where
  "ensure ev proposed = tx_bind (ensure_with_created ev proposed) (\<lambda>(app, _). tx_return app)"

definition save_app :: "env \<Rightarrow> lifecycle_record \<Rightarrow> string \<Rightarrow> int \<Rightarrow> unit action" where
  "save_app ev record old_lifecycle old_revision =
    tx_bind (tx_lift (storage_r (application_row_of record (ev_now ev)))) (\<lambda>row.
    update_one st_apps st_apps_update
      (\<lambda>r. ap_app_id r = ap_app_id row \<and> ap_lifecycle_id r = old_lifecycle
        \<and> ap_metadata_revision r = old_revision)
      (\<lambda>r. row\<lparr>ap_control_revision := ap_control_revision r\<rparr>)
      (\<lambda>st r. application_checks r
        \<and> (ap_lifecycle_id r = old_lifecycle \<or> \<not> lifecycle_referenced st (ap_app_id r) old_lifecycle))
      VersionConflict)"

definition save_slots :: "lifecycle_record \<Rightarrow> lifecycle_record \<Rightarrow> unit action" where
  "save_slots app previous =
    update_one st_slots st_slots_update
      (\<lambda>r. sl_app_id r = lr_app_id app \<and> sl_lifecycle_id r = lr_lifecycle_id app
        \<and> sl_dev_operation_id r = ao_dev (lr_active_operations previous)
        \<and> sl_prod_operation_id r = ao_prod (lr_active_operations previous)
        \<and> sl_application_operation_id r = ao_application (lr_active_operations previous))
      (\<lambda>r. r\<lparr>sl_dev_operation_id := ao_dev (lr_active_operations app),
        sl_prod_operation_id := ao_prod (lr_active_operations app),
        sl_application_operation_id := ao_application (lr_active_operations app)\<rparr>)
      (\<lambda>st r. slots_checks r \<and> slots_refs st r) VersionConflict"

definition insert_operation :: "env \<Rightarrow> operation_record \<Rightarrow> unit action" where
  "insert_operation ev record =
    tx_bind (tx_lift (storage_r (operation_row_of record (ev_now ev) None))) (\<lambda>row.
    insert_row st_ops_update
      (\<lambda>st. lookup ow_operation_id (st_ops st) (ow_operation_id row) = None
        \<and> operation_checks row \<and> app_exists st (ow_app_id row)) row)"

definition save_operation :: "env \<Rightarrow> operation_record \<Rightarrow> operation_record \<Rightarrow> unit action" where
  "save_operation ev record previous =
    tx_bind (tx_read (\<lambda>st. lookup ow_operation_id (st_ops st) (or_operation_id record))) (\<lambda>found.
    tx_bind (tx_some (Storage ''record not found'') found) (\<lambda>current.
    tx_bind (tx_lift (storage_r (operation_row_of record (ev_now ev) (ow_terminal_at_us current)))) (\<lambda>row.
    update_one st_ops st_ops_update
      (\<lambda>r. ow_operation_id r = or_operation_id record \<and> ow_app_id r = or_app_id record
        \<and> ow_lifecycle_id r = or_lifecycle_id record \<and> ow_revision r = or_revision previous
        \<and> ow_state r = state_name (or_state previous) \<and> ow_executor_id r = or_executor_id previous)
      (\<lambda>r. r\<lparr>ow_state := ow_state row, ow_revision := ow_revision row, ow_executor_id := ow_executor_id row,
        ow_step := ow_step row, ow_error_code := ow_error_code row, ow_error_message := ow_error_message row,
        ow_checkpoint_json := ow_checkpoint_json row, ow_updated_at_us := ow_updated_at_us row,
        ow_terminal_at_us := ow_terminal_at_us row\<rparr>)
      (\<lambda>_. operation_checks) VersionConflict)))"

end
