(* ===== verification/Evidence_Wire.thy ===== *)
theory Evidence_Wire
  imports Codec
begin

text \<open>
  The JSON writers of the typed checkpoints that recovery transactions store themselves
  (\<open>serde_json::to_value\<close> on the types of \<open>userapp/db_password.rs\<close>, \<open>builder_control.rs\<close>,
  \<open>resource_binding.rs\<close> and \<open>runtime_configuration.rs\<close>), each a codec with the reader the
  progress rules use.
\<close>


section \<open>Writers of typed checkpoints\<close>

definition enc_resource_binding :: "resource_binding \<Rightarrow> json" where
  "enc_resource_binding b = JObj
    [(''adopted_by_operation'', JStr (rb_adopted_by_operation b)), (''app_id'', JStr (rb_app_id b)),
     (''lifecycle_id'', JStr (rb_lifecycle_id b)), (''physical_uid'', JStr (rb_physical_uid b)),
     (''service_type'', JStr (show_service_type (rb_service_type b)))]"

definition enc_pod_identity :: "pod_identity \<Rightarrow> json" where
  "enc_pod_identity p = JObj
    [(''name'', JStr (pi_name p)), (''resource_version'', JStr (pi_resource_version p)),
     (''uid'', JStr (pi_uid p))]"

definition enc_builder_control_target :: "builder_control_target \<Rightarrow> json" where
  "enc_builder_control_target t = JObj
    ((if is_preserve (bt_builder_startup_mode t) then []
      else [(''builder_startup_mode'', JStr (name_of startup_mode_names (bt_builder_startup_mode t)))])
     @ [(''context'', enc_execution_context (bt_context t)),
        (''pod'', enc_opt enc_pod_identity (bt_pod t))]
     @ skip_none ''resource_binding'' enc_resource_binding (bt_resource_binding t)
     @ skip_none ''restart_image'' JStr (bt_restart_image t)
     @ skip_none ''restart_runtime_workspace'' JStr (bt_restart_runtime_workspace t)
     @ [(''workload'', enc_opt enc_resource_identity (bt_workload t))])"

definition enc_runtime_configuration_target :: "runtime_configuration_target \<Rightarrow> json" where
  "enc_runtime_configuration_target t = JObj
    [(''deployment_generation'', JStr (rt_deployment_generation t)),
     (''physical_uid'', JStr (rt_physical_uid t))]"

fun enc_database_password_target :: "database_password_target \<Rightarrow> json" where
  "enc_database_password_target (Pw_Dev t) =
     JObj [(''scope'', JStr ''dev''), (''target'', enc_builder_control_target t)]"
| "enc_database_password_target (Pw_Prod t) =
     JObj [(''scope'', JStr ''prod''), (''target'', enc_runtime_configuration_target t)]"

definition enc_database_password_evidence :: "database_password_evidence \<Rightarrow> json" where
  "enc_database_password_evidence e = JObj
    ([(''context'', enc_execution_context (pe_context e))]
     @ skip_none ''receipt_protocol'' JNum (pe_receipt_protocol e)
     @ [(''stage'', JStr (name_of password_stage_names (pe_stage e))),
        (''target'', enc_database_password_target (pe_target e)),
        (''username'', JStr (pe_username e))])"

definition enc_explicit_deployment_password_evidence ::
  "explicit_deployment_password_evidence \<Rightarrow> json" where
  "enc_explicit_deployment_password_evidence e = JObj
    ([(''context'', enc_execution_context (xe_context e)),
      (''explicit_pg_target'', enc_runtime_configuration_target (xe_explicit_pg_target e))]
     @ skip_none ''receipt_protocol'' JNum (xe_receipt_protocol e)
     @ [(''stage'', JStr (name_of password_stage_names (xe_stage e))),
        (''username'', JStr (xe_username e))])"

definition enc_database_preparation_evidence :: "database_preparation_evidence \<Rightarrow> json" where
  "enc_database_preparation_evidence e = JObj
    [(''deployment_generation'', JStr (pp_deployment_generation e)),
     (''management'', enc_opt enc_runtime_configuration_target (pp_management e)),
     (''stage'', JStr (name_of preparation_stage_names (pp_stage e))),
     (''target'', enc_mutation_target (pp_target e))]"

text \<open>What these writers emit, the readers of the same types accept and return unchanged.\<close>

interpretation binding_json: json_codec enc_resource_binding dec_resource_binding "\<lambda>_. True"
  by unfold_locales
     (simp add: enc_resource_binding_def dec_resource_binding_def field_def opt_field_def
        deny_unknown_def as_object_def str_json.dec_enc service_type_json.dec_enc)

interpretation pod_json: json_codec enc_pod_identity dec_pod_identity "\<lambda>_. True"
  by unfold_locales
     (simp add: enc_pod_identity_def dec_pod_identity_def field_def as_object_def str_json.dec_enc)

interpretation startup_mode: name_codec "name_of startup_mode_names" "name_in startup_mode_names"
proof (rule name_codec_table)
  show "distinct (map fst startup_mode_names)" "distinct (map snd startup_mode_names)"
    by (simp_all add: startup_mode_names_def)
  show "m \<in> fst ` set startup_mode_names" for m
    by (cases m) (simp_all only: name_table_simps startup_mode_names_def)
qed

interpretation password_stage: name_codec "name_of password_stage_names" "name_in password_stage_names"
proof (rule name_codec_table)
  show "distinct (map fst password_stage_names)" "distinct (map snd password_stage_names)"
    by (simp_all add: password_stage_names_def)
  show "m \<in> fst ` set password_stage_names" for m
    by (cases m) (simp_all only: name_table_simps password_stage_names_def)
qed

interpretation preparation_stage:
  name_codec "name_of preparation_stage_names" "name_in preparation_stage_names"
proof (rule name_codec_table)
  show "distinct (map fst preparation_stage_names)" "distinct (map snd preparation_stage_names)"
    by (simp_all add: preparation_stage_names_def)
  show "m \<in> fst ` set preparation_stage_names" for m
    by (cases m) (simp_all only: name_table_simps preparation_stage_names_def)
qed

text \<open>An optional field is read back from either form its writer uses.\<close>

lemma opt_field_enc:
  assumes "json_codec enc dec ok" "pred_option ok v" "\<And>x. enc x \<noteq> JNull"
  shows "map_of m k = Some (enc_opt enc v) \<Longrightarrow> opt_field k dec m = Some v"
    and "map_of m k = map_option enc v \<Longrightarrow> opt_field k dec m = Some v"
  using assms(2,3) json_codec.dec_enc [OF assms(1)]
  by (auto simp: opt_field_def dec_opt_def enc_opt_def split: option.splits)

lemma map_of_skip_none [simp]: "map_of (skip_none k f v) x = (if x = k then map_option f v else None)"
  by (auto simp: skip_none_def split: option.splits)

lemma list_all_skip_none [simp]:
  "list_all P (skip_none k f v) \<longleftrightarrow> (case v of None \<Rightarrow> True | Some x \<Rightarrow> P (k, f x))"
  by (auto simp: skip_none_def split: option.splits)

lemma enc_not_null [simp]:
  "enc_resource_binding b \<noteq> JNull" "enc_pod_identity p \<noteq> JNull" "enc_resource_identity r \<noteq> JNull"
  "enc_runtime_configuration_target t \<noteq> JNull"
  by (simp_all add: enc_resource_binding_def enc_pod_identity_def enc_resource_identity_def
      enc_runtime_configuration_target_def)


interpretation builder_target_json:
  json_codec enc_builder_control_target dec_builder_control_target "\<lambda>_. True"
proof
  fix t
  obtain m where m: "enc_builder_control_target t = JObj m"
    and entries: "\<And>k. map_of m k =
      (if k = ''builder_startup_mode''
       then (if is_preserve (bt_builder_startup_mode t) then None
             else Some (JStr (name_of startup_mode_names (bt_builder_startup_mode t))))
       else if k = ''context'' then Some (enc_execution_context (bt_context t))
       else if k = ''pod'' then Some (enc_opt enc_pod_identity (bt_pod t))
       else if k = ''resource_binding'' then map_option enc_resource_binding (bt_resource_binding t)
       else if k = ''restart_image'' then map_option JStr (bt_restart_image t)
       else if k = ''restart_runtime_workspace'' then map_option JStr (bt_restart_runtime_workspace t)
       else if k = ''workload'' then Some (enc_opt enc_resource_identity (bt_workload t))
       else None)"
    and known: "deny_unknown [''resource_binding'', ''context'', ''workload'', ''pod'', ''restart_image'',
       ''restart_runtime_workspace'', ''builder_startup_mode'', ''builder_compute_single_write'',
       ''builder_volumes'', ''builder_restart_template'', ''builder_restart_template_history'',
       ''builder_restart_stop_observation'', ''kubernetes_restart_stop_confirmation''] m = Some ()"
  proof (rule that [OF enc_builder_control_target_def], goal_cases)
    case (1 k)
    show ?case
      by (simp add: map_add_def split: option.splits)
  next
    case 2
    show ?case
      by (simp add: deny_unknown_def split: option.splits)
  qed
  have "opt_field ''resource_binding'' dec_resource_binding m = Some (bt_resource_binding t)"
    by (rule opt_field_enc(2) [OF binding_json.json_codec_axioms]) (simp_all add: entries option.pred_True)
  moreover have "field ''context'' dec_execution_context m = Some (bt_context t)"
    by (rule context_json.field_enc) (simp_all add: entries)
  moreover have "opt_field ''workload'' dec_resource_identity m = Some (bt_workload t)"
    by (rule opt_field_enc(1) [OF resource_json.json_codec_axioms]) (simp_all add: entries option.pred_True)
  moreover have "opt_field ''pod'' dec_pod_identity m = Some (bt_pod t)"
    by (rule opt_field_enc(1) [OF pod_json.json_codec_axioms]) (simp_all add: entries option.pred_True)
  moreover have "opt_field ''restart_image'' dec_str m = Some (bt_restart_image t)"
    "opt_field ''restart_runtime_workspace'' dec_str m = Some (bt_restart_runtime_workspace t)"
    by (rule opt_field_enc(2) [OF str_json.json_codec_axioms]; simp add: entries option.pred_True)+
  moreover have "default_field ''builder_startup_mode'' PreserveBusinessIntent
      (dec_enum (name_in startup_mode_names)) m = Some (bt_builder_startup_mode t)"
    by (cases "bt_builder_startup_mode t") (simp_all add: entries default_field_def is_preserve_def)
  moreover have "default_field ''builder_compute_single_write'' False dec_bool m = Some False"
    "default_field ''builder_volumes'' [] (dec_list dec_resource_identity) m = Some []"
    "default_field ''builder_restart_template_history'' [] (dec_list dec_any) m = Some []"
    by (simp_all add: entries default_field_def)
  ultimately show "dec_builder_control_target (enc_builder_control_target t) = Some t"
    using known by (simp add: m dec_builder_control_target_def from_observation_checkpoint_def as_object_def)
qed

interpretation runtime_target_json:
  json_codec enc_runtime_configuration_target dec_runtime_configuration_target "\<lambda>_. True"
  by unfold_locales
     (simp add: enc_runtime_configuration_target_def dec_runtime_configuration_target_def field_def
        as_object_def str_json.dec_enc)

interpretation password_target_json:
  json_codec enc_database_password_target dec_database_password_target "\<lambda>_. True"
proof
  show "dec_database_password_target (enc_database_password_target t) = Some t" for t
    by (cases t)
       (simp_all add: dec_database_password_target_def field_def as_object_def str_json.dec_enc
          builder_target_json.dec_enc runtime_target_json.dec_enc)
qed

definition protocol_in_range :: "int option \<Rightarrow> bool" where
  "protocol_in_range p = (case p of None \<Rightarrow> True | Some n \<Rightarrow> 0 \<le> n \<and> n \<le> 4294967295)"

lemma opt_u32_skip:
  assumes "protocol_in_range p" "map_of m k = map_option JNum p"
  shows "opt_field k dec_u32 m = Some p"
  using assms by (auto simp: protocol_in_range_def opt_field_def dec_opt_def dec_u32_def split: option.splits)

interpretation password_json:
  json_codec enc_database_password_evidence dec_database_password_evidence
    "\<lambda>e. protocol_in_range (pe_receipt_protocol e)"
  by unfold_locales
     (simp add: enc_database_password_evidence_def dec_database_password_evidence_def as_object_def
        deny_unknown_def field_def map_add_def opt_u32_skip context_json.dec_enc str_json.dec_enc
        password_target_json.dec_enc split: option.splits)

interpretation explicit_password_json:
  json_codec enc_explicit_deployment_password_evidence dec_explicit_deployment_password_evidence
    "\<lambda>e. protocol_in_range (xe_receipt_protocol e)"
  by unfold_locales
     (simp add: enc_explicit_deployment_password_evidence_def
        dec_explicit_deployment_password_evidence_def as_object_def
        deny_unknown_def field_def map_add_def opt_u32_skip context_json.dec_enc str_json.dec_enc
        runtime_target_json.dec_enc split: option.splits)

interpretation preparation_json:
  json_codec enc_database_preparation_evidence dec_database_preparation_evidence "\<lambda>_. True"
  by unfold_locales
     (simp add: enc_database_preparation_evidence_def dec_database_preparation_evidence_def as_object_def
        deny_unknown_def field_def mutation_target_json.dec_enc str_json.dec_enc
        opt_field_enc(1) [OF runtime_target_json.json_codec_axioms] option.pred_True)

end
