(* ===== verification/Builder_Evidence.thy ===== *)
theory Builder_Evidence
  imports Evidence_Wire
begin

text \<open>
  Builder creation evidence (\<open>userapp/builder_control.rs\<close>), hot deployment outcomes
  (\<open>app_cli_deploy.rs\<close>), rejected runtime requests (\<open>runtime_request_failure.rs\<close>), private
  execution inputs (\<open>userapp/lifecycle.rs\<close>) and the predicates on a stored operation that
  recovery decides by (\<open>userapp/operation_lease.rs\<close>), all under \<open>shared_types/src\<close>.
\<close>


section \<open>Builder creation\<close>

record container_basic_info =
  ci_container_id :: string
  ci_container_name :: string
  ci_container_ip :: string
  ci_internal_port :: int
  ci_external_port :: int
  ci_project_id :: string
  ci_status :: string
  ci_created_at :: int
  ci_service_url :: string
  ci_workload_uid :: "string option"

definition dec_u16 :: "json \<Rightarrow> int option" where
  "dec_u16 v = (case v of JNum n \<Rightarrow> if 0 \<le> n \<and> n \<le> 65535 then Some n else None | _ \<Rightarrow> None)"

definition dec_container_basic_info :: "env \<Rightarrow> json \<Rightarrow> container_basic_info option" where
  "dec_container_basic_info ev j = do {
     m \<leftarrow> as_object j;
     container_id \<leftarrow> field ''container_id'' dec_str m;
     container_name \<leftarrow> field ''container_name'' dec_str m;
     container_ip \<leftarrow> field ''container_ip'' dec_str m;
     internal_port \<leftarrow> field ''internal_port'' dec_u16 m;
     external_port \<leftarrow> field ''external_port'' dec_u16 m;
     project_id \<leftarrow> field ''project_id'' dec_str m;
     status \<leftarrow> field ''status'' dec_str m;
     created_at \<leftarrow> field ''created_at'' (dec_enum (ev_read_datetime ev)) m;
     service_url \<leftarrow> field ''service_url'' dec_str m;
     workload_uid \<leftarrow> opt_field ''workload_uid'' dec_str m;
     Some \<lparr>ci_container_id = container_id, ci_container_name = container_name,
       ci_container_ip = container_ip, ci_internal_port = internal_port,
       ci_external_port = external_port, ci_project_id = project_id, ci_status = status,
       ci_created_at = created_at, ci_service_url = service_url, ci_workload_uid = workload_uid\<rparr> }"

definition enc_container_basic_info :: "env \<Rightarrow> container_basic_info \<Rightarrow> json" where
  "enc_container_basic_info ev c = JObj
    ([(''container_id'', JStr (ci_container_id c)), (''container_ip'', JStr (ci_container_ip c)),
      (''container_name'', JStr (ci_container_name c)),
      (''created_at'', JStr (ev_show_datetime ev (ci_created_at c))),
      (''external_port'', JNum (ci_external_port c)), (''internal_port'', JNum (ci_internal_port c)),
      (''project_id'', JStr (ci_project_id c)), (''service_url'', JStr (ci_service_url c)),
      (''status'', JStr (ci_status c))]
     @ skip_none ''workload_uid'' JStr (ci_workload_uid c))"

record creation_predecessor =
  bp_target :: builder_control_target
  bp_volumes :: "resource_identity list"

definition dec_creation_predecessor :: "json \<Rightarrow> creation_predecessor option" where
  "dec_creation_predecessor j = do {
     m \<leftarrow> as_object j;
     deny_unknown [''target'', ''volumes''] m;
     target \<leftarrow> field ''target'' dec_builder_control_target m;
     volumes \<leftarrow> field ''volumes'' (dec_list dec_resource_identity) m;
     Some \<lparr>bp_target = target, bp_volumes = volumes\<rparr> }"

definition enc_creation_predecessor :: "creation_predecessor \<Rightarrow> json" where
  "enc_creation_predecessor p = JObj
    [(''target'', enc_builder_control_target (bp_target p)),
     (''volumes'', JArr (map enc_resource_identity (bp_volumes p)))]"

interpretation predecessor_json: json_codec enc_creation_predecessor dec_creation_predecessor "\<lambda>_. True"
  by unfold_locales
     (simp add: enc_creation_predecessor_def dec_creation_predecessor_def as_object_def deny_unknown_def
        field_def builder_target_json.dec_enc resource_json.dec_enc_list list.pred_True)

definition volume_claim_incomplete :: "resource_identity \<Rightarrow> bool" where
  "volume_claim_incomplete volume \<longleftrightarrow>
    ri_kind volume \<noteq> Res_PersistentVolumeClaim \<or> ri_name volume = [] \<or> ri_uid volume = []"

definition validate_predecessor_operation :: "creation_predecessor \<Rightarrow> operation_record \<Rightarrow> string + unit" where
  "validate_predecessor_operation self operation =
    try_r (validate_builder_control_target (bp_target self)) (\<lambda>_.
    let context = bt_context (bp_target self) in
    if or_kind operation \<noteq> Kind_EnsureBuilder
       \<or> ec_app_id context \<noteq> or_app_id operation
       \<or> ec_lifecycle_id context \<noteq> or_lifecycle_id operation
       \<or> ec_operation_id context \<noteq> or_operation_id operation
       \<or> or_executor_id operation \<noteq> Some (ec_executor_id context)
       \<or> ec_request_fingerprint context \<noteq> or_request_fingerprint operation
       \<or> (case bt_workload (bp_target self) of
            None \<Rightarrow> True | Some resource \<Rightarrow> ri_kind resource \<noteq> Res_StatefulSet)
       \<or> bp_volumes self = []
       \<or> list_ex volume_claim_incomplete (bp_volumes self)
    then Inl ''Builder predecessor operation or volume identity differs''
    else Inr ())"

text \<open>The map from claim names to uids, as the set of its pairs.\<close>

definition volume_identities :: "resource_identity list \<Rightarrow> string + (string \<times> string) set" where
  "volume_identities items =
    (if list_ex volume_claim_incomplete items \<or> \<not> distinct (map ri_name items)
     then Inl ''Builder replacement volume identity is incomplete''
     else if items = [] then Inl ''Builder replacement requires captured workspace volumes''
     else Inr (set (map (\<lambda>i. (ri_name i, ri_uid i)) items)))"

definition validate_replacement ::
  "creation_predecessor \<Rightarrow> builder_control_target \<Rightarrow> resource_identity list \<Rightarrow> string + unit" where
  "validate_replacement self target volumes =
    try_r (validate_builder_control_target (bp_target self)) (\<lambda>_.
    try_r (validate_builder_control_target target) (\<lambda>_.
    try_r (ok_or ''Builder predecessor workload missing'' (bt_workload (bp_target self))) (\<lambda>source.
    try_r (ok_or ''Builder replacement workload missing'' (bt_workload target)) (\<lambda>replacement.
    if bt_context (bp_target self) \<noteq> bt_context target
       \<or> ri_kind source \<noteq> Res_StatefulSet \<or> ri_kind replacement \<noteq> Res_StatefulSet
       \<or> ri_name source \<noteq> ri_name replacement \<or> ri_uid source = ri_uid replacement
    then Inl ''Builder replacement operation or workload identity differs''
    else try_r (volume_identities (bp_volumes self)) (\<lambda>before.
         try_r (volume_identities volumes) (\<lambda>after.
         if before \<noteq> after then Inl ''Builder replacement workspace volume identity changed''
         else Inr ()))))))"

record creation_evidence =
  be_creation_lease_released :: bool
  be_target :: builder_control_target
  be_container :: container_basic_info
  be_registration_predecessor :: "creation_predecessor option"

definition dec_creation_evidence :: "env \<Rightarrow> json \<Rightarrow> creation_evidence option" where
  "dec_creation_evidence ev j = do {
     m \<leftarrow> as_object j;
     deny_unknown [''creation_lease_released'', ''target'', ''container'', ''registration_predecessor''] m;
     creation_lease_released \<leftarrow> field ''creation_lease_released'' dec_bool m;
     target \<leftarrow> field ''target'' dec_builder_control_target m;
     container \<leftarrow> field ''container'' (dec_container_basic_info ev) m;
     registration_predecessor \<leftarrow> opt_field ''registration_predecessor'' dec_creation_predecessor m;
     Some \<lparr>be_creation_lease_released = creation_lease_released, be_target = target,
       be_container = container, be_registration_predecessor = registration_predecessor\<rparr> }"

definition enc_creation_evidence :: "env \<Rightarrow> creation_evidence \<Rightarrow> json" where
  "enc_creation_evidence ev e = JObj
    ([(''container'', enc_container_basic_info ev (be_container e)),
      (''creation_lease_released'', JBool (be_creation_lease_released e))]
     @ skip_none ''registration_predecessor'' enc_creation_predecessor (be_registration_predecessor e)
     @ [(''target'', enc_builder_control_target (be_target e))])"

definition validate_creation_operation :: "creation_evidence \<Rightarrow> operation_record \<Rightarrow> string + unit" where
  "validate_creation_operation self operation =
    try_r (validate_builder_control_target (be_target self)) (\<lambda>_.
    let context = bt_context (be_target self) in
    if \<not> be_creation_lease_released self
       \<or> or_kind operation \<noteq> Kind_EnsureBuilder
       \<or> or_scope operation \<noteq> Scope_Dev
       \<or> (case bt_resource_binding (be_target self) of
            None \<Rightarrow> False | Some binding \<Rightarrow> rb_service_type binding \<noteq> UserappBuilder)
       \<or> ec_app_id context \<noteq> or_app_id operation
       \<or> ec_lifecycle_id context \<noteq> or_lifecycle_id operation
       \<or> ec_operation_id context \<noteq> or_operation_id operation
       \<or> or_executor_id operation \<noteq> Some (ec_executor_id context)
       \<or> ec_request_fingerprint context \<noteq> or_request_fingerprint operation
    then Inl ''Builder completion operation identity mismatch''
    else try_r (ok_or ''Builder completion workload missing'' (bt_workload (be_target self))) (\<lambda>workload.
    if ri_kind workload = Res_StatefulSet
       \<and> (bt_pod (be_target self) = None
          \<or> (case ci_workload_uid (be_container self) of None \<Rightarrow> False | Some uid \<Rightarrow> uid \<noteq> ri_uid workload))
    then Inl ''Builder completion pod or workload identity missing''
    else if ci_container_id (be_container self) = []
       \<or> (case bt_pod (be_target self) of None \<Rightarrow> ri_uid workload | Some pod \<Rightarrow> pi_uid pod)
          \<noteq> ci_container_id (be_container self)
    then Inl ''Builder completion physical identity mismatch''
    else case be_registration_predecessor self of
      None \<Rightarrow> Inr ()
    | Some predecessor \<Rightarrow>
        try_r (validate_predecessor_operation predecessor operation) (\<lambda>_.
        if (case bt_workload (bp_target predecessor) of
              None \<Rightarrow> False | Some source \<Rightarrow> ri_uid source = ri_uid workload)
        then Inl ''Builder replacement did not change workload identity''
        else Inr ())))"

definition validate_registration_replacement ::
  "creation_evidence \<Rightarrow> operation_record \<Rightarrow> resource_identity list \<Rightarrow> string + unit" where
  "validate_registration_replacement self operation volumes =
    try_r (validate_creation_operation self operation) (\<lambda>_.
    if or_state operation \<noteq> Op_Succeeded
    then Inl ''Builder registration requires a succeeded EnsureBuilder operation''
    else try_r (ok_or ''Builder completion workload missing'' (bt_workload (be_target self))) (\<lambda>workload.
    try_r (case bt_resource_binding (be_target self) of
        None \<Rightarrow> Inr ()
      | Some binding \<Rightarrow>
          try_r (validate_binding binding (bt_context (be_target self)) (ri_uid workload)) (\<lambda>_.
          if rb_service_type binding \<noteq> UserappBuilder
          then Inl ''Builder completion binding has the wrong resource family''
          else Inr ())) (\<lambda>_.
    case be_registration_predecessor self of
      Some source \<Rightarrow> validate_replacement source (be_target self) volumes
    | None \<Rightarrow>
        if ri_kind workload \<noteq> Res_StatefulSet
           \<or> (case ci_workload_uid (be_container self) of None \<Rightarrow> False | Some uid \<Rightarrow> uid \<noteq> ri_uid workload)
           \<or> volumes = []
           \<or> list_ex volume_claim_incomplete volumes
           \<or> card (set (map ri_name volumes)) \<noteq> length volumes
        then Inl ''Builder completion receipt or current volume identity is incomplete''
        else Inr ())))"


section \<open>Rejected requests and hot deployments\<close>

record request_rejection =
  rj_status :: int
  rj_message :: string

definition rejection_from_status :: "int \<Rightarrow> string \<Rightarrow> request_rejection option" where
  "rejection_from_status status message =
    (if 400 \<le> status \<and> status < 500 \<and> status \<noteq> 408 \<and> status \<noteq> 499
     then Some \<lparr>rj_status = status, rj_message = message\<rparr> else None)"

definition show_rejection :: "request_rejection \<Rightarrow> string" where
  "show_rejection r = rj_message r @ '' (HTTP '' @ show_nat (nat (rj_status r)) @ '')''"

datatype deployment_stage = Stage_Pending | Stage_Succeeded | Stage_Failed

datatype deploy_phase = Phase_Idle | Phase_Deploying | Phase_Orchestrating | Phase_Running | Phase_Failed

definition deployment_stage_names :: "(deployment_stage \<times> string) list" where
  "deployment_stage_names =
    [(Stage_Pending, ''pending''), (Stage_Succeeded, ''succeeded''), (Stage_Failed, ''failed'')]"

definition deploy_phase_names :: "(deploy_phase \<times> string) list" where
  "deploy_phase_names =
    [(Phase_Idle, ''idle''), (Phase_Deploying, ''deploying''), (Phase_Orchestrating, ''orchestrating''),
     (Phase_Running, ''running''), (Phase_Failed, ''failed'')]"

record deployment_recovery =
  dr_status :: string
  dr_error :: "string option"
  dr_database_migrations_reversed :: bool

record deployment_operation =
  do_operation_id :: string
  do_deployment_generation_id :: string
  do_deploy_stage :: deployment_stage
  do_persisted :: bool
  do_request_release_id :: string
  do_artifact_release_id :: "string option"
  do_recovery :: "deployment_recovery option"
  do_phase :: deploy_phase
  do_error :: "string option"

record hot_failure_evidence =
  hf_target :: runtime_configuration_target
  hf_protocol_version :: int
  hf_server_phase :: deploy_phase
  hf_operation :: deployment_operation

definition enc_deployment_recovery :: "deployment_recovery \<Rightarrow> json" where
  "enc_deployment_recovery r = JObj
    [(''database_migrations_reversed'', JBool (dr_database_migrations_reversed r)),
     (''error'', enc_opt JStr (dr_error r)), (''status'', JStr (dr_status r))]"

definition enc_deployment_operation :: "deployment_operation \<Rightarrow> json" where
  "enc_deployment_operation d = JObj
    [(''artifact_release_id'', enc_opt JStr (do_artifact_release_id d)),
     (''deploy_stage'', JStr (name_of deployment_stage_names (do_deploy_stage d))),
     (''deployment_generation_id'', JStr (do_deployment_generation_id d)),
     (''error'', enc_opt JStr (do_error d)), (''operation_id'', JStr (do_operation_id d)),
     (''persisted'', JBool (do_persisted d)),
     (''phase'', JStr (name_of deploy_phase_names (do_phase d))),
     (''recovery'', enc_opt enc_deployment_recovery (do_recovery d)),
     (''request_release_id'', JStr (do_request_release_id d))]"

definition enc_hot_failure_evidence :: "hot_failure_evidence \<Rightarrow> json" where
  "enc_hot_failure_evidence e = JObj
    [(''operation'', enc_deployment_operation (hf_operation e)),
     (''protocol_version'', JNum (hf_protocol_version e)),
     (''server_phase'', JStr (name_of deploy_phase_names (hf_server_phase e))),
     (''target'', enc_runtime_configuration_target (hf_target e))]"

definition unified_deploy_protocol :: int where
  "unified_deploy_protocol = 4"

definition validate_outcome ::
  "hot_failure_evidence \<Rightarrow> operation_record \<Rightarrow> string \<Rightarrow> deploy_phase \<Rightarrow> string + unit" where
  "validate_outcome self record checkpoint_phase owner_phase =
    try_r (ok_or ''Hot deployment checkpoint missing'' (json_get ''hot_execution'' (or_checkpoint record))) (\<lambda>hot.
    try_r (ok_or ''Hot execution context missing'' (json_get ''context'' hot)) (\<lambda>context_json.
    try_r (ok_or ''Invalid hot execution context'' (dec_execution_context context_json)) (\<lambda>context.
    try_r (ok_or ''Hot physical target missing'' (json_get ''target'' hot)) (\<lambda>target_json.
    try_r (ok_or ''Invalid hot physical target'' (dec_runtime_configuration_target target_json)) (\<lambda>target.
    if Option.bind (json_get ''receipt_protocol'' hot) as_u64 \<noteq> Some 1
       \<or> Option.bind (json_get ''phase'' hot) as_str \<noteq> Some checkpoint_phase
       \<or> Option.bind (json_get ''release_id'' hot) as_str \<noteq> Some (do_request_release_id (hf_operation self))
       \<or> or_scope record \<noteq> Scope_Prod
       \<or> ec_app_id context \<noteq> or_app_id record
       \<or> ec_lifecycle_id context \<noteq> or_lifecycle_id record
       \<or> ec_operation_id context \<noteq> or_operation_id record
       \<or> Some (ec_executor_id context) \<noteq> or_executor_id record
       \<or> ec_request_fingerprint context \<noteq> or_request_fingerprint record
       \<or> target \<noteq> hf_target self
       \<or> rt_physical_uid target = []
       \<or> rt_deployment_generation target = []
       \<or> hf_protocol_version self \<noteq> unified_deploy_protocol
       \<or> do_operation_id (hf_operation self) \<noteq> or_operation_id record
       \<or> do_deployment_generation_id (hf_operation self) \<noteq> rt_deployment_generation target
       \<or> do_phase (hf_operation self) \<noteq> owner_phase
       \<or> \<not> do_persisted (hf_operation self)
       \<or> hf_server_phase self \<notin> {Phase_Failed, Phase_Running}
       \<or> (case do_recovery (hf_operation self) of
            None \<Rightarrow> False | Some recovery \<Rightarrow> dr_status recovery \<notin> {''restored'', ''failed''})
    then Inl ''Hot deployment evidence does not confirm the original write''
    else Inr ())))))"

definition validate_hot_failure :: "hot_failure_evidence \<Rightarrow> operation_record \<Rightarrow> string + unit" where
  "validate_hot_failure self record = validate_outcome self record ''submit'' Phase_Failed"

definition validate_hot_success :: "hot_failure_evidence \<Rightarrow> operation_record \<Rightarrow> string + unit" where
  "validate_hot_success self record =
    (case validate_outcome self record ''converging'' Phase_Running of
       Inr u \<Rightarrow> Inr u | Inl _ \<Rightarrow> validate_outcome self record ''submit'' Phase_Running)"


section \<open>Private inputs\<close>

text \<open>\<open>UserAppExecutionInput\<close> is its encoded text; the digest is SHA-256 in lower-case hex.\<close>

type_synonym execution_input = string

definition hex_digit :: "nat \<Rightarrow> char" where
  "hex_digit n = (if n < 10 then char_of (48 + n) else char_of (87 + n))"

definition sha256_hex :: "env \<Rightarrow> string \<Rightarrow> string" where
  "sha256_hex ev text = concat (map (\<lambda>byte. [hex_digit (byte div 16), hex_digit (byte mod 16)]) (ev_sha256 ev text))"

definition input_digest :: "env \<Rightarrow> execution_input \<Rightarrow> string" where
  "input_digest ev encoded = sha256_hex ev encoded"

record pg_credential =
  pg_username :: string
  pg_password :: string

definition dec_pg_credential :: "json \<Rightarrow> pg_credential option" where
  "dec_pg_credential j = do {
     m \<leftarrow> as_object j;
     username \<leftarrow> field ''username'' dec_str m;
     password \<leftarrow> field ''password'' dec_str m;
     Some \<lparr>pg_username = username, pg_password = password\<rparr> }"


section \<open>Predicates on stored operations\<close>

definition builder_creation_needs_runtime_receipt :: "operation_record \<Rightarrow> bool" where
  "builder_creation_needs_runtime_receipt op \<longleftrightarrow>
    or_kind op = Kind_EnsureBuilder
    \<and> or_state op \<in> {Op_Running, Op_RecoveryRequired}
    \<and> or_executor_id op \<noteq> None
    \<and> (is_null (or_checkpoint op)
       \<or> (case as_object (or_checkpoint op) of
            Some [(key, value)] \<Rightarrow>
              key = ''builder_creation_predecessor''
              \<and> (case dec_creation_predecessor value of
                    None \<Rightarrow> False | Some source \<Rightarrow> is_ok (validate_predecessor_operation source op))
          | _ \<Rightarrow> False))
    \<and> or_step op \<in> {''claimed'', ''creation_source_captured'', ''creation_confirmation_timed_out'',
        ''worker_interrupted'', ''creation_result''}"

definition pointer_str :: "string list \<Rightarrow> operation_record \<Rightarrow> string option" where
  "pointer_str path op = Option.bind (json_pointer path (or_checkpoint op)) as_str"

definition evidence_of_creation :: "env \<Rightarrow> operation_record \<Rightarrow> bool" where
  "evidence_of_creation ev op =
    (case dec_creation_evidence ev (or_checkpoint op) of
       None \<Rightarrow> False | Some evidence \<Rightarrow> is_ok (validate_creation_operation evidence op))"

definition context_names_operation :: "execution_context \<Rightarrow> operation_record \<Rightarrow> bool" where
  "context_names_operation context op \<longleftrightarrow>
    ec_operation_id context = or_operation_id op \<and> ec_lifecycle_id context = or_lifecycle_id op
    \<and> ec_app_id context = or_app_id op \<and> or_executor_id op = Some (ec_executor_id context)"

fun has_final_evidence :: "env \<Rightarrow> operation_record \<Rightarrow> operation_kind \<Rightarrow> bool" where
  "has_final_evidence ev op Kind_EnsureBuilder \<longleftrightarrow>
     or_step op = ''builder_ready_confirmed'' \<and> evidence_of_creation ev op"
| "has_final_evidence ev op Kind_Create \<longleftrightarrow>
     or_step op = ''runtime_created'' \<and> nonempty_opt (pointer_str [''resource'', ''container_id''] op)"
| "has_final_evidence ev op Kind_Update \<longleftrightarrow>
     or_step op = ''runtime_updated'' \<and> nonempty_opt (pointer_str [''resource'', ''container_id''] op)"
| "has_final_evidence ev op Kind_StartDeployment \<longleftrightarrow>
     or_step op = ''deployment_completed'' \<and> pointer_str [''operation_id''] op = Some (or_operation_id op)
     \<and> pointer_str [''app_id''] op = Some (or_app_id op)"
| "has_final_evidence ev op Kind_RestartDeployment \<longleftrightarrow>
     or_step op = ''deployment_completed'' \<and> pointer_str [''operation_id''] op = Some (or_operation_id op)
     \<and> pointer_str [''app_id''] op = Some (or_app_id op)"
| "has_final_evidence ev op Kind_StopBuilder \<longleftrightarrow>
     or_step op = ''compute_confirmed''
     \<and> pointer_str [''target'', ''context'', ''operation_id''] op = Some (or_operation_id op)
     \<and> pointer_str [''result'', ''operation_id''] op = Some (or_operation_id op)"
| "has_final_evidence ev op Kind_RestartBuilder \<longleftrightarrow>
     or_step op = ''compute_confirmed''
     \<and> pointer_str [''target'', ''context'', ''operation_id''] op = Some (or_operation_id op)
     \<and> pointer_str [''result'', ''operation_id''] op = Some (or_operation_id op)"
| "has_final_evidence ev op Kind_PrepareProdDatabase \<longleftrightarrow>
     (case dec_database_preparation_evidence (or_checkpoint op) of
        None \<Rightarrow> False
      | Some evidence \<Rightarrow> pp_stage evidence = Prep_ManagementReady
          \<and> is_ok (validate_preparation_operation evidence op))"
| "has_final_evidence ev op kind \<longleftrightarrow>
     (if kind \<in> {Kind_Start, Kind_Restart, Kind_Stop, Kind_SetRecyclePolicy}
      then or_step op = ''control_confirmed''
        \<and> pointer_str [''target'', ''context'', ''operation_id''] op = Some (or_operation_id op)
      else if kind \<in> {Kind_DeleteCompute, Kind_PurgeResources, Kind_DeleteApplication}
      then (case dec_deletion_checkpoint (or_checkpoint op) of
          None \<Rightarrow> False
        | Some evidence \<Rightarrow> is_ok (validate_deletion_operation evidence op)
            \<and> dc_stage evidence = final_deletion_stage kind)
      else if kind \<in> {Kind_DestroyDevStorage, Kind_DestroyProdStorage}
      then or_step op = ''development_storage_removed''
        \<and> (case dec_storage_destruction (or_checkpoint op) of
             None \<Rightarrow> False
           | Some evidence \<Rightarrow> is_ok (validate_storage_destruction evidence)
               \<and> context_names_operation (sd_context evidence) op)
      else if kind \<in> {Kind_ClearDevStorage, Kind_ClearProdStorage}
      then or_step op = ''storage_contents_cleared''
        \<and> (case dec_storage_clear (or_checkpoint op) of
             None \<Rightarrow> False
           | Some evidence \<Rightarrow> is_ok (validate_storage_clear evidence)
               \<and> context_names_operation (sc_context evidence) op)
      else if kind \<in> {Kind_ResetDevDatabasePassword, Kind_ResetProdDatabasePassword}
      then (case dec_database_password_evidence (or_checkpoint op) of
          None \<Rightarrow> False
        | Some evidence \<Rightarrow> pe_stage evidence = Pw_Verified
            \<and> is_ok (validate_password_operation evidence op))
      else False)"

definition operation_has_final_evidence :: "env \<Rightarrow> operation_record \<Rightarrow> bool" where
  "operation_has_final_evidence ev op = has_final_evidence ev op (or_kind op)"

definition operation_has_drain_evidence :: "env \<Rightarrow> operation_record \<Rightarrow> bool" where
  "operation_has_drain_evidence ev op \<longleftrightarrow>
    operation_has_final_evidence ev op
    \<or> (or_kind op = Kind_EnsureBuilder \<and> or_step op = ''builder_created_observed''
       \<and> evidence_of_creation ev op)"

definition checkpoint_target :: "operation_record \<Rightarrow> mutation_target option" where
  "checkpoint_target op = Option.bind (json_get ''target'' (or_checkpoint op)) dec_mutation_target"

definition operation_has_deployment_update_receipt :: "operation_record \<Rightarrow> bool" where
  "operation_has_deployment_update_receipt op =
    (case or_command op of
       Some (Cmd_Deploy restart digest serving_recovery) \<Rightarrow>
         if command_kind (Cmd_Deploy restart digest serving_recovery) \<noteq> or_kind op
            \<or> or_scope op \<noteq> Scope_Prod
            \<or> or_step op \<noteq> ''runtime_updated''
            \<or> json_get ''storage_target'' (or_checkpoint op) \<noteq> Some JNull
            \<or> json_get ''requested_storage_size'' (or_checkpoint op) \<noteq> Some JNull
         then False
         else (case checkpoint_target op of
             None \<Rightarrow> False
           | Some target \<Rightarrow>
               ec_app_id (mt_context target) = or_app_id op
               \<and> is_ok (validate_identity (mt_context target) (or_app_id op))
               \<and> ec_lifecycle_id (mt_context target) = or_lifecycle_id op
               \<and> ec_operation_id (mt_context target) = or_operation_id op
               \<and> Some (ec_executor_id (mt_context target)) = or_executor_id op
               \<and> ec_request_fingerprint (mt_context target) = or_request_fingerprint op
               \<and> ri_kind (mt_resource target) = Res_Deployment
               \<and> ri_name (mt_resource target) \<noteq> [] \<and> ri_uid (mt_resource target) \<noteq> []
               \<and> nonempty_opt (ri_resource_version (mt_resource target))
               \<and> pointer_str [''resource'', ''project_id''] op = Some (or_app_id op)
               \<and> pointer_str [''resource'', ''container_id''] op = Some (ri_name (mt_resource target)))
     | _ \<Rightarrow> False)"

definition deployment_update_precedes_credentials ::
  "env \<Rightarrow> operation_record \<Rightarrow> execution_input \<Rightarrow> bool" where
  "deployment_update_precedes_credentials ev op input =
    (operation_has_deployment_update_receipt op
     \<and> (case or_command op of
          Some (Cmd_Deploy restart digest serving_recovery) \<Rightarrow>
            digest = input_digest ev input
            \<and> (case ev_parse_json ev input of
                 None \<Rightarrow> False
               | Some value \<Rightarrow>
                   Option.bind (json_get ''version'' value) as_u64 = Some 1
                   \<and> Option.bind (json_get ''restart'' value) as_bool = Some restart
                   \<and> (case json_get ''params'' value of None \<Rightarrow> False | Some p \<Rightarrow> is_object p)
                   \<and> (case json_get ''previous'' value of None \<Rightarrow> False | Some p \<Rightarrow> is_object p)
                   \<and> (case Option.bind (json_pointer [''request'', ''pg''] value) dec_pg_credential of
                        None \<Rightarrow> False
                      | Some pg \<Rightarrow> pg_username pg \<noteq> [] \<and> pg_password pg \<noteq> []))
        | _ \<Rightarrow> False))"

end
