(* ===== verification/Compute_Contracts.thy ===== *)
theory Compute_Contracts
  imports Builder_Evidence
begin

text \<open>
  The contracts of durable compute intent: \<open>userapp/compute_control.rs\<close>,
  \<open>compute_control/stop_observation.rs\<close>, \<open>compute_recovery.rs\<close>, the restart witnesses of
  \<open>app_resource_deletion.rs\<close> and \<open>builder_control.rs\<close>, and \<open>discovery.rs\<close>, all under
  \<open>shared_types/src\<close>.  A Stop or Restart of compute is a ledger of its own, beside the
  business-operation slots; its executor walks the stages of a fixed path.
\<close>


section \<open>Actions, states and stages\<close>

datatype compute_action = Act_Stop | Act_Restart

datatype compute_state =
    Ctl_Pending | Ctl_Running | Ctl_RecoveryRequired | Ctl_Succeeded | Ctl_Failed | Ctl_Superseded

definition ctl_is_terminal :: "compute_state \<Rightarrow> bool" where
  "ctl_is_terminal s \<longleftrightarrow> s \<in> {Ctl_Succeeded, Ctl_Failed, Ctl_Superseded}"

lemma ctl_is_terminal_simps [simp]:
  "\<not> ctl_is_terminal Ctl_Pending"
  "\<not> ctl_is_terminal Ctl_Running"
  "\<not> ctl_is_terminal Ctl_RecoveryRequired"
  "ctl_is_terminal Ctl_Succeeded"
  "ctl_is_terminal Ctl_Failed"
  "ctl_is_terminal Ctl_Superseded"
  by (simp_all add: ctl_is_terminal_def)

fun as_progress_storage_value :: "compute_state \<Rightarrow> string option" where
  "as_progress_storage_value Ctl_Running = Some ''running''"
| "as_progress_storage_value Ctl_RecoveryRequired = Some ''recovery_required''"
| "as_progress_storage_value Ctl_Succeeded = Some ''succeeded''"
| "as_progress_storage_value Ctl_Failed = Some ''failed''"
| "as_progress_storage_value Ctl_Pending = None"
| "as_progress_storage_value Ctl_Superseded = None"

definition compute_action_names :: "(compute_action \<times> string) list" where
  "compute_action_names = [(Act_Stop, ''stop''), (Act_Restart, ''restart'')]"

definition compute_state_names :: "(compute_state \<times> string) list" where
  "compute_state_names =
    [(Ctl_Pending, ''pending''), (Ctl_Running, ''running''), (Ctl_RecoveryRequired, ''recovery_required''),
     (Ctl_Succeeded, ''succeeded''), (Ctl_Failed, ''failed''), (Ctl_Superseded, ''superseded'')]"

abbreviation compute_state_name :: "compute_state \<Rightarrow> string" where
  "compute_state_name \<equiv> name_of compute_state_names"

interpretation compute_action_name: name_codec "name_of compute_action_names" "name_in compute_action_names"
proof (rule name_codec_table)
  fix a :: compute_action
  show "a \<in> fst ` set compute_action_names"
    by (cases a) (simp_all add: compute_action_names_def)
qed (simp_all add: compute_action_names_def)

interpretation compute_state_name: name_codec compute_state_name "name_in compute_state_names"
proof (rule name_codec_table)
  fix a :: compute_state
  show "a \<in> fst ` set compute_state_names"
    by (cases a) (simp_all add: compute_state_names_def)
qed (simp_all add: compute_state_names_def)

lemma progress_storage_value_is_the_name:
  "as_progress_storage_value s = Some v \<Longrightarrow> v = compute_state_name s"
  by (cases s) (auto simp: name_of_def compute_state_names_def)

datatype compute_stage =
    St_DrainingPrevious | St_Stopping | St_Stopped | St_Starting | St_Verifying | St_Completed

fun stage_as_str :: "compute_stage \<Rightarrow> string" where
  "stage_as_str St_DrainingPrevious = ''draining_previous''"
| "stage_as_str St_Stopping = ''stopping''"
| "stage_as_str St_Stopped = ''stopped''"
| "stage_as_str St_Starting = ''starting''"
| "stage_as_str St_Verifying = ''verifying''"
| "stage_as_str St_Completed = ''completed''"

definition stage_from_storage_value :: "string \<Rightarrow> compute_stage option" where
  "stage_from_storage_value value =
    (if value = ''draining_previous'' then Some St_DrainingPrevious
     else if value = ''stopping'' then Some St_Stopping
     else if value = ''stopped'' then Some St_Stopped
     else if value = ''starting'' then Some St_Starting
     else if value = ''verifying'' then Some St_Verifying
     else if value = ''completed'' then Some St_Completed
     else None)"

lemma stage_from_as_str [simp]: "stage_from_storage_value (stage_as_str s) = Some s"
  by (cases s) (simp_all add: stage_from_storage_value_def)

lemma stage_from_storage_iff: "stage_from_storage_value v = Some s \<longleftrightarrow> v = stage_as_str s"
  by (cases s) (auto simp: stage_from_storage_value_def)


section \<open>The progress policy\<close>

datatype diagnostic_value = Diag_Absent | Diag_Empty | Diag_NonEmpty

fun diagnostic_from_option :: "string option \<Rightarrow> diagnostic_value" where
  "diagnostic_from_option None = Diag_Absent"
| "diagnostic_from_option (Some v) = (if v = [] then Diag_Empty else Diag_NonEmpty)"

datatype progress_policy_error =
    InvalidState
  | InvalidStageTransition
  | SuccessRequiresCompletedEvidence
  | CompletedRequiresSuccess
  | FailureRequiresDiagnostics
  | ProgressCannotRetainDiagnostics
  | MutationFailureRequiresRecovery
  | MutationRequiresLeaseAndCheckpoint

fun policy_message :: "progress_policy_error \<Rightarrow> string" where
  "policy_message InvalidState = ''Invalid compute execution transition''"
| "policy_message InvalidStageTransition = ''Invalid compute stage transition''"
| "policy_message SuccessRequiresCompletedEvidence = ''Compute success requires completed evidence''"
| "policy_message CompletedRequiresSuccess = ''Completed compute stage requires success''"
| "policy_message FailureRequiresDiagnostics = ''Compute failure requires structured diagnostics''"
| "policy_message ProgressCannotRetainDiagnostics =
     ''Compute success or progress cannot retain failure diagnostics''"
| "policy_message MutationFailureRequiresRecovery = ''Compute mutation failure requires recovery''"
| "policy_message MutationRequiresLeaseAndCheckpoint =
     ''Compute mutation requires a lease and structured checkpoint''"

definition legal_stage :: "compute_action \<Rightarrow> compute_stage option \<Rightarrow> compute_stage \<Rightarrow> bool" where
  "legal_stage action current_stage next_stage \<longleftrightarrow>
    current_stage = Some next_stage
    \<or> (current_stage, next_stage) \<in> {(Some St_DrainingPrevious, St_Stopping), (Some St_Stopping, St_Stopped),
        (Some St_Stopped, St_Starting), (Some St_Starting, St_Verifying)}
    \<or> (action = Act_Restart \<and> current_stage = Some St_Verifying \<and> next_stage = St_Completed)
    \<or> (action = Act_Stop \<and> current_stage = Some St_Stopped \<and> next_stage = St_Completed)"

definition validate_compute_progress_transition ::
  "compute_action \<Rightarrow> compute_stage option \<Rightarrow> compute_state \<Rightarrow> compute_stage \<Rightarrow> diagnostic_value \<Rightarrow>
   diagnostic_value \<Rightarrow> bool \<Rightarrow> progress_policy_error + unit" where
  "validate_compute_progress_transition action current_stage state next_stage error_code error_message lease_present =
    (if as_progress_storage_value state = None then Inl InvalidState
     else if \<not> legal_stage action current_stage next_stage
       \<or> (action = Act_Stop \<and> next_stage \<in> {St_Starting, St_Verifying})
     then Inl InvalidStageTransition
     else if state = Ctl_Succeeded \<and> next_stage \<noteq> St_Completed then Inl SuccessRequiresCompletedEvidence
     else if next_stage = St_Completed \<and> state \<noteq> Ctl_Succeeded then Inl CompletedRequiresSuccess
     else if state \<in> {Ctl_Failed, Ctl_RecoveryRequired}
       \<and> (error_code \<noteq> Diag_NonEmpty \<or> error_message \<noteq> Diag_NonEmpty)
     then Inl FailureRequiresDiagnostics
     else if state \<in> {Ctl_Running, Ctl_Succeeded}
       \<and> (error_code \<noteq> Diag_Absent \<or> error_message \<noteq> Diag_Absent)
     then Inl ProgressCannotRetainDiagnostics
     else if state = Ctl_Failed \<and> (current_stage \<noteq> Some St_DrainingPrevious \<or> lease_present)
     then Inl MutationFailureRequiresRecovery
     else Inr ())"

definition validate_compute_mutation_evidence ::
  "compute_stage \<Rightarrow> bool \<Rightarrow> bool \<Rightarrow> progress_policy_error + unit" where
  "validate_compute_mutation_evidence stage lease_present checkpoint_is_object =
    (if stage \<noteq> St_DrainingPrevious \<and> (\<not> lease_present \<or> \<not> checkpoint_is_object)
     then Inl MutationRequiresLeaseAndCheckpoint else Inr ())"

text \<open>The contract: the executor of an action walks its path one stage at a time.\<close>

fun stage_path :: "compute_action \<Rightarrow> compute_stage list" where
  "stage_path Act_Stop = [St_DrainingPrevious, St_Stopping, St_Stopped, St_Completed]"
| "stage_path Act_Restart =
     [St_DrainingPrevious, St_Stopping, St_Stopped, St_Starting, St_Verifying, St_Completed]"

definition path_step :: "compute_action \<Rightarrow> compute_stage \<Rightarrow> compute_stage \<Rightarrow> bool" where
  "path_step action a b \<longleftrightarrow> b \<in> set (stage_path action)
    \<and> (a = b \<or> (a, b) \<in> set (zip (stage_path action) (tl (stage_path action))))"

definition progress_admitted ::
  "compute_action \<Rightarrow> compute_stage option \<Rightarrow> compute_state \<Rightarrow> compute_stage \<Rightarrow> diagnostic_value \<Rightarrow>
   diagnostic_value \<Rightarrow> bool \<Rightarrow> bool" where
  "progress_admitted action current_stage state next_stage error_code error_message lease_present \<longleftrightarrow>
    (\<exists>stage. current_stage = Some stage \<and> path_step action stage next_stage
       \<and> (state = Ctl_Succeeded \<longleftrightarrow> next_stage = St_Completed)
       \<and> (case state of
            Ctl_Running \<Rightarrow> error_code = Diag_Absent \<and> error_message = Diag_Absent
          | Ctl_Succeeded \<Rightarrow> error_code = Diag_Absent \<and> error_message = Diag_Absent
          | Ctl_RecoveryRequired \<Rightarrow> error_code = Diag_NonEmpty \<and> error_message = Diag_NonEmpty
          | Ctl_Failed \<Rightarrow> error_code = Diag_NonEmpty \<and> error_message = Diag_NonEmpty
              \<and> stage = St_DrainingPrevious \<and> \<not> lease_present
          | _ \<Rightarrow> False))"

lemma path_step_code:
  "path_step Act_Stop a b \<longleftrightarrow> (a, b) \<in>
     {(St_DrainingPrevious, St_DrainingPrevious), (St_Stopping, St_Stopping), (St_Stopped, St_Stopped),
      (St_Completed, St_Completed), (St_DrainingPrevious, St_Stopping), (St_Stopping, St_Stopped),
      (St_Stopped, St_Completed)}"
  "path_step Act_Restart a b \<longleftrightarrow> a = b \<or> (a, b) \<in>
     {(St_DrainingPrevious, St_Stopping), (St_Stopping, St_Stopped), (St_Stopped, St_Starting),
      (St_Starting, St_Verifying), (St_Verifying, St_Completed)}"
  by (cases a; cases b; simp add: path_step_def)+

lemma legal_path_step:
  "legal_stage action (Some a) b \<and> \<not> (action = Act_Stop \<and> b \<in> {St_Starting, St_Verifying})
    \<longleftrightarrow> path_step action a b"
  by (cases action; cases a; cases b; simp add: legal_stage_def path_step_code)

lemma progress_policy_iff:
  "validate_compute_progress_transition action current_stage state next_stage code message lease = Inr ()
    \<longleftrightarrow> progress_admitted action current_stage state next_stage code message lease"
proof (cases current_stage)
  case None
  then show ?thesis
    by (simp add: validate_compute_progress_transition_def progress_admitted_def legal_stage_def)
next
  case (Some stage)
  show ?thesis
  proof (cases "path_step action stage next_stage")
    case True
    then show ?thesis
      using Some legal_path_step [of action stage next_stage]
      by (cases state)
         (auto simp: validate_compute_progress_transition_def progress_admitted_def)
  next
    case False
    then show ?thesis
      using Some legal_path_step [of action stage next_stage]
      by (auto simp: validate_compute_progress_transition_def progress_admitted_def)
  qed
qed

text \<open>How far along its path a stage is.\<close>

fun stage_rank :: "compute_stage \<Rightarrow> nat" where
  "stage_rank St_DrainingPrevious = 0"
| "stage_rank St_Stopping = 1"
| "stage_rank St_Stopped = 2"
| "stage_rank St_Starting = 3"
| "stage_rank St_Verifying = 4"
| "stage_rank St_Completed = 5"

lemma path_step_rank: "path_step action a b \<Longrightarrow> stage_rank a \<le> stage_rank b"
  by (cases action; cases a; cases b; simp add: path_step_code)


section \<open>Requests, records and identities\<close>

record control_request =
  kq_app_id :: string
  kq_lifecycle_id :: string
  kq_scope :: operation_scope
  kq_operation_id :: string
  kq_request_id :: string
  kq_request_fingerprint :: string
  kq_action :: compute_action
  kq_restart_image_roll :: bool
  kq_builder_startup_mode :: builder_startup_mode

record control_record =
  ctl_created_at :: int
  ctl_app_id :: string
  ctl_lifecycle_id :: string
  ctl_request_id :: string
  ctl_scope :: operation_scope
  ctl_operation_id :: string
  ctl_request_fingerprint :: string
  ctl_generation :: int
  ctl_revision :: int
  ctl_action :: compute_action
  ctl_state :: compute_state
  ctl_executor_id :: "string option"
  ctl_stage :: string
  ctl_checkpoint :: json
  ctl_error_code :: "string option"
  ctl_error_message :: "string option"
  ctl_lease :: "lease_receipt option"
  ctl_interrupted_operations :: "string list"

record compute_status =
  cs_desired_stopped :: bool
  cs_generation :: int
  cs_revision :: int
  cs_operation :: "control_record option"

definition compute_status_default :: compute_status where
  "compute_status_default =
    \<lparr>cs_desired_stopped = False, cs_generation = 0, cs_revision = 0, cs_operation = None\<rparr>"

record executor_identity =
  xi_app_id :: string
  xi_lifecycle_id :: string
  xi_scope :: operation_scope
  xi_operation_id :: string
  xi_generation :: int
  xi_executor_id :: string

record control_progress =
  kp_identity :: executor_identity
  kp_expected_revision :: int
  kp_state :: compute_state
  kp_stage :: compute_stage
  kp_checkpoint :: json
  kp_error_code :: "string option"
  kp_error_message :: "string option"

definition automatic_repair_request_prefix :: string where
  "automatic_repair_request_prefix = ''auto-repair-''"

definition validate_user_compute_request_id :: "string \<Rightarrow> string + unit" where
  "validate_user_compute_request_id request_id =
    try_r (validate_identifier request_id ''request_id'') (\<lambda>_.
    if starts_with automatic_repair_request_prefix request_id
    then Inl (''request_id prefix '' @ [CHR 39] @ ''auto-repair-'' @ [CHR 39] @ '' is reserved for internal repair'')
    else Inr ())"

definition control_execution_context :: "control_record \<Rightarrow> string + execution_context" where
  "control_execution_context self =
    try_r (ok_or ''Compute executor is not claimed'' (ctl_executor_id self)) (\<lambda>executor_id.
    let context = \<lparr>ec_app_id = ctl_app_id self, ec_lifecycle_id = ctl_lifecycle_id self,
      ec_operation_id = ctl_operation_id self, ec_executor_id = executor_id,
      ec_request_fingerprint = ctl_request_fingerprint self\<rparr> in
    try_r (validate_identity context (ctl_app_id self)) (\<lambda>_. Inr context))"

definition has_docker_compute_target :: "control_record \<Rightarrow> bool" where
  "has_docker_compute_target self =
    (case control_execution_context self of
       Inl _ \<Rightarrow> False
     | Inr context \<Rightarrow>
         (case ctl_scope self of
            Scope_Dev \<Rightarrow>
              (case dec_builder_control_target (ctl_checkpoint self) of
                 None \<Rightarrow> False
               | Some target \<Rightarrow> bt_context target = context
                   \<and> is_ok (validate_builder_control_target target)
                   \<and> (case bt_workload target of
                         None \<Rightarrow> False | Some workload \<Rightarrow> ri_kind workload = Res_Container))
          | Scope_Prod \<Rightarrow>
              (case dec_mutation_target (ctl_checkpoint self) of
                 None \<Rightarrow> False
               | Some target \<Rightarrow> mt_context target = context
                   \<and> ri_kind (mt_resource target) = Res_Container
                   \<and> ri_uid (mt_resource target) \<noteq> [] \<and> ri_name (mt_resource target) \<noteq> [])
          | Scope_Application \<Rightarrow> False))"

definition has_conditional_compute_write :: "control_record \<Rightarrow> bool" where
  "has_conditional_compute_write self =
    (case ctl_scope self of
       Scope_Dev \<Rightarrow>
         Option.bind (json_get ''builder_compute_single_write'' (ctl_checkpoint self)) as_bool = Some True
     | Scope_Prod \<Rightarrow>
         Option.bind (json_get ''compute_start_single_write'' (ctl_checkpoint self)) as_bool = Some True
     | Scope_Application \<Rightarrow> False)"


section \<open>Drain evidence and the early boundary\<close>

datatype drain_evidence =
    NoMutationSubmitted
  | PersistedRuntimeAcknowledgement json
  | ConditionalStartupFenced json
  | ConditionalStopFenced json
  | PersistedMutationBoundary json
  | MutationCompleted json

record drain_acknowledgement =
  da_identity :: executor_identity
  da_expected_revision :: int
  da_evidence :: drain_evidence

definition outcome_json :: "string \<Rightarrow> json \<Rightarrow> json" where
  "outcome_json outcome checkpoint = JObj [(''checkpoint'', checkpoint), (''outcome'', JStr outcome)]"

fun enc_drain_evidence :: "drain_evidence \<Rightarrow> json" where
  "enc_drain_evidence NoMutationSubmitted = JObj [(''outcome'', JStr ''no_mutation_submitted'')]"
| "enc_drain_evidence (PersistedRuntimeAcknowledgement c) = outcome_json ''persisted_runtime_acknowledgement'' c"
| "enc_drain_evidence (ConditionalStartupFenced c) = outcome_json ''conditional_startup_fenced'' c"
| "enc_drain_evidence (ConditionalStopFenced c) = outcome_json ''conditional_stop_fenced'' c"
| "enc_drain_evidence (PersistedMutationBoundary c) = outcome_json ''persisted_mutation_boundary'' c"
| "enc_drain_evidence (MutationCompleted c) = outcome_json ''mutation_completed'' c"

definition dec_drain_evidence :: "json \<Rightarrow> drain_evidence option" where
  "dec_drain_evidence j = do {
     m \<leftarrow> as_object j;
     outcome \<leftarrow> field ''outcome'' dec_str m;
     (if outcome = ''no_mutation_submitted'' then Some NoMutationSubmitted
      else if outcome = ''persisted_runtime_acknowledgement''
      then map_option PersistedRuntimeAcknowledgement (field ''checkpoint'' dec_any m)
      else if outcome = ''conditional_startup_fenced''
      then map_option ConditionalStartupFenced (field ''checkpoint'' dec_any m)
      else if outcome = ''conditional_stop_fenced''
      then map_option ConditionalStopFenced (field ''checkpoint'' dec_any m)
      else if outcome = ''persisted_mutation_boundary''
      then map_option PersistedMutationBoundary (field ''checkpoint'' dec_any m)
      else if outcome = ''mutation_completed''
      then map_option MutationCompleted (field ''checkpoint'' dec_any m)
      else None) }"

interpretation drain_json: json_codec enc_drain_evidence dec_drain_evidence "\<lambda>_. True"
proof unfold_locales
  fix e :: drain_evidence
  show "dec_drain_evidence (enc_drain_evidence e) = Some e"
    by (cases e) (simp_all add: dec_drain_evidence_def outcome_json_def as_object_def field_def dec_str_def
        as_str_def dec_any_def)
qed

datatype early_boundary = BeforeContainerSubmission | OutcomeUnconfirmed | OutsideEarlyPhase

definition legacy_boundary :: "json \<Rightarrow> early_boundary" where
  "legacy_boundary value =
    (if is_null value then BeforeContainerSubmission
     else case Option.bind (as_object value) (opt_field ''unknown_write'' dec_bool) of
       None \<Rightarrow> OutcomeUnconfirmed
     | Some (Some True) \<Rightarrow> OutcomeUnconfirmed
     | Some _ \<Rightarrow> BeforeContainerSubmission)"

definition compute_unstarted_checkpoint :: "json \<Rightarrow> bool" where
  "compute_unstarted_checkpoint value \<longleftrightarrow> legacy_boundary value = BeforeContainerSubmission"

definition early_compute_boundary :: "control_record \<Rightarrow> early_boundary" where
  "early_compute_boundary self =
    (if stage_from_storage_value (ctl_stage self) \<noteq> Some St_DrainingPrevious \<or> ctl_executor_id self = None
     then OutsideEarlyPhase else legacy_boundary (ctl_checkpoint self))"

definition can_observe_superseded_compute_drain :: "control_record \<Rightarrow> bool" where
  "can_observe_superseded_compute_drain self \<longleftrightarrow>
    ctl_state self = Ctl_Superseded \<and> ctl_action self = Act_Restart
    \<and> early_compute_boundary self = BeforeContainerSubmission"

definition has_unsubmitted_compute_drain_ack :: "control_record \<Rightarrow> bool" where
  "has_unsubmitted_compute_drain_ack self \<longleftrightarrow>
    ctl_state self = Ctl_Failed \<and> ctl_stage self = ''superseded_drained''
    \<and> ctl_error_code self = Some ''ERR_CANCELLED'' \<and> ctl_executor_id self \<noteq> None
    \<and> Option.bind (json_get ''drain'' (ctl_checkpoint self)) dec_drain_evidence = Some NoMutationSubmitted
    \<and> map_option legacy_boundary (json_get ''previous'' (ctl_checkpoint self)) = Some BeforeContainerSubmission"

definition can_recover_compute_drain :: "control_record \<Rightarrow> bool" where
  "can_recover_compute_drain self \<longleftrightarrow>
    ctl_state self \<in> {Ctl_Running, Ctl_RecoveryRequired}
    \<and> early_compute_boundary self = BeforeContainerSubmission"

fun compute_lease_family :: "operation_scope \<Rightarrow> string + service_type" where
  "compute_lease_family Scope_Dev = Inr UserappBuilder"
| "compute_lease_family Scope_Prod = Inr Userapp"
| "compute_lease_family Scope_Application = Inl ''Compute lease requires dev or prod scope''"


section \<open>Restart witnesses\<close>

record builder_restart_template =
  br_source :: builder_control_target
  br_archive :: resource_identity
  br_volumes :: "resource_identity list"

definition dec_builder_restart_template :: "json \<Rightarrow> builder_restart_template option" where
  "dec_builder_restart_template j = do {
     m \<leftarrow> as_object j;
     deny_unknown [''source'', ''archive'', ''volumes''] m;
     source \<leftarrow> field ''source'' dec_builder_control_target m;
     archive \<leftarrow> field ''archive'' dec_resource_identity m;
     volumes \<leftarrow> field ''volumes'' (dec_list dec_resource_identity) m;
     Some \<lparr>br_source = source, br_archive = archive, br_volumes = volumes\<rparr> }"

definition enc_builder_restart_template :: "builder_restart_template \<Rightarrow> json" where
  "enc_builder_restart_template t = JObj
    [(''archive'', enc_resource_identity (br_archive t)),
     (''source'', enc_builder_control_target (br_source t)),
     (''volumes'', JArr (map enc_resource_identity (br_volumes t)))]"

interpretation restart_template_json: json_codec enc_builder_restart_template dec_builder_restart_template "\<lambda>_. True"
  by unfold_locales
     (simp add: enc_builder_restart_template_def dec_builder_restart_template_def as_object_def
        deny_unknown_def field_def builder_target_json.dec_enc resource_json.dec_enc
        resource_json.dec_enc_list list.pred_True)

record app_restart_template =
  ap_source :: mutation_target
  ap_archive :: resource_identity
  ap_volumes :: "resource_identity list"

definition dec_app_restart_template :: "json \<Rightarrow> app_restart_template option" where
  "dec_app_restart_template j = do {
     m \<leftarrow> as_object j;
     source \<leftarrow> field ''source'' dec_mutation_target m;
     archive \<leftarrow> field ''archive'' dec_resource_identity m;
     volumes \<leftarrow> field ''volumes'' (dec_list dec_resource_identity) m;
     Some \<lparr>ap_source = source, ap_archive = archive, ap_volumes = volumes\<rparr> }"

text \<open>The mutation target is flattened into the start target's own object.\<close>

record compute_start_target =
  ct_target :: mutation_target
  ct_compute_start_single_write :: bool
  ct_volumes :: "resource_identity list"
  ct_restart_image :: "string option"

definition dec_compute_start_target :: "json \<Rightarrow> compute_start_target option" where
  "dec_compute_start_target j = do {
     m \<leftarrow> as_object j;
     target \<leftarrow> dec_mutation_target j;
     compute_start_single_write \<leftarrow> default_field ''compute_start_single_write'' False dec_bool m;
     volumes \<leftarrow> default_field ''volumes'' [] (dec_list dec_resource_identity) m;
     restart_image \<leftarrow> opt_field ''restart_image'' dec_str m;
     Some \<lparr>ct_target = target, ct_compute_start_single_write = compute_start_single_write,
       ct_volumes = volumes, ct_restart_image = restart_image\<rparr> }"

definition same_volume :: "resource_identity \<times> resource_identity \<Rightarrow> bool" where
  "same_volume p \<longleftrightarrow> ri_kind (fst p) = ri_kind (snd p) \<and> ri_name (fst p) = ri_name (snd p)
    \<and> ri_uid (fst p) = ri_uid (snd p)"

definition verify_same_volumes :: "compute_start_target \<Rightarrow> compute_start_target \<Rightarrow> string + unit" where
  "verify_same_volumes self other =
    (if ct_compute_start_single_write self \<noteq> ct_compute_start_single_write other
        \<or> length (ct_volumes self) \<noteq> length (ct_volumes other)
        \<or> list_ex (\<lambda>p. \<not> same_volume p) (zip (ct_volumes self) (ct_volumes other))
     then Inl ''Restart volume identity changed or the original witness is missing''
     else Inr ())"

datatype restart_stop_kind = StopReceiptAcknowledged | CapturedContainerAbsent

definition restart_stop_kind_names :: "(restart_stop_kind \<times> string) list" where
  "restart_stop_kind_names =
    [(StopReceiptAcknowledged, ''stop_receipt_acknowledged''),
     (CapturedContainerAbsent, ''captured_container_absent'')]"

record restart_stop_observation =
  so_target :: builder_control_target
  so_volumes :: "resource_identity list"
  so_kind :: restart_stop_kind

definition lower_hex :: "char \<Rightarrow> bool" where
  "lower_hex c \<longleftrightarrow> is_ascii_digit c \<or> (97 \<le> (of_char c :: nat) \<and> (of_char c :: nat) \<le> 102)"

definition validate_restart_stop_observation :: "restart_stop_observation \<Rightarrow> string + unit" where
  "validate_restart_stop_observation self =
    try_r (validate_builder_control_target (so_target self)) (\<lambda>_.
    try_r (ok_or ''Restart stop observation has no captured Docker Container''
      (bt_workload (so_target self))) (\<lambda>workload.
    if ri_kind workload \<noteq> Res_Container \<or> length (ri_uid workload) \<noteq> 64
       \<or> \<not> list_all lower_hex (ri_uid workload)
       \<or> bt_pod (so_target self) \<noteq> None \<or> so_volumes self = []
    then Inl ''Restart stop observation requires its exact full Docker ID and retained mounts''
    else if list_ex (\<lambda>v. ri_kind v \<noteq> Res_HostPath \<or> ri_name v = [] \<or> ri_uid v = []) (so_volumes self)
       \<or> \<not> distinct (map ri_name (so_volumes self))
    then Inl ''Restart stop observation has invalid retained Docker mounts''
    else Inr ()))"

definition enc_restart_stop_observation :: "restart_stop_observation \<Rightarrow> json" where
  "enc_restart_stop_observation e = JObj
    [(''kind'', JStr (name_of restart_stop_kind_names (so_kind e))),
     (''target'', enc_builder_control_target (so_target e)),
     (''volumes'', JArr (map enc_resource_identity (so_volumes e)))]"

datatype unrebuildable_reason = MissingArchive | UnreadableArchive | ArchiveUnavailable

definition unrebuildable_reason_names :: "(unrebuildable_reason \<times> string) list" where
  "unrebuildable_reason_names =
    [(MissingArchive, ''missing_archive''), (UnreadableArchive, ''unreadable_archive''),
     (ArchiveUnavailable, ''archive_unavailable'')]"

text \<open>\<open>BuilderRestartArchiveUnavailableKind\<close> has the one value \<open>PositiveUnavailable\<close>.\<close>

record archive_unavailable =
  au_template :: builder_restart_template

definition enc_archive_unavailable :: "archive_unavailable \<Rightarrow> json" where
  "enc_archive_unavailable a = JObj
    [(''kind'', JStr ''positive_unavailable''),
     (''template'', enc_builder_restart_template (au_template a))]"

record unrebuildable_evidence =
  ue_reason :: unrebuildable_reason
  ue_observation :: restart_stop_observation
  ue_archive_unavailable :: "archive_unavailable option"

definition enc_unrebuildable_evidence :: "unrebuildable_evidence \<Rightarrow> json" where
  "enc_unrebuildable_evidence e = JObj
    (skip_none ''archive_unavailable'' enc_archive_unavailable (ue_archive_unavailable e)
     @ [(''observation'', enc_restart_stop_observation (ue_observation e)),
        (''reason'', JStr (name_of unrebuildable_reason_names (ue_reason e)))])"

record stop_recovery_evidence =
  sr_observation :: restart_stop_observation
  sr_original_state :: compute_state
  sr_original_error_code :: "string option"
  sr_original_error_message :: "string option"
  sr_original_restart_template :: "json option"
  sr_unrebuildable :: "unrebuildable_evidence option"
  sr_previous_observation :: "json option"

definition enc_stop_recovery_evidence :: "stop_recovery_evidence \<Rightarrow> json" where
  "enc_stop_recovery_evidence e = JObj
    ([(''observation'', enc_restart_stop_observation (sr_observation e)),
      (''original_error_code'', enc_opt JStr (sr_original_error_code e)),
      (''original_error_message'', enc_opt JStr (sr_original_error_message e))]
     @ skip_none ''original_restart_template'' (\<lambda>v. v) (sr_original_restart_template e)
     @ [(''original_state'', JStr (compute_state_name (sr_original_state e)))]
     @ skip_none ''previous_observation'' (\<lambda>v. v) (sr_previous_observation e)
     @ skip_none ''unrebuildable'' enc_unrebuildable_evidence (sr_unrebuildable e))"

datatype kubernetes_stop_evidence = K8sStopReceiptAcknowledged | K8sObservedStopped

definition kubernetes_stop_evidence_names :: "(kubernetes_stop_evidence \<times> string) list" where
  "kubernetes_stop_evidence_names =
    [(K8sStopReceiptAcknowledged, ''stop_receipt_acknowledged''), (K8sObservedStopped, ''observed_stopped'')]"

record kubernetes_stop_confirmation =
  ks_evidence :: kubernetes_stop_evidence
  ks_original_state :: compute_state
  ks_original_error_code :: "string option"
  ks_original_error_message :: "string option"
  ks_previous_confirmation :: "json option"

definition enc_kubernetes_stop_confirmation :: "kubernetes_stop_confirmation \<Rightarrow> json" where
  "enc_kubernetes_stop_confirmation e = JObj
    ([(''evidence'', JStr (name_of kubernetes_stop_evidence_names (ks_evidence e))),
      (''original_error_code'', enc_opt JStr (ks_original_error_code e)),
      (''original_error_message'', enc_opt JStr (ks_original_error_message e)),
      (''original_state'', JStr (compute_state_name (ks_original_state e)))]
     @ skip_none ''previous_confirmation'' (\<lambda>v. v) (ks_previous_confirmation e))"

definition builder_restart_stop_observation_key :: string where
  "builder_restart_stop_observation_key = ''builder_restart_stop_observation''"

definition kubernetes_restart_stop_confirmation_key :: string where
  "kubernetes_restart_stop_confirmation_key = ''kubernetes_restart_stop_confirmation''"


section \<open>Observing a submitted stop\<close>

datatype stop_observation =
    Stop_Absent (absent_context: execution_context)
  | Stop_Orphan orphan_stop_target
  | Stop_Builder builder_control_target
  | Stop_Application mutation_target

definition stop_observation_from_checkpoint :: "json \<Rightarrow> operation_scope \<Rightarrow> string + stop_observation" where
  "stop_observation_from_checkpoint checkpoint scope =
    try_r (ok_or ''decode stop checkpoint shape'' (do {
        m \<leftarrow> as_object checkpoint;
        compute_absent \<leftarrow> opt_field ''compute_absent'' dec_bool m;
        orphan_pod \<leftarrow> opt_field ''orphan_pod'' dec_pod_identity m;
        workload \<leftarrow> opt_field ''workload'' dec_resource_identity m;
        pod \<leftarrow> opt_field ''pod'' dec_pod_identity m;
        resource \<leftarrow> opt_field ''resource'' dec_resource_identity m;
        Some (compute_absent = Some True, orphan_pod \<noteq> None, workload \<noteq> None \<or> pod \<noteq> None,
          resource \<noteq> None) })) (\<lambda>(absence, orphan, builder, application).
    if length (filter id [absence, orphan, builder, application]) \<noteq> 1
    then Inl ''Stop checkpoint has missing or conflicting physical targets''
    else if absence then
      (if scope \<notin> {Scope_Dev, Scope_Prod} then Inl ''Stop absence has conflicting scope''
       else ok_or ''decode stop absence'' (do {
         m \<leftarrow> as_object checkpoint;
         context \<leftarrow> field ''context'' dec_execution_context m;
         compute_absent \<leftarrow> field ''compute_absent'' dec_bool m;
         Some (Stop_Absent context) }))
    else if orphan then
      (if scope \<noteq> Scope_Dev then Inl ''Orphan stop requires the original development scope''
       else ok_or ''decode orphan stop'' (do {
         m \<leftarrow> as_object checkpoint;
         resource_binding \<leftarrow> opt_field ''resource_binding'' dec_resource_binding m;
         context \<leftarrow> field ''context'' dec_execution_context m;
         orphan_pod \<leftarrow> field ''orphan_pod'' dec_pod_identity m;
         controller_name \<leftarrow> field ''controller_name'' dec_str m;
         controller_uid \<leftarrow> field ''controller_uid'' dec_str m;
         Some (Stop_Orphan \<lparr>os_resource_binding = resource_binding, os_context = context,
           os_orphan_pod = orphan_pod, os_controller_name = controller_name,
           os_controller_uid = controller_uid\<rparr>) }))
    else if builder \<and> scope = Scope_Dev
    then ok_or ''decode builder stop target'' (map_option Stop_Builder (from_observation_checkpoint checkpoint))
    else if application \<and> scope = Scope_Prod
    then ok_or ''decode application stop target'' (map_option Stop_Application (dec_mutation_target checkpoint))
    else Inl ''Stop target differs from its original compute scope'')"

fun stop_observation_context :: "stop_observation \<Rightarrow> execution_context" where
  "stop_observation_context (Stop_Absent context) = context"
| "stop_observation_context (Stop_Orphan target) = os_context target"
| "stop_observation_context (Stop_Builder target) = bt_context target"
| "stop_observation_context (Stop_Application target) = mt_context target"


section \<open>Discovered identities\<close>

record discovered_identity =
  di_app_id :: string
  di_lifecycle_id :: string
  di_dev_uid :: "string option"
  di_prod_uid :: "string option"
  di_dev_stopped :: bool
  di_prod_stopped :: bool
  di_dev_volumes :: "resource_identity list"
  di_prod_volumes :: "resource_identity list"

definition discovered_volumes_invalid :: "string option \<Rightarrow> resource_identity list \<Rightarrow> bool" where
  "discovered_volumes_invalid owner volumes \<longleftrightarrow>
    (owner = None \<and> volumes \<noteq> []) \<or> list_ex volume_claim_incomplete volumes
    \<or> \<not> distinct (map ri_name volumes)"

definition validate_discovered_identity :: "discovered_identity \<Rightarrow> string + unit" where
  "validate_discovered_identity self =
    try_r (validate_identifier (di_app_id self) ''app_id'') (\<lambda>_.
    try_r (validate_identifier (di_lifecycle_id self) ''lifecycle_id'') (\<lambda>_.
    if (di_dev_uid self = None \<and> di_prod_uid self = None)
       \<or> di_dev_uid self = Some [] \<or> di_prod_uid self = Some []
       \<or> (di_dev_stopped self \<and> di_dev_uid self = None)
       \<or> (di_prod_stopped self \<and> di_prod_uid self = None)
    then Inl ''Invalid discovered compute identity''
    else if discovered_volumes_invalid (di_dev_uid self) (di_dev_volumes self)
       \<or> discovered_volumes_invalid (di_prod_uid self) (di_prod_volumes self)
    then Inl ''Invalid discovered volume identity''
    else Inr ()))"

definition enc_discovered_identity :: "discovered_identity \<Rightarrow> json" where
  "enc_discovered_identity d = JObj
    [(''app_id'', JStr (di_app_id d)), (''dev_stopped'', JBool (di_dev_stopped d)),
     (''dev_uid'', enc_opt JStr (di_dev_uid d)),
     (''dev_volumes'', JArr (map enc_resource_identity (di_dev_volumes d))),
     (''lifecycle_id'', JStr (di_lifecycle_id d)), (''prod_stopped'', JBool (di_prod_stopped d)),
     (''prod_uid'', enc_opt JStr (di_prod_uid d)),
     (''prod_volumes'', JArr (map enc_resource_identity (di_prod_volumes d)))]"

definition dec_discovered_identity :: "json \<Rightarrow> discovered_identity option" where
  "dec_discovered_identity j = do {
     m \<leftarrow> as_object j;
     app_id \<leftarrow> field ''app_id'' dec_str m;
     lifecycle_id \<leftarrow> field ''lifecycle_id'' dec_str m;
     dev_uid \<leftarrow> opt_field ''dev_uid'' dec_str m;
     prod_uid \<leftarrow> opt_field ''prod_uid'' dec_str m;
     dev_stopped \<leftarrow> field ''dev_stopped'' dec_bool m;
     prod_stopped \<leftarrow> field ''prod_stopped'' dec_bool m;
     dev_volumes \<leftarrow> default_field ''dev_volumes'' [] (dec_list dec_resource_identity) m;
     prod_volumes \<leftarrow> default_field ''prod_volumes'' [] (dec_list dec_resource_identity) m;
     Some \<lparr>di_app_id = app_id, di_lifecycle_id = lifecycle_id, di_dev_uid = dev_uid,
       di_prod_uid = prod_uid, di_dev_stopped = dev_stopped, di_prod_stopped = prod_stopped,
       di_dev_volumes = dev_volumes, di_prod_volumes = prod_volumes\<rparr> }"

interpretation discovered_json: json_codec enc_discovered_identity dec_discovered_identity "\<lambda>_. True"
  by unfold_locales
     (simp add: enc_discovered_identity_def dec_discovered_identity_def as_object_def field_def opt_field_def
        default_field_def dec_str_def as_str_def dec_bool_def as_bool_def enc_opt_def dec_opt_def
        resource_json.dec_enc_list list.pred_True split: option.splits)

end
