(* ===== verification/Operation_Access.thy ===== *)
theory Operation_Access
  imports Repo Compute_Contracts
begin

text \<open>
  Reading operations, their private inputs, deadlines and mutex receipts
  (\<open>userapp_lifecycle/common/ops/operation.rs\<close>, \<open>validate_input\<close> of \<open>ops/mod.rs\<close>).  The
  transactions that also consult the compute ledger are in \<open>Operations\<close>.
\<close>


section \<open>Private inputs\<close>

fun carries_input :: "control_command \<Rightarrow> string option" where
  "carries_input (Cmd_Create digest) = Some digest"
| "carries_input (Cmd_Update digest) = Some digest"
| "carries_input (Cmd_Deploy _ digest _) = Some digest"
| "carries_input _ = None"

definition validate_input ::
  "env \<Rightarrow> operation_kind \<Rightarrow> string \<Rightarrow> control_command option \<Rightarrow> execution_input option \<Rightarrow>
   store_error + unit" where
  "validate_input ev kind fingerprint command input =
    (case (command, input) of
       (None, Some i) \<Rightarrow>
         if kind \<in> {Kind_AdoptBuilder, Kind_EnsureBuilder} \<and> fingerprint = input_digest ev i then Inr ()
         else if kind = Kind_AdoptBuilder
         then Inl (InvalidOperation ''Adoption requires its original input digest'')
         else if kind = Kind_EnsureBuilder
         then Inl (InvalidOperation ''Builder creation requires its original input digest'')
         else Inl (InvalidOperation ''Private execution input does not match command digest'')
     | (None, None) \<Rightarrow>
         if kind = Kind_AdoptBuilder
         then Inl (InvalidOperation ''Adoption requires its original input digest'') else Inr ()
     | (Some c, _) \<Rightarrow>
         (case (carries_input c, input) of
            (Some digest, Some i) \<Rightarrow>
              if digest = input_digest ev i then Inr ()
              else Inl (InvalidOperation ''Private execution input does not match command digest'')
          | (Some digest, None) \<Rightarrow>
              Inl (InvalidOperation ''Private execution input does not match command digest'')
          | (None, Some i) \<Rightarrow>
              Inl (InvalidOperation ''Private execution input does not match command digest'')
          | (None, None) \<Rightarrow> Inr ()))"

definition validated_execution_input :: "env \<Rightarrow> operation_record \<Rightarrow> execution_input action" where
  "validated_execution_input ev op =
    tx_bind (tx_read (\<lambda>st. lookup in_operation_id (st_inputs st) (or_operation_id op))) (\<lambda>found.
    tx_bind (tx_some (Storage ''record not found'') found) (\<lambda>row.
    if in_app_id row \<noteq> or_app_id op \<or> in_lifecycle_id row \<noteq> or_lifecycle_id op \<or> in_payload_version row \<noteq> 1
    then tx_fail LifecycleConflict else
    if in_payload_digest row \<noteq> input_digest ev (in_payload row)
    then tx_fail (InvalidOperation ''Stored execution input digest mismatch'') else
    tx_then (tx_lift (validate_input ev (or_kind op) (or_request_fingerprint op) (or_command op) (Some (in_payload row)))) (
    tx_return (in_payload row))))"

definition insert_input :: "env \<Rightarrow> operation_record \<Rightarrow> execution_input \<Rightarrow> unit action" where
  "insert_input ev op input =
    (let row = \<lparr>in_operation_id = or_operation_id op, in_app_id = or_app_id op,
         in_lifecycle_id = or_lifecycle_id op, in_payload_version = 1, in_payload = input,
         in_payload_digest = input_digest ev input, in_created_at_us = ev_now ev\<rparr> in
     insert_row st_inputs_update
       (\<lambda>st. lookup in_operation_id (st_inputs st) (or_operation_id op) = None
         \<and> length (in_payload_digest row) = 64
         \<and> operation_exists st (or_operation_id op) (or_app_id op) (or_lifecycle_id op)) row)"

definition delete_input :: "string \<Rightarrow> unit action" where
  "delete_input i = delete_rows st_inputs_update (\<lambda>r. in_operation_id r = i)"


section \<open>The operation in its slot\<close>

definition op_current ::
  "env \<Rightarrow> string \<Rightarrow> string \<Rightarrow> string \<Rightarrow> (lifecycle_record \<times> operation_record) action" where
  "op_current ev app_id operation_id lifecycle_id =
    tx_then (claim_app app_id) (
    tx_bind (repo_app ev app_id) (\<lambda>found.
    tx_bind (tx_some NotFound found) (\<lambda>app.
    if lr_lifecycle_id app \<noteq> lifecycle_id \<or> \<not> operation_owns_any_slot app operation_id
    then tx_fail LifecycleConflict else
    tx_bind (repo_operation ev app_id operation_id) (\<lambda>found.
    tx_bind (tx_some NotFound found) (\<lambda>operation.
    if \<not> slot_matches_operation app operation
    then tx_fail LifecycleConflict else
    tx_return (app, operation))))))"

definition op_owns :: "execution_context \<Rightarrow> operation_record \<Rightarrow> bool" where
  "op_owns context op \<longleftrightarrow>
    or_app_id op = ec_app_id context
    \<and> or_operation_id op = ec_operation_id context
    \<and> or_lifecycle_id op = ec_lifecycle_id context
    \<and> or_executor_id op = Some (ec_executor_id context)
    \<and> or_request_fingerprint op = ec_request_fingerprint context"


section \<open>Deadlines\<close>

definition bind_operation_deadline ::
  "env \<Rightarrow> string \<Rightarrow> string \<Rightarrow> string \<Rightarrow> int \<Rightarrow> int action" where
  "bind_operation_deadline ev app_id operation_id lifecycle_id deadline_epoch_ms =
    (if deadline_epoch_ms \<le> 0
     then tx_fail (InvalidOperation ''Operation deadline must be positive'')
     else
       tx_bind (op_current ev app_id operation_id lifecycle_id) (\<lambda>(_, op).
       if or_lifecycle_id op \<noteq> lifecycle_id \<or> op_is_terminal (or_state op)
       then tx_fail VersionConflict else
       tx_bind (tx_read (\<lambda>st. lookup dl_operation_id (st_deadlines st) operation_id)) (\<lambda>found.
       (case found of
          Some row \<Rightarrow>
            if dl_app_id row \<noteq> app_id \<or> dl_lifecycle_id row \<noteq> lifecycle_id then tx_fail LifecycleConflict
            else tx_return (dl_deadline_ms row)
        | None \<Rightarrow>
            tx_then (insert_row st_deadlines_update
              (\<lambda>st. lookup dl_operation_id (st_deadlines st) operation_id = None
                \<and> operation_exists st operation_id app_id lifecycle_id)
              \<lparr>dl_operation_id = operation_id, dl_app_id = app_id, dl_lifecycle_id = lifecycle_id,
               dl_deadline_ms = deadline_epoch_ms\<rparr>)
            (tx_return deadline_epoch_ms)))))"

definition operation_deadline :: "string \<Rightarrow> string \<Rightarrow> int option action" where
  "operation_deadline app_id operation_id =
    tx_read (\<lambda>st. case lookup dl_operation_id (st_deadlines st) operation_id of
        None \<Rightarrow> None
      | Some row \<Rightarrow> if dl_app_id row = app_id then Some (dl_deadline_ms row) else None)"


section \<open>Reads and recovery scans\<close>

definition get_operation :: "env \<Rightarrow> string \<Rightarrow> string \<Rightarrow> operation_record option action" where
  "get_operation ev app_id operation_id = repo_operation ev app_id operation_id"

definition get_operation_by_request :: "env \<Rightarrow> string \<Rightarrow> string \<Rightarrow> operation_record option action" where
  "get_operation_by_request ev app_id request_id =
    tx_then (tx_lift (validate_request_id request_id)) (
    tx_bind (repo_request app_id request_id) (\<lambda>found.
    (case found of None \<Rightarrow> tx_return None | Some mapping \<Rightarrow> request_operation ev app_id mapping)))"

definition unfinished_rows :: "string option \<Rightarrow> nat \<Rightarrow> store \<Rightarrow> operation_row list" where
  "unfinished_rows after limit st = page ow_operation_id (\<lambda>r. ow_terminal_at_us r = None) after limit (st_ops st)"

definition unfinished_operations :: "env \<Rightarrow> string option \<Rightarrow> nat \<Rightarrow> operation_record list action" where
  "unfinished_operations ev after limit =
    (if limit = 0 then tx_fail (InvalidOperation ''scan limit must be positive'')
     else
       tx_bind (tx_read (unfinished_rows after limit)) (\<lambda>rows.
       tx_lift (collect_r (\<lambda>row. storage_r (operation_of_row ev row)) rows)))"

record 'a scan_page =
  sp_records :: "'a list"
  sp_next_after :: "string option"
  sp_exhausted :: bool

definition last_key :: "('r \<Rightarrow> string) \<Rightarrow> 'r list \<Rightarrow> string option" where
  "last_key key rows = (if rows = [] then None else Some (key (last rows)))"

definition scan_unfinished_operations ::
  "env \<Rightarrow> string option \<Rightarrow> nat \<Rightarrow> operation_record scan_page action" where
  "scan_unfinished_operations ev after limit =
    (if limit = 0 \<or> limit > 1000 then tx_fail (InvalidOperation ''Invalid recovery scan page size'')
     else
       tx_bind (tx_read (unfinished_rows after limit)) (\<lambda>rows.
       tx_return \<lparr>sp_records = List.map_filter (\<lambda>row. ok_option (operation_of_row ev row)) rows,
          sp_next_after = last_key ow_operation_id rows, sp_exhausted = length rows < limit\<rparr>))"


section \<open>Mutex receipts\<close>

definition lease_binding_of_row :: "lease_row \<Rightarrow> store_error + lease_binding" where
  "lease_binding_of_row row =
    (if le_receipt_version row \<noteq> 1 then Inl (InvalidOperation ''Unsupported lease receipt version'')
     else let context = \<lparr>ec_app_id = le_app_id row, ec_lifecycle_id = le_lifecycle_id row,
         ec_operation_id = le_operation_id row, ec_executor_id = le_executor_id row,
         ec_request_fingerprint = le_request_fingerprint row\<rparr> in
     try_r (map_err InvalidOperation (validate_identity context (ec_app_id context))) (\<lambda>_.
     try_r (storage_r (from_str ''decode lease receipt'' dec_lease_receipt (le_receipt_json row))) (\<lambda>receipt.
     try_r (map_err InvalidOperation (validate_receipt receipt)) (\<lambda>_.
     Inr \<lparr>lb_context = context, lb_receipt = receipt\<rparr>))))"

definition get_operation_lease :: "string \<Rightarrow> string \<Rightarrow> lease_binding option action" where
  "get_operation_lease app_id operation_id =
    tx_bind (tx_read (\<lambda>st. lookup le_operation_id (st_leases st) operation_id)) (\<lambda>found.
    tx_lift (transpose_r lease_binding_of_row
        (case found of None \<Rightarrow> None | Some row \<Rightarrow> if le_app_id row = app_id then Some row else None)))"

text \<open>The join of leases with the terminal operations they belong to.\<close>

definition terminal_lease_rows :: "string option \<Rightarrow> nat \<Rightarrow> store \<Rightarrow> lease_row list" where
  "terminal_lease_rows after limit st =
    page le_operation_id
      (\<lambda>l. list_ex (\<lambda>o'. ow_operation_id o' = le_operation_id l \<and> ow_app_id o' = le_app_id l
         \<and> ow_lifecycle_id o' = le_lifecycle_id l \<and> ow_terminal_at_us o' \<noteq> None) (st_ops st))
      after limit (st_leases st)"

definition terminal_lease :: "env \<Rightarrow> lease_row \<Rightarrow> lease_binding action" where
  "terminal_lease ev row =
    tx_bind (tx_lift (lease_binding_of_row row)) (\<lambda>binding.
    tx_bind (repo_operation ev (ec_app_id (lb_context binding)) (le_operation_id row)) (\<lambda>found.
    tx_bind (tx_some NotFound found) (\<lambda>op.
    if \<not> op_is_terminal (or_state op) \<or> \<not> op_owns (lb_context binding) op
    then tx_fail VersionConflict else
    tx_return binding)))"

fun tx_collect :: "('a \<Rightarrow> 'b action) \<Rightarrow> 'a list \<Rightarrow> 'b list action" where
  "tx_collect f [] = tx_return []"
| "tx_collect f (x # xs) = tx_bind (f x) (\<lambda>y. tx_bind (tx_collect f xs) (\<lambda>ys. tx_return (y # ys)))"

definition terminal_operation_leases :: "env \<Rightarrow> string option \<Rightarrow> nat \<Rightarrow> lease_binding list action" where
  "terminal_operation_leases ev after limit =
    tx_bind (tx_read (terminal_lease_rows after (max 1 (min 1000 limit)))) (\<lambda>rows.
    tx_collect (terminal_lease ev) rows)"

definition scanned_lease :: "env \<Rightarrow> store \<Rightarrow> lease_row \<Rightarrow> lease_binding option" where
  "scanned_lease ev st row = do {
     binding \<leftarrow> ok_option (lease_binding_of_row row);
     found \<leftarrow> lookup ow_operation_id (st_ops st) (le_operation_id row);
     operation \<leftarrow> (if ow_app_id found = le_app_id row then ok_option (operation_of_row ev found) else None);
     if \<not> op_is_terminal (or_state operation) \<or> \<not> op_owns (lb_context binding) operation then None
     else Some binding }"

definition scan_terminal_operation_leases ::
  "env \<Rightarrow> string option \<Rightarrow> nat \<Rightarrow> lease_binding scan_page action" where
  "scan_terminal_operation_leases ev after limit =
    (if limit = 0 \<or> limit > 1000 then tx_fail (InvalidOperation ''Invalid recovery scan page size'')
     else tx_read (\<lambda>st. let rows = terminal_lease_rows after limit st in
       \<lparr>sp_records = List.map_filter (scanned_lease ev st) rows,
        sp_next_after = last_key le_operation_id rows, sp_exhausted = length rows < limit\<rparr>))"

definition forget_operation_lease :: "env \<Rightarrow> lease_binding \<Rightarrow> unit action" where
  "forget_operation_lease ev binding =
    (let context = lb_context binding in
    tx_then (claim_app (ec_app_id context)) (
    tx_bind (repo_operation ev (ec_app_id context) (ec_operation_id context)) (\<lambda>found.
    tx_bind (tx_some NotFound found) (\<lambda>op.
    if \<not> op_is_terminal (or_state op) \<or> \<not> op_owns context op
    then tx_fail VersionConflict else
    tx_bind (get_operation_lease (ec_app_id context) (ec_operation_id context)) (\<lambda>stored.
    (case stored of
        None \<Rightarrow> tx_return ()
      | Some stored \<Rightarrow>
          if stored \<noteq> binding then tx_fail VersionConflict
          else delete_one st_leases st_leases_update
            (\<lambda>r. le_operation_id r = ec_operation_id context \<and> le_app_id r = ec_app_id context
              \<and> le_lifecycle_id r = ec_lifecycle_id context \<and> le_executor_id r = ec_executor_id context
              \<and> le_request_fingerprint r = ec_request_fingerprint context
              \<and> le_receipt_json r = to_text (enc_lease_receipt (lb_receipt binding)))
            VersionConflict))))))"

end
