(* ===== verification/Configuration.thy ===== *)
theory Configuration
  imports Operation_Access
begin

text \<open>
  Versioned private runtime configuration
  (\<open>userapp_lifecycle/common/configuration.rs\<close>): saved database credentials, what an
  operation captured of them, and the two-part result (credentials applied, business
  started) its executor records.
\<close>

record save_configuration_request =
  sv_lifecycle_id :: string
  sv_request_id :: string
  sv_expected_revision :: int
  sv_pg :: pg_credential

record configuration_status =
  fs_lifecycle_id :: string
  fs_scope :: operation_scope
  fs_revision :: int
  fs_saved_version :: int
  fs_applied_version :: "int option"
  fs_applying_version :: "int option"
  fs_applying_operation_id :: "string option"
  fs_pending :: bool

record saved_configuration =
  sd_config_version :: int
  sd_status :: configuration_status

datatype credential_state = Cred_Captured | Cred_Applying | Cred_Applied | Cred_Failed | Cred_Unknown

datatype business_state = Biz_NotStarted | Biz_Starting | Biz_Ready | Biz_Failed | Biz_Unknown

record configuration_capture =
  cp_operation_id :: string
  cp_lifecycle_id :: string
  cp_scope :: operation_scope
  cp_config_version :: int
  cp_pg :: pg_credential
  cp_target :: "runtime_configuration_target option"
  cp_credentials :: credential_state
  cp_business :: business_state

definition credential_names :: "(credential_state \<times> string) list" where
  "credential_names =
    [(Cred_Captured, ''captured''), (Cred_Applying, ''applying''), (Cred_Applied, ''applied''),
     (Cred_Failed, ''failed''), (Cred_Unknown, ''unknown'')]"

definition business_names :: "(business_state \<times> string) list" where
  "business_names =
    [(Biz_NotStarted, ''not_started''), (Biz_Starting, ''starting''), (Biz_Ready, ''ready''),
     (Biz_Failed, ''failed''), (Biz_Unknown, ''unknown'')]"

abbreviation credential_name :: "credential_state \<Rightarrow> string" where
  "credential_name \<equiv> name_of credential_names"

abbreviation business_name :: "business_state \<Rightarrow> string" where
  "business_name \<equiv> name_of business_names"

interpretation credential_codec: name_codec credential_name "name_in credential_names"
proof (rule name_codec_table)
  fix a :: credential_state
  show "a \<in> fst ` set credential_names"
    by (cases a) (simp_all add: credential_names_def)
qed (simp_all add: credential_names_def)

interpretation business_codec: name_codec business_name "name_in business_names"
proof (rule name_codec_table)
  fix a :: business_state
  show "a \<in> fst ` set business_names"
    by (cases a) (simp_all add: business_names_def)
qed (simp_all add: business_names_def)

definition credentials_of :: "string \<Rightarrow> store_error + credential_state" where
  "credentials_of value = ok_or (InvalidOperation ''Unknown persisted credential state'') (name_in credential_names value)"

definition business_of :: "string \<Rightarrow> store_error + business_state" where
  "business_of value = ok_or (InvalidOperation ''Unknown persisted business state'') (name_in business_names value)"


section \<open>Constraints\<close>

definition version_exists :: "store \<Rightarrow> string \<Rightarrow> string \<Rightarrow> string \<Rightarrow> int \<Rightarrow> bool" where
  "version_exists st app_id lifecycle_id scope version \<longleftrightarrow>
    list_ex (\<lambda>r. cv_app_id r = app_id \<and> cv_lifecycle_id r = lifecycle_id \<and> cv_scope r = scope
      \<and> cv_version r = version) (st_config_versions st)"

definition scoped_operation_exists :: "store \<Rightarrow> string \<Rightarrow> string \<Rightarrow> string \<Rightarrow> string \<Rightarrow> bool" where
  "scoped_operation_exists st i app_id lifecycle_id scope \<longleftrightarrow>
    list_ex (\<lambda>r. ow_operation_id r = i \<and> ow_app_id r = app_id \<and> ow_lifecycle_id r = lifecycle_id
      \<and> ow_scope r = scope) (st_ops st)"

definition config_version_checks :: "config_version_row \<Rightarrow> bool" where
  "config_version_checks r \<longleftrightarrow> cv_scope r \<in> {''dev'', ''prod''} \<and> 1 \<le> cv_version r
    \<and> cv_request_id r \<noteq> [] \<and> 0 \<le> cv_expected_revision r \<and> cv_payload_version r = 1
    \<and> cv_pg_username r \<noteq> [] \<and> cv_pg_password r \<noteq> []"

definition config_checks :: "store \<Rightarrow> config_row \<Rightarrow> bool" where
  "config_checks st r \<longleftrightarrow> cf_scope r \<in> {''dev'', ''prod''} \<and> 1 \<le> cf_revision r
    \<and> version_exists st (cf_app_id r) (cf_lifecycle_id r) (cf_scope r) (cf_saved_version r)
    \<and> (case cf_applied_version r of None \<Rightarrow> True
       | Some v \<Rightarrow> version_exists st (cf_app_id r) (cf_lifecycle_id r) (cf_scope r) v)
    \<and> (case cf_applying_version r of None \<Rightarrow> True
       | Some v \<Rightarrow> version_exists st (cf_app_id r) (cf_lifecycle_id r) (cf_scope r) v)
    \<and> (case cf_applying_operation_id r of None \<Rightarrow> True
       | Some i \<Rightarrow> scoped_operation_exists st i (cf_app_id r) (cf_lifecycle_id r) (cf_scope r))
    \<and> (cf_applying_version r = None \<longleftrightarrow> cf_applying_operation_id r = None)"

definition operation_config_checks :: "store \<Rightarrow> operation_config_row \<Rightarrow> bool" where
  "operation_config_checks st r \<longleftrightarrow> oc_scope r \<in> {''dev'', ''prod''}
    \<and> oc_credential_state r \<in> {''captured'', ''applying'', ''applied'', ''failed'', ''unknown''}
    \<and> oc_business_state r \<in> {''not_started'', ''starting'', ''ready'', ''failed'', ''unknown''}
    \<and> scoped_operation_exists st (oc_operation_id r) (oc_app_id r) (oc_lifecycle_id r) (oc_scope r)
    \<and> version_exists st (oc_app_id r) (oc_lifecycle_id r) (oc_scope r) (oc_config_version r)
    \<and> (oc_physical_uid r = None \<and> oc_deployment_generation r = None
       \<or> nonempty_opt (oc_physical_uid r) \<and> nonempty_opt (oc_deployment_generation r))
    \<and> (oc_credential_state r = ''captured''
       \<or> oc_physical_uid r \<noteq> None \<and> oc_deployment_generation r \<noteq> None)"


section \<open>Heads and saved versions\<close>

definition configuration_scope :: "operation_scope \<Rightarrow> store_error + string" where
  "configuration_scope scope =
    (if scope = Scope_Application
     then Inl (InvalidOperation ''Runtime configuration requires dev or prod scope'')
     else Inr (scope_name scope))"

definition current_app :: "env \<Rightarrow> string \<Rightarrow> string \<Rightarrow> unit action" where
  "current_app ev app_id lifecycle_id =
    tx_then (claim_app app_id) (
    tx_bind (repo_app ev app_id) (\<lambda>found.
    tx_bind (tx_some NotFound found) (\<lambda>app.
    if lr_lifecycle_id app \<noteq> lifecycle_id
    then tx_fail LifecycleConflict else
    tx_lift (validate_active app))))"

definition config_head :: "string \<Rightarrow> string \<Rightarrow> operation_scope \<Rightarrow> config_row option action" where
  "config_head app_id lifecycle_id scope =
    tx_bind (tx_lift (configuration_scope scope)) (\<lambda>name.
    tx_read (\<lambda>st. lookup (\<lambda>r. (cf_app_id r, cf_lifecycle_id r, cf_scope r)) (st_configs st)
        (app_id, lifecycle_id, name)))"

definition version_out_of_range :: "config_row \<Rightarrow> int option \<Rightarrow> bool" where
  "version_out_of_range row v =
    (case v of None \<Rightarrow> False | Some v \<Rightarrow> v < 1 \<or> v > cf_saved_version row)"

definition config_status :: "config_row \<Rightarrow> store_error + configuration_status" where
  "config_status row =
    (if cf_revision row < 1 \<or> cf_saved_version row < 1 \<or> cf_revision row \<noteq> cf_saved_version row
        \<or> version_out_of_range row (cf_applied_version row)
        \<or> version_out_of_range row (cf_applying_version row)
        \<or> (cf_applying_version row \<noteq> None) \<noteq> (cf_applying_operation_id row \<noteq> None)
     then Inl (InvalidOperation ''Invalid persisted runtime configuration head'')
     else try_r (storage_r (scope_of (cf_scope row))) (\<lambda>scope.
     Inr \<lparr>fs_lifecycle_id = cf_lifecycle_id row, fs_scope = scope, fs_revision = cf_revision row,
       fs_saved_version = cf_saved_version row, fs_applied_version = cf_applied_version row,
       fs_applying_version = cf_applying_version row,
       fs_applying_operation_id = cf_applying_operation_id row,
       fs_pending = (cf_applied_version row \<noteq> Some (cf_saved_version row))\<rparr>))"

definition read_config_status ::
  "env \<Rightarrow> string \<Rightarrow> string \<Rightarrow> operation_scope \<Rightarrow> configuration_status option action" where
  "read_config_status ev app_id lifecycle_id scope =
    tx_then (current_app ev app_id lifecycle_id) (
    tx_bind (config_head app_id lifecycle_id scope) (\<lambda>found.
    tx_lift (transpose_r config_status found)))"

definition crate_validate_pg :: "pg_credential \<Rightarrow> store_error + unit" where
  "crate_validate_pg pg =
    try_r (map_err InvalidOperation (validate_pg_identifier (pg_username pg))) (\<lambda>_.
    if pg_password pg = [] \<or> CHR 0x00 \<in> set (pg_password pg)
    then Inl (InvalidOperation ''PG password must be nonempty and contain no NUL bytes'')
    else Inr ())"

definition find_version :: "string \<Rightarrow> string \<Rightarrow> string \<Rightarrow> int \<Rightarrow> config_version_row option action" where
  "find_version app_id lifecycle_id scope version =
    tx_read (\<lambda>st. lookup (\<lambda>r. (cv_app_id r, cv_lifecycle_id r, cv_scope r, cv_version r))
      (st_config_versions st) (app_id, lifecycle_id, scope, version))"

definition insert_version :: "config_version_row \<Rightarrow> unit action" where
  "insert_version row = insert_row st_config_versions_update
     (\<lambda>st. config_version_checks row \<and> app_exists st (cv_app_id row)
       \<and> \<not> list_ex (\<lambda>r. cv_app_id r = cv_app_id row \<and> cv_lifecycle_id r = cv_lifecycle_id row
            \<and> cv_scope r = cv_scope row
            \<and> (cv_version r = cv_version row \<or> cv_request_id r = cv_request_id row))
          (st_config_versions st)) row"

definition save_configuration ::
  "env \<Rightarrow> string \<Rightarrow> operation_scope \<Rightarrow> save_configuration_request \<Rightarrow> saved_configuration action" where
  "save_configuration ev app_id scope_value request =
    tx_bind (tx_lift (configuration_scope scope_value)) (\<lambda>scope.
    tx_then (tx_lift (map_err (\<lambda>_. InvalidOperation ''Invalid configuration save request identity'')
        (validate_identifier (sv_request_id request) ''request_id''))) (
    tx_then (tx_lift (crate_validate_pg (sv_pg request))) (
    if sv_expected_revision request < 0
    then tx_fail (InvalidOperation ''Configuration revision must not be negative'') else
    tx_then (current_app ev app_id (sv_lifecycle_id request)) (
    tx_bind (config_head app_id (sv_lifecycle_id request) scope_value) (\<lambda>previous.
    tx_bind (tx_read (\<lambda>st. lookup (\<lambda>r. (cv_app_id r, cv_lifecycle_id r, cv_scope r, cv_request_id r))
        (st_config_versions st) (app_id, sv_lifecycle_id request, scope, sv_request_id request))) (\<lambda>replay.
    (case replay of
        Some replay \<Rightarrow>
          if cv_expected_revision replay \<noteq> sv_expected_revision request
             \<or> cv_pg_username replay \<noteq> pg_username (sv_pg request)
             \<or> cv_pg_password replay \<noteq> pg_password (sv_pg request)
             \<or> cv_payload_version replay \<noteq> 1
          then tx_fail (InvalidOperation ''Configuration save identity was reused with different input'')
          else
            tx_bind (tx_some (InvalidOperation ''Configuration replay has no current head'') previous) (\<lambda>previous.
            tx_bind (tx_lift (config_status previous)) (\<lambda>status.
            tx_return \<lparr>sd_config_version = cv_version replay, sd_status = status\<rparr>))
      | None \<Rightarrow>
        tx_bind (repo_app ev app_id) (\<lambda>found.
        tx_bind (tx_some NotFound found) (\<lambda>app.
        tx_bind (active ev app) (\<lambda>active.
        tx_then ((case record_slot active scope_value of
              None \<Rightarrow> tx_return ()
            | Some operation \<Rightarrow>
                (case or_command operation of
                   Some (Cmd_ResetDatabasePassword _ _) \<Rightarrow> tx_fail (OperationInProgress (blocker operation))
                 | _ \<Rightarrow> tx_return ()))) (
        tx_bind (tx_lift (transpose_r config_status previous)) (\<lambda>status.
        let revision = (case status of None \<Rightarrow> 0 | Some s \<Rightarrow> fs_revision s) in
        if revision \<noteq> sv_expected_revision request
        then tx_fail VersionConflict else
        tx_bind (tx_some (InvalidOperation ''Configuration version exhausted'') (checked_add revision 1)) (\<lambda>version.
        tx_then (insert_version \<lparr>cv_app_id = app_id, cv_lifecycle_id = sv_lifecycle_id request, cv_scope = scope,
              cv_version = version, cv_request_id = sv_request_id request, cv_expected_revision = revision,
              cv_payload_version = 1, cv_pg_username = pg_username (sv_pg request),
              cv_pg_password = pg_password (sv_pg request), cv_created_at_us = ev_now ev\<rparr>) (
        tx_then ((if previous = None
             then let row = \<lparr>cf_app_id = app_id, cf_lifecycle_id = sv_lifecycle_id request, cf_scope = scope,
                 cf_revision = version, cf_saved_version = version, cf_applied_version = None,
                 cf_applying_version = None, cf_applying_operation_id = None,
                 cf_updated_at_us = ev_now ev\<rparr> in
               insert_row st_configs_update
                 (\<lambda>st. config_checks st row
                   \<and> lookup (\<lambda>r. (cf_app_id r, cf_lifecycle_id r, cf_scope r)) (st_configs st)
                       (app_id, sv_lifecycle_id request, scope) = None) row
             else update_one st_configs st_configs_update
               (\<lambda>r. cf_app_id r = app_id \<and> cf_lifecycle_id r = sv_lifecycle_id request
                 \<and> cf_scope r = scope \<and> cf_revision r = revision)
               (\<lambda>r. r\<lparr>cf_revision := version, cf_saved_version := version, cf_updated_at_us := ev_now ev\<rparr>)
               config_checks VersionConflict)) (
        tx_bind (config_head app_id (sv_lifecycle_id request) scope_value) (\<lambda>found.
        tx_bind (tx_some NotFound found) (\<lambda>row.
        tx_bind (tx_lift (config_status row)) (\<lambda>status.
        tx_return \<lparr>sd_config_version = version, sd_status = status\<rparr>))))))))))))))))))"


section \<open>Admission\<close>

definition guard_database_admin :: "operation_record \<Rightarrow> store_error + unit" where
  "guard_database_admin operation =
    (if or_kind operation \<notin> {Kind_ResetDevDatabasePassword, Kind_ResetProdDatabasePassword} then Inr ()
     else case or_command operation of
       Some (Cmd_ResetDatabasePassword _ username) \<Rightarrow>
         map_err InvalidOperation (validate_pg_identifier username)
     | _ \<Rightarrow> Inl (InvalidOperation ''Database administration requires an explicit target account''))"

definition config_receipt :: "operation_record \<Rightarrow> operation_config_row option action" where
  "config_receipt op =
    tx_bind (tx_read (\<lambda>st. lookup oc_operation_id (st_operation_configs st) (or_operation_id op))) (\<lambda>found.
    (case found of
        None \<Rightarrow> tx_return None
      | Some row \<Rightarrow>
          if oc_app_id row \<noteq> or_app_id op \<or> oc_lifecycle_id row \<noteq> or_lifecycle_id op
             \<or> oc_scope row \<noteq> scope_name (or_scope op) \<or> oc_config_version row < 1
             \<or> (oc_physical_uid row \<noteq> None) \<noteq> (oc_deployment_generation row \<noteq> None)
          then tx_fail (InvalidOperation ''Runtime configuration receipt identity mismatch'')
          else tx_return (Some row)))"

definition verify_version_credentials :: "operation_record \<Rightarrow> int \<Rightarrow> pg_credential \<Rightarrow> unit action" where
  "verify_version_credentials op version pg =
    tx_bind (tx_lift (configuration_scope (or_scope op))) (\<lambda>scope.
    tx_bind (find_version (or_app_id op) (or_lifecycle_id op) scope version) (\<lambda>found.
    tx_bind (tx_some (InvalidOperation ''Deployment configuration version is missing'') found) (\<lambda>row.
    if cv_payload_version row \<noteq> 1 \<or> cv_pg_username row \<noteq> pg_username pg \<or> cv_pg_password row \<noteq> pg_password pg
    then tx_fail (InvalidOperation ''Explicit deployment credentials differ from the saved configuration'') else
    tx_return ())))"

definition verify_captured_credentials :: "operation_record \<Rightarrow> pg_credential \<Rightarrow> unit action" where
  "verify_captured_credentials op pg =
    tx_bind (config_receipt op) (\<lambda>found.
    tx_bind (tx_some (InvalidOperation ''Replayed deployment has no captured credentials'') found) (\<lambda>row.
    verify_version_credentials op (oc_config_version row) pg))"

definition seed_deployment_credentials :: "env \<Rightarrow> operation_record \<Rightarrow> pg_credential \<Rightarrow> unit action" where
  "seed_deployment_credentials ev op pg =
    tx_then (tx_lift (crate_validate_pg pg)) (
    tx_bind (config_head (or_app_id op) (or_lifecycle_id op) (or_scope op)) (\<lambda>found.
    (case found of
        Some existing \<Rightarrow>
          tx_bind (tx_lift (config_status existing)) (\<lambda>summary.
          verify_version_credentials op (fs_saved_version summary) pg)
      | None \<Rightarrow>
        tx_bind (save_configuration ev (or_app_id op) (or_scope op)
              \<lparr>sv_lifecycle_id = or_lifecycle_id op,
               sv_request_id = sha256_hex ev (''deployment-configuration:'' @ or_operation_id op),
               sv_expected_revision = 0, sv_pg = pg\<rparr>) (\<lambda>_.
        tx_return ()))))"

definition captures_configuration :: "operation_kind \<Rightarrow> bool" where
  "captures_configuration kind \<longleftrightarrow> kind \<in> {Kind_EnsureBuilder, Kind_RestartBuilder, Kind_Create,
     Kind_StartDeployment, Kind_RestartDeployment, Kind_Start, Kind_Restart, Kind_HotDeploy}"

definition capture_configuration :: "env \<Rightarrow> operation_record \<Rightarrow> unit action" where
  "capture_configuration ev op =
    (if \<not> captures_configuration (or_kind op) then tx_return ()
     else
       tx_bind (config_head (or_app_id op) (or_lifecycle_id op) (or_scope op)) (\<lambda>found.
       (case found of
          None \<Rightarrow> tx_return ()
        | Some row \<Rightarrow>
          tx_bind (tx_lift (config_status row)) (\<lambda>summary.
          if fs_applying_operation_id summary \<noteq> None
          then tx_fail (InvalidOperation ''Runtime credential application requires recovery'') else
          if or_kind op = Kind_HotDeploy \<and> fs_pending summary
          then tx_fail (InvalidOperation ''Runtime credential changes require a cold deployment'') else
          let applied_only = (or_command op = Some (Cmd_Start True) \<or> or_kind op = Kind_EnsureBuilder
                \<or> or_kind op = Kind_HotDeploy) in
          (case (if applied_only then cf_applied_version row else Some (cf_saved_version row)) of
                None \<Rightarrow> tx_return ()
              | Some version \<Rightarrow>
                  let row = \<lparr>oc_operation_id = or_operation_id op, oc_app_id = or_app_id op,
                      oc_lifecycle_id = or_lifecycle_id op, oc_scope = scope_name (or_scope op),
                      oc_config_version = version, oc_physical_uid = None, oc_deployment_generation = None,
                      oc_credential_state = ''captured'', oc_business_state = ''not_started'',
                      oc_created_at_us = ev_now ev, oc_updated_at_us = ev_now ev\<rparr> in
                  insert_row st_operation_configs_update
                    (\<lambda>st. operation_config_checks st row
                      \<and> lookup oc_operation_id (st_operation_configs st) (or_operation_id op) = None) row)))))"


section \<open>The executor's result\<close>

definition owned_operation :: "env \<Rightarrow> execution_context \<Rightarrow> operation_record action" where
  "owned_operation ev context =
    tx_then (tx_lift (map_err InvalidOperation (validate_identity context (ec_app_id context)))) (
    tx_bind (op_current ev (ec_app_id context) (ec_operation_id context) (ec_lifecycle_id context)) (\<lambda>(_, op).
    if \<not> op_owns context op \<or> or_state op \<noteq> Op_Running
    then tx_fail VersionConflict else
    tx_return op))"

definition zip_opt :: "'a option \<Rightarrow> 'b option \<Rightarrow> ('a \<times> 'b) option" where
  "zip_opt a b = (case (a, b) of (Some x, Some y) \<Rightarrow> Some (x, y) | _ \<Rightarrow> None)"

definition read_configuration :: "env \<Rightarrow> execution_context \<Rightarrow> configuration_capture option action" where
  "read_configuration ev context =
    tx_bind (owned_operation ev context) (\<lambda>op.
    tx_bind (config_receipt op) (\<lambda>found.
    (case found of
        None \<Rightarrow> tx_return None
      | Some row \<Rightarrow>
        tx_bind (find_version (oc_app_id row) (oc_lifecycle_id row) (oc_scope row) (oc_config_version row)) (\<lambda>found.
        tx_bind (tx_some (InvalidOperation ''Captured configuration version is missing'') found) (\<lambda>version.
        if cv_payload_version version \<noteq> 1
        then tx_fail (InvalidOperation ''Unknown runtime configuration payload version'') else
        let pg = \<lparr>pg_username = cv_pg_username version, pg_password = cv_pg_password version\<rparr> in
        tx_then (tx_lift (crate_validate_pg pg)) (
        tx_bind (tx_lift (credentials_of (oc_credential_state row))) (\<lambda>credentials.
        tx_bind (tx_lift (business_of (oc_business_state row))) (\<lambda>business.
        tx_return (Some \<lparr>cp_operation_id = oc_operation_id row, cp_lifecycle_id = oc_lifecycle_id row,
              cp_scope = or_scope op, cp_config_version = oc_config_version row, cp_pg = pg,
              cp_target = map_option (\<lambda>(uid, generation). \<lparr>rt_physical_uid = uid,
                rt_deployment_generation = generation\<rparr>)
                (zip_opt (oc_physical_uid row) (oc_deployment_generation row)),
              cp_credentials = credentials, cp_business = business\<rparr>)))))))))"

definition bind_configuration ::
  "env \<Rightarrow> execution_context \<Rightarrow> int \<Rightarrow> runtime_configuration_target \<Rightarrow> unit action" where
  "bind_configuration ev context version target =
    (if rt_physical_uid target = [] \<or> rt_deployment_generation target = []
    then tx_fail (InvalidOperation ''Runtime configuration target identity is empty'') else
    tx_bind (owned_operation ev context) (\<lambda>op.
    tx_bind (config_receipt op) (\<lambda>found.
    tx_bind (tx_some NotFound found) (\<lambda>row.
    if oc_config_version row \<noteq> version
    then tx_fail VersionConflict else
    (case oc_physical_uid row of
        Some uid \<Rightarrow>
          if uid = rt_physical_uid target \<and> oc_deployment_generation row = Some (rt_deployment_generation target)
          then tx_return () else tx_fail VersionConflict
      | None \<Rightarrow>
          if oc_credential_state row \<noteq> ''captured''
          then tx_fail (InvalidOperation ''Unbound configuration is not captured'')
          else update_one st_operation_configs st_operation_configs_update
            (\<lambda>r. oc_operation_id r = or_operation_id op \<and> oc_physical_uid r = None)
            (\<lambda>r. r\<lparr>oc_physical_uid := Some (rt_physical_uid target),
              oc_deployment_generation := Some (rt_deployment_generation target),
              oc_updated_at_us := ev_now ev\<rparr>)
            operation_config_checks VersionConflict)))))"

definition credential_step :: "credential_state \<Rightarrow> credential_state \<Rightarrow> bool" where
  "credential_step old new \<longleftrightarrow> old = new \<or> (old, new) \<in>
    {(Cred_Captured, Cred_Applying), (Cred_Captured, Cred_Failed), (Cred_Applying, Cred_Applied),
     (Cred_Applying, Cred_Failed), (Cred_Applying, Cred_Unknown), (Cred_Unknown, Cred_Applied)}"

definition business_step :: "business_state \<Rightarrow> business_state \<Rightarrow> bool" where
  "business_step before after \<longleftrightarrow> before = after \<or> (before, after) \<in>
    {(Biz_NotStarted, Biz_Starting), (Biz_NotStarted, Biz_Failed), (Biz_Starting, Biz_Ready),
     (Biz_Starting, Biz_Failed), (Biz_Starting, Biz_Unknown), (Biz_Unknown, Biz_Ready),
     (Biz_Unknown, Biz_Failed)}"

definition validate_transition ::
  "credential_state \<Rightarrow> credential_state \<Rightarrow> business_state \<Rightarrow> business_state \<Rightarrow> store_error + unit" where
  "validate_transition old new before after =
    (if \<not> credential_step old new \<or> \<not> business_step before after
        \<or> (new \<noteq> Cred_Applied \<and> after \<notin> {Biz_NotStarted, Biz_Failed})
     then Inl (InvalidOperation ''Invalid runtime configuration result transition'')
     else Inr ())"

definition record_configuration ::
  "env \<Rightarrow> execution_context \<Rightarrow> int \<Rightarrow> runtime_configuration_target \<Rightarrow> credential_state \<Rightarrow>
   business_state \<Rightarrow> unit action" where
  "record_configuration ev context version target credential startup =
    tx_bind (owned_operation ev context) (\<lambda>op.
    tx_bind (config_receipt op) (\<lambda>found.
    tx_bind (tx_some NotFound found) (\<lambda>row.
    if oc_config_version row \<noteq> version \<or> oc_physical_uid row \<noteq> Some (rt_physical_uid target)
      \<or> oc_deployment_generation row \<noteq> Some (rt_deployment_generation target)
    then tx_fail VersionConflict else
    tx_bind (tx_lift (credentials_of (oc_credential_state row))) (\<lambda>old.
    tx_bind (tx_lift (business_of (oc_business_state row))) (\<lambda>before.
    tx_then (tx_lift (validate_transition old credential before startup)) (
    tx_bind (config_head (or_app_id op) (or_lifecycle_id op) (or_scope op)) (\<lambda>found.
    tx_bind (tx_some NotFound found) (\<lambda>head.
    tx_bind (tx_lift (config_status head)) (\<lambda>_.
    if (case cf_applying_operation_id head of None \<Rightarrow> False | Some i \<Rightarrow> i \<noteq> or_operation_id op)
    then tx_fail VersionConflict else
    tx_then (update_one st_operation_configs st_operation_configs_update
        (\<lambda>r. oc_operation_id r = or_operation_id op \<and> oc_credential_state r = oc_credential_state row
          \<and> oc_business_state r = oc_business_state row)
        (\<lambda>r. r\<lparr>oc_credential_state := credential_name credential, oc_business_state := business_name startup,
          oc_updated_at_us := ev_now ev\<rparr>)
        operation_config_checks VersionConflict) (
    let applying = (credential \<in> {Cred_Applying, Cred_Unknown}) in
    let applied = (if credential = Cred_Applied then Some version else cf_applied_version head) in
    update_one st_configs st_configs_update
        (\<lambda>r. cf_app_id r = or_app_id op \<and> cf_lifecycle_id r = or_lifecycle_id op
          \<and> cf_scope r = scope_name (or_scope op) \<and> cf_revision r = cf_revision head)
        (\<lambda>r. r\<lparr>cf_applied_version := applied,
          cf_applying_version := (if applying then Some version else None),
          cf_applying_operation_id := (if applying then Some (or_operation_id op) else None),
          cf_updated_at_us := ev_now ev\<rparr>)
        config_checks VersionConflict))))))))))"

definition validate_terminal :: "operation_record \<Rightarrow> operation_state \<Rightarrow> unit action" where
  "validate_terminal op state =
    (if \<not> op_is_terminal state then tx_return ()
     else
       tx_bind (config_receipt op) (\<lambda>found.
       (case found of
          None \<Rightarrow> tx_return ()
        | Some row \<Rightarrow>
          tx_bind (tx_lift (credentials_of (oc_credential_state row))) (\<lambda>credentials.
          tx_bind (tx_lift (business_of (oc_business_state row))) (\<lambda>business.
          if credentials \<in> {Cred_Applying, Cred_Unknown} \<or> business \<in> {Biz_Starting, Biz_Unknown}
          then tx_fail (InvalidOperation ''Uncertain runtime configuration outcome requires recovery'') else
          if state = Op_Succeeded \<and> (credentials \<noteq> Cred_Applied \<or> business \<noteq> Biz_Ready)
          then tx_fail (InvalidOperation ''Runtime credentials and business readiness are not confirmed'') else
          tx_return ())))))"

end
