(* ===== verification/Compute.thy ===== *)
theory Compute
  imports Configuration
begin

text \<open>
  Priority admission of compute controls (\<open>userapp_lifecycle/common/compute.rs\<close>): the
  intent head of a scope, the ledger of controls, claiming a control, cancelling business
  operations that hold no execution authority, the guards business work passes, and the
  restoration of a discovered identity.  \<open>drained\<close> is the predicate of
  \<open>compute_execution.rs\<close> that a head's settlement already needs.
\<close>


section \<open>Rows\<close>

datatype desired_state = Desired_Running | Desired_Stopped

fun desired_as_str :: "desired_state \<Rightarrow> string" where
  "desired_as_str Desired_Running = ''running''"
| "desired_as_str Desired_Stopped = ''stopped''"

definition desired_state_of :: "string \<Rightarrow> string + desired_state" where
  "desired_state_of value =
    (if value = ''running'' then Inr Desired_Running
     else if value = ''stopped'' then Inr Desired_Stopped
     else Inl ''unknown persisted compute desired state'')"

definition persisted_desired_stopped :: "string \<Rightarrow> store_error + bool" where
  "persisted_desired_stopped value =
    try_r (storage_r (desired_state_of value)) (\<lambda>d. Inr (d = Desired_Stopped))"

definition compute_action_of :: "string \<Rightarrow> store_error + compute_action" where
  "compute_action_of value = ok_or (InvalidOperation ''Invalid compute action'') (name_in compute_action_names value)"

definition compute_state_of :: "string \<Rightarrow> store_error + compute_state" where
  "compute_state_of value = ok_or (InvalidOperation ''Invalid compute state'') (name_in compute_state_names value)"

definition decode_lease :: "operation_scope \<Rightarrow> control_row \<Rightarrow> store_error + lease_receipt option" where
  "decode_lease scope row =
    try_r (storage_r (transpose_r (from_str ''decode compute lease'' dec_lease_receipt) (cc_lease_json row))) (\<lambda>lease.
    case lease of
      None \<Rightarrow> Inr None
    | Some receipt \<Rightarrow>
        try_r (map_err InvalidOperation (validate_receipt receipt)) (\<lambda>_.
        case scope of
          Scope_Application \<Rightarrow> Inl (InvalidOperation ''Invalid compute receipt scope'')
        | _ \<Rightarrow>
            if receipt_service_type receipt \<noteq> (if scope = Scope_Dev then UserappBuilder else Userapp)
               \<or> \<not> nonempty_opt (cc_executor_id row)
            then Inl (InvalidOperation ''Invalid compute receipt owner'')
            else Inr (Some receipt)))"

definition decode_control :: "env \<Rightarrow> control_row \<Rightarrow> store_error + control_record" where
  "decode_control ev row =
    (if cc_generation row < 1 \<or> cc_revision row < 1
     then Inl (InvalidOperation ''Invalid compute control revision'')
     else
     try_r (storage_r (scope_of (cc_scope row))) (\<lambda>scope.
     try_r (decode_lease scope row) (\<lambda>lease.
     try_r (ensure_r (ev_timestamp ev (cc_created_at_us row))
       (InvalidOperation ''Invalid compute admission timestamp'')) (\<lambda>_.
     try_r (compute_action_of (cc_action row)) (\<lambda>action.
     try_r (compute_state_of (cc_state row)) (\<lambda>state.
     try_r (storage_r (from_str ''decode compute checkpoint'' dec_any (cc_checkpoint_json row))) (\<lambda>checkpoint.
     try_r (storage_r (from_str ''decode compute evidence'' (dec_list dec_str) (cc_evidence_json row))) (\<lambda>interrupted.
     Inr \<lparr>ctl_created_at = cc_created_at_us row, ctl_app_id = cc_app_id row,
       ctl_lifecycle_id = cc_lifecycle_id row, ctl_request_id = cc_request_id row, ctl_scope = scope,
       ctl_operation_id = cc_operation_id row, ctl_request_fingerprint = cc_request_fingerprint row,
       ctl_generation = cc_generation row, ctl_revision = cc_revision row, ctl_action = action,
       ctl_state = state, ctl_executor_id = cc_executor_id row, ctl_stage = cc_stage row,
       ctl_checkpoint = checkpoint, ctl_error_code = cc_error_code row,
       ctl_error_message = cc_error_message row, ctl_lease = lease,
       ctl_interrupted_operations = interrupted\<rparr>))))))))"

definition get_control :: "env \<Rightarrow> string \<Rightarrow> string \<Rightarrow> control_record option action" where
  "get_control ev app_id i =
    tx_bind (tx_read (\<lambda>st. lookup cc_operation_id (st_controls st) i)) (\<lambda>found.
    tx_lift (transpose_r (decode_control ev)
        (case found of None \<Rightarrow> None | Some row \<Rightarrow> if cc_app_id row = app_id then Some row else None)))"

text \<open>CHECK constraints; \<open>revision = revision + 1\<close> must stay a BIGINT.\<close>

definition control_checks :: "control_row \<Rightarrow> bool" where
  "control_checks r \<longleftrightarrow> cc_scope r \<in> {''dev'', ''prod''} \<and> 1 \<le> cc_generation r
    \<and> 1 \<le> cc_revision r \<and> cc_revision r \<le> i64_max \<and> cc_action r \<in> {''stop'', ''restart''}
    \<and> cc_state r \<in> {''pending'', ''running'', ''recovery_required'', ''succeeded'', ''failed'', ''superseded''}
    \<and> (cc_state r \<in> {''succeeded'', ''failed'', ''superseded''} \<longleftrightarrow> cc_terminal_at_us r \<noteq> None)
    \<and> (cc_state r = ''running'' \<longrightarrow> nonempty_opt (cc_executor_id r))"

definition intent_checks :: "intent_row \<Rightarrow> bool" where
  "intent_checks r \<longleftrightarrow> it_scope r \<in> {''dev'', ''prod''} \<and> 1 \<le> it_generation r
    \<and> 1 \<le> it_revision r \<and> it_revision r \<le> i64_max \<and> it_desired_state r \<in> {''running'', ''stopped''}"

definition unsettled_control_state :: "string \<Rightarrow> bool" where
  "unsettled_control_state s \<longleftrightarrow> s \<in> {''pending'', ''running'', ''recovery_required''}"

definition insert_control :: "control_row \<Rightarrow> unit action" where
  "insert_control row = insert_row st_controls_update
     (\<lambda>st. control_checks row
       \<and> \<not> list_ex (\<lambda>r. cc_operation_id r = cc_operation_id row
            \<or> cc_app_id r = cc_app_id row \<and> cc_scope r = cc_scope row
              \<and> (cc_request_id r = cc_request_id row \<or> cc_generation r = cc_generation row))
          (st_controls st)) row"

definition update_control ::
  "(control_row \<Rightarrow> bool) \<Rightarrow> (control_row \<Rightarrow> control_row) \<Rightarrow> unit action" where
  "update_control p f = update_one st_controls st_controls_update p f (\<lambda>_. control_checks) VersionConflict"

definition find_intent :: "string \<Rightarrow> operation_scope \<Rightarrow> intent_row option action" where
  "find_intent app_id scope =
    tx_read (\<lambda>st. lookup (\<lambda>r. (it_app_id r, it_scope r)) (st_intents st) (app_id, scope_name scope))"

definition insert_intent :: "intent_row \<Rightarrow> unit action" where
  "insert_intent row = insert_row st_intents_update
     (\<lambda>st. intent_checks row
       \<and> lookup (\<lambda>r. (it_app_id r, it_scope r)) (st_intents st) (it_app_id row, it_scope row) = None) row"


section \<open>Draining what a control interrupted\<close>

definition lease_held :: "string \<Rightarrow> bool action" where
  "lease_held i = tx_read (\<lambda>st. lookup le_operation_id (st_leases st) i \<noteq> None)"

definition drained_one :: "env \<Rightarrow> control_record \<Rightarrow> string \<Rightarrow> unit action" where
  "drained_one ev record i =
    tx_bind (repo_operation ev (ctl_app_id record) i) (\<lambda>found.
    (case found of
        Some old \<Rightarrow>
          if or_lifecycle_id old \<noteq> ctl_lifecycle_id record \<or> \<not> op_is_terminal (or_state old)
          then tx_fail (InvalidOperation ''Interrupted business operation is not reconciled'')
          else
            tx_bind (lease_held i) (\<lambda>held.
            if held
            then tx_fail (InvalidOperation ''Interrupted business lease is not released'') else
            tx_return ())
      | None \<Rightarrow>
        tx_bind (get_control ev (ctl_app_id record) i) (\<lambda>found.
        (case found of
              None \<Rightarrow> tx_fail (InvalidOperation ''Interrupted operation evidence is missing'')
            | Some old \<Rightarrow>
                if ctl_lifecycle_id old \<noteq> ctl_lifecycle_id record
                   \<or> \<not> (ctl_state old \<in> {Ctl_Succeeded, Ctl_Failed}
                       \<or> (ctl_state old = Ctl_Superseded \<and> ctl_executor_id old = None
                           \<and> ctl_stage old = ''accepted''))
                   \<or> ctl_lease old \<noteq> None
                then tx_fail (InvalidOperation ''Interrupted compute operation is not reconciled'')
                else tx_return ()))))"

definition drained :: "env \<Rightarrow> control_record \<Rightarrow> unit action" where
  "drained ev record = tx_each (drained_one ev record) (ctl_interrupted_operations record)"


section \<open>The head of a scope\<close>

datatype scoped_compute_head = Head_Absent | Head_Current intent_row | Head_Historical intent_row

definition settled_control :: "env \<Rightarrow> operation_scope \<Rightarrow> intent_row \<Rightarrow> control_row \<Rightarrow> bool action" where
  "settled_control ev scope head row =
    tx_bind (tx_lift (decode_control ev row)) (\<lambda>control.
    let referenced = (it_control_operation_id head = Some (ctl_operation_id control)) in
    if referenced \<and> (ctl_app_id control \<noteq> it_app_id head \<or> ctl_lifecycle_id control \<noteq> it_lifecycle_id head
        \<or> ctl_scope control \<noteq> scope \<or> ctl_generation control \<noteq> it_generation head)
    then tx_fail (InvalidOperation ''Compute intent operation identity mismatch'') else
    if ctl_state control \<in> {Ctl_Pending, Ctl_Running, Ctl_RecoveryRequired}
    then tx_fail LifecycleConflict else
    if ctl_state control = Ctl_Superseded \<and> (ctl_executor_id control \<noteq> None \<or> ctl_stage control \<noteq> ''accepted''
        \<or> ctl_lease control \<noteq> None)
    then tx_fail LifecycleConflict else
    tx_then (drained ev control) (
    tx_return referenced))"

definition validate_settled_head :: "env \<Rightarrow> intent_row \<Rightarrow> unit action" where
  "validate_settled_head ev head =
    (if it_generation head < 1 \<or> it_revision head < 1
    then tx_fail (InvalidOperation ''Invalid compute intent revision'') else
    tx_bind (tx_lift (storage_r (scope_of (it_scope head)))) (\<lambda>scope.
    if scope = Scope_Application
    then tx_fail (InvalidOperation ''Invalid compute intent scope'') else
    tx_bind (tx_read (\<lambda>st. filter (\<lambda>r. cc_app_id r = it_app_id head \<and> cc_lifecycle_id r = it_lifecycle_id head
        \<and> cc_scope r = it_scope head) (st_controls st))) (\<lambda>controls.
    tx_bind (tx_collect (settled_control ev scope head) controls) (\<lambda>referenced.
    if \<not> (it_control_operation_id head = None \<or> True \<in> set referenced)
    then tx_fail (InvalidOperation ''Compute intent operation missing or outside its scope'') else
    tx_return ()))))"

definition classify_scoped_head ::
  "env \<Rightarrow> lifecycle_record \<Rightarrow> operation_scope \<Rightarrow> intent_row \<Rightarrow> scoped_compute_head action" where
  "classify_scoped_head ev app scope head =
    (if it_app_id head \<noteq> lr_app_id app \<or> it_scope head \<noteq> scope_name scope
    then tx_fail (InvalidOperation ''Compute intent scope identity mismatch'') else
    (if it_lifecycle_id head = lr_lifecycle_id app then tx_return (Head_Current head)
       else tx_then (validate_settled_head ev head) (tx_return (Head_Historical head))))"

definition read_scoped_head ::
  "env \<Rightarrow> lifecycle_record \<Rightarrow> operation_scope \<Rightarrow> scoped_compute_head action" where
  "read_scoped_head ev app scope =
    tx_bind (find_intent (lr_app_id app) scope) (\<lambda>found.
    (case found of
        None \<Rightarrow> tx_return Head_Absent
      | Some head \<Rightarrow> classify_scoped_head ev app scope head))"

definition retire_head :: "intent_row \<Rightarrow> unit action" where
  "retire_head head = delete_one st_intents st_intents_update
     (\<lambda>r. it_app_id r = it_app_id head \<and> it_scope r = it_scope head
       \<and> it_lifecycle_id r = it_lifecycle_id head \<and> it_revision r = it_revision head
       \<and> it_generation r = it_generation head) VersionConflict"

definition retire_lifecycle_heads :: "env \<Rightarrow> lifecycle_record \<Rightarrow> unit action" where
  "retire_lifecycle_heads ev app =
    tx_each (\<lambda>scope.
      tx_bind (read_scoped_head ev app scope) (\<lambda>head.
      (case head of
          Head_Absent \<Rightarrow> tx_return ()
        | Head_Current head \<Rightarrow> tx_then (validate_settled_head ev head) (retire_head head)
        | Head_Historical head \<Rightarrow> retire_head head))) [Scope_Dev, Scope_Prod]"

definition read_compute_status ::
  "env \<Rightarrow> string \<Rightarrow> string \<Rightarrow> operation_scope \<Rightarrow> compute_status action" where
  "read_compute_status ev app_id lifecycle_id scope =
    (if scope = Scope_Application
    then tx_fail (InvalidOperation ''Compute status requires dev or prod scope'') else
    tx_bind (repo_app ev app_id) (\<lambda>found.
    tx_bind (tx_some NotFound found) (\<lambda>app.
    if lr_state app = App_Deleted
    then tx_fail NotFound else
    if lr_lifecycle_id app \<noteq> lifecycle_id
    then tx_fail LifecycleConflict else
    tx_bind (read_scoped_head ev app scope) (\<lambda>head.
    (case head of
        Head_Current head \<Rightarrow>
          (if it_generation head < 1 \<or> it_revision head < 1
          then tx_fail (InvalidOperation ''Invalid compute intent revision'') else
          tx_bind (tx_lift (persisted_desired_stopped (it_desired_state head))) (\<lambda>desired_stopped.
          tx_bind ((case it_control_operation_id head of
              None \<Rightarrow> tx_return None
            | Some i \<Rightarrow>
              tx_bind (get_control ev app_id i) (\<lambda>found.
              tx_bind (tx_some (InvalidOperation ''Compute intent operation missing'') found) (\<lambda>control.
              if ctl_lifecycle_id control \<noteq> lifecycle_id \<or> ctl_scope control \<noteq> scope
                  \<or> ctl_generation control \<noteq> it_generation head
              then tx_fail (InvalidOperation ''Compute intent operation identity mismatch'') else
              tx_return (Some control))))) (\<lambda>operation.
          tx_return \<lparr>cs_desired_stopped = desired_stopped, cs_generation = it_generation head,
              cs_revision = it_revision head, cs_operation = operation\<rparr>)))
      | _ \<Rightarrow> tx_return compute_status_default)))))"

definition active_controls :: "env \<Rightarrow> string \<Rightarrow> control_record list action" where
  "active_controls ev app_id =
    tx_bind (tx_read (\<lambda>st. sort_key cc_created_at_us
        (filter (\<lambda>r. cc_app_id r = app_id \<and> unsettled_control_state (cc_state r)) (st_controls st)))) (\<lambda>rows.
    tx_bind (tx_collect (\<lambda>r. get_control ev app_id (cc_operation_id r)) rows) (\<lambda>records.
    tx_return (List.map_filter id records)))"


section \<open>Admission\<close>

definition control_conflict :: "control_record \<Rightarrow> store_error" where
  "control_conflict control = OperationInProgress
    \<lparr>ob_scope = ctl_scope control, ob_operation_id = ctl_operation_id control,
     ob_kind = (case (ctl_scope control, ctl_action control) of
         (Scope_Dev, Act_Stop) \<Rightarrow> Kind_StopBuilder
       | (Scope_Dev, Act_Restart) \<Rightarrow> Kind_RestartBuilder
       | (_, Act_Stop) \<Rightarrow> Kind_Stop
       | (_, Act_Restart) \<Rightarrow> Kind_Restart),
     ob_state = (case ctl_state control of
         Ctl_Pending \<Rightarrow> Op_Pending
       | Ctl_RecoveryRequired \<Rightarrow> Op_RecoveryRequired
       | _ \<Rightarrow> Op_Running),
     ob_step = ctl_stage control\<rparr>"

definition next_generation :: "string \<Rightarrow> string \<Rightarrow> int action" where
  "next_generation app_id scope =
    tx_bind (tx_read (\<lambda>st. fold max (map cc_generation
        (filter (\<lambda>r. cc_app_id r = app_id \<and> cc_scope r = scope) (st_controls st))) 0)) (\<lambda>top.
    tx_some (InvalidOperation ''Compute generation exhausted'') (checked_add top 1))"

definition validate_control_request :: "control_request \<Rightarrow> bool \<Rightarrow> store_error + unit" where
  "validate_control_request request idle_only =
    try_r (each_r (\<lambda>(value, name). map_err InvalidOperation (validate_identifier value name))
      [(kq_app_id request, ''app_id''), (kq_lifecycle_id request, ''lifecycle_id''),
       (kq_operation_id request, ''operation_id''), (kq_request_id request, ''request_id'')]) (\<lambda>_.
    try_r (if \<not> idle_only
        then map_err InvalidOperation (validate_user_compute_request_id (kq_request_id request))
        else ensure_r (starts_with automatic_repair_request_prefix (kq_request_id request))
          (InvalidOperation ''Automatic repair requires an internal request identity'')) (\<lambda>_.
    if kq_scope request = Scope_Application
    then Inl (InvalidOperation ''Compute control requires dev or prod scope'')
    else ensure_r (hex64 (kq_request_fingerprint request))
      (InvalidOperation ''Invalid compute request fingerprint'')))"

definition initial_checkpoint :: "control_request \<Rightarrow> json" where
  "initial_checkpoint request = JObj
    [(''builder_startup_mode'', JStr (name_of startup_mode_names (kq_builder_startup_mode request))),
     (''restart_image_roll'', JBool (kq_restart_image_roll request))]"

definition may_supersede :: "control_request \<Rightarrow> bool \<Rightarrow> control_record \<Rightarrow> bool" where
  "may_supersede request idle_only old \<longleftrightarrow>
    (kq_action request = Act_Stop \<and> ctl_action old = Act_Restart)
    \<or> (\<not> idle_only \<and> kq_action request = Act_Restart
        \<and> starts_with automatic_repair_request_prefix (ctl_request_id old))"

text \<open>The new generation and revision, the work the old control leaves behind, and the
  control it supersedes.\<close>

definition succeed_head ::
  "env \<Rightarrow> control_request \<Rightarrow> bool \<Rightarrow> intent_row option \<Rightarrow>
   (int \<times> int \<times> string list \<times> string option) action" where
  "succeed_head ev request idle_only head =
    (case head of
       None \<Rightarrow>
         tx_bind (next_generation (kq_app_id request) (scope_name (kq_scope request))) (\<lambda>generation.
         tx_return (generation, 1, [], None))
     | Some head \<Rightarrow>
       (if it_lifecycle_id head \<noteq> kq_lifecycle_id request
       then tx_fail LifecycleConflict else
       tx_bind ((case it_control_operation_id head of
             None \<Rightarrow> tx_return ([], None)
           | Some i \<Rightarrow>
             tx_bind (get_control ev (kq_app_id request) i) (\<lambda>found.
             tx_bind (tx_some (InvalidOperation ''Compute intent target is missing'') found) (\<lambda>old.
             (if ctl_is_terminal (ctl_state old) then tx_return (ctl_interrupted_operations old, None)
                  else if \<not> may_supersede request idle_only old then tx_fail (control_conflict old)
                  else tx_return (ctl_interrupted_operations old @ [ctl_operation_id old],
                    Some (ctl_operation_id old))))))) (\<lambda>(interrupted, supersedes).
       tx_bind (next_generation (kq_app_id request) (scope_name (kq_scope request))) (\<lambda>generation.
       tx_bind (tx_some (InvalidOperation ''Compute revision exhausted'') (checked_add (it_revision head) 1)) (\<lambda>revision.
       tx_return (generation, revision, interrupted, supersedes))))))"

definition supersede_control :: "env \<Rightarrow> string \<Rightarrow> unit action" where
  "supersede_control ev i = update_rows st_controls st_controls_update
     (\<lambda>r. cc_operation_id r = i \<and> unsettled_control_state (cc_state r))
     (\<lambda>r. r\<lparr>cc_state := ''superseded'', cc_revision := cc_revision r + 1, cc_updated_at_us := ev_now ev,
       cc_terminal_at_us := Some (ev_now ev)\<rparr>)
     (\<lambda>_. control_checks)"

definition save_intent ::
  "env \<Rightarrow> control_request \<Rightarrow> intent_row option \<Rightarrow> int \<Rightarrow> int \<Rightarrow> unit action" where
  "save_intent ev request head generation revision =
    (let desired = desired_as_str (if kq_action request = Act_Stop then Desired_Stopped else Desired_Running) in
     case head of
       Some head \<Rightarrow> update_one st_intents st_intents_update
         (\<lambda>r. it_app_id r = kq_app_id request \<and> it_scope r = scope_name (kq_scope request)
           \<and> it_lifecycle_id r = kq_lifecycle_id request \<and> it_revision r = it_revision head
           \<and> it_generation r = it_generation head)
         (\<lambda>r. r\<lparr>it_generation := generation, it_revision := revision, it_desired_state := desired,
           it_control_operation_id := Some (kq_operation_id request), it_updated_at_us := ev_now ev\<rparr>)
         (\<lambda>_. intent_checks) VersionConflict
     | None \<Rightarrow> insert_intent \<lparr>it_app_id = kq_app_id request, it_scope = scope_name (kq_scope request),
         it_lifecycle_id = kq_lifecycle_id request, it_generation = generation, it_revision = revision,
         it_desired_state = desired, it_control_operation_id = Some (kq_operation_id request),
         it_updated_at_us = ev_now ev\<rparr>)"

definition admit_control_fresh ::
  "env \<Rightarrow> control_request \<Rightarrow> bool \<Rightarrow> lifecycle_record \<Rightarrow> control_record action" where
  "admit_control_fresh ev request idle_only app =
    tx_bind (active ev app) (\<lambda>active.
    if idle_only \<and> (kq_scope request \<noteq> Scope_Dev \<or> kq_action request \<noteq> Act_Restart
        \<or> ar_dev active \<noteq> None \<or> ar_application active \<noteq> None)
    then tx_fail VersionConflict else
    if (case ar_application active of None \<Rightarrow> False | Some operation \<Rightarrow> ends_lifecycle (or_kind operation))
    then tx_fail LifecycleConflict else
    tx_bind (read_scoped_head ev app (kq_scope request)) (\<lambda>scoped.
    tx_bind ((case scoped of
        Head_Current head \<Rightarrow> tx_return (Some head)
      | Head_Historical head \<Rightarrow> tx_then (retire_head head) (tx_return None)
      | Head_Absent \<Rightarrow> tx_return None)) (\<lambda>head.
    tx_then ((case head of
        Some head \<Rightarrow>
          if idle_only then
            tx_bind (tx_lift (storage_r (desired_state_of (it_desired_state head)))) (\<lambda>desired.
            if desired = Desired_Stopped
            then tx_fail VersionConflict else
            tx_return ())
          else tx_return ()
      | None \<Rightarrow> tx_return ())) (
    tx_bind (succeed_head ev request idle_only head) (\<lambda>(generation, revision, inherited, supersedes).
    let interrupted = remdups_adj (sort (inherited
        @ List.map_filter (slot (lr_active_operations app)) [kq_scope request, Scope_Application])) in
    tx_then ((case supersedes of None \<Rightarrow> tx_return () | Some i \<Rightarrow> supersede_control ev i)) (
    tx_then (insert_control \<lparr>cc_operation_id = kq_operation_id request, cc_app_id = kq_app_id request,
        cc_lifecycle_id = kq_lifecycle_id request, cc_scope = scope_name (kq_scope request),
        cc_generation = generation, cc_revision = 1,
        cc_action = name_of compute_action_names (kq_action request), cc_state = ''pending'',
        cc_request_id = kq_request_id request, cc_request_fingerprint = kq_request_fingerprint request,
        cc_executor_id = None, cc_stage = ''accepted'',
        cc_evidence_json = to_text (JArr (map JStr interrupted)),
        cc_checkpoint_json = to_text (initial_checkpoint request), cc_lease_json = None,
        cc_error_code = None, cc_error_message = None, cc_created_at_us = ev_now ev,
        cc_updated_at_us = ev_now ev, cc_terminal_at_us = None\<rparr>) (
    tx_then (save_intent ev request head generation revision) (
    tx_bind (get_control ev (kq_app_id request) (kq_operation_id request)) (\<lambda>found.
    tx_some NotFound found)))))))))"

definition admit_control :: "env \<Rightarrow> control_request \<Rightarrow> bool \<Rightarrow> control_record action" where
  "admit_control ev request idle_only =
    tx_then (tx_lift (validate_control_request request idle_only)) (
    tx_then (claim_app (kq_app_id request)) (
    tx_bind (repo_app ev (kq_app_id request)) (\<lambda>found.
    tx_bind (tx_some NotFound found) (\<lambda>app.
    tx_then (tx_lift (validate_active app)) (
    if lr_lifecycle_id app \<noteq> kq_lifecycle_id request
    then tx_fail LifecycleConflict else
    tx_bind (tx_read (\<lambda>st. lookup (\<lambda>r. (cc_app_id r, cc_scope r, cc_request_id r)) (st_controls st)
        (kq_app_id request, scope_name (kq_scope request), kq_request_id request))) (\<lambda>replay.
    (case replay of
        Some replay \<Rightarrow>
          if cc_lifecycle_id replay \<noteq> kq_lifecycle_id request
             \<or> cc_request_fingerprint replay \<noteq> kq_request_fingerprint request
             \<or> cc_action replay \<noteq> name_of compute_action_names (kq_action request)
          then tx_fail (RequestReplayConflict ''Compute request identity was reused with different input'')
          else tx_lift (decode_control ev replay)
      | None \<Rightarrow> admit_control_fresh ev request idle_only app)))))))"


section \<open>Claiming\<close>

definition compute_current :: "env \<Rightarrow> executor_identity \<Rightarrow> control_record action" where
  "compute_current ev who =
    (if xi_scope who = Scope_Application \<or> xi_generation who < 1
    then tx_fail (InvalidOperation ''Invalid compute executor scope or generation'') else
    tx_then (tx_lift (map_err InvalidOperation (validate_identifier (xi_executor_id who) ''executor_id''))) (
    tx_bind (repo_app ev (xi_app_id who)) (\<lambda>found.
    tx_bind (tx_some NotFound found) (\<lambda>app.
    tx_then (tx_lift (validate_active app)) (
    if lr_lifecycle_id app \<noteq> xi_lifecycle_id who
    then tx_fail LifecycleConflict else
    tx_bind (find_intent (xi_app_id who) (xi_scope who)) (\<lambda>found.
    tx_bind (tx_some NotFound found) (\<lambda>head.
    if it_lifecycle_id head \<noteq> xi_lifecycle_id who \<or> it_generation head \<noteq> xi_generation who
      \<or> it_control_operation_id head \<noteq> Some (xi_operation_id who)
    then tx_fail VersionConflict else
    tx_bind (get_control ev (xi_app_id who) (xi_operation_id who)) (\<lambda>found.
    tx_bind (tx_some NotFound found) (\<lambda>record.
    if ctl_lifecycle_id record \<noteq> xi_lifecycle_id who \<or> ctl_scope record \<noteq> xi_scope who
      \<or> ctl_generation record \<noteq> xi_generation who \<or> ctl_is_terminal (ctl_state record)
    then tx_fail VersionConflict else
    tx_return record)))))))))"

definition check_compute :: "env \<Rightarrow> executor_identity \<Rightarrow> unit action" where
  "check_compute ev who =
    tx_bind (compute_current ev who) (\<lambda>record.
    if ctl_state record \<noteq> Ctl_Running \<or> ctl_executor_id record \<noteq> Some (xi_executor_id who)
    then tx_fail VersionConflict else
    tx_return ())"

text \<open>A traffic wake whose start request has been acknowledged only observes readiness.\<close>

definition confirmed_wake :: "operation_record \<Rightarrow> bool" where
  "confirmed_wake old \<longleftrightarrow>
    or_kind old = Kind_Start \<and> or_state old \<in> {Op_Running, Op_RecoveryRequired}
    \<and> or_step old = ''traffic_wake_observing''
    \<and> json_get ''start_write_acknowledged'' (or_checkpoint old) = Some (JBool True)
    \<and> (case checkpoint_target old of
         None \<Rightarrow> False
       | Some target \<Rightarrow>
           ec_app_id (mt_context target) = or_app_id old
           \<and> ec_lifecycle_id (mt_context target) = or_lifecycle_id old
           \<and> ec_operation_id (mt_context target) = or_operation_id old
           \<and> Some (ec_executor_id (mt_context target)) = or_executor_id old
           \<and> ec_request_fingerprint (mt_context target) = or_request_fingerprint old)"

definition cancel_wake ::
  "env \<Rightarrow> control_record \<Rightarrow> lifecycle_record \<Rightarrow> operation_record \<Rightarrow> lifecycle_record action" where
  "cancel_wake ev control app old =
    tx_then (validate_terminal old Op_Failed) (
    tx_bind (tx_some VersionConflict (or_executor_id old)) (\<lambda>executor_id.
    tx_bind (tx_some panicked (json_set ''compute_operation_id'' (JStr (ctl_operation_id control)) (or_checkpoint old))) (\<lambda>checkpoint.
    tx_bind (tx_lift (advance app (old\<lparr>or_state := Op_Running\<rparr>)
        \<lparr>pg_app_id = or_app_id old, pg_operation_id = or_operation_id old,
         pg_lifecycle_id = or_lifecycle_id old, pg_expected_revision = or_revision old,
         pg_executor_id = executor_id, pg_state = Op_Failed,
         pg_step = ''traffic_wake_observation_failed'', pg_checkpoint = checkpoint,
         pg_error_code = Some ''ERR_OPERATION_CANCELLED'',
         pg_error_message = Some ''Read-only wake observation interrupted by explicit compute control''\<rparr>)) (\<lambda>(app', op').
    tx_then (save_operation ev op' old) (
    tx_then (delete_input (or_operation_id old)) (
    tx_return app'))))))"

definition cancel_pending ::
  "env \<Rightarrow> control_record \<Rightarrow> lifecycle_record \<Rightarrow> operation_record \<Rightarrow> lifecycle_record action" where
  "cancel_pending ev control app old =
    tx_bind (lease_held (or_operation_id old)) (\<lambda>held.
    if or_revision old \<noteq> 1 \<or> or_executor_id old \<noteq> None \<or> ends_lifecycle (or_kind old)
      \<or> \<not> slot_matches_operation app old \<or> held
    then tx_fail (InvalidOperation ''Unclaimed operation has inconsistent execution evidence'') else
    tx_then (validate_terminal old Op_Failed) (
    tx_then (save_operation ev (old\<lparr>or_state := Op_Failed, or_revision := or_revision old + 1,
        or_step := ''cancelled_before_execution'', or_error_code := Some ''ERR_OPERATION_CANCELLED'',
        or_error_message := Some ''Superseded by an explicit compute control before execution'',
        or_checkpoint := JObj [(''compute_operation_id'', JStr (ctl_operation_id control)),
          (''no_execution_claim'', JBool True)]\<rparr>) old) (
    tx_then (delete_input (or_operation_id old)) (
    tx_return (app\<lparr>lr_active_operations := set_slot (or_scope old) None (lr_active_operations app)\<rparr>)))))"

fun cancel_each ::
  "env \<Rightarrow> control_record \<Rightarrow> lifecycle_record \<Rightarrow> string list \<Rightarrow> lifecycle_record action" where
  "cancel_each ev control app [] = tx_return app"
| "cancel_each ev control app (i # is) =
  tx_bind (repo_operation ev (ctl_app_id control) i) (\<lambda>found.
  tx_bind ((case found of
         None \<Rightarrow> tx_return app
       | Some old \<Rightarrow>
           if or_lifecycle_id old \<noteq> ctl_lifecycle_id control then tx_fail LifecycleConflict
           else if confirmed_wake old then cancel_wake ev control app old
           else if or_state old \<noteq> Op_Pending then tx_return app
           else cancel_pending ev control app old)) (\<lambda>app'.
  cancel_each ev control app' is))"

definition cancel_interruptible_business :: "env \<Rightarrow> control_record \<Rightarrow> unit action" where
  "cancel_interruptible_business ev control =
    tx_bind (repo_app ev (ctl_app_id control)) (\<lambda>found.
    tx_bind (tx_some NotFound found) (\<lambda>app.
    tx_bind (cancel_each ev control app (ctl_interrupted_operations control)) (\<lambda>app'.
    save_slots app' app)))"

definition claim_control :: "env \<Rightarrow> executor_identity \<Rightarrow> int \<Rightarrow> control_record action" where
  "claim_control ev who revision =
    tx_then (claim_app (xi_app_id who)) (
    tx_bind (compute_current ev who) (\<lambda>record.
    if ctl_revision record \<noteq> revision \<or> ctl_state record \<noteq> Ctl_Pending \<or> ctl_executor_id record \<noteq> None
    then tx_fail VersionConflict else
    tx_bind (tx_some (InvalidOperation ''Compute revision exhausted'') (checked_add revision 1)) (\<lambda>next_revision.
    tx_then (update_control
        (\<lambda>r. cc_operation_id r = xi_operation_id who \<and> cc_revision r = revision
          \<and> cc_executor_id r = None \<and> cc_state r = ''pending''
          \<and> cc_lifecycle_id r = xi_lifecycle_id who \<and> cc_generation r = xi_generation who)
        (\<lambda>r. r\<lparr>cc_executor_id := Some (xi_executor_id who), cc_state := ''running'',
          cc_revision := next_revision, cc_stage := ''draining_previous'', cc_updated_at_us := ev_now ev\<rparr>)) (
    tx_then (cancel_interruptible_business ev record) (
    tx_bind (get_control ev (xi_app_id who) (xi_operation_id who)) (\<lambda>found.
    tx_some NotFound found))))))"


section \<open>Guards of business work\<close>

fun guarded_scopes :: "operation_scope \<Rightarrow> operation_scope list" where
  "guarded_scopes Scope_Application = [Scope_Dev, Scope_Prod]"
| "guarded_scopes Scope_Dev = [Scope_Dev]"
| "guarded_scopes Scope_Prod = [Scope_Prod]"

text \<open>The control a scope's current head names, if any.\<close>

definition current_control ::
  "env \<Rightarrow> lifecycle_record \<Rightarrow> operation_scope \<Rightarrow> control_record option action" where
  "current_control ev app scope =
    tx_bind (read_scoped_head ev app scope) (\<lambda>head.
    (case head of
        Head_Current head \<Rightarrow>
          (case it_control_operation_id head of
             None \<Rightarrow> tx_return None
           | Some i \<Rightarrow>
             tx_bind (get_control ev (lr_app_id app) i) (\<lambda>found.
             tx_bind (tx_some (InvalidOperation ''Compute intent target is missing'') found) (\<lambda>control.
             tx_return (Some control))))
      | _ \<Rightarrow> tx_return None))"

definition check_business_authority :: "env \<Rightarrow> operation_record \<Rightarrow> unit action" where
  "check_business_authority ev operation =
    tx_bind (repo_app ev (or_app_id operation)) (\<lambda>found.
    tx_bind (tx_some NotFound found) (\<lambda>app.
    if lr_lifecycle_id app \<noteq> or_lifecycle_id operation
    then tx_fail LifecycleConflict else
    tx_each (\<lambda>scope.
      tx_bind (current_control ev app scope) (\<lambda>found.
      (case found of
            None \<Rightarrow> tx_return ()
          | Some control \<Rightarrow>
              tx_require (or_operation_id operation \<notin> set (ctl_interrupted_operations control)) VersionConflict))) (guarded_scopes (or_scope operation))))"

definition guard_admission :: "env \<Rightarrow> lifecycle_record \<Rightarrow> operation_scope \<Rightarrow> unit action" where
  "guard_admission ev app scope =
    tx_each (\<lambda>scope.
      tx_bind (current_control ev app scope) (\<lambda>found.
      (case found of
          None \<Rightarrow> tx_return ()
        | Some control \<Rightarrow> tx_require (ctl_is_terminal (ctl_state control)) (control_conflict control)))) (guarded_scopes scope)"

definition check_business_execution :: "env \<Rightarrow> execution_context \<Rightarrow> unit action" where
  "check_business_execution ev context =
    tx_then (tx_lift (map_err InvalidOperation (validate_identity context (ec_app_id context)))) (
    tx_bind (repo_app ev (ec_app_id context)) (\<lambda>found.
    tx_bind (tx_some NotFound found) (\<lambda>app.
    if lr_lifecycle_id app \<noteq> ec_lifecycle_id context
    then tx_fail LifecycleConflict else
    tx_bind (repo_operation ev (ec_app_id context) (ec_operation_id context)) (\<lambda>found.
    tx_bind (tx_some NotFound found) (\<lambda>operation.
    if \<not> op_owns context operation \<or> or_state operation \<noteq> Op_Running
      \<or> \<not> slot_matches_operation app operation
    then tx_fail VersionConflict else
    check_business_authority ev operation)))))"

definition compute_desired_stopped ::
  "env \<Rightarrow> string \<Rightarrow> string \<Rightarrow> operation_scope \<Rightarrow> bool action" where
  "compute_desired_stopped ev app_id lifecycle_id scope =
    (if scope = Scope_Application
    then tx_fail (InvalidOperation ''Compute intent requires dev or prod scope'') else
    tx_bind (repo_app ev app_id) (\<lambda>found.
    (case found of
        None \<Rightarrow>
          tx_bind (find_intent app_id scope) (\<lambda>head.
          (case head of Some _ \<Rightarrow> tx_fail LifecycleConflict | None \<Rightarrow> tx_return False))
      | Some app \<Rightarrow>
          if lr_lifecycle_id app \<noteq> lifecycle_id then tx_fail LifecycleConflict
          else
            tx_bind (read_scoped_head ev app scope) (\<lambda>head.
            (case head of
                Head_Current head \<Rightarrow> tx_lift (persisted_desired_stopped (it_desired_state head))
              | _ \<Rightarrow> tx_return False)))))"

definition check_access :: "env \<Rightarrow> string \<Rightarrow> operation_scope \<Rightarrow> bool \<Rightarrow> unit action" where
  "check_access ev app_id scope explicit_start =
    tx_then ((if explicit_start then claim_app app_id else tx_return ())) (
    tx_bind (find_intent app_id scope) (\<lambda>found.
    (case found of
        None \<Rightarrow> tx_return ()
      | Some head \<Rightarrow>
        tx_bind (repo_app ev app_id) (\<lambda>found.
        tx_bind (tx_some LifecycleConflict found) (\<lambda>app.
        tx_then ((if explicit_start then tx_lift (validate_active app) else tx_return ())) (
        tx_bind (classify_scoped_head ev app scope head) (\<lambda>scoped.
        (case scoped of
              Head_Current head \<Rightarrow>
                tx_then ((case it_control_operation_id head of
                    None \<Rightarrow> tx_return ()
                  | Some i \<Rightarrow>
                    tx_bind (get_control ev app_id i) (\<lambda>found.
                    tx_bind (tx_some (InvalidOperation ''Compute intent operation missing'') found) (\<lambda>control.
                    tx_require (ctl_is_terminal (ctl_state control)) (control_conflict control))))) (
                tx_bind (tx_lift (persisted_desired_stopped (it_desired_state head))) (\<lambda>stopped.
                (if \<not> stopped then tx_return ()
                   else if \<not> explicit_start
                   then tx_fail (InvalidOperation ''Compute is stopped; explicitly start or restart it before accessing this service'')
                   else update_one st_intents st_intents_update
                     (\<lambda>r. it_app_id r = app_id \<and> it_scope r = scope_name scope \<and> it_revision r = it_revision head)
                     (\<lambda>r. r\<lparr>it_desired_state := ''running'', it_control_operation_id := None,
                       it_revision := it_revision r + 1, it_updated_at_us := ev_now ev\<rparr>)
                     (\<lambda>_. intent_checks) VersionConflict)))
            | _ \<Rightarrow> tx_return ()))))))))"


section \<open>Restoring a discovered identity\<close>

text \<open>The rows that show an application has been used: anything but failed attempts to
  create its builder that were rejected before a mutation.\<close>

definition root_in_use :: "store \<Rightarrow> string \<Rightarrow> string \<Rightarrow> bool" where
  "root_in_use st app_id lifecycle_id \<longleftrightarrow>
    list_ex (\<lambda>r. ow_app_id r = app_id
      \<and> (ow_lifecycle_id r \<noteq> lifecycle_id \<or> ow_kind r \<noteq> ''ensure_builder'' \<or> ow_scope r \<noteq> ''dev''
         \<or> ow_state r \<noteq> ''failed'' \<or> ow_step r \<noteq> ''creation_result'' \<or> ow_checkpoint_json r \<noteq> to_text JNull))
      (st_ops st)
    \<or> list_ex (\<lambda>r. rq_app_id r = app_id
      \<and> (rq_target_kind r \<noteq> ''control'' \<or> rq_lifecycle_id r \<noteq> Some lifecycle_id)) (st_requests st)
    \<or> list_ex (\<lambda>r. le_app_id r = app_id) (st_leases st)
    \<or> list_ex (\<lambda>r. bi_app_id r = app_id) (st_bindings st)
    \<or> list_ex (\<lambda>r. ac_app_id r = app_id) (st_activity st)
    \<or> list_ex (\<lambda>r. cv_app_id r = app_id) (st_config_versions st)
    \<or> list_ex (\<lambda>r. cf_app_id r = app_id) (st_configs st)
    \<or> list_ex (\<lambda>r. it_app_id r = app_id) (st_intents st)
    \<or> list_ex (\<lambda>r. cc_app_id r = app_id) (st_controls st)
    \<or> list_ex (\<lambda>r. wi_app_id r = app_id) (st_witnesses st)"

definition restore_unprovisioned_root ::
  "env \<Rightarrow> lifecycle_record \<Rightarrow> discovered_identity \<Rightarrow> lifecycle_record action" where
  "restore_unprovisioned_root ev app found =
    (if lr_lifecycle_epoch app \<noteq> 1 \<or> lr_metadata_revision app \<noteq> 1
      \<or> lr_active_operations app \<noteq> active_operations_default
    then tx_fail LifecycleConflict else
    tx_bind (tx_read (\<lambda>st. root_in_use st (lr_app_id app) (lr_lifecycle_id app))) (\<lambda>used.
    if used
    then tx_fail LifecycleConflict else
    tx_then (delete_one st_slots st_slots_update
        (\<lambda>r. sl_app_id r = lr_app_id app \<and> sl_lifecycle_id r = lr_lifecycle_id app
          \<and> sl_dev_operation_id r = None \<and> sl_prod_operation_id r = None
          \<and> sl_application_operation_id r = None) VersionConflict) (
    let app' = app\<lparr>lr_lifecycle_id := di_lifecycle_id found, lr_lifecycle_epoch := lr_lifecycle_epoch app + 1,
        lr_metadata_revision := lr_metadata_revision app + 1,
        lr_runtime_policy := (if di_prod_stopped found
          then (lr_runtime_policy app)\<lparr>rp_wake_on_traffic := Some False\<rparr> else lr_runtime_policy app)\<rparr> in
    tx_then (save_app ev app' (lr_lifecycle_id app) (lr_metadata_revision app)) (
    tx_then (create_slots (lr_app_id app') (lr_lifecycle_id app')) (
    tx_return app')))))"

definition insert_witness :: "env \<Rightarrow> discovered_identity \<Rightarrow> unit action" where
  "insert_witness ev found = insert_row st_witnesses_update
     (\<lambda>st. lookup (\<lambda>r. (wi_app_id r, wi_lifecycle_id r)) (st_witnesses st)
       (di_app_id found, di_lifecycle_id found) = None)
     \<lparr>wi_app_id = di_app_id found, wi_lifecycle_id = di_lifecycle_id found,
      wi_witness_json = to_text (enc_discovered_identity found), wi_created_at_us = ev_now ev\<rparr>"

definition insert_stopped_intent :: "env \<Rightarrow> discovered_identity \<Rightarrow> operation_scope \<Rightarrow> unit action" where
  "insert_stopped_intent ev found scope =
    tx_bind (find_intent (di_app_id found) scope) (\<lambda>existing.
    (if existing \<noteq> None then tx_return ()
       else insert_intent \<lparr>it_app_id = di_app_id found, it_scope = scope_name scope,
         it_lifecycle_id = di_lifecycle_id found, it_generation = 1, it_revision = 1,
         it_desired_state = ''stopped'', it_control_operation_id = None, it_updated_at_us = ev_now ev\<rparr>))"

definition record_restored ::
  "env \<Rightarrow> discovered_identity \<Rightarrow> lifecycle_record \<Rightarrow> bool \<Rightarrow> lifecycle_record action" where
  "record_restored ev found app created =
    tx_then (tx_lift (validate_active app)) (
    if lr_lifecycle_id app \<noteq> di_lifecycle_id found
    then tx_fail LifecycleConflict else
    (if \<not> created then tx_return app
       else
         tx_then (insert_witness ev found) (
         tx_then ((if di_dev_stopped found then insert_stopped_intent ev found Scope_Dev else tx_return ())) (
         tx_then ((if di_prod_stopped found then insert_stopped_intent ev found Scope_Prod else tx_return ())) (
         tx_return app)))))"

definition restore_identity :: "env \<Rightarrow> discovered_identity \<Rightarrow> lifecycle_record action" where
  "restore_identity ev found =
    tx_then (tx_lift (map_err InvalidOperation (validate_discovered_identity found))) (
    tx_bind (repo_app ev (di_app_id found)) (\<lambda>existing.
    (if existing \<noteq> None then
      tx_then (claim_app (di_app_id found)) (
      tx_bind (repo_app ev (di_app_id found)) (\<lambda>again.
      tx_bind (tx_some NotFound again) (\<lambda>app.
      tx_then (tx_lift (validate_active app)) (
      (if lr_lifecycle_id app = di_lifecycle_id found then tx_return app
            else
              tx_bind (restore_unprovisioned_root ev app found) (\<lambda>restored.
              record_restored ev found restored True))))))
       else
         tx_bind (tx_lift (identity (ev_uuid ev) (ev_now ev) (di_app_id found))) (\<lambda>proposed.
         tx_bind (ensure_with_created ev (proposed\<lparr>lr_lifecycle_id := di_lifecycle_id found\<rparr>)) (\<lambda>(app, created).
         record_restored ev found app created)))))"

end
