(* ===== verification/Operations.thy ===== *)
theory Operations
  imports Compute
begin

text \<open>
  Application identity, metadata, admission and progress
  (\<open>userapp_lifecycle/common/ops/application.rs\<close>, the rest of \<open>ops/operation.rs\<close>), activity
  observations (\<open>common/activity.rs\<close>) and the retrying runner of a transaction body
  (\<open>ToastyUserAppStore::run\<close> in \<open>common/mod.rs\<close>).
\<close>


section \<open>Committing an operation with its application\<close>

text \<open>The three statements every progress commit ends with: the operation against the
  record it was computed from, the application against its lifecycle and metadata revision,
  and the slots against the slots that were read.\<close>

definition commit_operation ::
  "env \<Rightarrow> operation_record \<Rightarrow> operation_record \<Rightarrow> lifecycle_record \<Rightarrow> lifecycle_record \<Rightarrow> unit action" where
  "commit_operation ev op before app before_app =
    tx_then (save_operation ev op before) (
    tx_then (save_app ev app (lr_lifecycle_id before_app) (lr_metadata_revision before_app)) (
    save_slots app before_app))"

definition needs_authority :: "operation_record \<Rightarrow> operation_progress \<Rightarrow> bool" where
  "needs_authority operation progress \<longleftrightarrow>
    pg_state progress \<in> {Op_Succeeded, Op_WaitingRetry}
    \<or> (pg_state progress = Op_Running \<and> or_state operation \<in> {Op_Pending, Op_WaitingRetry})"

definition op_advance :: "env \<Rightarrow> operation_progress \<Rightarrow> operation_record action" where
  "op_advance ev progress =
    tx_then (claim_app (pg_app_id progress)) (
    tx_bind (repo_app ev (pg_app_id progress)) (\<lambda>found.
    tx_bind (tx_some NotFound found) (\<lambda>app.
    tx_bind (repo_operation ev (pg_app_id progress) (pg_operation_id progress)) (\<lambda>found.
    tx_bind (tx_some NotFound found) (\<lambda>operation.
    tx_then ((if needs_authority operation progress then check_business_authority ev operation else tx_return ())) (
    tx_bind (tx_lift (advance app operation progress)) (\<lambda>(app', operation').
    tx_then (validate_terminal operation' (pg_state progress)) (
    tx_then (commit_operation ev operation' operation app' app) (
    tx_then ((if op_is_terminal (or_state operation') then delete_input (or_operation_id operation') else tx_return ())) (
    tx_return operation'))))))))))"


section \<open>Private inputs and mutex receipts of a running operation\<close>

definition read_execution_input :: "env \<Rightarrow> execution_context \<Rightarrow> execution_input action" where
  "read_execution_input ev context =
    tx_then (tx_lift (map_err InvalidOperation (validate_identity context (ec_app_id context)))) (
    tx_bind (op_current ev (ec_app_id context) (ec_operation_id context) (ec_lifecycle_id context)) (\<lambda>(_, op).
    if \<not> op_owns context op \<or> or_state op \<noteq> Op_Running
    then tx_fail VersionConflict else
    tx_then (check_business_authority ev op) (
    validated_execution_input ev op)))"

definition plain_deploy :: "control_command option \<Rightarrow> bool" where
  "plain_deploy command = (case command of Some (Cmd_Deploy restart _ _) \<Rightarrow> \<not> restart | _ \<Rightarrow> False)"

definition read_recovery_execution_input :: "env \<Rightarrow> operation_record \<Rightarrow> execution_input action" where
  "read_recovery_execution_input ev snapshot =
    tx_bind (op_current ev (or_app_id snapshot) (or_operation_id snapshot) (or_lifecycle_id snapshot)) (\<lambda>(app, op).
    tx_then (tx_lift (validate_active app)) (
    if op \<noteq> snapshot \<or> or_state op \<noteq> Op_RecoveryRequired \<or> or_step op \<noteq> ''creating_runtime''
      \<or> or_kind op \<noteq> Kind_StartDeployment \<or> or_executor_id op = None \<or> \<not> plain_deploy (or_command op)
    then tx_fail VersionConflict else
    tx_then (check_business_authority ev op) (
    validated_execution_input ev op)))"

definition insert_lease :: "lease_row \<Rightarrow> unit action" where
  "insert_lease row = insert_row st_leases_update
     (\<lambda>st. lookup le_operation_id (st_leases st) (le_operation_id row) = None \<and> le_executor_id row \<noteq> []
       \<and> length (le_request_fingerprint row) = 64 \<and> le_receipt_version row = 1
       \<and> operation_exists st (le_operation_id row) (le_app_id row) (le_lifecycle_id row)) row"

definition bind_operation_lease :: "env \<Rightarrow> execution_context \<Rightarrow> lease_receipt \<Rightarrow> unit action" where
  "bind_operation_lease ev context receipt =
    tx_then (tx_lift (map_err InvalidOperation (validate_identity context (ec_app_id context)))) (
    tx_then (tx_lift (map_err InvalidOperation (validate_receipt receipt))) (
    tx_bind (op_current ev (ec_app_id context) (ec_operation_id context) (ec_lifecycle_id context)) (\<lambda>(_, op).
    if \<not> op_owns context op \<or> or_state op \<noteq> Op_Running
      \<or> (or_scope op = Scope_Dev) \<noteq> (receipt_service_type receipt = UserappBuilder)
    then tx_fail VersionConflict else
    tx_then (check_business_authority ev op) (
    tx_bind (get_operation_lease (ec_app_id context) (ec_operation_id context)) (\<lambda>previous.
    (case previous of
        Some previous \<Rightarrow>
          tx_require (previous = \<lparr>lb_context = context, lb_receipt = receipt\<rparr>) VersionConflict
      | None \<Rightarrow> insert_lease \<lparr>le_operation_id = ec_operation_id context, le_app_id = ec_app_id context,
          le_lifecycle_id = ec_lifecycle_id context, le_executor_id = ec_executor_id context,
          le_request_fingerprint = ec_request_fingerprint context, le_receipt_version = 1,
          le_receipt_json = to_text (enc_lease_receipt receipt), le_created_at_us = ev_now ev\<rparr>))))))"


section \<open>Applications\<close>

definition ensure_identity :: "env \<Rightarrow> string \<Rightarrow> lifecycle_record action" where
  "ensure_identity ev app_id =
    tx_bind (tx_lift (identity (ev_uuid ev) (ev_now ev) app_id)) (\<lambda>proposed.
    tx_bind (ensure ev proposed) (\<lambda>app.
    tx_then (tx_lift (validate_active app)) (
    tx_return app)))"

definition get_application :: "env \<Rightarrow> string \<Rightarrow> lifecycle_record option action" where
  "get_application ev app_id = repo_app ev app_id"

definition list_applications :: "env \<Rightarrow> string option \<Rightarrow> nat \<Rightarrow> lifecycle_record list action" where
  "list_applications ev after limit =
    (if limit = 0
    then tx_fail (InvalidOperation ''page limit must be positive'') else
    tx_bind (tx_read (\<lambda>st. page ap_app_id (\<lambda>_. True) after limit (st_apps st))) (\<lambda>rows.
    tx_collect (\<lambda>row. tx_bind (repo_app ev (ap_app_id row)) (tx_some NotFound)) rows))"

definition list_control_snapshots :: "env \<Rightarrow> string option \<Rightarrow> nat \<Rightarrow> control_snapshot list action" where
  "list_control_snapshots ev after limit =
    tx_bind (list_applications ev after limit) (\<lambda>applications.
    tx_collect (\<lambda>application.
      tx_bind (active ev application) (\<lambda>operations.
      tx_return \<lparr>cs_application = application, cs_operations = operations\<rparr>)) applications)"

definition op_patch_metadata :: "env \<Rightarrow> metadata_patch \<Rightarrow> lifecycle_record action" where
  "op_patch_metadata ev patch =
    tx_then (claim_app (mp_app_id patch)) (
    tx_bind (repo_app ev (mp_app_id patch)) (\<lambda>found.
    tx_bind (tx_some NotFound found) (\<lambda>previous.
    tx_bind (tx_lift (patch_metadata previous patch)) (\<lambda>app.
    tx_then ((if app \<noteq> previous then save_app ev app (lr_lifecycle_id previous) (lr_metadata_revision previous)
       else tx_return ())) (
    tx_return app)))))"


section \<open>Admission\<close>

definition is_deploy :: "control_command option \<Rightarrow> bool" where
  "is_deploy command = (case command of Some (Cmd_Deploy _ _ _) \<Rightarrow> True | _ \<Rightarrow> False)"

definition insert_request :: "request_row \<Rightarrow> unit action" where
  "insert_request row = insert_row st_requests_update
     (\<lambda>st. lookup (\<lambda>r. (rq_app_id r, rq_request_id r)) (st_requests st) (rq_app_id row, rq_request_id row) = None
       \<and> request_checks row \<and> request_refs st row) row"

definition outcome_operation :: "admission_outcome \<Rightarrow> operation_record" where
  "outcome_operation outcome = (case outcome of Accepted op \<Rightarrow> op | Existing op \<Rightarrow> op)"

definition mapped_operation ::
  "env \<Rightarrow> string \<Rightarrow> request_row option \<Rightarrow> operation_record option action" where
  "mapped_operation ev app_id mapping =
    (case mapping of
       None \<Rightarrow> tx_return None
     | Some mapping \<Rightarrow>
         if rq_target_kind mapping = ''recreate''
         then tx_fail (InvalidOperation ''request identity was already used for lifecycle recreation'')
         else request_operation ev app_id mapping)"

definition store_accepted ::
  "env \<Rightarrow> execution_input option \<Rightarrow> pg_credential option \<Rightarrow> lifecycle_record \<Rightarrow> lifecycle_record \<Rightarrow>
   operation_record \<Rightarrow> unit action" where
  "store_accepted ev input pg app previous operation =
    tx_then (guard_admission ev app (or_scope operation)) (
    tx_then (tx_lift (guard_database_admin operation)) (
    tx_then (insert_operation ev operation) (
    tx_then ((case pg of
        None \<Rightarrow> tx_return ()
      | Some pg \<Rightarrow> tx_then (seed_deployment_credentials ev operation pg) (capture_configuration ev operation))) (
    tx_then ((case input of None \<Rightarrow> tx_return () | Some input \<Rightarrow> insert_input ev operation input)) (
    tx_then (save_app ev app (lr_lifecycle_id previous) (lr_metadata_revision previous)) (
    save_slots app previous))))))"

definition store_request_mapping ::
  "env \<Rightarrow> string option \<Rightarrow> request_row option \<Rightarrow> operation_record \<Rightarrow> unit action" where
  "store_request_mapping ev request_id mapping operation =
    (case request_id of
       None \<Rightarrow> tx_return ()
     | Some request_id \<Rightarrow>
         (case mapping of
            Some mapping \<Rightarrow> tx_require (rq_operation_id mapping = Some (or_operation_id operation)) VersionConflict
          | None \<Rightarrow> insert_request \<lparr>rq_app_id = or_app_id operation, rq_request_id = request_id,
              rq_target_kind = ''control'', rq_operation_id = Some (or_operation_id operation),
              rq_lifecycle_id = Some (or_lifecycle_id operation), rq_previous_lifecycle_id = None,
              rq_new_lifecycle_id = None, rq_created_at_us = ev_now ev\<rparr>))"

definition admit_with_configuration ::
  "env \<Rightarrow> admission_request \<Rightarrow> execution_input option \<Rightarrow> pg_credential option \<Rightarrow> admission_outcome action" where
  "admit_with_configuration ev request input pg =
    (if pg \<noteq> None \<and> (\<not> is_deploy (ad_command request) \<or> input = None)
    then tx_fail (InvalidOperation ''Inline credentials require a private deployment input'') else
    tx_then (tx_lift (validate_input ev (ad_kind request) (ad_request_fingerprint request) (ad_command request) input)) (
    tx_bind (tx_lift (identity (ev_uuid ev) (ev_now ev) (ad_app_id request))) (\<lambda>proposed.
    tx_bind (ensure ev proposed) (\<lambda>previous.
    tx_bind (repo_operation ev (ad_app_id request) (ad_operation_id request)) (\<lambda>by_id.
    tx_bind ((case ad_request_id request of
        None \<Rightarrow> tx_return None | Some i \<Rightarrow> repo_request (ad_app_id request) i)) (\<lambda>mapping.
    tx_bind (mapped_operation ev (ad_app_id request) mapping) (\<lambda>by_request.
    if (case (by_id, by_request) of
         (Some a, Some b) \<Rightarrow> or_operation_id a \<noteq> or_operation_id b | _ \<Rightarrow> False)
    then tx_fail (InvalidOperation ''request and operation identities refer to different operations'') else
    tx_bind (active ev previous) (\<lambda>active.
    tx_bind (tx_lift (admission (ev_now ev) previous request (opt_or by_id by_request) active)) (\<lambda>(result, app).
    tx_then ((case result of
        Accepted operation \<Rightarrow> store_accepted ev input pg app previous operation
      | Existing operation \<Rightarrow>
          (case pg of None \<Rightarrow> tx_return () | Some pg \<Rightarrow> verify_captured_credentials operation pg))) (
    tx_then (store_request_mapping ev (ad_request_id request) mapping (outcome_operation result)) (
    tx_return result)))))))))))"

definition admit_with_input ::
  "env \<Rightarrow> admission_request \<Rightarrow> execution_input option \<Rightarrow> admission_outcome action" where
  "admit_with_input ev request input = admit_with_configuration ev request input None"

definition admit :: "env \<Rightarrow> admission_request \<Rightarrow> admission_outcome action" where
  "admit ev request = admit_with_input ev request None"


section \<open>Activity\<close>

record activity_observation =
  ay_app_id :: string
  ay_lifecycle_id :: string
  ay_lifecycle_epoch :: int
  ay_last_accessed :: "int option"

definition activity_key :: "activity_row \<Rightarrow> string \<times> string \<times> string" where
  "activity_key r = (ac_app_id r, ac_lifecycle_id r, ac_scope r)"

text \<open>An upsert that only moves the observation forward.\<close>

definition upsert_activity :: "env \<Rightarrow> string \<Rightarrow> string \<Rightarrow> int \<Rightarrow> unit action" where
  "upsert_activity ev app_id lifecycle_id at = (\<lambda>st.
    if \<not> lifecycle_exists st app_id lifecycle_id then Inl constraint_violation
    else case lookup activity_key (st_activity st) (app_id, lifecycle_id, ''prod'') of
      None \<Rightarrow> Inr ((), st_activity_update (\<lambda>t. t @ [\<lparr>ac_app_id = app_id, ac_lifecycle_id = lifecycle_id,
        ac_scope = ''prod'', ac_last_accessed_at_us = at, ac_updated_at_us = ev_now ev\<rparr>]) st)
    | Some _ \<Rightarrow> Inr ((), st_activity_update (update_where
        (\<lambda>r. activity_key r = (app_id, lifecycle_id, ''prod'') \<and> ac_last_accessed_at_us r < at)
        (\<lambda>r. r\<lparr>ac_last_accessed_at_us := at, ac_updated_at_us := ev_now ev\<rparr>)) st))"

definition flush_activity :: "env \<Rightarrow> activity_observation \<Rightarrow> unit action" where
  "flush_activity ev row =
    (case ay_last_accessed row of
       None \<Rightarrow> tx_return ()
     | Some at \<Rightarrow>
       tx_then (claim_app (ay_app_id row)) (
       tx_bind (repo_app ev (ay_app_id row)) (\<lambda>found.
       (case found of
             None \<Rightarrow> tx_return ()
           | Some app \<Rightarrow>
               if lr_lifecycle_id app \<noteq> ay_lifecycle_id row \<or> lr_lifecycle_epoch app \<noteq> ay_lifecycle_epoch row
                  \<or> lr_state app \<noteq> App_Active
               then tx_return ()
               else upsert_activity ev (ay_app_id row) (ay_lifecycle_id row) at))))"

definition flush_batch :: "env \<Rightarrow> activity_observation list \<Rightarrow> unit action" where
  "flush_batch ev rows = tx_each (flush_activity ev) (sort_key ay_app_id rows)"

definition loaded_activity :: "env \<Rightarrow> activity_row \<Rightarrow> activity_observation option action" where
  "loaded_activity ev row =
    (if ac_scope row \<noteq> ''prod'' then tx_return None
     else
       tx_bind (repo_app ev (ac_app_id row)) (\<lambda>found.
       (case found of
          None \<Rightarrow> tx_return None
        | Some app \<Rightarrow>
            if lr_lifecycle_id app \<noteq> ac_lifecycle_id row \<or> lr_state app \<noteq> App_Active then tx_return None
            else
              tx_then (tx_require (ev_timestamp ev (ac_last_accessed_at_us row)) (Storage ''Invalid activity timestamp'')) (
              tx_return (Some \<lparr>ay_app_id = ac_app_id row, ay_lifecycle_id = ac_lifecycle_id row,
                  ay_lifecycle_epoch = lr_lifecycle_epoch app,
                  ay_last_accessed = Some (ac_last_accessed_at_us row)\<rparr>)))))"

definition load_all_activity :: "env \<Rightarrow> activity_observation list action" where
  "load_all_activity ev =
    tx_bind (tx_read st_activity) (\<lambda>rows.
    tx_bind (tx_collect (loaded_activity ev) rows) (\<lambda>observations.
    tx_return (List.map_filter id observations)))"

definition delete_activity :: "string \<Rightarrow> string \<Rightarrow> unit action" where
  "delete_activity app_id lifecycle_id =
    tx_then (claim_app app_id) (
    delete_rows st_activity_update
        (\<lambda>r. ac_app_id r = app_id \<and> ac_lifecycle_id r = lifecycle_id \<and> ac_scope r = ''prod''))"


section \<open>Running a transaction\<close>

text \<open>
  \<open>body k\<close> is the transaction body of attempt \<open>k\<close> (each attempt reads the clock anew) and
  \<open>other k\<close> what the other writers commit while it sleeps.  Only a conflict that was rolled
  back is tried again.
\<close>

fun run_attempts ::
  "bool \<Rightarrow> (nat \<Rightarrow> 'a action) \<Rightarrow> (nat \<Rightarrow> store \<Rightarrow> store) \<Rightarrow> nat \<Rightarrow> nat \<Rightarrow> store \<Rightarrow> (store_error + 'a) \<times> store" where
  "run_attempts read_only body other k 0 st =
     (Inl (Storage ''UserApp transaction retry budget exhausted''), st)"
| "run_attempts read_only body other k (Suc n) st =
     (case body k st of
        Inr (value, st') \<Rightarrow> (Inr value, st')
      | Inl e \<Rightarrow>
          if \<not> read_only \<and> e = VersionConflict \<and> k < 2
          then run_attempts read_only body other (Suc k) n (other k st)
          else (Inl e, st))"

definition run_store ::
  "bool \<Rightarrow> (nat \<Rightarrow> 'a action) \<Rightarrow> (nat \<Rightarrow> store \<Rightarrow> store) \<Rightarrow> store \<Rightarrow> (store_error + 'a) \<times> store" where
  "run_store read_only body other st = run_attempts read_only body other 0 3 st"

end
