(* ===== verification/Recovery.thy ===== *)
theory Recovery
  imports Operations
begin

text \<open>
  Settling operations whose executor is gone (\<open>userapp_lifecycle/common/ops/recovery.rs\<close>,
  \<open>observed.rs\<close>, \<open>deletion_recovery.rs\<close>, \<open>hot_recovery.rs\<close>, \<open>deployment_update.rs\<close>), the
  recreation of a deleted application, physical bindings, startup fences
  (\<open>ops/wake_fences.rs\<close>), the salvage of private inputs (\<open>common/retained_input.rs\<close>) and the
  authorization of a registry retirement (\<open>common/builder_retirement.rs\<close>).  Every settlement
  compares the whole record it was decided on and never grants runtime work: the hop through
  \<open>Running\<close> happens inside the transaction only.
\<close>


section \<open>The shape of a settlement\<close>

definition snapshot_current ::
  "env \<Rightarrow> operation_record \<Rightarrow> (lifecycle_record \<times> operation_record) action" where
  "snapshot_current ev snapshot =
    op_current ev (or_app_id snapshot) (or_operation_id snapshot) (or_lifecycle_id snapshot)"

definition recovery_progress ::
  "operation_record \<Rightarrow> string \<Rightarrow> operation_state \<Rightarrow> string \<Rightarrow> json \<Rightarrow> string option \<Rightarrow> string option \<Rightarrow>
   operation_progress" where
  "recovery_progress op executor_id state step checkpoint error_code error_message =
    \<lparr>pg_app_id = or_app_id op, pg_operation_id = or_operation_id op, pg_lifecycle_id = or_lifecycle_id op,
     pg_expected_revision = or_revision op, pg_executor_id = executor_id, pg_state = state, pg_step = step,
     pg_checkpoint = checkpoint, pg_error_code = error_code, pg_error_message = error_message\<rparr>"

definition settle ::
  "env \<Rightarrow> lifecycle_record \<Rightarrow> operation_record \<Rightarrow> operation_state \<Rightarrow> string \<Rightarrow> json \<Rightarrow> string option \<Rightarrow>
   string option \<Rightarrow> operation_record action" where
  "settle ev app op state step checkpoint error_code error_message =
    tx_bind (tx_some VersionConflict (or_executor_id op)) (\<lambda>executor_id.
    tx_bind (tx_lift (advance app (op\<lparr>or_state := Op_Running\<rparr>)
        (recovery_progress op executor_id state step checkpoint error_code error_message))) (\<lambda>(app', op').
    tx_then (commit_operation ev op' op app' app) (
    tx_then (delete_input (or_operation_id op)) (
    tx_return op'))))"

definition or_else :: "string option \<Rightarrow> string \<Rightarrow> string option" where
  "or_else v text = (case v of None \<Rightarrow> Some text | Some _ \<Rightarrow> v)"

definition unwrap_or :: "string option \<Rightarrow> string \<Rightarrow> string" where
  "unwrap_or v text = (case v of None \<Rightarrow> text | Some s \<Rightarrow> s)"


section \<open>Database passwords and preparation\<close>

text \<open>The two progress steps of a receipt recovery: the evidence, then the outcome.\<close>

definition settle_receipt ::
  "env \<Rightarrow> lifecycle_record \<Rightarrow> operation_record \<Rightarrow> operation_progress \<Rightarrow> operation_progress \<Rightarrow>
   operation_record action" where
  "settle_receipt ev app snapshot evidence_progress outcome =
    tx_bind (tx_lift (advance app (snapshot\<lparr>or_state := Op_Running\<rparr>) evidence_progress)) (\<lambda>(app1, op1).
    tx_bind (tx_lift (advance app1 op1 (outcome\<lparr>pg_expected_revision := or_revision op1\<rparr>))) (\<lambda>(app2, op2).
    tx_then (validate_terminal op2 (pg_state outcome)) (
    tx_then (commit_operation ev op2 snapshot app2 app) (
    tx_return op2))))"

definition receipt_outcome_changed ::
  "database_password_stage \<Rightarrow> database_password_stage \<Rightarrow> bool" where
  "receipt_outcome_changed before after \<longleftrightarrow>
    before \<notin> {Pw_WriteSubmitted, Pw_Verified, Pw_Cancelled} \<or> after \<notin> {Pw_Verified, Pw_Cancelled}
    \<or> (before \<noteq> Pw_WriteSubmitted \<and> before \<noteq> after)"

definition finalize_password_recovery ::
  "env \<Rightarrow> operation_record \<Rightarrow> database_password_evidence \<Rightarrow> operation_record action" where
  "finalize_password_recovery ev snapshot evidence =
    tx_bind (snapshot_current ev snapshot) (\<lambda>(app, op).
    if op \<noteq> snapshot \<or> or_state op \<notin> {Op_Running, Op_RecoveryRequired}
    then tx_fail VersionConflict else
    tx_then (tx_lift (map_err InvalidOperation (validate_password_operation evidence op))) (
    tx_bind (tx_some (Storage ''decode password checkpoint'') (dec_database_password_evidence (or_checkpoint op))) (\<lambda>before.
    tx_then (tx_lift (map_err InvalidOperation (validate_password_operation before op))) (
    if pe_receipt_protocol before \<noteq> Some 1 \<or> pe_receipt_protocol evidence \<noteq> Some 1
      \<or> pe_context before \<noteq> pe_context evidence \<or> pe_target before \<noteq> pe_target evidence
      \<or> pe_username before \<noteq> pe_username evidence
      \<or> receipt_outcome_changed (pe_stage before) (pe_stage evidence)
    then tx_fail (InvalidOperation ''Password recovery evidence changed identity or outcome'') else
    tx_bind (get_operation_lease (or_app_id op) (or_operation_id op)) (\<lambda>found.
    tx_bind (tx_some NotFound found) (\<lambda>lease.
    if lb_context lease \<noteq> pe_context evidence \<or> \<not> op_owns (lb_context lease) op
    then tx_fail VersionConflict else
    let progress = recovery_progress op (ec_executor_id (pe_context evidence)) Op_Running (or_step op)
        (enc_database_password_evidence evidence) None None in
    settle_receipt ev app op progress
        (progress\<lparr>pg_state := (if pe_stage evidence = Pw_Verified then Op_Succeeded else Op_Failed)\<rparr>)))))))"

definition deploy_pg_failure :: "database_password_stage \<Rightarrow> string" where
  "deploy_pg_failure stage =
    (if stage = Pw_Verified
     then ''Explicit deployment password committed and verified; deployment completion was not recorded; re-issue the deployment''
     else ''Explicit deployment password write was cancelled; deployment did not complete'')"

definition finalize_deploy_pg_recovery ::
  "env \<Rightarrow> operation_record \<Rightarrow> explicit_deployment_password_evidence \<Rightarrow> operation_record action" where
  "finalize_deploy_pg_recovery ev snapshot evidence =
    tx_bind (snapshot_current ev snapshot) (\<lambda>(app, op).
    if op \<noteq> snapshot \<or> or_state op \<noteq> Op_RecoveryRequired
    then tx_fail VersionConflict else
    tx_then (tx_lift (map_err InvalidOperation (validate_explicit_password_operation evidence op))) (
    tx_bind (tx_some (Storage ''decode deployment password checkpoint'')
        (dec_explicit_deployment_password_evidence (or_checkpoint op))) (\<lambda>before.
    tx_then (tx_lift (map_err InvalidOperation (validate_explicit_password_operation before op))) (
    if xe_receipt_protocol before \<noteq> Some 1 \<or> xe_receipt_protocol evidence \<noteq> Some 1
      \<or> xe_context before \<noteq> xe_context evidence
      \<or> xe_explicit_pg_target before \<noteq> xe_explicit_pg_target evidence
      \<or> xe_username before \<noteq> xe_username evidence
      \<or> receipt_outcome_changed (xe_stage before) (xe_stage evidence)
    then tx_fail (InvalidOperation ''Deployment password recovery evidence changed identity or outcome'') else
    tx_bind (get_operation_lease (or_app_id op) (or_operation_id op)) (\<lambda>found.
    tx_bind (tx_some NotFound found) (\<lambda>lease.
    if lb_context lease \<noteq> xe_context evidence \<or> \<not> op_owns (lb_context lease) op
    then tx_fail VersionConflict else
    let progress = recovery_progress op (ec_executor_id (xe_context evidence)) Op_Running (or_step op)
        (enc_explicit_deployment_password_evidence evidence) None None in
    settle_receipt ev app op progress
        (progress\<lparr>pg_state := Op_Failed, pg_step := ''deploy_pg_reconciled'',
          pg_error_code := Some ''ERR_BACKEND_ERROR'',
          pg_error_message := Some (deploy_pg_failure (xe_stage evidence))\<rparr>)))))))"

definition confirm_database_preparation_recovery ::
  "env \<Rightarrow> operation_record \<Rightarrow> database_preparation_evidence \<Rightarrow> operation_record action" where
  "confirm_database_preparation_recovery ev snapshot evidence =
    tx_bind (snapshot_current ev snapshot) (\<lambda>(app, op).
    if op \<noteq> snapshot \<or> or_state op \<notin> {Op_Running, Op_RecoveryRequired}
    then tx_fail VersionConflict else
    tx_then (tx_lift (validate_active app)) (
    tx_bind (tx_some (Storage ''decode preparation checkpoint'') (dec_database_preparation_evidence (or_checkpoint op))) (\<lambda>before.
    tx_then (tx_lift (map_err InvalidOperation (validate_preparation_operation before op))) (
    tx_then (tx_lift (map_err InvalidOperation (validate_preparation_operation evidence op))) (
    if pp_stage before \<noteq> Prep_StartSubmitted \<or> pp_stage evidence \<noteq> Prep_ManagementReady
      \<or> pp_target before \<noteq> pp_target evidence
      \<or> pp_deployment_generation before \<noteq> pp_deployment_generation evidence
    then tx_fail (InvalidOperation ''Management recovery evidence changed identity or stage'') else
    tx_bind (get_operation_lease (or_app_id op) (or_operation_id op)) (\<lambda>found.
    tx_bind (tx_some NotFound found) (\<lambda>lease.
    if lb_context lease \<noteq> mt_context (pp_target evidence) \<or> \<not> op_owns (lb_context lease) op
    then tx_fail VersionConflict else
    tx_bind (tx_lift (advance app (op\<lparr>or_state := Op_Running\<rparr>)
        (recovery_progress op (ec_executor_id (mt_context (pp_target evidence))) Op_Running
          ''database_management'' (enc_database_preparation_evidence evidence) None None))) (\<lambda>(app', op').
    tx_then (commit_operation ev op' snapshot app' app) (
    tx_return op')))))))))"


section \<open>Builder creation\<close>

definition finalize_builder_creation_rejection ::
  "env \<Rightarrow> operation_record \<Rightarrow> request_rejection option \<Rightarrow> operation_record action" where
  "finalize_builder_creation_rejection ev snapshot rejection =
    tx_bind (snapshot_current ev snapshot) (\<lambda>(app, op).
    if op \<noteq> snapshot \<or> or_kind op \<noteq> Kind_EnsureBuilder
      \<or> (if rejection \<noteq> None
         then or_state op \<noteq> Op_RecoveryRequired \<or> or_step op \<noteq> ''creation_confirmation_timed_out''
         else \<not> builder_creation_needs_runtime_receipt op)
      \<or> \<not> is_null (or_checkpoint op)
      \<or> (case rejection of None \<Rightarrow> False | Some r \<Rightarrow> rejection_from_status (rj_status r) [] = None)
    then tx_fail VersionConflict else
    settle ev app op Op_Failed ''creation_result''
        (if rejection = None then JObj [(''creation_cancelled'', JBool True)] else JNull)
        (Some ''ERR_BACKEND_ERROR'')
        (Some (case rejection of
            None \<Rightarrow> ''Builder creation cancelled after acknowledged writes''
          | Some r \<Rightarrow> show_rejection r)))"

definition next_operation_revision :: "operation_record \<Rightarrow> int action" where
  "next_operation_revision op =
    tx_some (InvalidOperation ''Operation revision exhausted'') (checked_add (or_revision op) 1)"

definition confirm_builder_creation_recovery ::
  "env \<Rightarrow> operation_record \<Rightarrow> creation_evidence \<Rightarrow> bool \<Rightarrow> operation_record action" where
  "confirm_builder_creation_recovery ev snapshot evidence management_ready =
    tx_bind (snapshot_current ev snapshot) (\<lambda>(app, op).
    tx_then (tx_lift (validate_active app)) (
    if op \<noteq> snapshot
    then tx_fail VersionConflict else
    tx_then (tx_lift (map_err InvalidOperation (validate_creation_operation evidence op))) (
    tx_then ((if management_ready then
      (if or_state op \<noteq> Op_RecoveryRequired \<or> or_step op \<noteq> ''builder_created_observed''
      then tx_fail VersionConflict else
      tx_bind (tx_some (Storage ''decode builder creation checkpoint'') (dec_creation_evidence ev (or_checkpoint op))) (\<lambda>before.
      tx_then (tx_lift (map_err InvalidOperation (validate_creation_operation before op))) (
      tx_require (be_target before = be_target evidence
             \<and> enc_opt enc_creation_predecessor (be_registration_predecessor before)
               = enc_opt enc_creation_predecessor (be_registration_predecessor evidence)) VersionConflict)))
       else tx_require (builder_creation_needs_runtime_receipt op) VersionConflict)) (
    tx_bind (next_operation_revision op) (\<lambda>revision.
    let op' = op\<lparr>or_revision := revision, or_state := Op_RecoveryRequired,
        or_step := (if management_ready then ''builder_ready_confirmed'' else ''builder_created_observed''),
        or_checkpoint := enc_creation_evidence ev evidence\<rparr> in
    tx_then (save_operation ev op' snapshot) (
    tx_return op'))))))"

definition reserve_completed_operation :: "env \<Rightarrow> operation_record \<Rightarrow> operation_record action" where
  "reserve_completed_operation ev snapshot =
    tx_bind (snapshot_current ev snapshot) (\<lambda>(app, op).
    tx_then (check_business_authority ev op) (
    if op \<noteq> snapshot \<or> or_state op \<notin> {Op_Running, Op_RecoveryRequired}
      \<or> \<not> operation_has_final_evidence ev op
    then tx_fail VersionConflict else
    tx_then ((if or_kind op = Kind_EnsureBuilder then
      tx_bind (tx_some (Storage ''decode builder creation checkpoint'') (dec_creation_evidence ev (or_checkpoint op))) (\<lambda>_.
      tx_lift (validate_active app))
       else
         tx_bind (get_operation_lease (or_app_id op) (or_operation_id op)) (\<lambda>found.
         tx_bind (tx_some NotFound found) (\<lambda>lease.
         tx_require (op_owns (lb_context lease) op) VersionConflict)))) (
    tx_bind (next_operation_revision op) (\<lambda>revision.
    let op' = op\<lparr>or_revision := revision, or_state := Op_Running\<rparr> in
    tx_then (save_operation ev op' snapshot) (
    tx_return op')))))"


section \<open>Physical bindings\<close>

definition get_resource_binding :: "service_type \<Rightarrow> string \<Rightarrow> resource_binding option action" where
  "get_resource_binding service_type physical_uid =
    tx_bind (tx_read (\<lambda>st. lookup (\<lambda>r. (bi_service_type r, bi_physical_uid r)) (st_bindings st)
        (show_service_type service_type, physical_uid))) (\<lambda>found.
    (case found of
        None \<Rightarrow> tx_return None
      | Some row \<Rightarrow>
          if bi_service_type row \<noteq> show_service_type UserappBuilder
          then tx_fail (InvalidOperation ''Unsupported physical binding family'')
          else tx_return (Some \<lparr>rb_app_id = bi_app_id row, rb_lifecycle_id = bi_lifecycle_id row,
            rb_service_type = UserappBuilder, rb_physical_uid = bi_physical_uid row,
            rb_adopted_by_operation = bi_adopted_by_operation row\<rparr>)))"

text \<open>\<open>INSERT .. ON CONFLICT(service_type,physical_uid) DO NOTHING\<close>.\<close>

definition insert_binding :: "env \<Rightarrow> resource_binding \<Rightarrow> unit action" where
  "insert_binding ev binding = (\<lambda>st.
    if show_service_type (rb_service_type binding) \<noteq> ''user-app-builder'' \<or> rb_physical_uid binding = []
    then Inl constraint_violation
    else if lookup (\<lambda>r. (bi_service_type r, bi_physical_uid r)) (st_bindings st)
        (show_service_type (rb_service_type binding), rb_physical_uid binding) \<noteq> None then Inr ((), st)
    else if \<not> operation_exists st (rb_adopted_by_operation binding) (rb_app_id binding) (rb_lifecycle_id binding)
    then Inl constraint_violation
    else Inr ((), st_bindings_update (\<lambda>t. t @ [\<lparr>bi_service_type = show_service_type (rb_service_type binding),
      bi_physical_uid = rb_physical_uid binding, bi_app_id = rb_app_id binding,
      bi_lifecycle_id = rb_lifecycle_id binding, bi_adopted_by_operation = rb_adopted_by_operation binding,
      bi_created_at_us = ev_now ev\<rparr>]) st))"

definition commit_resource_binding ::
  "env \<Rightarrow> resource_binding \<Rightarrow> operation_progress \<Rightarrow> operation_record action" where
  "commit_resource_binding ev binding progress =
    (if pg_app_id progress \<noteq> rb_app_id binding \<or> pg_lifecycle_id progress \<noteq> rb_lifecycle_id binding
      \<or> pg_state progress \<noteq> Op_Succeeded \<or> rb_adopted_by_operation binding \<noteq> pg_operation_id progress
    then tx_fail (InvalidOperation ''Binding requires its successful adoption operation'') else
    tx_then (claim_app (rb_app_id binding)) (
    tx_bind (repo_app ev (rb_app_id binding)) (\<lambda>found.
    tx_bind (tx_some NotFound found) (\<lambda>app.
    tx_then (tx_lift (validate_active app)) (
    if lr_lifecycle_id app \<noteq> rb_lifecycle_id binding
    then tx_fail LifecycleConflict else
    tx_bind (repo_operation ev (rb_app_id binding) (pg_operation_id progress)) (\<lambda>found.
    tx_bind (tx_some NotFound found) (\<lambda>op.
    if or_kind op \<noteq> Kind_AdoptBuilder
    then tx_fail (InvalidOperation ''Binding requires explicit adoption admission'') else
    tx_then (tx_lift (map_err InvalidOperation (validate_binding binding
        \<lparr>ec_app_id = lr_app_id app, ec_lifecycle_id = lr_lifecycle_id app,
         ec_operation_id = or_operation_id op, ec_executor_id = pg_executor_id progress,
         ec_request_fingerprint = or_request_fingerprint op\<rparr> (rb_physical_uid binding)))) (
    tx_then (insert_binding ev binding) (
    tx_bind (get_resource_binding (rb_service_type binding) (rb_physical_uid binding)) (\<lambda>found.
    tx_bind (tx_some NotFound found) (\<lambda>previous.
    if previous \<noteq> binding
    then tx_fail LifecycleConflict else
    op_advance ev progress)))))))))))"


section \<open>Recreation\<close>

definition recreated :: "env \<Rightarrow> lifecycle_record \<Rightarrow> int \<Rightarrow> lifecycle_record" where
  "recreated ev app epoch = app\<lparr>lr_lifecycle_id := ev_uuid ev, lr_lifecycle_epoch := epoch,
     lr_metadata_revision := 1, lr_state := App_Active, lr_created_at := ev_now ev, lr_name := None,
     lr_tenant_id := None, lr_space_id := None, lr_runtime_policy := runtime_policy_default\<rparr>"

definition recreate :: "env \<Rightarrow> string \<Rightarrow> string \<Rightarrow> string \<Rightarrow> lifecycle_record action" where
  "recreate ev app_id expected_lifecycle_id request_id =
    tx_then (tx_lift (validate_request_id request_id)) (
    tx_then (claim_app app_id) (
    tx_bind (repo_app ev app_id) (\<lambda>found.
    tx_bind (tx_some NotFound found) (\<lambda>app.
    tx_bind (repo_request app_id request_id) (\<lambda>mapping.
    (case mapping of
        Some previous \<Rightarrow>
          if rq_target_kind previous \<noteq> ''recreate''
          then tx_fail (InvalidOperation ''request identity was already used for a control operation'')
          else if rq_previous_lifecycle_id previous \<noteq> Some expected_lifecycle_id
             \<or> rq_new_lifecycle_id previous \<noteq> Some (lr_lifecycle_id app)
          then tx_fail LifecycleConflict
          else tx_return app
      | None \<Rightarrow>
        (if lr_lifecycle_id app \<noteq> expected_lifecycle_id \<or> lr_state app \<noteq> App_Deleted
            \<or> \<not> slots_is_empty (lr_active_operations app)
        then tx_fail LifecycleConflict else
        tx_then (retire_lifecycle_heads ev app) (
        tx_bind (tx_some (InvalidOperation ''lifecycle epoch exhausted'') (checked_add (lr_lifecycle_epoch app) 1)) (\<lambda>epoch.
        let app' = recreated ev app epoch in
        tx_then (delete_rows st_slots_update (\<lambda>r. sl_app_id r = app_id)) (
        tx_then (delete_rows st_activity_update
              (\<lambda>r. ac_app_id r = app_id \<and> ac_lifecycle_id r = expected_lifecycle_id)) (
        tx_then (save_app ev app' expected_lifecycle_id (lr_metadata_revision app)) (
        tx_then (create_slots app_id (lr_lifecycle_id app')) (
        tx_then (insert_request \<lparr>rq_app_id = app_id, rq_request_id = request_id, rq_target_kind = ''recreate'',
              rq_operation_id = None, rq_lifecycle_id = None,
              rq_previous_lifecycle_id = Some expected_lifecycle_id,
              rq_new_lifecycle_id = Some (lr_lifecycle_id app'), rq_created_at_us = ev_now ev\<rparr>) (
        tx_return app'))))))))))))))"


section \<open>Local restart\<close>

definition quarantine_one :: "env \<Rightarrow> operation_row \<Rightarrow> unit action" where
  "quarantine_one ev row =
    tx_bind (tx_read (\<lambda>st. lookup ow_operation_id (st_ops st) (ow_operation_id row))) (\<lambda>found.
    tx_bind (tx_some (Storage ''record not found'') found) (\<lambda>current.
    tx_bind (tx_lift (storage_r (operation_of_row ev current))) (\<lambda>op.
    tx_bind (repo_app ev (or_app_id op)) (\<lambda>found.
    tx_bind (tx_some NotFound found) (\<lambda>app.
    if lr_lifecycle_id app \<noteq> or_lifecycle_id op \<or> \<not> slot_matches_operation app op
    then tx_fail LifecycleConflict else
    tx_bind (tx_some (InvalidOperation ''Operation revision exhausted during restart'') (checked_add (or_revision op) 1)) (\<lambda>revision.
    save_operation ev (op\<lparr>or_revision := revision, or_state := Op_RecoveryRequired,
        or_error_code := Some ''ERR_BACKEND_ERROR'',
        or_error_message := Some ''Previous local executor stopped; remote outcome requires verification''\<rparr>) op))))))"

definition interrupted_rows :: "string option \<Rightarrow> store \<Rightarrow> operation_row list" where
  "interrupted_rows after st =
    page ow_operation_id (\<lambda>r. ow_state r \<in> {''running'', ''waiting_retry''}) after 256 (st_ops st)"

text \<open>The loop over pages; \<open>fuel\<close> bounds it, and one more than the number of operations is
  enough (\<open>quarantine_enough_fuel\<close>).\<close>

fun quarantine_pages :: "env \<Rightarrow> nat \<Rightarrow> string option \<Rightarrow> unit option action" where
  "quarantine_pages ev 0 after = tx_return None"
| "quarantine_pages ev (Suc fuel) after =
  tx_bind (tx_read (interrupted_rows after)) (\<lambda>rows.
  (if rows = [] then tx_return (Some ())
        else
          tx_then (tx_each (quarantine_one ev) rows) (
          quarantine_pages ev fuel (last_key ow_operation_id rows))))"

definition quarantine_local_restart :: "env \<Rightarrow> unit option action" where
  "quarantine_local_restart ev =
    tx_bind (tx_read (\<lambda>st. Suc (length (st_ops st)))) (\<lambda>fuel. quarantine_pages ev fuel None)"


section \<open>Observed outcomes\<close>

definition wake_target_matches :: "mutation_target \<Rightarrow> operation_record \<Rightarrow> bool" where
  "wake_target_matches target op \<longleftrightarrow>
    ec_app_id (mt_context target) = or_app_id op \<and> ec_lifecycle_id (mt_context target) = or_lifecycle_id op
    \<and> ec_operation_id (mt_context target) = or_operation_id op
    \<and> Some (ec_executor_id (mt_context target)) = or_executor_id op
    \<and> ec_request_fingerprint (mt_context target) = or_request_fingerprint op"

definition finalize_observed_wake :: "env \<Rightarrow> operation_record \<Rightarrow> operation_record action" where
  "finalize_observed_wake ev snapshot =
    tx_bind (snapshot_current ev snapshot) (\<lambda>(app, op).
    tx_bind (tx_some VersionConflict (checkpoint_target op)) (\<lambda>target.
    if op \<noteq> snapshot \<or> or_kind op \<noteq> Kind_Start \<or> or_state op \<noteq> Op_RecoveryRequired
      \<or> or_step op \<noteq> ''traffic_wake_observing''
      \<or> json_get ''start_write_acknowledged'' (or_checkpoint op) \<noteq> Some (JBool True)
      \<or> \<not> wake_target_matches target op
    then tx_fail VersionConflict else
    settle ev app op Op_Failed ''traffic_wake_observation_failed'' (or_checkpoint op)
        (or_else (or_error_code op) ''ERR_BACKEND_ERROR'')
        (or_else (or_error_message op) ''Wake readiness observation did not complete'')))"

definition settle_fenced_operation ::
  "env \<Rightarrow> operation_record \<Rightarrow> json \<Rightarrow> string \<Rightarrow> operation_record action" where
  "settle_fenced_operation ev snapshot evidence release_note =
    tx_bind (snapshot_current ev snapshot) (\<lambda>(app, op).
    if op \<noteq> snapshot \<or> or_state op \<noteq> Op_RecoveryRequired \<or> or_executor_id op = None
    then tx_fail VersionConflict else
    tx_bind (tx_some panicked (json_set ''fence_released_evidence'' evidence (or_checkpoint op))) (\<lambda>checkpoint.
    settle ev app op Op_Failed (or_step op) checkpoint (or_else (or_error_code op) ''ERR_CONFLICT'')
        (Some (unwrap_or (or_error_message op) ''operation fenced'' @ ''; fence released: '' @ release_note))))"

definition settle_stale_running_builder ::
  "env \<Rightarrow> operation_record \<Rightarrow> json \<Rightarrow> string \<Rightarrow> operation_record action" where
  "settle_stale_running_builder ev snapshot evidence release_note =
    tx_bind (snapshot_current ev snapshot) (\<lambda>(app, op).
    if op \<noteq> snapshot \<or> or_kind op \<noteq> Kind_EnsureBuilder \<or> or_state op \<noteq> Op_Running
      \<or> or_executor_id op = None \<or> \<not> builder_creation_needs_runtime_receipt op
    then tx_fail VersionConflict else
    tx_bind (tx_some panicked (json_set fence_released_evidence_key evidence (or_checkpoint op))) (\<lambda>checkpoint.
    settle ev app op Op_Failed (or_step op) checkpoint (or_else (or_error_code op) ''ERR_OPERATION_RECOVERY'')
        (Some (unwrap_or (or_error_message op) ''builder creation executor stopped without a receipt''
          @ ''; stale running released: '' @ release_note))))"

definition finalize_observed_hot_success ::
  "env \<Rightarrow> operation_record \<Rightarrow> json \<Rightarrow> operation_record action" where
  "finalize_observed_hot_success ev snapshot evidence =
    tx_bind (snapshot_current ev snapshot) (\<lambda>(app, op).
    if op \<noteq> snapshot \<or> or_state op \<noteq> Op_RecoveryRequired
      \<or> or_step op \<notin> {''hot_execution'', ''hot_converging''}
      \<or> or_kind op \<notin> {Kind_HotDeploy, Kind_StartDeployment, Kind_RestartDeployment}
    then tx_fail VersionConflict else
    tx_bind (tx_some panicked (json_set ''hot_success_observed'' evidence (or_checkpoint op))) (\<lambda>checkpoint.
    settle ev app op Op_Succeeded ''hot_execution_succeeded'' checkpoint None None))"

definition finalize_legacy_observed_wake ::
  "env \<Rightarrow> operation_record \<Rightarrow> json \<Rightarrow> operation_record action" where
  "finalize_legacy_observed_wake ev snapshot evidence =
    tx_bind (snapshot_current ev snapshot) (\<lambda>(app, op).
    tx_bind (tx_some VersionConflict (checkpoint_target op)) (\<lambda>target.
    if op \<noteq> snapshot \<or> or_kind op \<noteq> Kind_Start \<or> or_state op \<noteq> Op_RecoveryRequired
      \<or> or_step op \<noteq> ''traffic_wake_observing''
      \<or> json_get ''start_write_acknowledged'' (or_checkpoint op) \<noteq> None
      \<or> \<not> wake_target_matches target op
    then tx_fail VersionConflict else
    tx_bind (tx_some panicked (json_set ''legacy_start_write_verified'' evidence (or_checkpoint op))) (\<lambda>checkpoint.
    settle ev app op Op_Failed ''traffic_wake_observation_failed'' checkpoint
        (or_else (or_error_code op) ''ERR_BACKEND_ERROR'')
        (or_else (or_error_message op)
          ''Wake readiness observation did not complete (legacy record; start write verified by runtime receipt)''))))"

definition finalize_observed_hot_failure ::
  "env \<Rightarrow> operation_record \<Rightarrow> hot_failure_evidence \<Rightarrow> operation_record action" where
  "finalize_observed_hot_failure ev snapshot evidence =
    tx_bind (snapshot_current ev snapshot) (\<lambda>(app, op).
    if op \<noteq> snapshot \<or> or_state op \<noteq> Op_RecoveryRequired \<or> or_step op \<noteq> ''hot_execution''
      \<or> or_kind op \<notin> {Kind_HotDeploy, Kind_StartDeployment, Kind_RestartDeployment}
    then tx_fail VersionConflict else
    tx_then (tx_lift (map_err InvalidOperation (validate_hot_failure evidence op))) (
    tx_bind (tx_some panicked (json_set ''hot_failure_observed'' (enc_hot_failure_evidence evidence) (or_checkpoint op))) (\<lambda>checkpoint.
    settle ev app op Op_Failed ''hot_execution_failed'' checkpoint (Some ''ERR_BACKEND_ERROR'')
        (Some (unwrap_or (do_error (hf_operation evidence)) ''Hot deployment failed on the original runtime owner'')))))"


section \<open>Interrupted hot deployments and updates\<close>

definition hot_phase :: "string \<Rightarrow> string option" where
  "hot_phase step =
    (if step = ''hot_execution'' then Some ''submit''
     else if step = ''hot_converging'' then Some ''converging'' else None)"

definition reserve_interrupted_hot ::
  "env \<Rightarrow> operation_record \<Rightarrow> lease_binding \<Rightarrow> operation_record action" where
  "reserve_interrupted_hot ev snapshot expected_binding =
    tx_bind (snapshot_current ev snapshot) (\<lambda>(_, operation).
    if operation \<noteq> snapshot \<or> or_state operation \<noteq> Op_Running
      \<or> \<not> supports_hot_deployment (or_kind operation) \<or> or_scope operation \<noteq> Scope_Prod
    then tx_fail VersionConflict else
    tx_bind (repo_app ev (or_app_id operation)) (\<lambda>found.
    tx_bind (tx_some NotFound found) (\<lambda>app.
    tx_then (tx_lift (validate_active app)) (
    tx_then (check_business_authority ev operation) (
    tx_bind (tx_some VersionConflict (json_get ''hot_execution'' (or_checkpoint operation))) (\<lambda>hot.
    tx_bind (tx_some VersionConflict (hot_phase (or_step operation))) (\<lambda>phase.
    tx_bind (tx_some VersionConflict (Option.bind (json_get ''context'' hot) dec_execution_context)) (\<lambda>context.
    tx_bind (tx_some VersionConflict (Option.bind (json_get ''target'' hot) dec_runtime_configuration_target)) (\<lambda>target.
    tx_bind (get_operation_lease (or_app_id operation) (or_operation_id operation)) (\<lambda>found.
    tx_bind (tx_some VersionConflict found) (\<lambda>binding.
    if binding \<noteq> expected_binding \<or> lb_context binding \<noteq> context \<or> \<not> op_owns context operation
      \<or> receipt_service_type (lb_receipt binding) \<noteq> Userapp
      \<or> Option.bind (json_get ''receipt_protocol'' hot) as_u64 \<noteq> Some 1
      \<or> Option.bind (json_get ''phase'' hot) as_str \<noteq> Some phase
      \<or> rt_physical_uid target = [] \<or> rt_deployment_generation target = []
    then tx_fail VersionConflict else
    tx_bind (next_operation_revision operation) (\<lambda>revision.
    let operation' = operation\<lparr>or_state := Op_RecoveryRequired, or_revision := revision,
        or_error_code := Some ''ERR_HOT_INSPECTION'',
        or_error_message := Some ''Inspecting the original hot deployment after its coordinator lease expired; writes are not replayed''\<rparr> in
    tx_then (save_operation ev operation' snapshot) (
    tx_return operation')))))))))))))"

text \<open>\<open>timestamp_millis\<close> of the clock.\<close>

definition now_ms :: "env \<Rightarrow> int" where
  "now_ms ev = ev_now ev div 1000"

definition expire_deployment_update :: "env \<Rightarrow> operation_record \<Rightarrow> operation_record action" where
  "expire_deployment_update ev snapshot =
    tx_then (claim_app (or_app_id snapshot)) (
    tx_bind (repo_operation ev (or_app_id snapshot) (or_operation_id snapshot)) (\<lambda>found.
    tx_bind (tx_some NotFound found) (\<lambda>current.
    if current \<noteq> snapshot \<or> or_state current \<notin> {Op_Running, Op_RecoveryRequired}
      \<or> \<not> operation_has_deployment_update_receipt current
    then tx_fail VersionConflict else
    tx_bind (tx_read (\<lambda>st. lookup dl_operation_id (st_deadlines st) (or_operation_id current))) (\<lambda>found.
    tx_bind (tx_some VersionConflict found) (\<lambda>deadline.
    if dl_app_id deadline \<noteq> or_app_id current \<or> dl_lifecycle_id deadline \<noteq> or_lifecycle_id current
      \<or> dl_deadline_ms deadline \<le> 0 \<or> dl_deadline_ms deadline > now_ms ev
    then tx_fail VersionConflict else
    tx_bind (validated_execution_input ev current) (\<lambda>input.
    if \<not> deployment_update_precedes_credentials ev current input
    then tx_fail VersionConflict else
    tx_bind ((if or_state current = Op_RecoveryRequired then
      tx_bind (next_operation_revision current) (\<lambda>revision.
      let running = current\<lparr>or_state := Op_Running, or_revision := revision\<rparr> in
      tx_then (save_operation ev running current) (
      tx_return running))
       else tx_return current)) (\<lambda>reclaimed.
    tx_bind (tx_some panicked (json_set ''deployment_update_expiry''
        (JObj [(''deadline_ms'', JNum (dl_deadline_ms deadline)), (''deployment_completed'', JBool False),
           (''input_digest'', JStr (input_digest ev input)), (''next_write_intent'', JStr ''explicit_pg_applying'')])
        (or_checkpoint reclaimed))) (\<lambda>checkpoint.
    tx_bind (tx_some VersionConflict (or_executor_id reclaimed)) (\<lambda>executor_id.
    op_advance ev (recovery_progress reclaimed executor_id Op_Failed ''deployment_update_expired'' checkpoint
        (Some ''ERR_DEADLINE_EXCEEDED'')
        (Some ''Deployment deadline expired after the configuration update returned and before the credential write intent; remaining deployment writes were not replayed'')))))))))))"


section \<open>Interrupted deletions\<close>

definition deletion_snapshot_current :: "env \<Rightarrow> operation_record \<Rightarrow> operation_record action" where
  "deletion_snapshot_current ev snapshot =
    tx_bind (snapshot_current ev snapshot) (\<lambda>(_, operation).
    if operation \<noteq> snapshot \<or> or_scope operation \<noteq> kind_scope (or_kind operation)
      \<or> or_kind operation \<notin> {Kind_DeleteCompute, Kind_PurgeResources, Kind_DeleteApplication}
      \<or> or_state operation \<notin> {Op_Running, Op_RecoveryRequired}
    then tx_fail VersionConflict else
    tx_bind (tx_some (InvalidOperation ''Deletion recovery requires its original captured targets'')
        (dec_deletion_checkpoint (or_checkpoint operation))) (\<lambda>checkpoint.
    tx_then (tx_lift (map_err InvalidOperation (validate_deletion_operation checkpoint operation))) (
    tx_bind (get_operation_lease (or_app_id operation) (or_operation_id operation)) (\<lambda>found.
    tx_bind (tx_some (InvalidOperation ''Deletion recovery lease receipt is missing'') found) (\<lambda>binding.
    if lb_context binding \<noteq> dc_context checkpoint \<or> \<not> op_owns (lb_context binding) operation
    then tx_fail VersionConflict else
    tx_return operation)))))"

definition reserve_interrupted_deletion :: "env \<Rightarrow> operation_record \<Rightarrow> operation_record action" where
  "reserve_interrupted_deletion ev snapshot =
    tx_bind (deletion_snapshot_current ev snapshot) (\<lambda>operation.
    tx_bind (next_operation_revision operation) (\<lambda>revision.
    let operation' = operation\<lparr>or_state := Op_RecoveryRequired, or_revision := revision,
        or_error_code := Some ''ERR_DELETION_INSPECTION'',
        or_error_message := Some ''Inspecting the original captured deletion; resource writes are not replayed''\<rparr> in
    tx_then (save_operation ev operation' snapshot) (
    tx_return operation')))"

definition record_deletion_recovery_problem ::
  "env \<Rightarrow> operation_record \<Rightarrow> string \<Rightarrow> operation_record action" where
  "record_deletion_recovery_problem ev snapshot message =
    tx_bind (deletion_snapshot_current ev snapshot) (\<lambda>operation.
    if or_state operation \<noteq> Op_RecoveryRequired \<or> message = []
    then tx_fail VersionConflict else
    (if or_error_message operation = Some message then tx_return operation
       else
         tx_bind (next_operation_revision operation) (\<lambda>revision.
         let operation' = operation\<lparr>or_revision := revision, or_error_code := Some ''ERR_DELETION_INSPECTION'',
            or_error_message := Some message\<rparr> in
         tx_then (save_operation ev operation' snapshot) (
         tx_return operation'))))"

definition finalize_interrupted_deletion ::
  "env \<Rightarrow> operation_record \<Rightarrow> json \<Rightarrow> operation_record action" where
  "finalize_interrupted_deletion ev snapshot evidence =
    tx_bind (deletion_snapshot_current ev snapshot) (\<lambda>operation.
    if or_state operation \<noteq> Op_RecoveryRequired
      \<or> or_kind operation \<notin> {Kind_DeleteCompute, Kind_PurgeResources}
      \<or> json_get ''execution_quiescent'' evidence \<noteq> Some (JBool True)
      \<or> json_get ''captured_checkpoint'' evidence \<noteq> Some (or_checkpoint operation)
      \<or> json_get ''context'' evidence \<noteq> json_get ''context'' (or_checkpoint operation)
    then tx_fail (InvalidOperation ''Deletion finalization requires all original write scopes to be retired; lifecycle deletion remains protected'') else
    settle_fenced_operation ev operation evidence
        ''original deletion execution retired; incomplete deletion was not replayed'')"


section \<open>Startup fences\<close>

definition header_text :: "string \<Rightarrow> string option" where
  "header_text value = (if value = [] then None else Some value)"

definition header_slot :: "string option \<Rightarrow> string option option" where
  "header_slot value = (case value of None \<Rightarrow> Some None | Some v \<Rightarrow> map_option Some (header_text v))"

definition active_kind ::
  "store \<Rightarrow> string \<Rightarrow> string \<Rightarrow> operation_scope \<times> string \<Rightarrow> operation_kind option" where
  "active_kind st app_id lifecycle_id p = do {
     row \<leftarrow> lookup ow_operation_id (st_ops st) (snd p);
     kind \<leftarrow> Option.bind (header_text (ow_kind row)) (\<lambda>v. ok_option (kind_of v));
     scope \<leftarrow> Option.bind (header_text (ow_scope row)) (\<lambda>v. ok_option (scope_of v));
     state \<leftarrow> Option.bind (header_text (ow_state row)) (\<lambda>v. ok_option (state_of v));
     (if header_text (ow_operation_id row) \<noteq> Some (snd p) \<or> header_text (ow_app_id row) \<noteq> Some app_id
         \<or> header_text (ow_lifecycle_id row) \<noteq> Some lifecycle_id \<or> scope \<noteq> fst p
         \<or> kind_scope kind \<noteq> fst p \<or> op_is_terminal state
      then None else Some kind) }"

definition active_kinds ::
  "store \<Rightarrow> string \<Rightarrow> string \<Rightarrow> string option list \<Rightarrow> operation_kind list option" where
  "active_kinds st app_id lifecycle_id slots =
    (let kinds = map (active_kind st app_id lifecycle_id)
       (List.map_filter (\<lambda>(scope, i). map_option (Pair scope) i) (zip scope_all slots)) in
     if None \<in> set kinds then None else Some (map the kinds))"

definition confirmed_fence :: "store \<Rightarrow> application_row \<Rightarrow> wake_fence_snapshot option" where
  "confirmed_fence st row = do {
     life \<leftarrow> header_text (ap_lifecycle_id row);
     state \<leftarrow> Option.bind (header_text (ap_lifecycle_state row)) (\<lambda>v. ok_option (lifecycle_of v));
     (if state \<noteq> App_Active then Some \<lparr>wf_app_id = ap_app_id row, wf_state = Fence_Blocked\<rparr>
      else do {
        slots \<leftarrow> lookup sl_app_id (st_slots st) (ap_app_id row);
        dev \<leftarrow> header_slot (sl_dev_operation_id slots);
        prod \<leftarrow> header_slot (sl_prod_operation_id slots);
        application \<leftarrow> header_slot (sl_application_operation_id slots);
        (if header_text (sl_app_id slots) \<noteq> Some (ap_app_id row) \<or> header_text (sl_lifecycle_id slots) \<noteq> Some life
            \<or> (application \<noteq> None \<and> (dev \<noteq> None \<or> prod \<noteq> None)) \<or> (dev \<noteq> None \<and> dev = prod)
         then None
         else do {
           kinds \<leftarrow> active_kinds st (ap_app_id row) life [dev, prod, application];
           Some (from_confirmed_headers (ap_app_id row) state kinds) }) }) }"

definition wake_fence :: "store \<Rightarrow> application_row \<Rightarrow> store_error + wake_fence_snapshot" where
  "wake_fence st row =
    (if ap_app_id row = [] then Inl (InvalidOperation ''Wake fence application cursor is unavailable'')
     else Inr (case confirmed_fence st row of
         None \<Rightarrow> \<lparr>wf_app_id = ap_app_id row, wf_state = Fence_Unconfirmed\<rparr>
       | Some snapshot \<Rightarrow> snapshot))"

definition list_wake_fence_snapshots :: "string option \<Rightarrow> nat \<Rightarrow> wake_fence_snapshot list action" where
  "list_wake_fence_snapshots after limit =
    (if limit = 0
    then tx_fail (InvalidOperation ''page limit must be positive'') else
    tx_bind (tx_read id) (\<lambda>st.
    tx_lift (collect_r (wake_fence st) (page ap_app_id (\<lambda>_. True) after limit (st_apps st)))))"


section \<open>Salvaging a private input\<close>

definition retained_kinds :: "string list" where
  "retained_kinds = [''create'', ''update'', ''start_deployment'', ''restart_deployment'']"

definition retained_rows :: "string \<Rightarrow> string \<Rightarrow> store \<Rightarrow> (input_row \<times> operation_row) list" where
  "retained_rows app_id lifecycle_id st =
    rev (sort_key (\<lambda>(_, o'). ow_created_at_us o') (sort_key (\<lambda>(_, o'). ow_operation_id o')
      (filter (\<lambda>(i, o'). ow_operation_id o' = in_operation_id i \<and> ow_app_id o' = in_app_id i
          \<and> ow_lifecycle_id o' = in_lifecycle_id i \<and> ow_app_id o' = app_id
          \<and> ow_lifecycle_id o' = lifecycle_id \<and> ow_scope o' = ''prod'' \<and> ow_state o' = ''succeeded''
          \<and> ow_kind o' \<in> set retained_kinds \<and> in_payload_version i = 1)
        (List.product (st_inputs st) (st_ops st)))))"

definition retained_usable :: "env \<Rightarrow> input_row \<times> operation_row \<Rightarrow> bool" where
  "retained_usable ev p =
    (case ow_command_json (snd p) of
       None \<Rightarrow> False
     | Some text \<Rightarrow>
         (case Option.bind (from_text text) dec_control_command of
            None \<Rightarrow> False
          | Some command \<Rightarrow>
              kind_name (command_kind command) = ow_kind (snd p)
              \<and> carries_input command = Some (in_payload_digest (fst p))
              \<and> input_digest ev (in_payload (fst p)) = in_payload_digest (fst p)
              \<and> (case ev_parse_json ev (in_payload (fst p)) of
                   None \<Rightarrow> False
                 | Some value \<Rightarrow> Option.bind (json_get ''version'' value) as_u64 = Some 1
                     \<and> (case json_get ''params'' value of None \<Rightarrow> False | Some v \<Rightarrow> is_object v))))"

function retained_loop ::
  "env \<Rightarrow> (input_row \<times> operation_row) list \<Rightarrow> nat \<Rightarrow> store_error + execution_input option" where
  "retained_loop ev rows offset =
    (let page = take 64 (drop offset rows) in
     case List.find (retained_usable ev) page of
       Some p \<Rightarrow> Inr (Some (in_payload (fst p)))
     | None \<Rightarrow>
         if length page < 64 then Inr None
         else if int offset + 64 > i64_max
         then Inl (InvalidOperation ''Retained runtime history is too large'')
         else retained_loop ev rows (offset + 64))"
  by pat_completeness auto

termination
  by (relation "measure (\<lambda>(_, rows, offset). length rows - offset)") auto

declare retained_loop.simps [simp del]

definition retained_input :: "env \<Rightarrow> string \<Rightarrow> string \<Rightarrow> execution_input option action" where
  "retained_input ev app_id lifecycle_id =
    tx_bind (repo_app ev app_id) (\<lambda>found.
    tx_bind (tx_some NotFound found) (\<lambda>app.
    tx_then (tx_lift (validate_active app)) (
    if lr_lifecycle_id app \<noteq> lifecycle_id
    then tx_fail LifecycleConflict else
    tx_bind (tx_read (retained_rows app_id lifecycle_id)) (\<lambda>rows.
    tx_lift (retained_loop ev rows 0)))))"


section \<open>Retiring a builder registration\<close>

definition captured_builder_deletion_for_execution ::
  "operation_record \<Rightarrow> execution_context \<Rightarrow> string + dev_deletion_receipt" where
  "captured_builder_deletion_for_execution operation context =
    try_r (validate_identity context (ec_app_id context)) (\<lambda>_.
    if \<not> op_owns context operation \<or> or_state operation \<noteq> Op_Running
       \<or> or_scope operation \<noteq> kind_scope (or_kind operation)
    then Inl ''Builder deletion execution identity changed''
    else if or_kind operation \<in> {Kind_PurgeResources, Kind_DeleteApplication}
    then try_r (ok_or ''decode deletion checkpoint'' (dec_deletion_checkpoint (or_checkpoint operation))) (\<lambda>checkpoint.
         try_r (validate_deletion_operation checkpoint operation) (\<lambda>_.
         if dc_context checkpoint \<noteq> context then Inl ''Original deletion capture executor changed''
         else ok_or ''Original deletion has no builder capture'' (dc_development checkpoint)))
    else if or_kind operation \<in> {Kind_DestroyDevStorage, Kind_DestroyProdStorage}
    then try_r (ok_or ''decode storage destruction'' (dec_storage_destruction (or_checkpoint operation))) (\<lambda>checkpoint.
         try_r (validate_storage_destruction checkpoint) (\<lambda>_.
         if sd_context checkpoint \<noteq> context
            \<or> (sd_production checkpoint \<noteq> None) \<noteq> (or_kind operation = Kind_DestroyProdStorage)
         then Inl ''Original storage destruction capture scope changed''
         else Inr (sd_development checkpoint)))
    else Inl ''Current operation does not authorize builder deletion'')"

text \<open>The caller sees either the store's error or a message.\<close>

datatype retirement_error = Retirement_Store store_error | Retirement_Message string

definition in_store :: "'a action \<Rightarrow> (store, retirement_error, 'a) tx" where
  "in_store m = (\<lambda>st. map_err Retirement_Store (m st))"

definition is_compute :: "resource_identity \<Rightarrow> bool" where
  "is_compute r \<longleftrightarrow> ri_kind r \<in> {Res_Container, Res_StatefulSet}"

definition same_resource :: "resource_identity \<Rightarrow> resource_identity \<Rightarrow> bool" where
  "same_resource a b \<longleftrightarrow> ri_kind a = ri_kind b \<and> ri_name a = ri_name b \<and> ri_uid a = ri_uid b"

definition retirement_target_matches ::
  "resource_identity option \<Rightarrow> resource_identity list \<Rightarrow> bool" where
  "retirement_target_matches workload originals =
    (case (workload, originals) of
       (None, []) \<Rightarrow> True | (Some actual, [original]) \<Rightarrow> same_resource actual original | _ \<Rightarrow> False)"

definition retirement_binding ::
  "builder_control_target \<Rightarrow> resource_identity \<Rightarrow> (store, retirement_error, unit) tx" where
  "retirement_binding target workload =
    tx_bind (in_store (get_resource_binding UserappBuilder (ri_uid workload))) (\<lambda>binding.
    tx_then ((case binding of
        None \<Rightarrow> tx_return ()
      | Some b \<Rightarrow> tx_lift (map_err Retirement_Message (validate_binding b (bt_context target) (ri_uid workload))))) (
    (case bt_resource_binding target of
        None \<Rightarrow> tx_return ()
      | Some captured \<Rightarrow> tx_require (binding = Some captured)
          (Retirement_Message ''Captured builder resource binding changed during cleanup''))))"

definition authorize_builder_registration_retirement ::
  "env \<Rightarrow> builder_control_target \<Rightarrow> (store, retirement_error, registry_identity option) tx" where
  "authorize_builder_registration_retirement ev target =
    (let context = bt_context target in
    tx_then (tx_lift (map_err Retirement_Message (validate_identity context (ec_app_id context)))) (
    tx_bind (in_store (op_current ev (ec_app_id context) (ec_operation_id context) (ec_lifecycle_id context))) (\<lambda>(_, operation).
    tx_bind (tx_lift (map_err Retirement_Message (captured_builder_deletion_for_execution operation context))) (\<lambda>receipt.
    let captured = dr_runtime receipt in
    tx_then (in_store (check_business_authority ev operation)) (
    tx_then (tx_require (bs_app_id captured = ec_app_id context \<and> bs_resource_binding captured = bt_resource_binding target)
        (Retirement_Message ''Captured builder deletion ownership changed'')) (
    tx_then (tx_require (retirement_target_matches (bt_workload target) (filter is_compute (bs_resources captured)))
        (Retirement_Message ''Builder retirement target differs from the original deletion capture'')) (
    tx_then ((case bt_workload target of None \<Rightarrow> tx_return () | Some workload \<Rightarrow> retirement_binding target workload)) (
    tx_return (dr_registry receipt)))))))))"

end
