(* ===== verification/Compute_Execution.thy ===== *)
theory Compute_Execution
  imports Recovery
begin

text \<open>
  The execution ledger of a compute control (\<open>userapp_lifecycle/common/compute_execution.rs\<close>
  with \<open>compute_restart_absence.rs\<close>): binding its mutex receipt, advancing its stages, closing
  a superseded executor with its drain evidence, committing what an observer confirmed and
  continuing a restart at its stopped boundary.  No statement of these transactions reaches a
  runtime.
\<close>


section \<open>Owners and snapshots\<close>

definition ctl_owns :: "control_record \<Rightarrow> executor_identity \<Rightarrow> bool" where
  "ctl_owns record who \<longleftrightarrow>
    ctl_app_id record = xi_app_id who \<and> ctl_lifecycle_id record = xi_lifecycle_id who
    \<and> ctl_scope record = xi_scope who \<and> ctl_operation_id record = xi_operation_id who
    \<and> ctl_generation record = xi_generation who \<and> ctl_executor_id record = Some (xi_executor_id who)"

definition validate_control_receipt :: "executor_identity \<Rightarrow> lease_receipt \<Rightarrow> store_error + unit" where
  "validate_control_receipt who receipt =
    try_r (map_err InvalidOperation (validate_receipt receipt)) (\<lambda>_.
    case xi_scope who of
      Scope_Application \<Rightarrow> Inl (InvalidOperation ''Invalid compute scope'')
    | _ \<Rightarrow> ensure_r (receipt_service_type receipt = (if xi_scope who = Scope_Dev then UserappBuilder else Userapp))
        (InvalidOperation ''Compute lease scope differs''))"

definition snapshot_identity :: "control_record \<Rightarrow> string \<Rightarrow> executor_identity" where
  "snapshot_identity snapshot executor_id =
    \<lparr>xi_app_id = ctl_app_id snapshot, xi_lifecycle_id = ctl_lifecycle_id snapshot,
     xi_scope = ctl_scope snapshot, xi_operation_id = ctl_operation_id snapshot,
     xi_generation = ctl_generation snapshot, xi_executor_id = executor_id\<rparr>"

definition control_context :: "control_record \<Rightarrow> execution_context action" where
  "control_context snapshot = tx_lift (map_err InvalidOperation (control_execution_context snapshot))"

text \<open>\<open>if compute::current(tx, &identity).await? != *snapshot\<close>.\<close>

definition require_control :: "env \<Rightarrow> executor_identity \<Rightarrow> control_record \<Rightarrow> unit action" where
  "require_control ev who snapshot =
    tx_bind (compute_current ev who) (\<lambda>actual. tx_require (actual = snapshot) VersionConflict)"

definition next_control_revision :: "control_record \<Rightarrow> int action" where
  "next_control_revision snapshot =
    tx_some (InvalidOperation ''Compute revision exhausted'') (checked_add (ctl_revision snapshot) 1)"

text \<open>The compare-and-swap on the control's identifier and revision.\<close>

definition update_snapshot ::
  "control_record \<Rightarrow> (control_row \<Rightarrow> bool) \<Rightarrow> (control_row \<Rightarrow> control_row) \<Rightarrow> unit action" where
  "update_snapshot snapshot p f =
    update_control (\<lambda>r. cc_operation_id r = ctl_operation_id snapshot \<and> cc_revision r = ctl_revision snapshot \<and> p r) f"

definition reread_control :: "env \<Rightarrow> string \<Rightarrow> string \<Rightarrow> control_record action" where
  "reread_control ev app_id operation_id =
    tx_bind (get_control ev app_id operation_id) (tx_some NotFound)"

definition active_control :: "control_record \<Rightarrow> bool" where
  "active_control snapshot \<longleftrightarrow> ctl_state snapshot \<in> {Ctl_Running, Ctl_RecoveryRequired}"

definition active_row :: "control_row \<Rightarrow> bool" where
  "active_row r \<longleftrightarrow> cc_state r \<in> {''running'', ''recovery_required''}"

text \<open>\<open>as_object_mut\<close> followed by \<open>insert\<close>.\<close>

definition object_insert :: "string \<Rightarrow> string \<Rightarrow> json \<Rightarrow> json \<Rightarrow> json action" where
  "object_insert message key value checkpoint =
    (if is_object checkpoint then tx_some panicked (json_set key value checkpoint)
     else tx_fail (InvalidOperation message))"

text \<open>\<open>checkpoint[key] = value\<close> for each entry of an object.\<close>

fun set_all :: "(string \<times> json) list \<Rightarrow> json \<Rightarrow> json option" where
  "set_all [] checkpoint = Some checkpoint"
| "set_all ((key, value) # entries) checkpoint =
    Option.bind (json_set key value checkpoint) (set_all entries)"

definition object_entries :: "json \<Rightarrow> (string \<times> json) list" where
  "object_entries j = (case as_object j of None \<Rightarrow> [] | Some m \<Rightarrow> m)"


section \<open>Retained volumes\<close>

definition builder_volumes :: "json \<Rightarrow> resource_identity list option" where
  "builder_volumes checkpoint =
    Option.bind (json_get ''builder_volumes'' checkpoint) (dec_list dec_resource_identity)"

definition kubernetes_builder_lease :: "lease_receipt option \<Rightarrow> bool" where
  "kubernetes_builder_lease lease =
    (case lease of Some (KubernetesLease service _ _ _ _ _) \<Rightarrow> service = UserappBuilder | _ \<Rightarrow> False)"

definition kubernetes_lease :: "lease_receipt \<Rightarrow> bool" where
  "kubernetes_lease lease = (case lease of KubernetesLease _ _ _ _ _ _ \<Rightarrow> True | _ \<Rightarrow> False)"

definition docker_builder_lease :: "lease_receipt \<Rightarrow> bool" where
  "docker_builder_lease lease = (case lease of DockerLease service _ _ _ \<Rightarrow> service = UserappBuilder | _ \<Rightarrow> False)"

definition retained_builder_volume_evidence :: "control_record \<Rightarrow> bool" where
  "retained_builder_volume_evidence record =
    (case builder_volumes (ctl_checkpoint record) of
       None \<Rightarrow> False
     | Some volumes \<Rightarrow>
         ctl_action record = Act_Restart \<and> ctl_scope record = Scope_Dev
         \<and> kubernetes_builder_lease (ctl_lease record) \<and> volumes \<noteq> []
         \<and> list_all (\<lambda>v. ri_kind v = Res_PersistentVolumeClaim \<and> ri_name v \<noteq> [] \<and> ri_uid v \<noteq> []) volumes
         \<and> distinct (map ri_name volumes) \<and> distinct (map ri_uid volumes))"

definition in_context :: "control_record \<Rightarrow> execution_context \<Rightarrow> bool" where
  "in_context record context \<longleftrightarrow> control_execution_context record = Inr context"

definition retained_builder_creation :: "control_record \<Rightarrow> bool" where
  "retained_builder_creation record =
    (case dec_builder_control_target (ctl_checkpoint record) of
       None \<Rightarrow> False
     | Some target \<Rightarrow>
         retained_builder_volume_evidence record \<and> in_context record (bt_context target)
         \<and> is_ok (validate_builder_control_target target) \<and> bt_workload target = None
         \<and> bt_pod target = None \<and> bt_resource_binding target = None)"

definition workload_kind :: "builder_control_target \<Rightarrow> resource_kind option" where
  "workload_kind target = map_option ri_kind (bt_workload target)"

definition stopped_builder_absence :: "control_record \<Rightarrow> builder_control_target \<Rightarrow> bool" where
  "stopped_builder_absence record next =
    (case dec_builder_control_target (ctl_checkpoint record) of
       None \<Rightarrow> False
     | Some old \<Rightarrow>
         ctl_stage record = ''stopped'' \<and> retained_builder_volume_evidence record
         \<and> is_ok (validate_builder_control_target old) \<and> is_ok (validate_builder_control_target next)
         \<and> in_context record (bt_context old) \<and> bt_context next = bt_context old
         \<and> workload_kind old = Some Res_StatefulSet
         \<and> bt_workload next = None \<and> bt_pod next = None \<and> bt_resource_binding next = None
         \<and> bt_restart_image old = bt_restart_image next
         \<and> bt_builder_startup_mode old = bt_builder_startup_mode next
         \<and> (case bt_restart_runtime_workspace old of
              None \<Rightarrow> True | Some workspace \<Rightarrow> workspace = userapp_dev_workspace (ctl_app_id record))
         \<and> bt_restart_runtime_workspace next = None)"


section \<open>The executor's own steps\<close>

definition bind_control_lease :: "env \<Rightarrow> executor_identity \<Rightarrow> lease_receipt \<Rightarrow> control_record action" where
  "bind_control_lease ev who receipt =
    tx_then (tx_lift (validate_control_receipt who receipt)) (
    tx_then (claim_app (xi_app_id who)) (
    tx_then (check_compute ev who) (
    tx_bind (compute_current ev who) (\<lambda>record.
    (case ctl_lease record of
        Some previous \<Rightarrow>
          if previous = receipt then tx_return record
          else tx_fail (InvalidOperation ''Compute lease is immutable'')
      | None \<Rightarrow>
        tx_then (update_control
              (\<lambda>r. cc_operation_id r = xi_operation_id who \<and> cc_revision r = ctl_revision record
                \<and> cc_lease_json r = None)
              (\<lambda>r. r\<lparr>cc_lease_json := Some (to_text (enc_lease_receipt receipt)),
                cc_revision := cc_revision r + 1, cc_updated_at_us := ev_now ev\<rparr>)) (
        reread_control ev (xi_app_id who) (xi_operation_id who)))))))"

definition terminal_observation :: "control_record \<Rightarrow> control_progress \<Rightarrow> bool" where
  "terminal_observation record progress \<longleftrightarrow>
    stage_from_storage_value (ctl_stage record) = Some St_Verifying
    \<and> kp_stage progress = St_Completed \<and> kp_state progress = Ctl_Succeeded
    \<and> ctl_checkpoint record = kp_checkpoint progress"

definition confirmed_absence :: "control_record \<Rightarrow> control_progress \<Rightarrow> builder_control_target \<Rightarrow> bool" where
  "confirmed_absence record progress next \<longleftrightarrow>
    kp_stage progress = St_Starting \<and> stopped_builder_absence record next
    \<and> json_get ''builder_volumes'' (ctl_checkpoint record) = json_get ''builder_volumes'' (kp_checkpoint progress)"

definition check_restart_step :: "control_record \<Rightarrow> control_progress \<Rightarrow> store_error + unit" where
  "check_restart_step record progress =
    (if ctl_scope record = Scope_Dev \<and> ctl_action record = Act_Restart
        \<and> json_get ''context'' (ctl_checkpoint record) \<noteq> None
     then let read_target = (if terminal_observation record progress then from_observation_checkpoint
              else dec_builder_control_target) in
       try_r (ok_or (Storage ''decode builder checkpoint'') (read_target (ctl_checkpoint record))) (\<lambda>original.
       try_r (ok_or (Storage ''decode builder checkpoint'') (read_target (kp_checkpoint progress))) (\<lambda>next.
       if bt_workload original \<noteq> None \<and> bt_workload next = None \<and> \<not> confirmed_absence record progress next
       then Inl (InvalidOperation ''Builder recreation requires a stopped retained-volume boundary'')
       else if bt_restart_runtime_workspace original \<noteq> bt_restart_runtime_workspace next
          \<and> \<not> confirmed_absence record progress next
       then Inl (InvalidOperation ''Builder restart workspace intent is immutable'')
       else Inr ()))
     else Inr ())"

text \<open>A successful production restart lets traffic wake the application again.\<close>

definition rearm_wake :: "env \<Rightarrow> executor_identity \<Rightarrow> unit action" where
  "rearm_wake ev who =
    tx_bind (repo_app ev (xi_app_id who)) (\<lambda>found.
    tx_bind (tx_some NotFound found) (\<lambda>app.
    tx_bind (tx_some (InvalidOperation ''Metadata revision exhausted'') (checked_add (lr_metadata_revision app) 1)) (\<lambda>revision.
    save_app ev (app\<lparr>lr_runtime_policy := (lr_runtime_policy app)\<lparr>rp_wake_on_traffic := Some True\<rparr>,
        lr_metadata_revision := revision\<rparr>) (xi_lifecycle_id who) (lr_metadata_revision app))))"

definition advance_control :: "env \<Rightarrow> control_progress \<Rightarrow> control_record action" where
  "advance_control ev progress =
    (let who = kp_identity progress in
    tx_then (claim_app (xi_app_id who)) (
    tx_then (check_compute ev who) (
    tx_bind (compute_current ev who) (\<lambda>record.
    if ctl_revision record \<noteq> kp_expected_revision progress
    then tx_fail VersionConflict else
    tx_bind (tx_some (InvalidOperation (policy_message InvalidState)) (as_progress_storage_value (kp_state progress))) (\<lambda>state.
    tx_then (tx_lift (map_err (\<lambda>e. InvalidOperation (policy_message e))
        (validate_compute_progress_transition (ctl_action record) (stage_from_storage_value (ctl_stage record))
          (kp_state progress) (kp_stage progress) (diagnostic_from_option (kp_error_code progress))
          (diagnostic_from_option (kp_error_message progress)) (ctl_lease record \<noteq> None)))) (
    tx_then ((if kp_stage progress \<noteq> St_DrainingPrevious then
      tx_then (drained ev record) (
      tx_lift (map_err (\<lambda>e. InvalidOperation (policy_message e))
             (validate_compute_mutation_evidence (kp_stage progress) (ctl_lease record \<noteq> None)
               (is_object (kp_checkpoint progress)))))
       else tx_return ())) (
    tx_then (tx_lift (check_restart_step record progress)) (
    tx_then (update_control
        (\<lambda>r. cc_operation_id r = xi_operation_id who \<and> cc_revision r = ctl_revision record
          \<and> cc_executor_id r = Some (xi_executor_id who) \<and> cc_state r = ''running'')
        (\<lambda>r. r\<lparr>cc_state := state, cc_stage := stage_as_str (kp_stage progress),
          cc_checkpoint_json := to_text (kp_checkpoint progress), cc_error_code := kp_error_code progress,
          cc_error_message := kp_error_message progress, cc_revision := cc_revision r + 1,
          cc_updated_at_us := ev_now ev,
          cc_terminal_at_us := (if ctl_is_terminal (kp_state progress) then Some (ev_now ev) else None)\<rparr>)) (
    tx_then ((if kp_state progress = Ctl_Succeeded \<and> ctl_action record = Act_Restart \<and> xi_scope who = Scope_Prod
       then rearm_wake ev who else tx_return ())) (
    reread_control ev (xi_app_id who) (xi_operation_id who)))))))))))"

definition forget_control_lease :: "env \<Rightarrow> executor_identity \<Rightarrow> lease_receipt \<Rightarrow> unit action" where
  "forget_control_lease ev who receipt =
    tx_then (tx_lift (validate_control_receipt who receipt)) (
    tx_then (claim_app (xi_app_id who)) (
    tx_bind (reread_control ev (xi_app_id who) (xi_operation_id who)) (\<lambda>record.
    if \<not> ctl_owns record who \<or> ctl_state record \<notin> {Ctl_Succeeded, Ctl_Failed}
    then tx_fail VersionConflict else
    (case ctl_lease record of
        None \<Rightarrow> tx_return ()
      | Some stored \<Rightarrow>
          if stored \<noteq> receipt then tx_fail VersionConflict
          else update_control
            (\<lambda>r. cc_operation_id r = xi_operation_id who \<and> cc_revision r = ctl_revision record)
            (\<lambda>r. r\<lparr>cc_lease_json := None, cc_revision := cc_revision r + 1, cc_updated_at_us := ev_now ev\<rparr>)))))"


section \<open>Closing a superseded executor\<close>

definition fenced_target :: "control_record \<Rightarrow> json \<Rightarrow> bool" where
  "fenced_target record checkpoint =
    (case ctl_scope record of
       Scope_Prod \<Rightarrow>
         (case dec_compute_start_target checkpoint of
            None \<Rightarrow> False
          | Some target \<Rightarrow> ct_volumes target \<noteq> [] \<and> in_context record (mt_context (ct_target target)))
     | Scope_Dev \<Rightarrow>
         (case dec_builder_control_target checkpoint of
            None \<Rightarrow> False
          | Some target \<Rightarrow> is_ok (validate_builder_control_target target)
              \<and> workload_kind target = Some Res_StatefulSet \<and> in_context record (bt_context target))
     | Scope_Application \<Rightarrow> False)"

definition conditional_fence :: "control_record \<Rightarrow> string \<Rightarrow> json \<Rightarrow> bool" where
  "conditional_fence record stage checkpoint \<longleftrightarrow>
    ctl_action record = Act_Restart \<and> ctl_stage record = stage \<and> ctl_lease record \<noteq> None
    \<and> checkpoint = ctl_checkpoint record \<and> has_conditional_compute_write record
    \<and> fenced_target record checkpoint"

fun drain_confirmed :: "control_record \<Rightarrow> drain_evidence \<Rightarrow> bool" where
  "drain_confirmed record (PersistedRuntimeAcknowledgement checkpoint) \<longleftrightarrow>
     ctl_action record = Act_Restart \<and> ctl_stage record \<in> {''starting'', ''stopping''}
     \<and> ctl_lease record \<noteq> None \<and> checkpoint = ctl_checkpoint record
     \<and> (has_docker_compute_target record
        \<or> (ctl_stage record = ''starting'' \<and> retained_builder_creation record))"
| "drain_confirmed record NoMutationSubmitted \<longleftrightarrow> ctl_stage record = ''draining_previous''"
| "drain_confirmed record (MutationCompleted checkpoint) \<longleftrightarrow> ctl_lease record \<noteq> None \<and> is_object checkpoint"
| "drain_confirmed record (ConditionalStartupFenced checkpoint) \<longleftrightarrow> conditional_fence record ''starting'' checkpoint"
| "drain_confirmed record (ConditionalStopFenced checkpoint) \<longleftrightarrow> conditional_fence record ''stopping'' checkpoint"
| "drain_confirmed record (PersistedMutationBoundary checkpoint) \<longleftrightarrow>
     ctl_action record = Act_Restart \<and> ctl_stage record \<in> {''stopped'', ''verifying''}
     \<and> ctl_lease record \<noteq> None \<and> is_object checkpoint \<and> checkpoint = ctl_checkpoint record"

definition acknowledge_drain :: "env \<Rightarrow> drain_acknowledgement \<Rightarrow> control_record action" where
  "acknowledge_drain ev ack =
    (let who = da_identity ack in
    tx_then (claim_app (xi_app_id who)) (
    tx_bind (reread_control ev (xi_app_id who) (xi_operation_id who)) (\<lambda>record.
    if \<not> ctl_owns record who \<or> ctl_revision record \<noteq> da_expected_revision ack
      \<or> ctl_state record \<noteq> Ctl_Superseded
    then tx_fail VersionConflict else
    if \<not> drain_confirmed record (da_evidence ack)
    then tx_fail (InvalidOperation ''Superseded compute executor has no confirmed drain evidence'') else
    tx_then (update_control
        (\<lambda>r. cc_operation_id r = xi_operation_id who \<and> cc_revision r = ctl_revision record
          \<and> cc_state r = ''superseded'' \<and> cc_executor_id r = Some (xi_executor_id who))
        (\<lambda>r. r\<lparr>cc_state := ''failed'', cc_stage := ''superseded_drained'',
          cc_checkpoint_json := to_text (JObj [(''drain'', enc_drain_evidence (da_evidence ack)),
            (''previous'', ctl_checkpoint record)]),
          cc_error_code := Some ''ERR_CANCELLED'',
          cc_error_message := Some ''Superseded executor confirmed drained'',
          cc_revision := cc_revision r + 1, cc_updated_at_us := ev_now ev,
          cc_terminal_at_us := Some (ev_now ev)\<rparr>)) (
    reread_control ev (xi_app_id who) (xi_operation_id who)))))"

text \<open>The Postgres predicate of a successful restart whose private archive is still there:
  \<open>->\<close> sees a JSON null, \<open>->>\<close> does not, and reads \<open>true\<close> and the string alike.\<close>

definition archive_pending :: "json \<Rightarrow> bool" where
  "archive_pending checkpoint \<longleftrightarrow>
    json_get ''builder_restart_template'' checkpoint \<noteq> None
    \<and> json_get ''builder_restart_archive_cleaned'' checkpoint \<notin> {Some (JBool True), Some (JStr ''true'')}"

definition awaits_observation :: "control_row \<Rightarrow> bool" where
  "awaits_observation r \<longleftrightarrow>
    cc_state r \<in> {''pending'', ''running'', ''recovery_required''}
    \<or> (cc_state r = ''superseded'' \<and> cc_executor_id r \<noteq> None) \<or> cc_lease_json r \<noteq> None
    \<or> (cc_state r = ''succeeded'' \<and> (case from_text (cc_checkpoint_json r) of
          None \<Rightarrow> False | Some checkpoint \<Rightarrow> archive_pending checkpoint))"

text \<open>The cast of a checkpoint text to \<open>jsonb\<close> fails the whole query.\<close>

definition uncastable :: "string option \<Rightarrow> control_row \<Rightarrow> bool" where
  "uncastable after r \<longleftrightarrow> (case after of None \<Rightarrow> [] | Some a \<Rightarrow> a) < cc_operation_id r
    \<and> cc_state r = ''succeeded'' \<and> cc_lease_json r = None \<and> from_text (cc_checkpoint_json r) = None"

definition scan_controls :: "env \<Rightarrow> string option \<Rightarrow> nat \<Rightarrow> control_record list action" where
  "scan_controls ev after limit =
    (if limit = 0 \<or> limit > 1000
    then tx_fail (InvalidOperation ''Invalid compute scan page size'') else
    tx_bind (tx_read st_controls) (\<lambda>rows.
    if list_ex (uncastable after) rows
    then tx_fail (Storage ''invalid input syntax for type json'') else
    tx_lift (collect_r (decode_control ev) (page cc_operation_id awaits_observation after limit rows))))"

definition finalize_interrupted ::
  "env \<Rightarrow> executor_identity \<Rightarrow> operation_record \<Rightarrow> operation_record action" where
  "finalize_interrupted ev who snapshot =
    tx_then (claim_app (xi_app_id who)) (
    tx_bind (compute_current ev who) (\<lambda>control.
    if \<not> ctl_owns control who
      \<or> \<not> (ctl_state control = Ctl_Running
           \<or> (ctl_state control = Ctl_RecoveryRequired \<and> can_recover_compute_drain control))
    then tx_fail VersionConflict else
    tx_bind (repo_operation ev (xi_app_id who) (or_operation_id snapshot)) (\<lambda>found.
    tx_bind (tx_some NotFound found) (\<lambda>current.
    if current \<noteq> snapshot \<or> or_lifecycle_id current \<noteq> xi_lifecycle_id who \<or> ends_lifecycle (or_kind current)
      \<or> or_operation_id current \<notin> set (ctl_interrupted_operations control)
      \<or> or_state current \<notin> {Op_Running, Op_RecoveryRequired}
      \<or> \<not> operation_has_drain_evidence ev current
    then tx_fail VersionConflict else
    tx_bind ((if or_state current = Op_RecoveryRequired then
      tx_bind (next_operation_revision current) (\<lambda>revision.
      let running = current\<lparr>or_state := Op_Running, or_revision := revision\<rparr> in
      tx_then (save_operation ev running current) (
      tx_return running))
       else tx_return current)) (\<lambda>reclaimed.
    tx_bind (tx_some VersionConflict (or_executor_id reclaimed)) (\<lambda>executor_id.
    op_advance ev (recovery_progress reclaimed executor_id Op_Failed ''interrupted_effects_confirmed''
        (or_checkpoint reclaimed) (Some ''COMPUTE_INTERRUPTED'')
        (Some (''Interrupted by compute operation '' @ xi_operation_id who @ '' after effects were confirmed'')))))))))"


section \<open>Committing a confirmed outcome\<close>

definition confirmed_boundary :: "control_record \<Rightarrow> bool" where
  "confirmed_boundary c \<longleftrightarrow>
    (ctl_action c = Act_Stop \<and> ctl_stage c = ''stopped'') \<or> (ctl_action c = Act_Restart \<and> ctl_stage c = ''verifying'')"

definition finalize_confirmed :: "env \<Rightarrow> control_record \<Rightarrow> control_record action" where
  "finalize_confirmed ev snapshot =
    tx_then (claim_app (ctl_app_id snapshot)) (
    tx_bind (tx_some VersionConflict (ctl_executor_id snapshot)) (\<lambda>executor_id.
    let who = snapshot_identity snapshot executor_id in
    tx_bind (compute_current ev who) (\<lambda>current.
    if current \<noteq> snapshot \<or> ctl_lease current = None \<or> \<not> active_control current
      \<or> \<not> confirmed_boundary current
    then tx_fail VersionConflict else
    tx_bind (next_control_revision current) (\<lambda>revision.
    tx_then (update_snapshot current (\<lambda>_. True) (\<lambda>r. r\<lparr>cc_state := ''running'', cc_revision := revision\<rparr>)) (
    advance_control ev \<lparr>kp_identity = who, kp_expected_revision = revision, kp_state = Ctl_Succeeded,
        kp_stage = St_Completed, kp_checkpoint = ctl_checkpoint current, kp_error_code = None,
        kp_error_message = None\<rparr>)))))"

definition observed_stop_target :: "control_record \<Rightarrow> execution_context \<Rightarrow> store_error + bool" where
  "observed_stop_target snapshot context =
    try_r (storage_r (stop_observation_from_checkpoint (ctl_checkpoint snapshot) (ctl_scope snapshot))) (\<lambda>observed.
    let same_context = stop_observation_context observed = context in
    case observed of
      Stop_Absent _ \<Rightarrow> Inr same_context
    | Stop_Orphan orphan \<Rightarrow>
        try_r (map_err InvalidOperation (validate_orphan_stop_target orphan)) (\<lambda>_. Inr same_context)
    | Stop_Builder target \<Rightarrow>
        try_r (map_err InvalidOperation (validate_builder_control_target target)) (\<lambda>_.
        Inr (same_context \<and> workload_kind target \<in> {Some Res_StatefulSet, Some Res_Container}))
    | Stop_Application target \<Rightarrow>
        Inr (same_context \<and> ri_kind (mt_resource target) \<in> {Res_Deployment, Res_Container}))"

definition observed_restart_target ::
  "control_record \<Rightarrow> execution_context \<Rightarrow> bool \<Rightarrow> store_error + bool" where
  "observed_restart_target snapshot context creation =
    (case ctl_scope snapshot of
       Scope_Prod \<Rightarrow>
         try_r (ok_or (Storage ''decode restart target'') (dec_mutation_target (ctl_checkpoint snapshot))) (\<lambda>target.
         Inr (mt_context target = context \<and> ri_kind (mt_resource target) \<in> {Res_Deployment, Res_Container}))
     | Scope_Dev \<Rightarrow>
         try_r (ok_or (Storage ''decode builder checkpoint'') (from_observation_checkpoint (ctl_checkpoint snapshot))) (\<lambda>target.
         try_r (map_err InvalidOperation (validate_builder_control_target target)) (\<lambda>_.
         Inr (bt_context target = context
           \<and> (creation \<or> workload_kind target \<in> {Some Res_StatefulSet, Some Res_Container}))))
     | Scope_Application \<Rightarrow> Inr False)"

definition finalize_observed ::
  "env \<Rightarrow> control_record \<Rightarrow> compute_action \<Rightarrow> builder_control_target option \<Rightarrow> control_record action" where
  "finalize_observed ev snapshot action creation =
    (let stages = (case action of Act_Stop \<Rightarrow> (''stopping'', ''stopped'') | Act_Restart \<Rightarrow> (''starting'', ''verifying'')) in
    tx_then (claim_app (ctl_app_id snapshot)) (
    tx_bind (control_context snapshot) (\<lambda>context.
    tx_bind (tx_lift (if action = Act_Stop then observed_stop_target snapshot context
        else observed_restart_target snapshot context (creation \<noteq> None))) (\<lambda>valid_target.
    if ctl_action snapshot \<noteq> action \<or> ctl_stage snapshot \<noteq> fst stages \<or> ctl_lease snapshot = None
      \<or> \<not> active_control snapshot \<or> \<not> valid_target
    then tx_fail (InvalidOperation ''Invalid observed compute recovery snapshot'') else
    let who = snapshot_identity snapshot (ec_executor_id context) in
    tx_then (require_control ev who snapshot) (
    tx_bind (next_control_revision snapshot) (\<lambda>revision.
    tx_bind (tx_some panicked (case creation of
          None \<Rightarrow> Some (ctl_checkpoint snapshot)
        | Some observed \<Rightarrow> set_all (object_entries (enc_builder_control_target observed)) (ctl_checkpoint snapshot))) (\<lambda>checkpoint.
    tx_then (update_snapshot snapshot (\<lambda>_. True) (\<lambda>r. r\<lparr>cc_state := ''running'', cc_stage := snd stages,
        cc_revision := revision, cc_checkpoint_json := to_text checkpoint\<rparr>)) (
    tx_bind (compute_current ev who) (\<lambda>confirmed.
    finalize_confirmed ev confirmed)))))))))"

definition finalize_observed_stop :: "env \<Rightarrow> control_record \<Rightarrow> control_record action" where
  "finalize_observed_stop ev snapshot = finalize_observed ev snapshot Act_Stop None"

definition finalize_observed_restart :: "env \<Rightarrow> control_record \<Rightarrow> control_record action" where
  "finalize_observed_restart ev snapshot = finalize_observed ev snapshot Act_Restart None"

definition observed_creation_differs ::
  "control_record \<Rightarrow> builder_control_target \<Rightarrow> builder_control_target \<Rightarrow> resource_identity list \<Rightarrow>
   resource_identity list \<Rightarrow> bool" where
  "observed_creation_differs snapshot original observed volumes expected \<longleftrightarrow>
    \<not> retained_builder_volume_evidence snapshot \<or> bt_workload original \<noteq> None \<or> bt_pod original \<noteq> None
    \<or> bt_resource_binding original \<noteq> None \<or> bt_context observed \<noteq> bt_context original
    \<or> workload_kind observed \<noteq> Some Res_StatefulSet \<or> bt_pod observed = None
    \<or> (case bt_resource_binding observed of None \<Rightarrow> False | Some b \<Rightarrow> rb_service_type b \<noteq> UserappBuilder)
    \<or> bt_restart_image observed \<noteq> bt_restart_image original
    \<or> bt_restart_runtime_workspace observed \<noteq> bt_restart_runtime_workspace original
    \<or> bt_builder_startup_mode observed \<noteq> bt_builder_startup_mode original \<or> volumes \<noteq> expected"

text \<open>Reading the original mounts: a missing key and an undecodable value are different errors.\<close>

definition original_volumes :: "string \<Rightarrow> json \<Rightarrow> resource_identity list action" where
  "original_volumes missing checkpoint =
    tx_bind (tx_some (InvalidOperation missing) (json_get ''builder_volumes'' checkpoint)) (\<lambda>value.
    tx_some (Storage ''decode builder volumes'') (dec_list dec_resource_identity value))"

definition finalize_observed_creation ::
  "env \<Rightarrow> control_record \<Rightarrow> builder_control_target \<Rightarrow> resource_identity list \<Rightarrow> control_record action" where
  "finalize_observed_creation ev snapshot observed volumes =
    tx_bind (tx_some (Storage ''decode builder checkpoint'') (from_observation_checkpoint (ctl_checkpoint snapshot))) (\<lambda>original.
    tx_then (tx_lift (map_err InvalidOperation (validate_builder_control_target original))) (
    tx_then (tx_lift (map_err InvalidOperation (validate_builder_control_target observed))) (
    tx_bind (original_volumes ''Original retained volumes missing'' (ctl_checkpoint snapshot)) (\<lambda>expected.
    if observed_creation_differs snapshot original observed volumes expected
    then tx_fail (InvalidOperation ''Observed builder creation differs from original intent or retained data'') else
    finalize_observed ev snapshot Act_Restart (Some observed)))))"


section \<open>The stopped boundary of a builder restart\<close>

definition stopping_restart :: "control_record \<Rightarrow> bool" where
  "stopping_restart snapshot \<longleftrightarrow> ctl_scope snapshot = Scope_Dev \<and> ctl_action snapshot = Act_Restart
    \<and> ctl_stage snapshot = ''stopping'' \<and> active_control snapshot"

text \<open>Every confirmation compares the whole record and writes the boundary once.\<close>

definition commit_stopped ::
  "env \<Rightarrow> control_record \<Rightarrow> string \<Rightarrow> json \<Rightarrow> (control_row \<Rightarrow> control_row) \<Rightarrow> unit action" where
  "commit_stopped ev snapshot executor_id checkpoint f =
    tx_bind (next_control_revision snapshot) (\<lambda>revision.
    update_snapshot snapshot
        (\<lambda>r. cc_executor_id r = Some executor_id \<and> cc_stage r = ''stopping'' \<and> active_row r)
        (\<lambda>r. f (r\<lparr>cc_stage := ''stopped'', cc_checkpoint_json := to_text checkpoint,
          cc_revision := revision, cc_updated_at_us := ev_now ev\<rparr>)))"

definition stop_recovery ::
  "control_record \<Rightarrow> restart_stop_observation \<Rightarrow> unrebuildable_evidence option \<Rightarrow> stop_recovery_evidence" where
  "stop_recovery snapshot observation unrebuildable =
    \<lparr>sr_observation = observation, sr_original_state = ctl_state snapshot,
     sr_original_error_code = ctl_error_code snapshot, sr_original_error_message = ctl_error_message snapshot,
     sr_original_restart_template = json_get ''builder_restart_template'' (ctl_checkpoint snapshot),
     sr_unrebuildable = unrebuildable,
     sr_previous_observation = json_get builder_restart_stop_observation_key (ctl_checkpoint snapshot)\<rparr>"

definition confirm_builder_restart_stopped ::
  "env \<Rightarrow> control_record \<Rightarrow> restart_stop_observation \<Rightarrow> control_record action" where
  "confirm_builder_restart_stopped ev snapshot observation =
    tx_then (claim_app (ctl_app_id snapshot)) (
    tx_then (tx_lift (map_err InvalidOperation (validate_restart_stop_observation observation))) (
    tx_bind (control_context snapshot) (\<lambda>context.
    let who = snapshot_identity snapshot (ec_executor_id context) in
    tx_bind (tx_some VersionConflict (ctl_lease snapshot)) (\<lambda>lease.
    tx_then (tx_lift (validate_control_receipt who lease)) (
    tx_bind (tx_some (Storage ''decode builder checkpoint'') (from_observation_checkpoint (ctl_checkpoint snapshot))) (\<lambda>original.
    tx_bind (original_volumes ''Original builder mount witness missing'' (ctl_checkpoint snapshot)) (\<lambda>volumes.
    if \<not> stopping_restart snapshot \<or> \<not> docker_builder_lease lease \<or> original \<noteq> so_target observation
      \<or> bt_context original \<noteq> context \<or> volumes \<noteq> so_volumes observation
    then tx_fail (InvalidOperation ''Invalid original Docker Restart stop observation'') else
    tx_then (require_control ev who snapshot) (
    tx_then (drained ev snapshot) (
    tx_bind (next_control_revision snapshot) (\<lambda>_.
    tx_bind (object_insert ''Builder checkpoint must be an object'' builder_restart_stop_observation_key
        (enc_stop_recovery_evidence (stop_recovery snapshot observation None)) (ctl_checkpoint snapshot)) (\<lambda>checkpoint.
    tx_then (commit_stopped ev snapshot (ec_executor_id context) checkpoint id) (
    compute_current ev who))))))))))))"

definition confirm_kubernetes_restart_stopped ::
  "env \<Rightarrow> control_record \<Rightarrow> kubernetes_stop_evidence \<Rightarrow> control_record action" where
  "confirm_kubernetes_restart_stopped ev snapshot evidence =
    tx_then (claim_app (ctl_app_id snapshot)) (
    tx_bind (control_context snapshot) (\<lambda>context.
    let who = snapshot_identity snapshot (ec_executor_id context) in
    tx_bind (tx_some VersionConflict (ctl_lease snapshot)) (\<lambda>lease.
    tx_then (tx_lift (validate_control_receipt who lease)) (
    tx_bind (tx_some (Storage ''decode builder checkpoint'') (from_observation_checkpoint (ctl_checkpoint snapshot))) (\<lambda>original.
    if \<not> stopping_restart snapshot \<or> \<not> kubernetes_lease lease
      \<or> workload_kind original \<noteq> Some Res_StatefulSet \<or> bt_context original \<noteq> context
    then tx_fail (InvalidOperation ''Invalid original Kubernetes Restart stop confirmation'') else
    tx_then (require_control ev who snapshot) (
    tx_then (drained ev snapshot) (
    tx_bind (next_control_revision snapshot) (\<lambda>_.
    tx_bind (object_insert ''Builder checkpoint must be an object'' kubernetes_restart_stop_confirmation_key
        (enc_kubernetes_stop_confirmation
          \<lparr>ks_evidence = evidence, ks_original_state = ctl_state snapshot,
           ks_original_error_code = ctl_error_code snapshot,
           ks_original_error_message = ctl_error_message snapshot,
           ks_previous_confirmation = json_get kubernetes_restart_stop_confirmation_key (ctl_checkpoint snapshot)\<rparr>)
        (ctl_checkpoint snapshot)) (\<lambda>checkpoint.
    tx_then (commit_stopped ev snapshot (ec_executor_id context) checkpoint id) (
    compute_current ev who))))))))))"

definition template_bound ::
  "builder_restart_template \<Rightarrow> builder_control_target \<Rightarrow> resource_identity list \<Rightarrow> bool" where
  "template_bound template source volumes \<longleftrightarrow>
    br_source template = source \<and> br_volumes template = volumes \<and> ri_kind (br_archive template) = Res_File
    \<and> ri_name (br_archive template) \<noteq> [] \<and> ri_uid (br_archive template) \<noteq> []"

definition classify_unrebuildable ::
  "builder_control_target \<Rightarrow> resource_identity list \<Rightarrow> json option \<Rightarrow> archive_unavailable option \<Rightarrow>
   string + unrebuildable_reason" where
  "classify_unrebuildable original volumes reference unavailable =
    (case reference of
       None \<Rightarrow>
         if unavailable = None then Inr MissingArchive
         else Inl ''Unavailable recipe witness has no original reference''
     | Some value \<Rightarrow>
         (case dec_builder_restart_template value of
            None \<Rightarrow>
              if unavailable = None then Inr UnreadableArchive
              else Inl ''Unavailable recipe witness cannot replace an unreadable reference''
          | Some template \<Rightarrow>
              if \<not> template_bound template original volumes
              then (if unavailable \<noteq> None
                    then Inl ''An unbound historical recipe cannot borrow a runtime witness''
                    else Inr UnreadableArchive)
              else
                try_r (ok_or ''A readable recipe needs positive runtime unavailability'' unavailable) (\<lambda>witness.
                if au_template witness \<noteq> template
                   \<or> enc_builder_restart_template (au_template witness) \<noteq> value
                   \<or> \<not> template_bound (au_template witness) original volumes
                then Inl ''Unavailable recipe witness differs from the original private archive''
                else Inr ArchiveUnavailable)))"

definition fail_unrebuildable_builder_restart ::
  "env \<Rightarrow> control_record \<Rightarrow> restart_stop_observation \<Rightarrow> archive_unavailable option \<Rightarrow> control_record action" where
  "fail_unrebuildable_builder_restart ev snapshot observation unavailable =
    tx_then (claim_app (ctl_app_id snapshot)) (
    tx_then (tx_lift (map_err InvalidOperation (validate_restart_stop_observation observation))) (
    tx_bind (control_context snapshot) (\<lambda>context.
    let who = snapshot_identity snapshot (ec_executor_id context) in
    tx_bind (tx_some VersionConflict (ctl_lease snapshot)) (\<lambda>lease.
    tx_then (tx_lift (validate_control_receipt who lease)) (
    tx_bind (tx_some (Storage ''decode builder checkpoint'') (from_observation_checkpoint (ctl_checkpoint snapshot))) (\<lambda>original.
    tx_bind (original_volumes ''Original builder mounts missing'' (ctl_checkpoint snapshot)) (\<lambda>volumes.
    if \<not> stopping_restart snapshot \<or> \<not> docker_builder_lease lease
      \<or> so_kind observation \<noteq> CapturedContainerAbsent \<or> original \<noteq> so_target observation
      \<or> bt_context original \<noteq> context \<or> volumes \<noteq> so_volumes observation
    then tx_fail (InvalidOperation ''Unrebuildable restart requires original pre-start Docker Container absence'') else
    tx_bind (tx_lift (map_err InvalidOperation (classify_unrebuildable original volumes
        (json_get ''builder_restart_template'' (ctl_checkpoint snapshot)) unavailable))) (\<lambda>reason.
    tx_then (require_control ev who snapshot) (
    tx_then (drained ev snapshot) (
    tx_bind (tx_some panicked (json_set builder_restart_stop_observation_key
        (enc_stop_recovery_evidence (stop_recovery snapshot observation
          (Some \<lparr>ue_reason = reason, ue_observation = observation, ue_archive_unavailable = unavailable\<rparr>)))
        (ctl_checkpoint snapshot))) (\<lambda>checkpoint.
    tx_then (commit_stopped ev snapshot (ec_executor_id context) checkpoint
        (\<lambda>r. r\<lparr>cc_state := ''failed'', cc_terminal_at_us := Some (ev_now ev)\<rparr>)) (
    reread_control ev (ctl_app_id snapshot) (ctl_operation_id snapshot)))))))))))))"


section \<open>Continuing a stopped restart\<close>

definition restored_application :: "control_record \<Rightarrow> mutation_target \<Rightarrow> mutation_target \<Rightarrow> bool" where
  "restored_application snapshot old target \<longleftrightarrow>
    ctl_stage snapshot = ''stopped'' \<and> ri_uid (mt_resource old) \<noteq> ri_uid (mt_resource target)
    \<and> (case ri_kind (mt_resource old) of
         Res_Deployment \<Rightarrow>
           (case Option.bind (json_get ''app_restart_template'' (ctl_checkpoint snapshot)) dec_app_restart_template of
              None \<Rightarrow> False
            | Some template \<Rightarrow> ap_source template = old \<and> ri_kind (ap_archive template) = Res_Secret
                \<and> ri_uid (ap_archive template) \<noteq> [])
       | Res_Container \<Rightarrow>
           (case dec_compute_start_target (ctl_checkpoint snapshot) of
              None \<Rightarrow> False
            | Some captured \<Rightarrow> ct_volumes captured \<noteq> [] \<and> nonempty_opt (ct_restart_image captured))
       | _ \<Rightarrow> False)"

definition continue_start :: "control_record \<Rightarrow> int \<Rightarrow> json \<Rightarrow> unit action" where
  "continue_start snapshot revision checkpoint =
    update_snapshot snapshot (\<lambda>_. True) (\<lambda>r. r\<lparr>cc_state := ''running'', cc_stage := ''starting'',
      cc_checkpoint_json := to_text checkpoint, cc_error_code := None, cc_error_message := None,
      cc_revision := revision\<rparr>)"

definition resume_stopped_restart :: "env \<Rightarrow> control_record \<Rightarrow> mutation_target \<Rightarrow> control_record action" where
  "resume_stopped_restart ev snapshot target =
    tx_then (claim_app (ctl_app_id snapshot)) (
    tx_bind (control_context snapshot) (\<lambda>context.
    tx_bind (tx_some (Storage ''decode restart target'') (dec_mutation_target (ctl_checkpoint snapshot))) (\<lambda>old.
    if ctl_action snapshot \<noteq> Act_Restart \<or> ctl_scope snapshot \<noteq> Scope_Prod
      \<or> ctl_stage snapshot \<notin> {''stopped'', ''starting''} \<or> ctl_lease snapshot = None
      \<or> \<not> active_control snapshot \<or> mt_context old \<noteq> context \<or> mt_context target \<noteq> context
      \<or> \<not> (ri_kind (mt_resource target) = Res_Deployment
           \<or> (ctl_stage snapshot = ''stopped'' \<and> ri_kind (mt_resource target) = Res_Container))
      \<or> ri_kind (mt_resource old) \<noteq> ri_kind (mt_resource target) \<or> ri_uid (mt_resource target) = []
      \<or> (ri_uid (mt_resource old) \<noteq> ri_uid (mt_resource target) \<and> \<not> restored_application snapshot old target)
      \<or> ri_name (mt_resource old) \<noteq> ri_name (mt_resource target)
    then tx_fail (InvalidOperation ''Invalid restart continuation target'') else
    tx_then ((if ctl_stage snapshot = ''starting'' then
      tx_bind (tx_some (Storage ''decode start target'') (dec_compute_start_target (ctl_checkpoint snapshot))) (\<lambda>captured.
      tx_require (ct_compute_start_single_write captured \<and> ct_volumes captured \<noteq> [])
             (InvalidOperation ''Restart retry requires the original single-write volume witness''))
       else tx_return ())) (
    let who = snapshot_identity snapshot (ec_executor_id context) in
    tx_then (require_control ev who snapshot) (
    tx_bind (next_control_revision snapshot) (\<lambda>revision.
    tx_bind (tx_some panicked (json_set ''resource'' (enc_resource_identity (mt_resource target)) (ctl_checkpoint snapshot))) (\<lambda>checkpoint.
    tx_then (continue_start snapshot revision checkpoint) (
    compute_current ev who))))))))"

definition capture_witness_invalid ::
  "control_record \<Rightarrow> execution_context \<Rightarrow> builder_control_target \<Rightarrow> builder_control_target \<Rightarrow>
   resource_identity \<Rightarrow> resource_identity \<Rightarrow> resource_identity list \<Rightarrow> builder_restart_template \<Rightarrow> bool" where
  "capture_witness_invalid snapshot context original source old current volumes template \<longleftrightarrow>
    ctl_scope snapshot \<noteq> Scope_Dev \<or> ctl_action snapshot \<noteq> Act_Restart \<or> ctl_stage snapshot \<noteq> ''stopped''
    \<or> \<not> active_control snapshot \<or> ctl_lease snapshot = None \<or> ri_kind old \<noteq> Res_Container
    \<or> ri_kind old \<noteq> ri_kind current \<or> ri_uid old \<noteq> ri_uid current \<or> ri_name old \<noteq> ri_name current
    \<or> bt_context original \<noteq> context \<or> bt_context source \<noteq> context
    \<or> bt_resource_binding original \<noteq> bt_resource_binding source
    \<or> bt_restart_image original \<noteq> bt_restart_image source
    \<or> bt_restart_runtime_workspace original \<noteq> bt_restart_runtime_workspace source
    \<or> bt_builder_startup_mode original \<noteq> bt_builder_startup_mode source \<or> bt_pod source \<noteq> None
    \<or> volumes = [] \<or> \<not> template_bound template source volumes"

definition push_history :: "json \<Rightarrow> json action" where
  "push_history checkpoint =
    (if \<not> is_object checkpoint
    then tx_fail (InvalidOperation ''Builder checkpoint must be an object'') else
    let prior = json_get ''builder_restart_template'' checkpoint in
    tx_bind ((case json_get ''builder_restart_template_history'' checkpoint of
        None \<Rightarrow> tx_return []
      | Some (JArr items) \<Rightarrow> tx_return items
      | Some _ \<Rightarrow> tx_fail (InvalidOperation ''Builder restart reference history must be an array''))) (\<lambda>history.
    tx_some panicked (json_set ''builder_restart_template_history''
        (JArr (history @ [JObj [(''value'', enc_opt id prior), (''was_present'', JBool (prior \<noteq> None))] ])) checkpoint)))"

definition capture_stopped_builder_template ::
  "env \<Rightarrow> control_record \<Rightarrow> builder_control_target \<Rightarrow> builder_restart_template \<Rightarrow> control_record action" where
  "capture_stopped_builder_template ev snapshot source template =
    tx_then (claim_app (ctl_app_id snapshot)) (
    tx_bind (control_context snapshot) (\<lambda>context.
    tx_bind (tx_some (Storage ''decode builder checkpoint'') (dec_builder_control_target (ctl_checkpoint snapshot))) (\<lambda>original.
    tx_then (tx_lift (map_err InvalidOperation (validate_builder_control_target original))) (
    tx_then (tx_lift (map_err InvalidOperation (validate_builder_control_target source))) (
    tx_bind (tx_some (InvalidOperation ''Original retained builder missing'') (bt_workload original)) (\<lambda>old.
    tx_bind (tx_some (InvalidOperation ''Retained builder source missing'') (bt_workload source)) (\<lambda>current.
    tx_bind (original_volumes ''Original builder volume witness missing'' (ctl_checkpoint snapshot)) (\<lambda>volumes.
    if capture_witness_invalid snapshot context original source old current volumes template
    then tx_fail (InvalidOperation ''Invalid stopped builder archive capture witness'') else
    let who = snapshot_identity snapshot (ec_executor_id context) in
    tx_then (require_control ev who snapshot) (
    tx_then (drained ev snapshot) (
    tx_bind (next_control_revision snapshot) (\<lambda>revision.
    tx_bind (push_history (ctl_checkpoint snapshot)) (\<lambda>with_history.
    tx_bind (tx_some panicked (set_all
        ((''builder_restart_template'', enc_builder_restart_template template)
          # object_entries (enc_builder_control_target source)) with_history)) (\<lambda>checkpoint.
    tx_then (update_snapshot snapshot (\<lambda>_. True) (\<lambda>r. r\<lparr>cc_checkpoint_json := to_text checkpoint,
        cc_revision := revision, cc_updated_at_us := ev_now ev\<rparr>)) (
    compute_current ev who))))))))))))))"

definition restored_builder ::
  "control_record \<Rightarrow> builder_control_target \<Rightarrow> builder_control_target \<Rightarrow> resource_identity \<Rightarrow>
   resource_identity \<Rightarrow> store_error + bool" where
  "restored_builder snapshot old target original workload =
    (if ctl_stage snapshot = ''stopped'' \<and> ri_uid original \<noteq> ri_uid workload
     then
       try_r (ok_or (InvalidOperation ''Restart template missing'')
         (json_get ''builder_restart_template'' (ctl_checkpoint snapshot))) (\<lambda>value.
       try_r (ok_or (Storage ''decode restart template'') (dec_builder_restart_template value)) (\<lambda>template.
       Inr (br_source template = old
         \<and> (ri_kind original, ri_kind (br_archive template))
             \<in> {(Res_StatefulSet, Res_Secret), (Res_Container, Res_File)}
         \<and> ri_uid (br_archive template) \<noteq> [] \<and> br_volumes template \<noteq> [] \<and> bt_resource_binding target = None)))
     else Inr False)"

definition same_physical_intent ::
  "control_record \<Rightarrow> builder_control_target \<Rightarrow> builder_control_target \<Rightarrow> store_error + bool" where
  "same_physical_intent snapshot old target =
    (case (bt_workload old, bt_workload target) of
       (Some original, Some workload) \<Rightarrow>
         try_r (restored_builder snapshot old target original workload) (\<lambda>restored.
         Inr ((ri_kind workload = Res_StatefulSet
                \<or> (ctl_stage snapshot = ''stopped'' \<and> ri_kind workload = Res_Container))
           \<and> ri_kind original = ri_kind workload
           \<and> (ri_uid original = ri_uid workload \<or> restored)
           \<and> ri_name original = ri_name workload
           \<and> (bt_resource_binding old = bt_resource_binding target \<or> restored)))
     | (None, None) \<Rightarrow> Inr (retained_builder_creation snapshot \<and> bt_resource_binding target = None)
     | (Some _, None) \<Rightarrow> Inr (stopped_builder_absence snapshot target)
     | (None, Some _) \<Rightarrow> Inr False)"

definition continuation_invalid ::
  "control_record \<Rightarrow> execution_context \<Rightarrow> builder_control_target \<Rightarrow> builder_control_target \<Rightarrow> bool \<Rightarrow> bool" where
  "continuation_invalid snapshot context old target same_intent \<longleftrightarrow>
    ctl_action snapshot \<noteq> Act_Restart \<or> ctl_scope snapshot \<noteq> Scope_Dev
    \<or> \<not> (ctl_stage snapshot = ''stopped''
         \<or> (ctl_stage snapshot = ''starting''
            \<and> (has_conditional_compute_write snapshot \<or> (bt_workload old = None \<and> bt_workload target = None))))
    \<or> ctl_lease snapshot = None \<or> \<not> active_control snapshot
    \<or> bt_context old \<noteq> context \<or> bt_context target \<noteq> context \<or> \<not> same_intent
    \<or> bt_restart_image target \<noteq> bt_restart_image old
    \<or> (bt_restart_runtime_workspace target \<noteq> bt_restart_runtime_workspace old
       \<and> \<not> stopped_builder_absence snapshot target)
    \<or> bt_builder_startup_mode target \<noteq> bt_builder_startup_mode old \<or> bt_pod target \<noteq> None"

text \<open>The keys a continuation keeps of the old checkpoint.\<close>

definition continued_keys :: "string list" where
  "continued_keys = [''builder_volumes'', ''builder_restart_template'', ''builder_restart_template_history'',
     ''builder_startup_mode'', builder_restart_stop_observation_key, kubernetes_restart_stop_confirmation_key]"

definition continued_entries :: "control_record \<Rightarrow> builder_control_target \<Rightarrow> (string \<times> json) list" where
  "continued_entries snapshot target =
    (if bt_workload target \<noteq> None \<and> has_conditional_compute_write snapshot
     then [(''builder_compute_single_write'', JBool True)] else [])
    @ List.map_filter (\<lambda>key. map_option (Pair key) (json_get key (ctl_checkpoint snapshot))) continued_keys"

definition resume_builder_restart ::
  "env \<Rightarrow> control_record \<Rightarrow> builder_control_target \<Rightarrow> control_record action" where
  "resume_builder_restart ev snapshot target =
    tx_then (claim_app (ctl_app_id snapshot)) (
    tx_bind (control_context snapshot) (\<lambda>context.
    tx_bind (tx_some (Storage ''decode builder checkpoint'') (dec_builder_control_target (ctl_checkpoint snapshot))) (\<lambda>old.
    tx_then (tx_lift (map_err InvalidOperation (validate_builder_control_target old))) (
    tx_then (tx_lift (map_err InvalidOperation (validate_builder_control_target target))) (
    tx_bind (tx_lift (same_physical_intent snapshot old target)) (\<lambda>same_intent.
    if continuation_invalid snapshot context old target same_intent
    then tx_fail (InvalidOperation ''Invalid stopped builder continuation witness'') else
    let who = snapshot_identity snapshot (ec_executor_id context) in
    tx_then (require_control ev who snapshot) (
    tx_bind (next_control_revision snapshot) (\<lambda>revision.
    tx_bind (tx_some panicked (set_all (continued_entries snapshot target) (enc_builder_control_target target))) (\<lambda>checkpoint.
    tx_then (continue_start snapshot revision checkpoint) (
    compute_current ev who))))))))))"

definition mark_archive_cleaned :: "env \<Rightarrow> control_record \<Rightarrow> unit action" where
  "mark_archive_cleaned ev snapshot =
    tx_bind (reread_control ev (ctl_app_id snapshot) (ctl_operation_id snapshot)) (\<lambda>record.
    if record \<noteq> snapshot \<or> ctl_state record \<noteq> Ctl_Succeeded \<or> ctl_lease record \<noteq> None
      \<or> json_get ''builder_restart_template'' (ctl_checkpoint record) = None
    then tx_fail VersionConflict else
    tx_bind (tx_some panicked (json_set ''builder_restart_archive_cleaned'' (JBool True) (ctl_checkpoint record))) (\<lambda>checkpoint.
    update_snapshot record (\<lambda>r. cc_state r = ''succeeded'' \<and> cc_lease_json r = None)
        (\<lambda>r. r\<lparr>cc_checkpoint_json := to_text checkpoint, cc_revision := cc_revision r + 1,
          cc_updated_at_us := ev_now ev\<rparr>)))"

end
