(* ===== verification/Compute_Recovery.thy ===== *)
theory Compute_Recovery
  imports Compute_Execution
begin

text \<open>
  Recovering a compute control in its early phase and settling one past its total deadline
  (\<open>userapp_lifecycle/common/compute_recovery.rs\<close>).  The deadline row carries the anchor of
  the quiet window: the first observation that the physical mutex stopped being renewed.
\<close>


section \<open>The early handoff\<close>

definition early_current :: "env \<Rightarrow> control_record \<Rightarrow> control_record action" where
  "early_current ev snapshot =
    tx_then (claim_app (ctl_app_id snapshot)) (
    tx_bind (tx_some VersionConflict (ctl_executor_id snapshot)) (\<lambda>executor_id.
    tx_bind (compute_current ev (snapshot_identity snapshot executor_id)) (\<lambda>actual.
    if actual \<noteq> snapshot \<or> \<not> can_recover_compute_drain actual
    then tx_fail VersionConflict else
    tx_return actual)))"

definition reread_snapshot :: "env \<Rightarrow> control_record \<Rightarrow> control_record action" where
  "reread_snapshot ev snapshot = reread_control ev (ctl_app_id snapshot) (ctl_operation_id snapshot)"

definition reserve_control :: "env \<Rightarrow> control_record \<Rightarrow> control_record action" where
  "reserve_control ev snapshot =
    tx_bind (early_current ev snapshot) (\<lambda>actual.
    tx_then (update_snapshot snapshot
        (\<lambda>r. cc_state r = (if ctl_state actual = Ctl_Running then ''running'' else ''recovery_required'')
          \<and> cc_executor_id r = ctl_executor_id snapshot)
        (\<lambda>r. r\<lparr>cc_state := ''recovery_required'', cc_error_code := Some ''COMPUTE_RECOVERING'',
          cc_error_message := Some ''Continuing original compute operation after early execution handoff'',
          cc_revision := cc_revision r + 1, cc_updated_at_us := ev_now ev\<rparr>)) (
    reread_snapshot ev snapshot))"

fun receipt_token :: "lease_receipt \<Rightarrow> string" where
  "receipt_token (DockerLease _ _ _ token) = token"
| "receipt_token (KubernetesLease _ _ _ _ _ token) = token"

definition capture_recovered_lease ::
  "env \<Rightarrow> control_record \<Rightarrow> lease_receipt \<Rightarrow> execution_context \<Rightarrow> control_record action" where
  "capture_recovered_lease ev snapshot receipt attempt =
    tx_then (tx_lift (map_err InvalidOperation (validate_identity attempt (ctl_app_id snapshot)))) (
    tx_bind (early_current ev snapshot) (\<lambda>actual.
    if ctl_state actual \<noteq> Ctl_RecoveryRequired
    then tx_fail VersionConflict else
    tx_then (tx_lift (map_err InvalidOperation (validate_receipt receipt))) (
    tx_bind (tx_lift (map_err InvalidOperation (compute_lease_family (ctl_scope snapshot)))) (\<lambda>family.
    if receipt_service_type receipt \<noteq> family \<or> ec_lifecycle_id attempt \<noteq> ctl_lifecycle_id snapshot
      \<or> ec_operation_id attempt \<noteq> ctl_operation_id snapshot
      \<or> ec_request_fingerprint attempt \<noteq> ctl_request_fingerprint snapshot
      \<or> ec_executor_id attempt \<noteq> receipt_token receipt
    then tx_fail (InvalidOperation ''Recovered compute lease belongs to another attempt'') else
    (case ctl_lease actual of
        Some previous \<Rightarrow> if previous = receipt then tx_return actual else tx_fail VersionConflict
      | None \<Rightarrow>
        tx_then (update_snapshot snapshot (\<lambda>r. cc_state r = ''recovery_required'' \<and> cc_lease_json r = None)
              (\<lambda>r. r\<lparr>cc_lease_json := Some (to_text (enc_lease_receipt receipt)),
                cc_revision := cc_revision r + 1, cc_updated_at_us := ev_now ev\<rparr>)) (
        reread_snapshot ev snapshot))))))"

definition resume_control ::
  "env \<Rightarrow> control_record \<Rightarrow> lease_receipt option \<Rightarrow> control_record action" where
  "resume_control ev snapshot released =
    tx_bind (early_current ev snapshot) (\<lambda>actual.
    if ctl_state actual \<noteq> Ctl_RecoveryRequired \<or> ctl_lease actual \<noteq> released
    then tx_fail VersionConflict else
    tx_then (drained ev actual) (
    tx_then (update_snapshot snapshot (\<lambda>r. cc_state r = ''recovery_required'')
        (\<lambda>r. r\<lparr>cc_state := ''pending'', cc_executor_id := None, cc_lease_json := None,
          cc_stage := ''accepted'', cc_error_code := None, cc_error_message := None,
          cc_revision := cc_revision r + 1, cc_updated_at_us := ev_now ev\<rparr>)) (
    reread_snapshot ev snapshot)))"

definition record_control_problem ::
  "env \<Rightarrow> control_record \<Rightarrow> string \<Rightarrow> string \<Rightarrow> control_record action" where
  "record_control_problem ev snapshot code message =
    tx_bind (early_current ev snapshot) (\<lambda>actual.
    if ctl_state actual \<noteq> Ctl_RecoveryRequired
    then tx_fail VersionConflict else
    (if ctl_error_code actual = Some code \<and> ctl_error_message actual = Some message
       then tx_return actual
       else
         tx_then (update_snapshot snapshot (\<lambda>r. cc_state r = ''recovery_required'')
            (\<lambda>r. r\<lparr>cc_error_code := Some code, cc_error_message := Some message,
              cc_revision := cc_revision r + 1, cc_updated_at_us := ev_now ev\<rparr>)) (
         reread_snapshot ev snapshot)))"

definition settle_failed ::
  "env \<Rightarrow> control_record \<Rightarrow> (control_row \<Rightarrow> bool) \<Rightarrow> string \<Rightarrow> string \<Rightarrow> control_record action" where
  "settle_failed ev snapshot p code message =
    tx_then (update_snapshot snapshot p
        (\<lambda>r. r\<lparr>cc_state := ''failed'', cc_error_code := Some code, cc_error_message := Some message,
          cc_revision := cc_revision r + 1, cc_updated_at_us := ev_now ev,
          cc_terminal_at_us := Some (ev_now ev)\<rparr>)) (
    reread_snapshot ev snapshot)"

definition fail_unrecoverable ::
  "env \<Rightarrow> control_record \<Rightarrow> string \<Rightarrow> string \<Rightarrow> control_record action" where
  "fail_unrecoverable ev snapshot code message =
    tx_bind (early_current ev snapshot) (\<lambda>actual.
    if ctl_is_terminal (ctl_state actual)
    then tx_fail VersionConflict else
    settle_failed ev snapshot (\<lambda>r. cc_state r = ''recovery_required'') code message)"


section \<open>The total deadline\<close>

definition find_control_deadline :: "string \<Rightarrow> control_deadline_row option action" where
  "find_control_deadline operation_id =
    tx_read (\<lambda>st. lookup kd_operation_id (st_control_deadlines st) operation_id)"

definition insert_control_deadline :: "control_deadline_row \<Rightarrow> unit action" where
  "insert_control_deadline row = insert_row st_control_deadlines_update
    (\<lambda>st. 0 < kd_deadline_ms row
       \<and> lookup kd_operation_id (st_control_deadlines st) (kd_operation_id row) = None
       \<and> lookup cc_operation_id (st_controls st) (kd_operation_id row) \<noteq> None) row"

definition or_recover :: "'a action \<Rightarrow> (store_error \<Rightarrow> 'a action) \<Rightarrow> 'a action" where
  "or_recover m h = (\<lambda>st. case m st of Inl e \<Rightarrow> h e st | Inr r \<Rightarrow> Inr r)"

text \<open>A failed insert is read again: the row of another replica stands when it names the same
  control.\<close>

definition concurrent_deadline :: "control_record \<Rightarrow> store_error \<Rightarrow> int action" where
  "concurrent_deadline snapshot e =
    tx_bind (find_control_deadline (ctl_operation_id snapshot)) (\<lambda>found.
    (case found of
        None \<Rightarrow> tx_fail e
      | Some row \<Rightarrow>
          if kd_app_id row = ctl_app_id snapshot \<and> kd_lifecycle_id row = ctl_lifecycle_id snapshot
          then tx_return (kd_deadline_ms row) else tx_fail e))"

definition bind_control_deadline :: "env \<Rightarrow> control_record \<Rightarrow> int \<Rightarrow> int action" where
  "bind_control_deadline ev snapshot deadline_epoch_ms =
    (if deadline_epoch_ms \<le> 0
    then tx_fail (InvalidOperation ''Compute control deadline must be positive'') else
    tx_then (claim_app (ctl_app_id snapshot)) (
    tx_bind (find_control_deadline (ctl_operation_id snapshot)) (\<lambda>found.
    (case found of
        Some row \<Rightarrow>
          if kd_app_id row \<noteq> ctl_app_id snapshot \<or> kd_lifecycle_id row \<noteq> ctl_lifecycle_id snapshot
          then tx_fail LifecycleConflict else tx_return (kd_deadline_ms row)
      | None \<Rightarrow>
        tx_bind (reread_snapshot ev snapshot) (\<lambda>actual.
        if ctl_lifecycle_id actual \<noteq> ctl_lifecycle_id snapshot \<or> ctl_generation actual \<noteq> ctl_generation snapshot
            \<or> ctl_scope actual \<noteq> ctl_scope snapshot \<or> ctl_is_terminal (ctl_state actual)
        then tx_fail VersionConflict else
        or_recover
              (tx_then (insert_control_deadline
                  \<lparr>kd_operation_id = ctl_operation_id snapshot, kd_app_id = ctl_app_id snapshot,
                   kd_lifecycle_id = ctl_lifecycle_id snapshot, kd_deadline_ms = deadline_epoch_ms,
                   kd_unheld_observed_ms = None\<rparr>)
                (tx_return deadline_epoch_ms))
              (concurrent_deadline snapshot))))))"

definition read_control_deadline :: "string \<Rightarrow> string \<Rightarrow> int option action" where
  "read_control_deadline app_id operation_id =
    tx_bind (find_control_deadline operation_id) (\<lambda>found.
    tx_return (case found of
        None \<Rightarrow> None
      | Some row \<Rightarrow> if kd_app_id row = app_id then Some (kd_deadline_ms row) else None))"

text \<open>The value-preserving update that locks the anchor row.\<close>

definition verify_anchor :: "string \<Rightarrow> int \<Rightarrow> unit action" where
  "verify_anchor operation_id expected =
    update_one st_control_deadlines st_control_deadlines_update
      (\<lambda>r. kd_operation_id r = operation_id \<and> kd_unheld_observed_ms r = Some expected) id
      (\<lambda>_ _. True) VersionConflict"

definition expire_control ::
  "env \<Rightarrow> control_record \<Rightarrow> string \<Rightarrow> string \<Rightarrow> int \<Rightarrow> control_record action" where
  "expire_control ev snapshot code message expected_unheld_observed_ms =
    tx_then (claim_app (ctl_app_id snapshot)) (
    tx_bind (reread_snapshot ev snapshot) (\<lambda>actual.
    if actual \<noteq> snapshot \<or> ctl_is_terminal (ctl_state actual)
    then tx_fail VersionConflict else
    tx_bind (read_control_deadline (ctl_app_id snapshot) (ctl_operation_id snapshot)) (\<lambda>deadline.
    if (case deadline of None \<Rightarrow> True | Some ms \<Rightarrow> ms > now_ms ev)
    then tx_fail (InvalidOperation ''Compute control deadline has not expired'') else
    tx_then (verify_anchor (ctl_operation_id snapshot) expected_unheld_observed_ms) (
    settle_failed ev snapshot active_row code message))))"

definition unanchored :: "string \<Rightarrow> control_deadline_row \<Rightarrow> bool" where
  "unanchored operation_id r \<longleftrightarrow> kd_operation_id r = operation_id \<and> kd_unheld_observed_ms r = None"

definition mark_unheld :: "env \<Rightarrow> control_record \<Rightarrow> int \<Rightarrow> int action" where
  "mark_unheld ev snapshot observed_ms =
    tx_bind (find_control_deadline (ctl_operation_id snapshot)) (\<lambda>found.
    tx_bind (tx_some (InvalidOperation ''Unheld observation requires a bound compute control deadline'') found) (\<lambda>row.
    if kd_app_id row \<noteq> ctl_app_id snapshot \<or> kd_lifecycle_id row \<noteq> ctl_lifecycle_id snapshot
    then tx_fail LifecycleConflict else
    (case kd_unheld_observed_ms row of
        Some anchor \<Rightarrow> tx_return anchor
      | None \<Rightarrow>
        tx_bind (reread_snapshot ev snapshot) (\<lambda>actual.
        if actual \<noteq> snapshot \<or> ctl_is_terminal (ctl_state actual)
        then tx_fail VersionConflict else
        tx_bind (tx_read (\<lambda>st. count_where (unanchored (ctl_operation_id snapshot)) (st_control_deadlines st))) (\<lambda>changed.
        tx_then (tx_modify (st_control_deadlines_update (update_where (unanchored (ctl_operation_id snapshot))
              (\<lambda>r. r\<lparr>kd_unheld_observed_ms := Some observed_ms\<rparr>)))) (
        (if changed = 1 then tx_return observed_ms
             else
               tx_bind (find_control_deadline (ctl_operation_id snapshot)) (\<lambda>again.
               tx_bind (tx_some NotFound again) (\<lambda>current.
               tx_some VersionConflict (kd_unheld_observed_ms current))))))))))"

definition clear_unheld :: "control_record \<Rightarrow> unit action" where
  "clear_unheld snapshot =
    tx_modify (st_control_deadlines_update (update_where
      (\<lambda>r. kd_operation_id r = ctl_operation_id snapshot \<and> kd_unheld_observed_ms r \<noteq> None)
      (\<lambda>r. r\<lparr>kd_unheld_observed_ms := None\<rparr>)))"

end
