(* ===== verification/Table_Laws.thy ===== *)
theory Table_Laws
  imports Repo
begin

text \<open>
  Laws of keyed pages: a page is a prefix of the rows beyond the cursor in key order, the rows
  beyond its last key are the rest, and every full page shrinks what is left.
\<close>

section \<open>Pages\<close>

definition beyond :: "('r \<Rightarrow> string) \<Rightarrow> ('r \<Rightarrow> bool) \<Rightarrow> string option \<Rightarrow> 'r list \<Rightarrow> 'r list" where
  "beyond key p after rows =
    sort_key key (filter (\<lambda>r. p r \<and> (case after of None \<Rightarrow> [] | Some a \<Rightarrow> a) < key r) rows)"

lemma page_beyond: "page key p after n rows = take n (beyond key p after rows)"
  by (simp add: page_def beyond_def)

lemma set_beyond:
  "set (beyond key p after rows) =
    {r \<in> set rows. p r \<and> (case after of None \<Rightarrow> [] | Some a \<Rightarrow> a) < key r}"
  by (simp add: beyond_def)

lemma length_beyond:
  "length (beyond key p after rows) =
    length (filter (\<lambda>r. p r \<and> (case after of None \<Rightarrow> [] | Some a \<Rightarrow> a) < key r) rows)"
  by (simp add: beyond_def)

lemma beyond_sorted: "sorted (map key (beyond key p after rows))"
  by (simp add: beyond_def)

lemma filter_above_shrinks:
  fixes key :: "'r \<Rightarrow> 'k :: linorder"
  assumes "l \<in> set xs" "p l" "a < key l"
  shows "length (filter (\<lambda>r. p r \<and> key l < key r) xs) < length (filter (\<lambda>r. p r \<and> a < key r) xs)"
  using assms(1)
proof (induction xs)
  case (Cons r xs)
  have le: "length (filter (\<lambda>r. p r \<and> key l < key r) ys) \<le> length (filter (\<lambda>r. p r \<and> a < key r) ys)" for ys
    using assms(3) by (induction ys) auto
  show ?case
  proof (cases "r = l")
    case True
    then show ?thesis using assms(2,3) le [of xs] by simp
  next
    case False
    then show ?thesis using Cons assms(3) by auto
  qed
qed simp

text \<open>No later page returns a row twice and the loop that follows full pages ends.\<close>

lemma page_shrinks:
  assumes "page key p after n rows \<noteq> []"
  shows "length (beyond key p (Some (key (last (page key p after n rows)))) rows)
    < length (beyond key p after rows)"
proof -
  let ?l = "last (page key p after n rows)"
  have "?l \<in> set (beyond key p after rows)"
    using last_in_set [OF assms] by (auto simp: page_beyond dest: in_set_takeD)
  then show ?thesis
    using filter_above_shrinks [of ?l rows p _ key] by (simp add: length_beyond set_beyond)
qed

text \<open>On a keyed table the pages concatenate to all rows beyond the cursor.\<close>

lemma beyond_keys_distinct: "unique_keys key rows \<Longrightarrow> distinct (map key (beyond key p after rows))"
  by (simp add: beyond_def unique_keys_def distinct_map inj_on_def)

lemma drop_sorted:
  fixes key :: "'r \<Rightarrow> 'k :: linorder"
  assumes "sorted_wrt (<) (map key xs)" "0 < n" "n \<le> length xs"
  shows "drop n xs = filter (\<lambda>r. key (last (take n xs)) < key r) xs"
proof -
  have s: "sorted_wrt (\<lambda>a b. key a < key b) (take n xs @ drop n xs)"
    using assms(1) by (simp add: sorted_wrt_map)
  have ne: "take n xs \<noteq> []"
    using assms(2,3) by auto
  have "filter (\<lambda>r. key (last (take n xs)) < key r) (take n xs) = []"
  proof (rule ccontr)
    assume "\<not> ?thesis"
    then obtain r where r: "r \<in> set (take n xs)" "key (last (take n xs)) < key r"
      by (auto simp: filter_empty_conv)
    have "sorted_wrt (\<lambda>a b. key a < key b) (butlast (take n xs) @ [last (take n xs)])"
      using s ne by (simp add: sorted_wrt_append)
    then have "\<forall>a \<in> set (butlast (take n xs)). key a < key (last (take n xs))"
      by (simp add: sorted_wrt_append)
    moreover have "set (take n xs) = set (butlast (take n xs)) \<union> {last (take n xs)}"
      using ne by (metis append_butlast_last_id list.set(1) list.simps(15) set_append)
    ultimately show False
      using r by auto
  qed
  moreover have "\<forall>r \<in> set (drop n xs). key (last (take n xs)) < key r"
    using s [unfolded sorted_wrt_append] last_in_set [OF ne] by blast
  then have "filter (\<lambda>r. key (last (take n xs)) < key r) (drop n xs) = drop n xs"
    by simp
  ultimately show ?thesis
    by (metis append_Nil append_take_drop_id filter_append)
qed

lemma beyond_page:
  assumes "unique_keys key rows" "0 < n"
  shows "beyond key p after rows = page key p after n rows @
    (if length (page key p after n rows) < n then []
     else beyond key p (Some (key (last (page key p after n rows)))) rows)"
proof (cases "length (page key p after n rows) < n")
  case True
  then have "page key p after n rows = beyond key p after rows"
    by (simp add: page_beyond min_def split: if_splits)
  with True show ?thesis
    by simp
next
  case False
  let ?xs = "beyond key p after rows"
  let ?l = "last (page key p after n rows)"
  have n: "n \<le> length ?xs"
    using False by (simp add: page_beyond)
  have "page key p after n rows \<noteq> []"
    using n assms(2) by (auto simp: page_beyond)
  from last_in_set [OF this] have "?l \<in> set ?xs"
    unfolding page_beyond by (rule in_set_takeD)
  then have gt: "(case after of None \<Rightarrow> [] | Some a \<Rightarrow> a) < key ?l"
    by (simp add: set_beyond)
  have "drop n ?xs = filter (\<lambda>r. key ?l < key r) ?xs"
    unfolding page_beyond
    by (rule drop_sorted)
       (use assms n beyond_keys_distinct [OF assms(1)] beyond_sorted in \<open>auto simp: strict_sorted_iff\<close>)
  also have "\<dots> = sort_key key (filter (\<lambda>r. key ?l < key r)
      (filter (\<lambda>r. p r \<and> (case after of None \<Rightarrow> [] | Some a \<Rightarrow> a) < key r) rows))"
    by (simp add: beyond_def filter_sort)
  also have "\<dots> = beyond key p (Some (key ?l)) rows"
    unfolding beyond_def filter_filter using gt
    by (intro arg_cong [where f = "sort_key key"] filter_cong) auto
  finally have "?xs = take n ?xs @ beyond key p (Some (key ?l)) rows"
    by (metis append_take_drop_id)
  then show ?thesis
    using False by (simp add: page_beyond)
qed

end
