(* ===== verification/Recovery_Witness.thy ===== *)
theory Recovery_Witness
  imports Compute_Recovery Table_Laws
begin

text \<open>
  Discovery witnesses (\<open>userapp_lifecycle/common/recovery_witness.rs\<close>): the volumes a lost
  registration was recovered with, and those that remain after the storage removals its
  lifecycle has completed since.  Also the registration of a recreated builder
  (\<open>common/builder_registration.rs\<close>) and of an identity that only its storage survived.
\<close>


section \<open>The witness\<close>

definition original_witness :: "string \<Rightarrow> string \<Rightarrow> discovered_identity option action" where
  "original_witness app_id lifecycle_id =
    tx_bind (tx_read (\<lambda>st. lookup (\<lambda>r. (wi_app_id r, wi_lifecycle_id r)) (st_witnesses st) (app_id, lifecycle_id))) (\<lambda>found.
    (case found of
        None \<Rightarrow> tx_return None
      | Some row \<Rightarrow>
        tx_bind (tx_lift (storage_r (from_str ''decode recovery witness'' dec_discovered_identity (wi_witness_json row)))) (\<lambda>witness.
        tx_then (tx_lift (map_err InvalidOperation (validate_discovered_identity witness))) (
        if di_app_id witness \<noteq> app_id \<or> di_lifecycle_id witness \<noteq> lifecycle_id
        then tx_fail LifecycleConflict else
        tx_return (Some witness)))))"

definition same_pvc :: "resource_identity \<Rightarrow> resource_identity \<Rightarrow> bool" where
  "same_pvc expected removed \<longleftrightarrow>
    ri_kind expected = Res_PersistentVolumeClaim \<and> ri_kind removed = Res_PersistentVolumeClaim
    \<and> ri_name expected = ri_name removed \<and> ri_uid expected = ri_uid removed"

definition subtract_resources ::
  "discovered_identity \<Rightarrow> resource_identity list \<Rightarrow> resource_identity list \<Rightarrow> discovered_identity" where
  "subtract_resources witness production development = witness
    \<lparr>di_prod_volumes := filter (\<lambda>expected. \<not> list_ex (same_pvc expected) production) (di_prod_volumes witness),
     di_dev_volumes := filter (\<lambda>expected. \<not> list_ex (same_pvc expected) development) (di_dev_volumes witness)\<rparr>"

text \<open>What a completed removal retired: the production and the development resources.\<close>

definition confirmed_retirement ::
  "discovered_identity \<Rightarrow> operation_record \<Rightarrow> string + resource_identity list \<times> resource_identity list" where
  "confirmed_retirement witness operation =
    (if or_app_id operation \<noteq> di_app_id witness \<or> or_lifecycle_id operation \<noteq> di_lifecycle_id witness
        \<or> kind_scope (or_kind operation) \<noteq> or_scope operation \<or> or_state operation \<noteq> Op_Succeeded
     then Inl ''Completed storage removal does not belong to the recovered lifecycle''
     else if or_kind operation = Kind_PurgeResources
     then
       try_r (ok_or ''Completed purge checkpoint is unreadable'' (dec_deletion_checkpoint (or_checkpoint operation))) (\<lambda>checkpoint.
       try_r (validate_deletion_operation checkpoint operation) (\<lambda>_.
       if dc_stage checkpoint \<noteq> Del_DevelopmentRemoved
       then Inl ''Completed purge has no final storage-removal evidence''
       else try_r (ok_or ''Completed purge development receipt is missing'' (dc_development checkpoint)) (\<lambda>development.
         Inr (ds_resources (dc_production checkpoint), bs_resources (dr_runtime development)))))
     else if or_kind operation \<in> {Kind_DestroyDevStorage, Kind_DestroyProdStorage}
     then
       try_r (ok_or ''Completed storage destruction checkpoint is unreadable''
         (dec_storage_destruction (or_checkpoint operation))) (\<lambda>checkpoint.
       try_r (validate_storage_destruction checkpoint) (\<lambda>_.
       if \<not> op_owns (sd_context checkpoint) operation
          \<or> (sd_production checkpoint \<noteq> None) \<noteq> (or_kind operation = Kind_DestroyProdStorage)
       then Inl ''Storage destruction has no matching final removal receipt''
       else Inr (case sd_production checkpoint of None \<Rightarrow> [] | Some production \<Rightarrow> ds_resources production,
           bs_resources (dr_runtime (sd_development checkpoint)))))
     else if or_kind operation = Kind_ClearProdStorage
     then
       try_r (ok_or ''Completed storage clear checkpoint is unreadable''
         (dec_storage_clear (or_checkpoint operation))) (\<lambda>checkpoint.
       try_r (validate_storage_clear checkpoint) (\<lambda>_.
       if \<not> op_owns (sc_context checkpoint) operation then Inl ''Storage clear has no matching final receipt''
       else (case sc_target checkpoint of
           Clear_Production snapshot directories \<Rightarrow>
             Inr (if directories = [] \<and> ds_directories snapshot = None then ds_resources snapshot else [], [])
         | Clear_Development _ _ _ _ \<Rightarrow> Inl ''Production clear receipt contains a development target'')))
     else Inl ''Operation does not retire recovered storage volumes'')"

definition subtract_confirmed_retirement ::
  "discovered_identity \<Rightarrow> operation_record \<Rightarrow> string + discovered_identity" where
  "subtract_confirmed_retirement witness operation =
    try_r (confirmed_retirement witness operation) (\<lambda>(production, development).
    Inr (subtract_resources witness production development))"

definition retirement_kinds :: "string list" where
  "retirement_kinds = map kind_name
     [Kind_PurgeResources, Kind_DestroyDevStorage, Kind_DestroyProdStorage, Kind_ClearProdStorage]"

definition retires :: "string \<Rightarrow> string \<Rightarrow> operation_row \<Rightarrow> bool" where
  "retires app_id lifecycle_id r \<longleftrightarrow> ow_app_id r = app_id \<and> ow_lifecycle_id r = lifecycle_id
    \<and> ow_kind r \<in> set retirement_kinds \<and> ow_state r = state_name Op_Succeeded"

text \<open>Unusable history grants no retirement and is skipped.\<close>

definition subtract_row :: "env \<Rightarrow> operation_row \<Rightarrow> discovered_identity \<Rightarrow> discovered_identity" where
  "subtract_row ev row witness =
    (case operation_of_row ev row of
       Inl _ \<Rightarrow> witness
     | Inr operation \<Rightarrow>
         (case subtract_confirmed_retirement witness operation of Inl _ \<Rightarrow> witness | Inr witness' \<Rightarrow> witness'))"

definition retirement_page_size :: nat where
  "retirement_page_size = 32"

function remaining_loop ::
  "env \<Rightarrow> string \<Rightarrow> string \<Rightarrow> operation_row list \<Rightarrow> string option \<Rightarrow> discovered_identity \<Rightarrow>
   discovered_identity" where
  "remaining_loop ev app_id lifecycle_id rows after witness =
    (if di_dev_volumes witness = [] \<and> di_prod_volumes witness = [] then witness
     else
       let found = page ow_operation_id (retires app_id lifecycle_id) after retirement_page_size rows;
           witness' = fold (subtract_row ev) found witness in
       if length found < retirement_page_size then witness'
       else remaining_loop ev app_id lifecycle_id rows (last_key ow_operation_id found) witness')"
  by pat_completeness auto

termination
proof (relation "measure (\<lambda>(ev, app_id, lifecycle_id, rows, after, witness).
    length (beyond ow_operation_id (retires app_id lifecycle_id) after rows))", goal_cases)
  case (2 ev app_id lifecycle_id rows after witness found witness')
  then have "found \<noteq> []"
    by (auto simp: retirement_page_size_def)
  then show ?case
    using page_shrinks [of ow_operation_id "retires app_id lifecycle_id" after retirement_page_size rows] 2(2)
    by (simp add: last_key_def)
qed simp

declare remaining_loop.simps [simp del]

definition remaining_witness :: "env \<Rightarrow> string \<Rightarrow> string \<Rightarrow> discovered_identity option action" where
  "remaining_witness ev app_id lifecycle_id =
    tx_bind (original_witness app_id lifecycle_id) (\<lambda>found.
    tx_bind (tx_read st_ops) (\<lambda>rows.
    tx_return (map_option (remaining_loop ev app_id lifecycle_id rows None) found)))"


section \<open>Storage without compute\<close>

record retained_storage =
  rs_app_id :: string
  rs_scope :: operation_scope
  rs_lifecycle_id :: "string option"
  rs_volumes :: "resource_identity list"
  rs_services :: "resource_identity list"

definition resource_invalid :: "resource_kind \<Rightarrow> resource_identity \<Rightarrow> bool" where
  "resource_invalid kind r \<longleftrightarrow> ri_kind r \<noteq> kind \<or> ri_name r = [] \<or> ri_uid r = []"

definition validate_retained_storage :: "retained_storage \<Rightarrow> string + unit" where
  "validate_retained_storage self =
    try_r (validate_identifier (rs_app_id self) ''app_id'') (\<lambda>_.
    if rs_scope self = Scope_Application then Inl ''Storage recovery requires dev or prod scope''
    else
    try_r (case rs_lifecycle_id self of None \<Rightarrow> Inr () | Some i \<Rightarrow> validate_identifier i ''lifecycle_id'') (\<lambda>_.
    if rs_volumes self = [] then Inl ''Storage recovery requires surviving volumes''
    else if list_ex (resource_invalid Res_PersistentVolumeClaim) (rs_volumes self)
       \<or> \<not> distinct (map ri_name (rs_volumes self))
    then Inl ''Invalid retained volume identity''
    else if list_ex (resource_invalid Res_Service) (rs_services self)
       \<or> \<not> distinct (map ri_name (rs_volumes self @ rs_services self))
    then Inl ''Invalid retained Service identity''
    else Inr ()))"

definition restore_storage_identity :: "env \<Rightarrow> retained_storage \<Rightarrow> lifecycle_record action" where
  "restore_storage_identity ev storage =
    tx_then (tx_lift (map_err InvalidOperation (validate_retained_storage storage))) (
    tx_bind (tx_lift (identity (ev_uuid ev) (ev_now ev) (rs_app_id storage))) (\<lambda>proposed.
    tx_bind (ensure ev (case rs_lifecycle_id storage of
          None \<Rightarrow> proposed | Some i \<Rightarrow> proposed\<lparr>lr_lifecycle_id := i\<rparr>)) (\<lambda>app.
    tx_then (tx_lift (validate_active app)) (
    if (case rs_lifecycle_id storage of None \<Rightarrow> False | Some i \<Rightarrow> i \<noteq> lr_lifecycle_id app)
    then tx_fail LifecycleConflict else
    tx_return app))))"


section \<open>Registering a recreated builder\<close>

definition tx_message :: "string \<Rightarrow> 'a option \<Rightarrow> (store, retirement_error, 'a) tx" where
  "tx_message message v = tx_lift (ok_or (Retirement_Message message) v)"

definition tx_ensure :: "bool \<Rightarrow> string \<Rightarrow> (store, retirement_error, unit) tx" where
  "tx_ensure b message = tx_require b (Retirement_Message message)"

definition tx_valid :: "string + 'a \<Rightarrow> (store, retirement_error, 'a) tx" where
  "tx_valid r = tx_lift (map_err Retirement_Message r)"

text \<open>Routing observations may be refreshed; the rest of the recorded evidence may not.\<close>

definition with_routing :: "creation_evidence \<Rightarrow> creation_evidence \<Rightarrow> creation_evidence" where
  "with_routing captured evidence = captured\<lparr>be_container := (be_container captured)
    \<lparr>ci_container_ip := ci_container_ip (be_container evidence),
     ci_internal_port := ci_internal_port (be_container evidence),
     ci_external_port := ci_external_port (be_container evidence),
     ci_status := ci_status (be_container evidence),
     ci_service_url := ci_service_url (be_container evidence)\<rparr>\<rparr>"

definition check_recorded_evidence ::
  "env \<Rightarrow> operation_record \<Rightarrow> creation_evidence \<Rightarrow> (store, retirement_error, unit) tx" where
  "check_recorded_evidence ev current evidence =
    (case json_get ''builder_creation_evidence'' (or_checkpoint current) of
       Some stored \<Rightarrow>
         tx_bind (tx_message ''Decode completed builder registration evidence'' (dec_creation_evidence ev stored)) (\<lambda>captured.
         tx_ensure (enc_creation_evidence ev (with_routing captured evidence) = enc_creation_evidence ev evidence)
             ''Builder registration evidence differs from the durable operation'')
     | None \<Rightarrow> tx_ensure (be_registration_predecessor evidence = None)
         ''Completed builder registration predecessor evidence missing'')"

definition result_matches :: "operation_record \<Rightarrow> container_basic_info \<Rightarrow> container_basic_info \<Rightarrow> bool" where
  "result_matches operation stored acknowledged \<longleftrightarrow>
    ci_project_id stored = or_app_id operation
    \<and> ci_container_id stored = ci_container_id acknowledged
    \<and> ci_workload_uid stored = ci_workload_uid acknowledged
    \<and> ci_container_name stored = ci_container_name acknowledged
    \<and> ci_created_at stored = ci_created_at acknowledged"

definition claims_binding :: "builder_control_target \<Rightarrow> resource_binding \<Rightarrow> bool" where
  "claims_binding target b \<longleftrightarrow> (case bt_resource_binding target of None \<Rightarrow> True | Some claimed \<Rightarrow> claimed = b)"

definition builder_root ::
  "env \<Rightarrow> string \<Rightarrow> string \<Rightarrow> string \<Rightarrow> (store, retirement_error, lifecycle_record) tx" where
  "builder_root ev app_id lifecycle_id changed =
    tx_then (in_store (claim_app app_id)) (
    tx_then (in_store (check_access ev app_id Scope_Dev False)) (
    tx_bind (in_store (repo_app ev app_id)) (\<lambda>found.
    tx_bind (tx_message ''Builder lifecycle disappeared'' found) (\<lambda>app.
    tx_then (in_store (tx_lift (validate_active app))) (
    tx_then (tx_ensure (lr_lifecycle_id app = lifecycle_id) changed) (
    tx_return app))))))"

definition persist_builder_binding ::
  "env \<Rightarrow> operation_record \<Rightarrow> creation_evidence \<Rightarrow> resource_identity \<Rightarrow> (store, retirement_error, unit) tx" where
  "persist_builder_binding ev operation evidence workload =
    (let binding = \<lparr>rb_app_id = or_app_id operation, rb_lifecycle_id = or_lifecycle_id operation,
        rb_service_type = UserappBuilder, rb_physical_uid = ri_uid workload,
        rb_adopted_by_operation = or_operation_id operation\<rparr> in
    tx_then (tx_ensure (claims_binding (be_target evidence) binding) ''Unpersisted builder binding claims another creator operation'') (
    tx_then (in_store (insert_binding ev binding)) (
    tx_bind (in_store (get_resource_binding UserappBuilder (ri_uid workload))) (\<lambda>found.
    tx_bind (tx_message ''Builder replacement binding was not persisted'' found) (\<lambda>persisted.
    tx_ensure (persisted = binding) ''Builder replacement binding belongs to another operation or lifecycle'')))))"

definition bind_completed_builder_registration ::
  "env \<Rightarrow> operation_record \<Rightarrow> creation_evidence \<Rightarrow> resource_identity list \<Rightarrow> (store, retirement_error, unit) tx" where
  "bind_completed_builder_registration ev operation evidence volumes =
    tx_then (tx_valid (validate_registration_replacement evidence operation volumes)) (
    tx_bind (builder_root ev (or_app_id operation) (or_lifecycle_id operation) ''Builder registration lifecycle changed'') (\<lambda>_.
    tx_bind (in_store (repo_operation ev (or_app_id operation) (or_operation_id operation))) (\<lambda>found.
    tx_bind (tx_message ''Builder completion operation disappeared'' found) (\<lambda>current.
    tx_then (tx_ensure (current = operation) ''Builder completion operation changed before registration'') (
    tx_then (check_recorded_evidence ev current evidence) (
    tx_bind (tx_message ''Decode completed builder result for registration recovery''
        (dec_container_basic_info ev (or_checkpoint current))) (\<lambda>stored.
    tx_then (tx_ensure (result_matches operation stored (be_container evidence)) ''Completed builder result differs from its runtime acknowledgement'') (
    tx_then ((case be_registration_predecessor evidence of
        None \<Rightarrow> tx_return ()
      | Some predecessor \<Rightarrow>
        tx_bind (tx_message ''Builder predecessor workload missing'' (bt_workload (bp_target predecessor))) (\<lambda>source.
        tx_bind (in_store (get_resource_binding UserappBuilder (ri_uid source))) (\<lambda>old.
        (case old of
              None \<Rightarrow> tx_return ()
            | Some b \<Rightarrow> tx_valid (validate_binding b (bt_context (be_target evidence)) (ri_uid source))))))) (
    tx_bind (tx_message ''Builder replacement workload missing'' (bt_workload (be_target evidence))) (\<lambda>workload.
    tx_bind (in_store (get_resource_binding UserappBuilder (ri_uid workload))) (\<lambda>existing.
    (case existing of
        Some b \<Rightarrow>
          tx_then (tx_valid (validate_binding b (bt_context (be_target evidence)) (ri_uid workload))) (
          tx_ensure (rb_service_type b = UserappBuilder \<and> claims_binding (be_target evidence) b)
              ''Builder completion binding differs from the canonical lifecycle binding'')
      | None \<Rightarrow> persist_builder_binding ev operation evidence workload))))))))))))"

definition adopt_binding ::
  "env \<Rightarrow> execution_context \<Rightarrow> resource_binding \<Rightarrow> resource_identity \<Rightarrow> (store, retirement_error, unit) tx" where
  "adopt_binding ev context binding workload =
    tx_bind (in_store (get_resource_binding UserappBuilder (ri_uid workload))) (\<lambda>existing.
    (case existing of
        Some b \<Rightarrow> tx_ensure (b = binding) ''Adopted builder binding changed''
      | None \<Rightarrow>
        tx_then (tx_ensure (rb_adopted_by_operation binding = ec_operation_id context) ''New adoption binding has another operation'') (
        tx_then (in_store (insert_binding ev binding)) (
        tx_bind (in_store (get_resource_binding UserappBuilder (ri_uid workload))) (\<lambda>again.
        tx_ensure (again = Some binding) ''Adopted builder binding belongs to another lifecycle'')))))"

definition commit_builder_registration_adoption ::
  "env \<Rightarrow> builder_control_target \<Rightarrow> string \<Rightarrow> operation_progress \<Rightarrow> (store, retirement_error, unit) tx" where
  "commit_builder_registration_adoption ev target expected_source_uid progress =
    tx_then (tx_valid (validate_builder_control_target target)) (
    let context = bt_context target in
    tx_bind (tx_message ''Adopted builder workload missing'' (bt_workload target)) (\<lambda>workload.
    tx_then (tx_ensure (ri_kind workload = Res_StatefulSet \<and> expected_source_uid \<noteq> [] \<and> expected_source_uid \<noteq> ri_uid workload
        \<and> pg_app_id progress = ec_app_id context \<and> pg_lifecycle_id progress = ec_lifecycle_id context
        \<and> pg_operation_id progress = ec_operation_id context \<and> pg_executor_id progress = ec_executor_id context
        \<and> pg_state progress = Op_Succeeded) ''Builder registry adoption identity differs'') (
    tx_bind (builder_root ev (ec_app_id context) (ec_lifecycle_id context) ''Builder adoption lifecycle changed'') (\<lambda>_.
    tx_bind (in_store (repo_operation ev (ec_app_id context) (ec_operation_id context))) (\<lambda>found.
    tx_bind (tx_message ''Builder adoption operation disappeared'' found) (\<lambda>operation.
    tx_then (tx_ensure (or_kind operation = Kind_AdoptBuilder \<and> or_state operation = Op_Running
        \<and> or_revision operation = pg_expected_revision progress
        \<and> or_executor_id operation = Some (ec_executor_id context)
        \<and> or_request_fingerprint operation = ec_request_fingerprint context) ''Builder registry adoption operation changed'') (
    tx_bind (in_store (get_resource_binding UserappBuilder expected_source_uid)) (\<lambda>found_source.
    tx_bind (tx_message ''Old builder registration has no lifecycle binding'' found_source) (\<lambda>source.
    tx_then (tx_valid (validate_binding source context expected_source_uid)) (
    tx_bind (tx_message ''Adopted builder binding missing'' (bt_resource_binding target)) (\<lambda>binding.
    tx_then (tx_valid (validate_binding binding context (ri_uid workload))) (
    tx_then (tx_ensure (rb_service_type binding = UserappBuilder) ''Adopted resource is not a builder'') (
    tx_then (adopt_binding ev context binding workload) (
    tx_bind (in_store (op_advance ev progress)) (\<lambda>_.
    tx_return ())))))))))))))))"

end
