(* ===== verification/Store_Calls.thy ===== *)
theory Store_Calls
  imports Recovery_Witness
begin

text \<open>
  The store a service holds (\<open>userapp_lifecycle/common/mod.rs\<close>): every method of the lifecycle,
  configuration and activity interfaces runs one transaction body, read-only or not.  A call is
  kept with its arguments and its effect on the tables; what the method returns is the value of
  the body it names.
\<close>

definition effect :: "'a action \<Rightarrow> unit action" where
  "effect m = tx_bind m (\<lambda>_. tx_return ())"

lemma effect_commits: "effect m st = Inr (u, st') \<longleftrightarrow> (\<exists>x. m st = Inr (x, st'))"
  by (simp add: effect_def)

text \<open>\<open>updated_at\<close> of a row at the revision the caller read.\<close>

definition control_updated_at :: "env \<Rightarrow> string \<Rightarrow> string \<Rightarrow> int \<Rightarrow> int option action" where
  "control_updated_at ev app_id operation_id expected_revision =
    tx_bind (tx_read (\<lambda>st. lookup cc_operation_id (st_controls st) operation_id)) (\<lambda>found.
    (case found of
        None \<Rightarrow> tx_return None
      | Some row \<Rightarrow>
          if cc_app_id row \<noteq> app_id \<or> cc_revision row \<noteq> expected_revision then tx_return None
          else if \<not> ev_timestamp ev (cc_updated_at_us row)
          then tx_fail (InvalidOperation ''Invalid compute progress timestamp'')
          else tx_return (Some (cc_updated_at_us row))))"

definition operation_updated_at :: "env \<Rightarrow> string \<Rightarrow> string \<Rightarrow> int \<Rightarrow> int option action" where
  "operation_updated_at ev app_id operation_id expected_revision =
    tx_bind (tx_read (\<lambda>st. lookup ow_operation_id (st_ops st) operation_id)) (\<lambda>found.
    (case found of
        None \<Rightarrow> tx_return None
      | Some row \<Rightarrow>
          if ow_app_id row \<noteq> app_id \<or> ow_revision row \<noteq> expected_revision then tx_return None
          else if \<not> ev_timestamp ev (ow_updated_at_us row)
          then tx_fail (InvalidOperation ''Invalid operation progress timestamp'')
          else tx_return (Some (ow_updated_at_us row))))"


section \<open>Identities recovered from a runtime\<close>

datatype discovery_call =
    Get_Recovery_Witness string string
  | Get_Recovery_Storage_Witness string string
  | Restore_Storage_Identity retained_storage
  | Restore_Discovered_Identity discovered_identity

fun discovery_call_body :: "env \<Rightarrow> discovery_call \<Rightarrow> unit action" where
  "discovery_call_body ev (Get_Recovery_Witness app life) = effect (original_witness app life)"
| "discovery_call_body ev (Get_Recovery_Storage_Witness app life) = effect (remaining_witness ev app life)"
| "discovery_call_body ev (Restore_Storage_Identity storage) = effect (restore_storage_identity ev storage)"
| "discovery_call_body ev (Restore_Discovered_Identity found) = effect (restore_identity ev found)"

definition discovery_call_read_only :: "discovery_call \<Rightarrow> bool" where
  "discovery_call_read_only c =
    (case c of
       Get_Recovery_Witness _ _ \<Rightarrow> True
     | Get_Recovery_Storage_Witness _ _ \<Rightarrow> True
     | _ \<Rightarrow> False)"


section \<open>Admission, claims and progress of compute controls\<close>

datatype control_call =
    Admit_Compute_Control control_request
  | Admit_Idle_Compute_Repair control_request
  | Get_Compute_Control string string
  | Get_Compute_Control_Updated_At string string int
  | Read_Compute_Status string string operation_scope
  | Active_Compute_Controls string
  | Check_Compute_Access string operation_scope bool
  | Compute_Desired_Stopped string string operation_scope
  | Claim_Compute_Control executor_identity int
  | Check_Compute_Executor executor_identity
  | Bind_Compute_Lease executor_identity lease_receipt
  | Advance_Compute_Control control_progress
  | Forget_Compute_Lease executor_identity lease_receipt
  | Acknowledge_Compute_Drain drain_acknowledgement
  | Mark_Restart_Archive_Cleaned control_record
  | Scan_Compute_Controls "string option" nat
  | Check_Business_Execution execution_context

fun control_call_body :: "env \<Rightarrow> control_call \<Rightarrow> unit action" where
  "control_call_body ev (Admit_Compute_Control request) = effect (admit_control ev request False)"
| "control_call_body ev (Admit_Idle_Compute_Repair request) = effect (admit_control ev request True)"
| "control_call_body ev (Get_Compute_Control app i) = effect (get_control ev app i)"
| "control_call_body ev (Get_Compute_Control_Updated_At app i revision) = effect (control_updated_at ev app i revision)"
| "control_call_body ev (Read_Compute_Status app life scope) = effect (read_compute_status ev app life scope)"
| "control_call_body ev (Active_Compute_Controls app) = effect (active_controls ev app)"
| "control_call_body ev (Check_Compute_Access app scope explicit_start) = effect (check_access ev app scope explicit_start)"
| "control_call_body ev (Compute_Desired_Stopped app life scope) = effect (compute_desired_stopped ev app life scope)"
| "control_call_body ev (Claim_Compute_Control who revision) = effect (claim_control ev who revision)"
| "control_call_body ev (Check_Compute_Executor who) = effect (check_compute ev who)"
| "control_call_body ev (Bind_Compute_Lease who receipt) = effect (bind_control_lease ev who receipt)"
| "control_call_body ev (Advance_Compute_Control progress) = effect (advance_control ev progress)"
| "control_call_body ev (Forget_Compute_Lease who receipt) = effect (forget_control_lease ev who receipt)"
| "control_call_body ev (Acknowledge_Compute_Drain ack) = effect (acknowledge_drain ev ack)"
| "control_call_body ev (Mark_Restart_Archive_Cleaned snapshot) = effect (mark_archive_cleaned ev snapshot)"
| "control_call_body ev (Scan_Compute_Controls after limit) = effect (scan_controls ev after limit)"
| "control_call_body ev (Check_Business_Execution context) = effect (check_business_execution ev context)"

definition control_call_read_only :: "control_call \<Rightarrow> bool" where
  "control_call_read_only c =
    (case c of
       Get_Compute_Control _ _ \<Rightarrow> True
     | Get_Compute_Control_Updated_At _ _ _ \<Rightarrow> True
     | Read_Compute_Status _ _ _ \<Rightarrow> True
     | Active_Compute_Controls _ \<Rightarrow> True
     | Check_Compute_Access _ _ explicit_start \<Rightarrow> \<not> explicit_start
     | Compute_Desired_Stopped _ _ _ \<Rightarrow> True
     | Check_Compute_Executor _ \<Rightarrow> True
     | Scan_Compute_Controls _ _ \<Rightarrow> True
     | Check_Business_Execution _ \<Rightarrow> True
     | _ \<Rightarrow> False)"


section \<open>Recovery, deadlines and observed outcomes of compute controls\<close>

datatype control_recovery_call =
    Finalize_Compute_Interrupted_Operation executor_identity operation_record
  | Expire_Deployment_Update operation_record
  | Reserve_Compute_Drain_Recovery control_record
  | Capture_Compute_Drain_Lease control_record lease_receipt execution_context
  | Resume_Released_Compute_Drain control_record "lease_receipt option"
  | Record_Compute_Drain_Problem control_record string string
  | Fail_Unrecoverable_Compute_Control control_record string string
  | Bind_Compute_Control_Deadline control_record int
  | Compute_Control_Deadline string string
  | Fail_Expired_Compute_Control control_record string string int
  | Mark_Compute_Control_Unheld control_record int
  | Clear_Compute_Control_Unheld control_record
  | Finalize_Confirmed_Compute control_record
  | Finalize_Observed_Compute_Stop control_record
  | Finalize_Observed_Compute_Restart control_record
  | Finalize_Observed_Builder_Creation control_record builder_control_target "resource_identity list"
  | Resume_Compute_Restart_Start control_record mutation_target
  | Confirm_Builder_Restart_Stopped control_record restart_stop_observation
  | Confirm_Kubernetes_Restart_Stopped control_record kubernetes_stop_evidence
  | Fail_Unrebuildable_Builder_Restart control_record restart_stop_observation "archive_unavailable option"
  | Resume_Builder_Restart_Start control_record builder_control_target
  | Capture_Stopped_Builder_Restart_Template control_record builder_control_target builder_restart_template

fun control_recovery_call_body :: "env \<Rightarrow> control_recovery_call \<Rightarrow> unit action" where
  "control_recovery_call_body ev (Finalize_Compute_Interrupted_Operation who snapshot) = effect (finalize_interrupted ev who snapshot)"
| "control_recovery_call_body ev (Expire_Deployment_Update snapshot) = effect (expire_deployment_update ev snapshot)"
| "control_recovery_call_body ev (Reserve_Compute_Drain_Recovery snapshot) = effect (reserve_control ev snapshot)"
| "control_recovery_call_body ev (Capture_Compute_Drain_Lease snapshot receipt attempt) = effect (capture_recovered_lease ev snapshot receipt attempt)"
| "control_recovery_call_body ev (Resume_Released_Compute_Drain snapshot released) = effect (resume_control ev snapshot released)"
| "control_recovery_call_body ev (Record_Compute_Drain_Problem snapshot code message) = effect (record_control_problem ev snapshot code message)"
| "control_recovery_call_body ev (Fail_Unrecoverable_Compute_Control snapshot code message) = effect (fail_unrecoverable ev snapshot code message)"
| "control_recovery_call_body ev (Bind_Compute_Control_Deadline snapshot deadline) = effect (bind_control_deadline ev snapshot deadline)"
| "control_recovery_call_body ev (Compute_Control_Deadline app i) = effect (read_control_deadline app i)"
| "control_recovery_call_body ev (Fail_Expired_Compute_Control snapshot code message anchor) = effect (expire_control ev snapshot code message anchor)"
| "control_recovery_call_body ev (Mark_Compute_Control_Unheld snapshot observed) = effect (mark_unheld ev snapshot observed)"
| "control_recovery_call_body ev (Clear_Compute_Control_Unheld snapshot) = effect (clear_unheld snapshot)"
| "control_recovery_call_body ev (Finalize_Confirmed_Compute snapshot) = effect (finalize_confirmed ev snapshot)"
| "control_recovery_call_body ev (Finalize_Observed_Compute_Stop snapshot) = effect (finalize_observed_stop ev snapshot)"
| "control_recovery_call_body ev (Finalize_Observed_Compute_Restart snapshot) = effect (finalize_observed_restart ev snapshot)"
| "control_recovery_call_body ev (Finalize_Observed_Builder_Creation snapshot observed volumes) = effect (finalize_observed_creation ev snapshot observed volumes)"
| "control_recovery_call_body ev (Resume_Compute_Restart_Start snapshot target) = effect (resume_stopped_restart ev snapshot target)"
| "control_recovery_call_body ev (Confirm_Builder_Restart_Stopped snapshot observation) = effect (confirm_builder_restart_stopped ev snapshot observation)"
| "control_recovery_call_body ev (Confirm_Kubernetes_Restart_Stopped snapshot evidence) = effect (confirm_kubernetes_restart_stopped ev snapshot evidence)"
| "control_recovery_call_body ev (Fail_Unrebuildable_Builder_Restart snapshot observation unavailable) = effect (fail_unrebuildable_builder_restart ev snapshot observation unavailable)"
| "control_recovery_call_body ev (Resume_Builder_Restart_Start snapshot target) = effect (resume_builder_restart ev snapshot target)"
| "control_recovery_call_body ev (Capture_Stopped_Builder_Restart_Template snapshot source template) = effect (capture_stopped_builder_template ev snapshot source template)"

definition control_recovery_call_read_only :: "control_recovery_call \<Rightarrow> bool" where
  "control_recovery_call_read_only c =
    (case c of
       Compute_Control_Deadline _ _ \<Rightarrow> True
     | _ \<Rightarrow> False)"


section \<open>Applications, bindings and admission\<close>

datatype application_call =
    Get_Resource_Binding service_type string
  | Commit_Resource_Binding resource_binding operation_progress
  | List_Control_Snapshots "string option" nat
  | List_Wake_Fence_Snapshots "string option" nat
  | Ensure_Identity string
  | Get_Application string
  | List_Applications "string option" nat
  | Patch_Metadata metadata_patch
  | Admit admission_request
  | Admit_With_Input admission_request "execution_input option"
  | Admit_With_Configuration admission_request execution_input "pg_credential option"
  | Read_Retained_Runtime_Input string string
  | Recreate string string string

fun application_call_body :: "env \<Rightarrow> application_call \<Rightarrow> unit action" where
  "application_call_body ev (Get_Resource_Binding service uid) = effect (get_resource_binding service uid)"
| "application_call_body ev (Commit_Resource_Binding binding progress) = effect (commit_resource_binding ev binding progress)"
| "application_call_body ev (List_Control_Snapshots after limit) = effect (list_control_snapshots ev after limit)"
| "application_call_body ev (List_Wake_Fence_Snapshots after limit) = effect (list_wake_fence_snapshots after limit)"
| "application_call_body ev (Ensure_Identity app) = effect (ensure_identity ev app)"
| "application_call_body ev (Get_Application app) = effect (get_application ev app)"
| "application_call_body ev (List_Applications after limit) = effect (list_applications ev after limit)"
| "application_call_body ev (Patch_Metadata patch) = effect (op_patch_metadata ev patch)"
| "application_call_body ev (Admit request) = effect (admit ev request)"
| "application_call_body ev (Admit_With_Input request input) = effect (admit_with_input ev request input)"
| "application_call_body ev (Admit_With_Configuration request input pg) = effect (admit_with_configuration ev request (Some input) pg)"
| "application_call_body ev (Read_Retained_Runtime_Input app life) = effect (retained_input ev app life)"
| "application_call_body ev (Recreate app life request) = effect (recreate ev app life request)"

definition application_call_read_only :: "application_call \<Rightarrow> bool" where
  "application_call_read_only c =
    (case c of
       Get_Resource_Binding _ _ \<Rightarrow> True
     | List_Control_Snapshots _ _ \<Rightarrow> True
     | List_Wake_Fence_Snapshots _ _ \<Rightarrow> True
     | Get_Application _ \<Rightarrow> True
     | List_Applications _ _ \<Rightarrow> True
     | Read_Retained_Runtime_Input _ _ \<Rightarrow> True
     | _ \<Rightarrow> False)"


section \<open>Operations: inputs, deadlines, receipts, progress and scans\<close>

datatype operation_call =
    Read_Execution_Input execution_context
  | Read_Recovery_Execution_Input operation_record
  | Bind_Operation_Deadline string string string int
  | Operation_Deadline string string
  | Bind_Operation_Lease execution_context lease_receipt
  | Get_Operation_Lease string string
  | Terminal_Operation_Leases "string option" nat
  | Scan_Terminal_Operation_Leases "string option" nat
  | Forget_Operation_Lease lease_binding
  | Advance operation_progress
  | Get_Operation_By_Request string string
  | Get_Operation string string
  | Get_Operation_Updated_At string string int
  | Unfinished_Operations "string option" nat
  | Scan_Unfinished_Operations "string option" nat

fun operation_call_body :: "env \<Rightarrow> operation_call \<Rightarrow> unit action" where
  "operation_call_body ev (Read_Execution_Input context) = effect (read_execution_input ev context)"
| "operation_call_body ev (Read_Recovery_Execution_Input snapshot) = effect (read_recovery_execution_input ev snapshot)"
| "operation_call_body ev (Bind_Operation_Deadline app i life deadline) = effect (bind_operation_deadline ev app i life deadline)"
| "operation_call_body ev (Operation_Deadline app i) = effect (operation_deadline app i)"
| "operation_call_body ev (Bind_Operation_Lease context receipt) = effect (bind_operation_lease ev context receipt)"
| "operation_call_body ev (Get_Operation_Lease app i) = effect (get_operation_lease app i)"
| "operation_call_body ev (Terminal_Operation_Leases after limit) = effect (terminal_operation_leases ev after limit)"
| "operation_call_body ev (Scan_Terminal_Operation_Leases after limit) = effect (scan_terminal_operation_leases ev after limit)"
| "operation_call_body ev (Forget_Operation_Lease binding) = effect (forget_operation_lease ev binding)"
| "operation_call_body ev (Advance progress) = effect (op_advance ev progress)"
| "operation_call_body ev (Get_Operation_By_Request app request) = effect (get_operation_by_request ev app request)"
| "operation_call_body ev (Get_Operation app i) = effect (get_operation ev app i)"
| "operation_call_body ev (Get_Operation_Updated_At app i revision) = effect (operation_updated_at ev app i revision)"
| "operation_call_body ev (Unfinished_Operations after limit) = effect (unfinished_operations ev after limit)"
| "operation_call_body ev (Scan_Unfinished_Operations after limit) = effect (scan_unfinished_operations ev after limit)"

definition operation_call_read_only :: "operation_call \<Rightarrow> bool" where
  "operation_call_read_only c =
    (case c of
       Operation_Deadline _ _ \<Rightarrow> True
     | Get_Operation_Lease _ _ \<Rightarrow> True
     | Terminal_Operation_Leases _ _ \<Rightarrow> True
     | Scan_Terminal_Operation_Leases _ _ \<Rightarrow> True
     | Get_Operation_By_Request _ _ \<Rightarrow> True
     | Get_Operation _ _ \<Rightarrow> True
     | Get_Operation_Updated_At _ _ _ \<Rightarrow> True
     | Unfinished_Operations _ _ \<Rightarrow> True
     | Scan_Unfinished_Operations _ _ \<Rightarrow> True
     | _ \<Rightarrow> False)"


section \<open>Settlements of interrupted operations\<close>

datatype operation_recovery_call =
    Reserve_Completed_Operation operation_record
  | Reserve_Interrupted_Deletion operation_record
  | Record_Deletion_Recovery_Problem operation_record string
  | Finalize_Interrupted_Deletion operation_record json
  | Finalize_Password_Recovery operation_record database_password_evidence
  | Finalize_Deploy_Pg_Recovery operation_record explicit_deployment_password_evidence
  | Confirm_Database_Preparation_Recovery operation_record database_preparation_evidence
  | Finalize_Builder_Creation_Rejection operation_record request_rejection
  | Finalize_Observed_Wake operation_record
  | Finalize_Legacy_Observed_Wake operation_record json
  | Reserve_Interrupted_Hot operation_record lease_binding
  | Finalize_Observed_Hot_Failure operation_record hot_failure_evidence
  | Settle_Fenced_Operation operation_record json string
  | Settle_Stale_Running_Builder operation_record json string
  | Finalize_Observed_Hot_Success operation_record json
  | Finalize_Builder_Creation_Cancellation operation_record
  | Confirm_Builder_Creation_Recovery operation_record creation_evidence bool

fun operation_recovery_call_body :: "env \<Rightarrow> operation_recovery_call \<Rightarrow> unit action" where
  "operation_recovery_call_body ev (Reserve_Completed_Operation snapshot) = effect (reserve_completed_operation ev snapshot)"
| "operation_recovery_call_body ev (Reserve_Interrupted_Deletion snapshot) = effect (reserve_interrupted_deletion ev snapshot)"
| "operation_recovery_call_body ev (Record_Deletion_Recovery_Problem snapshot message) = effect (record_deletion_recovery_problem ev snapshot message)"
| "operation_recovery_call_body ev (Finalize_Interrupted_Deletion snapshot evidence) = effect (finalize_interrupted_deletion ev snapshot evidence)"
| "operation_recovery_call_body ev (Finalize_Password_Recovery snapshot evidence) = effect (finalize_password_recovery ev snapshot evidence)"
| "operation_recovery_call_body ev (Finalize_Deploy_Pg_Recovery snapshot evidence) = effect (finalize_deploy_pg_recovery ev snapshot evidence)"
| "operation_recovery_call_body ev (Confirm_Database_Preparation_Recovery snapshot evidence) = effect (confirm_database_preparation_recovery ev snapshot evidence)"
| "operation_recovery_call_body ev (Finalize_Builder_Creation_Rejection snapshot rejection) = effect (finalize_builder_creation_rejection ev snapshot (Some rejection))"
| "operation_recovery_call_body ev (Finalize_Observed_Wake snapshot) = effect (finalize_observed_wake ev snapshot)"
| "operation_recovery_call_body ev (Finalize_Legacy_Observed_Wake snapshot evidence) = effect (finalize_legacy_observed_wake ev snapshot evidence)"
| "operation_recovery_call_body ev (Reserve_Interrupted_Hot snapshot binding) = effect (reserve_interrupted_hot ev snapshot binding)"
| "operation_recovery_call_body ev (Finalize_Observed_Hot_Failure snapshot evidence) = effect (finalize_observed_hot_failure ev snapshot evidence)"
| "operation_recovery_call_body ev (Settle_Fenced_Operation snapshot evidence note) = effect (settle_fenced_operation ev snapshot evidence note)"
| "operation_recovery_call_body ev (Settle_Stale_Running_Builder snapshot evidence note) = effect (settle_stale_running_builder ev snapshot evidence note)"
| "operation_recovery_call_body ev (Finalize_Observed_Hot_Success snapshot evidence) = effect (finalize_observed_hot_success ev snapshot evidence)"
| "operation_recovery_call_body ev (Finalize_Builder_Creation_Cancellation snapshot) = effect (finalize_builder_creation_rejection ev snapshot None)"
| "operation_recovery_call_body ev (Confirm_Builder_Creation_Recovery snapshot evidence ready) = effect (confirm_builder_creation_recovery ev snapshot evidence ready)"

section \<open>Runtime configuration and activity\<close>

datatype configuration_call =
    Save_Runtime_Configuration string operation_scope save_configuration_request
  | Runtime_Configuration_Status string string operation_scope
  | Operation_Runtime_Configuration execution_context
  | Bind_Runtime_Configuration_Target execution_context int runtime_configuration_target
  | Record_Runtime_Configuration_Result execution_context int runtime_configuration_target credential_state business_state
  | Flush_Activity "activity_observation list"
  | Load_All_Activity
  | Delete_Activity string string
  | Quarantine_Local_Restart

fun configuration_call_body :: "env \<Rightarrow> configuration_call \<Rightarrow> unit action" where
  "configuration_call_body ev (Save_Runtime_Configuration app scope request) = effect (save_configuration ev app scope request)"
| "configuration_call_body ev (Runtime_Configuration_Status app life scope) = effect (read_config_status ev app life scope)"
| "configuration_call_body ev (Operation_Runtime_Configuration context) = effect (read_configuration ev context)"
| "configuration_call_body ev (Bind_Runtime_Configuration_Target context version target) = effect (bind_configuration ev context version target)"
| "configuration_call_body ev (Record_Runtime_Configuration_Result context version target credential business) = effect (record_configuration ev context version target credential business)"
| "configuration_call_body ev (Flush_Activity rows) = effect (flush_batch ev rows)"
| "configuration_call_body ev Load_All_Activity = effect (load_all_activity ev)"
| "configuration_call_body ev (Delete_Activity app life) = effect (delete_activity app life)"
| "configuration_call_body ev Quarantine_Local_Restart = effect (quarantine_local_restart ev)"

definition configuration_call_read_only :: "configuration_call \<Rightarrow> bool" where
  "configuration_call_read_only c =
    (case c of
       Load_All_Activity \<Rightarrow> True
     | _ \<Rightarrow> False)"


section \<open>The store\<close>

datatype store_call =
    Discovery_Call discovery_call
  | Control_Call control_call
  | Control_Recovery_Call control_recovery_call
  | Application_Call application_call
  | Operation_Call operation_call
  | Operation_Recovery_Call operation_recovery_call
  | Configuration_Call configuration_call

fun call_body :: "env \<Rightarrow> store_call \<Rightarrow> unit action" where
  "call_body ev (Discovery_Call c) = discovery_call_body ev c"
| "call_body ev (Control_Call c) = control_call_body ev c"
| "call_body ev (Control_Recovery_Call c) = control_recovery_call_body ev c"
| "call_body ev (Application_Call c) = application_call_body ev c"
| "call_body ev (Operation_Call c) = operation_call_body ev c"
| "call_body ev (Operation_Recovery_Call c) = operation_recovery_call_body ev c"
| "call_body ev (Configuration_Call c) = configuration_call_body ev c"

fun call_read_only :: "store_call \<Rightarrow> bool" where
  "call_read_only (Discovery_Call c) = discovery_call_read_only c"
| "call_read_only (Control_Call c) = control_call_read_only c"
| "call_read_only (Control_Recovery_Call c) = control_recovery_call_read_only c"
| "call_read_only (Application_Call c) = application_call_read_only c"
| "call_read_only (Operation_Call c) = operation_call_read_only c"
| "call_read_only (Operation_Recovery_Call c) = False"
| "call_read_only (Configuration_Call c) = configuration_call_read_only c"

text \<open>Transactions of the project store that share the lifecycle tables.\<close>

datatype registry_call =
    Authorize_Registration_Retirement builder_control_target
  | Bind_Completed_Registration operation_record creation_evidence "resource_identity list"
  | Commit_Registration_Adoption builder_control_target string operation_progress

fun registry_body :: "env \<Rightarrow> registry_call \<Rightarrow> (store, retirement_error, unit) tx" where
  "registry_body ev (Authorize_Registration_Retirement target) =
     tx_bind (authorize_builder_registration_retirement ev target) (\<lambda>_. tx_return ())"
| "registry_body ev (Bind_Completed_Registration operation evidence volumes) =
     bind_completed_builder_registration ev operation evidence volumes"
| "registry_body ev (Commit_Registration_Adoption target source progress) =
     commit_builder_registration_adoption ev target source progress"

text \<open>The tables a run of the service can reach, whatever the clock and the identifiers of each
  call were.\<close>

inductive store_step :: "store \<Rightarrow> store \<Rightarrow> bool" where
  call: "call_body ev c st = Inr ((), st') \<Longrightarrow> store_step st st'"
| registry: "registry_body ev r st = Inr ((), st') \<Longrightarrow> store_step st st'"

inductive reachable :: "store \<Rightarrow> bool" where
  start: "reachable empty_store"
| step: "reachable st \<Longrightarrow> store_step st st' \<Longrightarrow> reachable st'"

inductive_cases store_stepE: "store_step st st'"

end
