(* ===== verification/Frames.thy ===== *)
theory Frames
  imports Store_Calls
begin

text \<open>
  Which transactions leave the tables alone.  The rules keep what a guard established for the
  statements behind it; every read of the store is shown to be one, and every method that runs
  as a read-only transaction only reads.
\<close>


section \<open>Contextual composition\<close>

locale store_order = tx_order R for R :: "store \<Rightarrow> store \<Rightarrow> bool"
begin

lemma rel_if_context:
  "(b \<Longrightarrow> tx_rel R m) \<Longrightarrow> (\<not> b \<Longrightarrow> tx_rel R k) \<Longrightarrow> tx_rel R (if b then m else k)"
  by simp

lemma rel_bind_lift: "(\<And>x. r = Inr x \<Longrightarrow> tx_rel R (k x)) \<Longrightarrow> tx_rel R (tx_bind (tx_lift r) k)"
  by (rule tx_relI) (auto dest!: tx_relD intro: trans)

lemma rel_bind_some: "(\<And>x. v = Some x \<Longrightarrow> tx_rel R (k x)) \<Longrightarrow> tx_rel R (tx_bind (tx_some e v) k)"
  unfolding tx_some_def by (rule rel_bind_lift) simp

lemma rel_then_lift: "(r = Inr () \<Longrightarrow> tx_rel R k) \<Longrightarrow> tx_rel R (tx_then (tx_lift r) k)"
  by (rule tx_relI) (auto dest!: tx_relD intro: trans)

lemma rel_then_require: "(b \<Longrightarrow> tx_rel R k) \<Longrightarrow> tx_rel R (tx_then (tx_require b e) k)"
  by (rule tx_relI) (auto dest!: tx_relD intro: trans)

lemma rel_bind_return: "tx_rel R (k x) \<Longrightarrow> tx_rel R (tx_bind (tx_return x) k)"
  by simp

lemma rel_option_context:
  "(v = None \<Longrightarrow> tx_rel R m) \<Longrightarrow> (\<And>x. v = Some x \<Longrightarrow> tx_rel R (k x)) \<Longrightarrow>
    tx_rel R (case v of None \<Rightarrow> m | Some x \<Rightarrow> k x)"
  by (cases v) auto

lemma rel_prod_context:
  "(\<And>x y. v = (x, y) \<Longrightarrow> tx_rel R (k x y)) \<Longrightarrow> tx_rel R (case v of (x, y) \<Rightarrow> k x y)"
  by (cases v) auto

lemma rel_outcome:
  "(\<And>op. v = Accepted op \<Longrightarrow> tx_rel R (m op)) \<Longrightarrow> (\<And>op. v = Existing op \<Longrightarrow> tx_rel R (k op)) \<Longrightarrow>
    tx_rel R (case v of Accepted op \<Rightarrow> m op | Existing op \<Rightarrow> k op)"
  by (cases v) auto

lemma rel_some: "tx_rel R (tx_some e v)"
  unfolding tx_some_def by (rule rel_lift)

lemma rel_let: "tx_rel R (k x) \<Longrightarrow> tx_rel R (let y = x in k y)"
  by simp

lemma rel_unread: "(\<And>x. tx_rel R (k x)) \<Longrightarrow> tx_rel R (tx_bind (tx_read f) k)"
  by (rule tx_relI) (auto dest!: tx_relD)

lemma rel_in_store: "tx_rel R m \<Longrightarrow> tx_rel R (in_store m)"
  by (auto simp: in_store_def tx_rel_def)

lemma rel_effect: "tx_rel R m \<Longrightarrow> tx_rel R (effect m)"
  by (auto simp: tx_rel_def effect_commits)

lemma rel_collect: "(\<And>x. tx_rel R (f x)) \<Longrightarrow> tx_rel R (tx_collect f xs)"
  by (induction xs) (simp_all add: rel_return rel_bind)

lemma rel_retry: "tx_rel R m \<Longrightarrow> (\<And>e. tx_rel R (h e)) \<Longrightarrow> tx_rel R (or_recover m h)"
  by (auto simp: or_recover_def tx_rel_def split: sum.splits)

lemma rel_bind_message:
  "(\<And>x. v = Some x \<Longrightarrow> tx_rel R (k x)) \<Longrightarrow> tx_rel R (tx_bind (tx_message e v) k)"
  unfolding tx_message_def by (rule rel_bind_lift) simp

lemma rel_then_ensure: "(b \<Longrightarrow> tx_rel R k) \<Longrightarrow> tx_rel R (tx_then (tx_ensure b e) k)"
  unfolding tx_ensure_def by (rule rel_then_require)

lemma rel_then_valid: "(r = Inr () \<Longrightarrow> tx_rel R k) \<Longrightarrow> tx_rel R (tx_then (tx_valid r) k)"
  unfolding tx_valid_def by (rule rel_then_lift) (cases r, simp_all)

lemma rel_bind_valid: "(\<And>x. r = Inr x \<Longrightarrow> tx_rel R (k x)) \<Longrightarrow> tx_rel R (tx_bind (tx_valid r) k)"
  unfolding tx_valid_def by (rule rel_bind_lift) (cases r, simp_all)

lemma rel_checks: "tx_rel R (tx_message e v)" "tx_rel R (tx_ensure b e)" "tx_rel R (tx_valid r)"
  unfolding tx_message_def tx_ensure_def tx_valid_def by (rule rel_lift rel_require)+

lemma rel_json:
  "tx_rel R m1 \<Longrightarrow> (\<And>b. tx_rel R (m2 b)) \<Longrightarrow> (\<And>i. tx_rel R (m3 i)) \<Longrightarrow> (\<And>s. tx_rel R (m4 s)) \<Longrightarrow>
    (\<And>xs. tx_rel R (m5 xs)) \<Longrightarrow> (\<And>fs. tx_rel R (m6 fs)) \<Longrightarrow>
    tx_rel R (case j of JNull \<Rightarrow> m1 | JBool b \<Rightarrow> m2 b | JNum i \<Rightarrow> m3 i | JStr s \<Rightarrow> m4 s
      | JArr xs \<Rightarrow> m5 xs | JObj fs \<Rightarrow> m6 fs)"
  by (cases j) simp_all

lemma rel_reset_command:
  "(\<And>u s. tx_rel R (m u s)) \<Longrightarrow> tx_rel R k \<Longrightarrow>
    tx_rel R (case c of Cmd_ResetDatabasePassword u s \<Rightarrow> m u s | _ \<Rightarrow> k)"
  by (cases c) simp_all

lemma rel_scoped_head:
  "tx_rel R m1 \<Longrightarrow> (\<And>h. tx_rel R (m2 h)) \<Longrightarrow> (\<And>h. tx_rel R (m3 h)) \<Longrightarrow>
    tx_rel R (case head of Head_Absent \<Rightarrow> m1 | Head_Current h \<Rightarrow> m2 h | Head_Historical h \<Rightarrow> m3 h)"
  by (cases head) simp_all

lemmas rel_context = rel_return rel_fail rel_lift rel_some rel_require rel_read rel_bind_return
  rel_bind_lift rel_bind_some rel_then_lift rel_then_require rel_unread rel_bind_message
  rel_then_ensure rel_then_valid rel_bind_valid rel_bind rel_then rel_if_context rel_option_context rel_prod_context rel_outcome rel_each rel_let rel_in_store rel_effect rel_collect
  rel_retry rel_checks rel_json
  rel_scoped_head rel_reset_command

end

interpretation untouched: store_order "\<lambda>s s'. s' = s"
  by unfold_locales

lemmas pure_context = untouched.rel_context [folded tx_pure_def]


section \<open>Reads\<close>

text \<open>The reads of the store, in the order they call each other.\<close>

lemma tx_pure_scopes: "(\<And>i. tx_pure (repo_operation ev (lr_app_id app) i)) \<Longrightarrow> tx_pure (active_scopes ev app scopes records)"
proof (induction scopes arbitrary: records)
  case (Cons s scopes)
  show ?case
    unfolding active_scopes.simps
    by (rule pure_context Cons.IH Cons.prems | assumption)+
qed (simp add: pure_context)

lemma read_only0:
  "tx_pure (repo_app ev i)"
  "tx_pure (repo_operation ev i i')"
  "tx_pure (repo_request i i')"
  "tx_pure (validated_execution_input ev op)"
  "tx_pure (operation_deadline i i')"
  "tx_pure (unfinished_operations ev after n)"
  "tx_pure (scan_unfinished_operations ev after n)"
  "tx_pure (get_operation_lease i i')"
  "tx_pure (scan_terminal_operation_leases ev after n)"
  "tx_pure (config_head i i' scope)"
  "tx_pure (find_version i i' i'' v)"
  "tx_pure (config_receipt op)"
  "tx_pure (get_control ev i i')"
  "tx_pure (find_intent i scope)"
  "tx_pure (lease_held i)"
  "tx_pure (next_generation i i')"
  "tx_pure (next_operation_revision op)"
  "tx_pure (get_resource_binding service i)"
  "tx_pure (list_wake_fence_snapshots after n)"
  "tx_pure (control_context control)"
  "tx_pure (next_control_revision control)"
  "tx_pure (object_insert i i' doc doc')"
  "tx_pure (scan_controls ev after n)"
  "tx_pure (original_volumes i doc)"
  "tx_pure (push_history doc)"
  "tx_pure (find_control_deadline i)"
  "tx_pure (original_witness i i')"
  "tx_pure (check_recorded_evidence ev op evidence)"
  "tx_pure (control_updated_at ev i i' v)"
  "tx_pure (operation_updated_at ev i i' v)"
  by (unfold repo_app_def repo_operation_def repo_request_def validated_execution_input_def
      operation_deadline_def unfinished_operations_def scan_unfinished_operations_def
      get_operation_lease_def scan_terminal_operation_leases_def config_head_def find_version_def
      config_receipt_def get_control_def find_intent_def lease_held_def next_generation_def
      next_operation_revision_def get_resource_binding_def list_wake_fence_snapshots_def
      control_context_def next_control_revision_def object_insert_def scan_controls_def
      original_volumes_def push_history_def find_control_deadline_def original_witness_def
      check_recorded_evidence_def control_updated_at_def operation_updated_at_def,
      (rule pure_context)+)

lemmas reads0 = read_only0

lemma read_only1:
  "tx_pure (get_operation ev i i')"
  "tx_pure (terminal_lease ev lease)"
  "tx_pure (verify_version_credentials op v pg)"
  "tx_pure (validate_terminal op state)"
  "tx_pure (drained_one ev control i)"
  "tx_pure (active_controls ev i)"
  "tx_pure (succeed_head ev req b head)"
  "tx_pure (compute_current ev who)"
  "tx_pure (get_application ev i)"
  "tx_pure (list_applications ev after n)"
  "tx_pure (loaded_activity ev act)"
  "tx_pure (retained_input ev i i')"
  "tx_pure (retirement_binding target pvc)"
  "tx_pure (reread_control ev i i')"
  "tx_pure (concurrent_deadline control err)"
  "tx_pure (read_control_deadline i i')"
  "tx_pure (remaining_witness ev i i')"
  "tx_pure (request_operation ev i mapping)"
  by (unfold get_operation_def terminal_lease_def verify_version_credentials_def validate_terminal_def
      drained_one_def active_controls_def succeed_head_def compute_current_def get_application_def
      list_applications_def loaded_activity_def retained_input_def retirement_binding_def
      reread_control_def concurrent_deadline_def read_control_deadline_def remaining_witness_def
      request_operation_def,
      (rule pure_context reads0)+)

lemmas reads1 = reads0 read_only1

lemma read_only2:
  "tx_pure (active ev app)"
  "tx_pure (terminal_operation_leases ev after n)"
  "tx_pure (verify_captured_credentials op pg)"
  "tx_pure (drained ev control)"
  "tx_pure (check_compute ev who)"
  "tx_pure (load_all_activity ev)"
  "tx_pure (require_control ev who control)"
  "tx_pure (reread_snapshot ev control)"
  "tx_pure (get_operation_by_request ev i i')"
  by (unfold active_def terminal_operation_leases_def verify_captured_credentials_def drained_def
      check_compute_def load_all_activity_def require_control_def reread_snapshot_def
      get_operation_by_request_def,
      (rule pure_context reads1
        tx_pure_scopes)+)

lemmas reads2 = reads1 read_only2

lemma read_only3:
  "tx_pure (settled_control ev scope intent row)"
  "tx_pure (list_control_snapshots ev after n)"
  by (unfold settled_control_def list_control_snapshots_def,
      (rule pure_context reads2)+)

lemmas reads3 = reads2 read_only3

lemma read_only4:
  "tx_pure (validate_settled_head ev intent)"
  by (unfold validate_settled_head_def,
      (rule pure_context reads3)+)

lemmas reads4 = reads3 read_only4

lemma read_only5:
  "tx_pure (classify_scoped_head ev app scope intent)"
  by (unfold classify_scoped_head_def,
      (rule pure_context reads4)+)

lemmas reads5 = reads4 read_only5

lemma read_only6:
  "tx_pure (read_scoped_head ev app scope)"
  by (unfold read_scoped_head_def,
      (rule pure_context reads5)+)

lemmas reads6 = reads5 read_only6

lemma read_only7:
  "tx_pure (read_compute_status ev i i' scope)"
  "tx_pure (current_control ev app scope)"
  "tx_pure (compute_desired_stopped ev i i' scope)"
  by (unfold read_compute_status_def current_control_def compute_desired_stopped_def,
      (rule pure_context reads6)+)

lemmas reads7 = reads6 read_only7

lemma read_only8:
  "tx_pure (check_business_authority ev op)"
  "tx_pure (guard_admission ev app scope)"
  by (unfold check_business_authority_def guard_admission_def,
      (rule pure_context reads7)+)

lemmas reads8 = reads7 read_only8

lemma read_only9:
  "tx_pure (check_business_execution ev context)"
  by (unfold check_business_execution_def,
      (rule pure_context reads8)+)

lemmas store_reads = reads8 read_only9

lemma check_access_pure: "tx_pure (check_access ev i scope False)"
  unfolding check_access_def if_False by (rule pure_context store_reads | simp)+


section \<open>Read-only methods\<close>

lemmas read_only_methods = store_reads check_access_pure untouched.rel_effect [folded tx_pure_def]

lemma read_only_groups:
  "discovery_call_read_only dc \<Longrightarrow> tx_pure (discovery_call_body ev dc)"
  "control_call_read_only cc \<Longrightarrow> tx_pure (control_call_body ev cc)"
  "control_recovery_call_read_only rc \<Longrightarrow> tx_pure (control_recovery_call_body ev rc)"
  "application_call_read_only ac \<Longrightarrow> tx_pure (application_call_body ev ac)"
  "operation_call_read_only oc \<Longrightarrow> tx_pure (operation_call_body ev oc)"
  "configuration_call_read_only fc \<Longrightarrow> tx_pure (configuration_call_body ev fc)"
       apply (cases dc; simp add: discovery_call_read_only_def read_only_methods)
      apply (cases cc; simp add: control_call_read_only_def read_only_methods)
     apply (cases rc; simp add: control_recovery_call_read_only_def read_only_methods)
    apply (cases ac; simp add: application_call_read_only_def read_only_methods)
   apply (cases oc; simp add: operation_call_read_only_def read_only_methods)
  apply (cases fc; simp add: configuration_call_read_only_def read_only_methods)
  done

lemma read_only_call_pure: "call_read_only c \<Longrightarrow> tx_pure (call_body ev c)"
  by (cases c) (simp_all add: read_only_groups)

end
