(* ===== verification/Write_Rules.thy ===== *)
theory Write_Rules
  imports Frames
begin

text \<open>
  From the statements of a transaction to every method of the store.  A relation on the tables
  that is reflexive, transitive and respected by each write is respected by every method; the
  two locales collect the writes (\<open>ledger_order\<close> those beside the application root, its slots
  and its operations, \<open>root_order\<close> all of them) and carry the relation through the bodies once.
\<close>

definition control_identity :: "control_row \<Rightarrow> control_row" where
  "control_identity r = r\<lparr>cc_revision := 0, cc_state := [], cc_executor_id := None, cc_stage := [],
     cc_evidence_json := NotJson [], cc_checkpoint_json := NotJson [], cc_lease_json := None,
     cc_error_code := None, cc_error_message := None, cc_updated_at_us := 0, cc_terminal_at_us := None\<rparr>"


section \<open>Beside the root\<close>

locale ledger_order = store_order R for R +
  assumes claim_app_rel: "tx_rel R (claim_app i)"
    and insert_input_rel: "tx_rel R (insert_input ev op input)"
    and delete_input_rel: "tx_rel R (delete_input i)"
    and bind_operation_deadline_rel: "tx_rel R (bind_operation_deadline ev i i' i'' v)"
    and forget_operation_lease_rel: "tx_rel R (forget_operation_lease ev binding)"
    and save_configuration_rel: "tx_rel R (save_configuration ev i scope req2)"
    and capture_configuration_rel: "tx_rel R (capture_configuration ev op)"
    and bind_configuration_rel: "tx_rel R (bind_configuration ev context v target2)"
    and record_configuration_rel: "tx_rel R (record_configuration ev context v target2 credential business)"
    and insert_control_rel: "tx_rel R (insert_control row3)"
    and insert_intent_rel: "tx_rel R (insert_intent intent)"
    and retire_head_rel: "tx_rel R (retire_head intent)"
    and supersede_control_rel: "tx_rel R (supersede_control ev i)"
    and save_intent_rel: "tx_rel R (save_intent ev req1 head v v')"
    and check_access_rel: "tx_rel R (check_access ev i scope b)"
    and insert_witness_rel: "tx_rel R (insert_witness ev found)"
    and insert_lease_rel: "tx_rel R (insert_lease lease)"
    and insert_request_rel: "tx_rel R (insert_request row5)"
    and upsert_activity_rel: "tx_rel R (upsert_activity ev i i' v)"
    and delete_activity_rel: "tx_rel R (delete_activity i i')"
    and insert_binding_rel: "tx_rel R (insert_binding ev binding1)"
    and insert_control_deadline_rel: "tx_rel R (insert_control_deadline row2)"
    and verify_anchor_rel: "tx_rel R (verify_anchor i v)"
    and mark_unheld_rel: "tx_rel R (mark_unheld ev control v)"
    and clear_unheld_rel: "tx_rel R (clear_unheld control)"
    and rearm_wake_rel: "tx_rel R (rearm_wake ev who)"
    and update_control_rel: "(\<And>r. control_identity (f r) = control_identity r) \<Longrightarrow> tx_rel R (update_control p f)"
begin

lemmas rel_reads = store_reads [THEN rel_pure]

lemmas ledger_writes = claim_app_rel insert_input_rel delete_input_rel bind_operation_deadline_rel
  forget_operation_lease_rel save_configuration_rel capture_configuration_rel
  bind_configuration_rel record_configuration_rel insert_control_rel insert_intent_rel
  retire_head_rel supersede_control_rel save_intent_rel check_access_rel insert_witness_rel
  insert_lease_rel insert_request_rel upsert_activity_rel delete_activity_rel
  insert_binding_rel insert_control_deadline_rel verify_anchor_rel mark_unheld_rel
  clear_unheld_rel rearm_wake_rel

lemma update_snapshot_rel:
  "(\<And>r. control_identity (f r) = control_identity r) \<Longrightarrow> tx_rel R (update_snapshot snapshot p f)"
  unfolding update_snapshot_def by (rule update_control_rel)

lemma commit_stopped_rel:
  "(\<And>r. control_identity (f r) = control_identity r) \<Longrightarrow> tx_rel R (commit_stopped ev snapshot i doc f)"
  unfolding commit_stopped_def
  by (rule rel_context rel_reads update_snapshot_rel | simp add: control_identity_def)+

lemmas control_writes = update_control_rel update_snapshot_rel commit_stopped_rel

lemma ledger_group0:
  "tx_rel R (op_current ev i i' i'')"
  "tx_rel R (current_app ev i i')"
  "tx_rel R (seed_deployment_credentials ev op pg)"
  "tx_rel R (retire_lifecycle_heads ev app)"
  "tx_rel R (admit_control_fresh ev req1 b app)"
  "tx_rel R (insert_stopped_intent ev found scope)"
  "tx_rel R (mapped_operation ev i mapping)"
  "tx_rel R (store_request_mapping ev after mapping op)"
  "tx_rel R (flush_activity ev obs)"
  "tx_rel R (bind_control_lease ev who receipt)"
  "tx_rel R (advance_control ev progress)"
  "tx_rel R (forget_control_lease ev who receipt)"
  "tx_rel R (acknowledge_drain ev ack)"
  "tx_rel R (confirm_builder_restart_stopped ev control obs1)"
  "tx_rel R (confirm_kubernetes_restart_stopped ev control evidence5)"
  "tx_rel R (fail_unrebuildable_builder_restart ev control obs1 gone)"
  "tx_rel R (continue_start control v doc)"
  "tx_rel R (capture_stopped_builder_template ev control target template)"
  "tx_rel R (mark_archive_cleaned ev control)"
  "tx_rel R (early_current ev control)"
  "tx_rel R (settle_failed ev control p i i')"
  "tx_rel R (bind_control_deadline ev control v)"
  "tx_rel R (builder_root ev i i' i'')"
  "tx_rel R (persist_builder_binding ev op evidence pvc)"
  "tx_rel R (adopt_binding ev context binding1 pvc)"
  by (unfold op_current_def current_app_def seed_deployment_credentials_def retire_lifecycle_heads_def
      admit_control_fresh_def insert_stopped_intent_def mapped_operation_def
      store_request_mapping_def flush_activity_def bind_control_lease_def advance_control_def
      forget_control_lease_def acknowledge_drain_def confirm_builder_restart_stopped_def
      confirm_kubernetes_restart_stopped_def fail_unrebuildable_builder_restart_def
      continue_start_def capture_stopped_builder_template_def mark_archive_cleaned_def
      early_current_def settle_failed_def bind_control_deadline_def builder_root_def
      persist_builder_binding_def adopt_binding_def,
      (rule rel_context rel_reads control_writes ledger_writes | simp add: control_identity_def; fail)+)

lemmas ledger0 = ledger_writes ledger_group0

lemma ledger_group1:
  "tx_rel R (read_config_status ev i i' scope)"
  "tx_rel R (owned_operation ev context)"
  "tx_rel R (admit_control ev req1 b)"
  "tx_rel R (record_restored ev found app b)"
  "tx_rel R (read_execution_input ev context)"
  "tx_rel R (read_recovery_execution_input ev op)"
  "tx_rel R (bind_operation_lease ev context receipt)"
  "tx_rel R (flush_batch ev obss)"
  "tx_rel R (snapshot_current ev op)"
  "tx_rel R (authorize_builder_registration_retirement ev target)"
  "tx_rel R (finalize_confirmed ev control)"
  "tx_rel R (resume_stopped_restart ev control target1)"
  "tx_rel R (resume_builder_restart ev control target)"
  "tx_rel R (reserve_control ev control)"
  "tx_rel R (capture_recovered_lease ev control receipt context)"
  "tx_rel R (resume_control ev control receipt1)"
  "tx_rel R (record_control_problem ev control i i')"
  "tx_rel R (fail_unrecoverable ev control i i')"
  "tx_rel R (expire_control ev control i i' v)"
  "tx_rel R (bind_completed_builder_registration ev op evidence pvcs)"
  by (unfold read_config_status_def owned_operation_def admit_control_def record_restored_def
      read_execution_input_def read_recovery_execution_input_def bind_operation_lease_def
      flush_batch_def snapshot_current_def authorize_builder_registration_retirement_def
      finalize_confirmed_def resume_stopped_restart_def resume_builder_restart_def
      reserve_control_def capture_recovered_lease_def resume_control_def
      record_control_problem_def fail_unrecoverable_def expire_control_def
      bind_completed_builder_registration_def,
      (rule rel_context rel_reads control_writes ledger0 | simp add: control_identity_def; fail)+)

lemmas ledger1 = ledger0 ledger_group1

lemma ledger_group2:
  "tx_rel R (read_configuration ev context)"
  "tx_rel R (deletion_snapshot_current ev op)"
  "tx_rel R (finalize_observed ev control act1 creation)"
  by (unfold read_configuration_def deletion_snapshot_current_def finalize_observed_def,
      (rule rel_context rel_reads control_writes ledger1 | simp add: control_identity_def; fail)+)

lemmas ledger2 = ledger1 ledger_group2

lemma ledger_group3:
  "tx_rel R (finalize_observed_stop ev control)"
  "tx_rel R (finalize_observed_restart ev control)"
  "tx_rel R (finalize_observed_creation ev control target pvcs)"
  by (unfold finalize_observed_stop_def finalize_observed_restart_def finalize_observed_creation_def,
      (rule rel_context rel_reads control_writes ledger2 | simp add: control_identity_def; fail)+)

lemmas ledger3 = ledger2 ledger_group3

lemmas ledger_methods = ledger3

end


section \<open>With the root, its slots and its operations\<close>

locale root_order = ledger_order +
  assumes insert_application_rel: "tx_rel R (insert_application row)"
    and create_slots_rel: "tx_rel R (create_slots i i')"
    and save_app_rel: "tx_rel R (save_app ev app i v)"
    and save_slots_rel: "tx_rel R (save_slots app app')"
    and insert_operation_rel: "tx_rel R (insert_operation ev op)"
    and save_operation_rel: "tx_rel R (save_operation ev op op')"
    and restore_unprovisioned_root_rel: "tx_rel R (restore_unprovisioned_root ev app found)"
    and recreate_rel: "tx_rel R (recreate ev i i' i'')"
begin

lemmas root_writes = ledger_methods insert_application_rel create_slots_rel save_app_rel save_slots_rel insert_operation_rel
  save_operation_rel restore_unprovisioned_root_rel recreate_rel

lemma root_steps:
  "tx_rel R (cancel_wake ev control app op)" "tx_rel R (cancel_pending ev control app op)"
  "tx_rel R (quarantine_one ev row)"
  by (unfold cancel_wake_def cancel_pending_def quarantine_one_def,
      (rule rel_context rel_reads root_writes)+)

lemma cancel_each_rel: "tx_rel R (cancel_each ev control app is)"
proof (induction "is" arbitrary: app)
  case (Cons i "is")
  show ?case
    unfolding cancel_each.simps by (rule rel_context rel_reads root_steps Cons.IH | assumption)+
qed (simp add: rel_return)

lemma quarantine_pages_rel: "tx_rel R (quarantine_pages ev n after)"
proof (induction n arbitrary: after)
  case (Suc n)
  show ?case
    unfolding quarantine_pages.simps by (rule rel_context root_steps Suc.IH)+
qed (simp add: rel_return)

lemmas root_loops = root_writes root_steps cancel_each_rel quarantine_pages_rel

lemma root_group0:
  "tx_rel R (ensure_with_created ev app)"
  "tx_rel R (cancel_interruptible_business ev control)"
  "tx_rel R (commit_operation ev op op' app app')"
  "tx_rel R (op_patch_metadata ev patch)"
  "tx_rel R (store_accepted ev input1 pg1 app app' op)"
  "tx_rel R (confirm_builder_creation_recovery ev op evidence b)"
  "tx_rel R (reserve_completed_operation ev op)"
  "tx_rel R (quarantine_local_restart ev)"
  "tx_rel R (reserve_interrupted_hot ev op binding)"
  "tx_rel R (reserve_interrupted_deletion ev op)"
  "tx_rel R (record_deletion_recovery_problem ev op i)"
  by (unfold ensure_with_created_def cancel_interruptible_business_def commit_operation_def
      op_patch_metadata_def store_accepted_def confirm_builder_creation_recovery_def
      reserve_completed_operation_def quarantine_local_restart_def reserve_interrupted_hot_def
      reserve_interrupted_deletion_def record_deletion_recovery_problem_def,
      (rule rel_context rel_reads control_writes root_loops | simp add: control_identity_def; fail)+)

lemmas root0 = root_loops root_group0

lemma root_group1:
  "tx_rel R (ensure ev app)"
  "tx_rel R (claim_control ev who v)"
  "tx_rel R (restore_identity ev found)"
  "tx_rel R (op_advance ev progress1)"
  "tx_rel R (settle ev app op state i doc after after')"
  "tx_rel R (settle_receipt ev app op progress1 progress1')"
  "tx_rel R (confirm_database_preparation_recovery ev op evidence2)"
  by (unfold ensure_def claim_control_def restore_identity_def op_advance_def settle_def
      settle_receipt_def confirm_database_preparation_recovery_def,
      (rule rel_context rel_reads control_writes root0 | simp add: control_identity_def; fail)+)

lemmas root1 = root0 root_group1

lemma root_group2:
  "tx_rel R (ensure_identity ev i)"
  "tx_rel R (admit_with_configuration ev req input1 pg1)"
  "tx_rel R (finalize_password_recovery ev op evidence1)"
  "tx_rel R (finalize_deploy_pg_recovery ev op evidence3)"
  "tx_rel R (finalize_builder_creation_rejection ev op rejection)"
  "tx_rel R (commit_resource_binding ev binding1 progress1)"
  "tx_rel R (finalize_observed_wake ev op)"
  "tx_rel R (settle_fenced_operation ev op doc i)"
  "tx_rel R (settle_stale_running_builder ev op doc i)"
  "tx_rel R (finalize_observed_hot_success ev op doc)"
  "tx_rel R (finalize_legacy_observed_wake ev op doc)"
  "tx_rel R (finalize_observed_hot_failure ev op evidence4)"
  "tx_rel R (expire_deployment_update ev op)"
  "tx_rel R (finalize_interrupted ev who op)"
  "tx_rel R (restore_storage_identity ev found1)"
  "tx_rel R (commit_builder_registration_adoption ev target i progress1)"
  by (unfold ensure_identity_def admit_with_configuration_def finalize_password_recovery_def
      finalize_deploy_pg_recovery_def finalize_builder_creation_rejection_def
      commit_resource_binding_def finalize_observed_wake_def settle_fenced_operation_def
      settle_stale_running_builder_def finalize_observed_hot_success_def
      finalize_legacy_observed_wake_def finalize_observed_hot_failure_def
      expire_deployment_update_def finalize_interrupted_def restore_storage_identity_def
      commit_builder_registration_adoption_def,
      (rule rel_context rel_reads control_writes root1 | simp add: control_identity_def; fail)+)

lemmas root2 = root1 root_group2

lemma root_group3:
  "tx_rel R (admit_with_input ev req input1)"
  "tx_rel R (finalize_interrupted_deletion ev op doc)"
  by (unfold admit_with_input_def finalize_interrupted_deletion_def,
      (rule rel_context rel_reads control_writes root2 | simp add: control_identity_def; fail)+)

lemmas root3 = root2 root_group3

lemma root_group4:
  "tx_rel R (admit ev req)"
  by (unfold admit_def,
      (rule rel_context rel_reads control_writes root3 | simp add: control_identity_def; fail)+)

lemmas root4 = root3 root_group4

lemmas root_methods = root4

lemma call_groups:
  "tx_rel R (discovery_call_body ev dc)"
  "tx_rel R (control_call_body ev cc)"
  "tx_rel R (control_recovery_call_body ev rc)"
  "tx_rel R (application_call_body ev ac)"
  "tx_rel R (operation_call_body ev oc)"
  "tx_rel R (operation_recovery_call_body ev orc)"
  "tx_rel R (configuration_call_body ev fc)"
        apply (cases dc; simp add: rel_effect rel_reads root_methods)
       apply (cases cc; simp add: rel_effect rel_reads root_methods)
      apply (cases rc; simp add: rel_effect rel_reads root_methods)
     apply (cases ac; simp add: rel_effect rel_reads root_methods)
    apply (cases oc; simp add: rel_effect rel_reads root_methods)
   apply (cases orc; simp add: rel_effect rel_reads root_methods)
  apply (cases fc; simp add: rel_effect rel_reads root_methods)
  done

lemma call_rel: "tx_rel R (call_body ev c)"
  by (cases c) (simp_all add: call_groups)

lemma registry_rel: "tx_rel R (registry_body ev r)"
  by (cases r) (simp_all add: root_methods rel_bind rel_return)

lemma store_step_rel: "store_step st st' \<Longrightarrow> R st st'"
  by (erule store_stepE) (erule tx_relD [OF call_rel] tx_relD [OF registry_rel])+

end

end
