(* ===== verification/Schema.thy ===== *)
theory Schema
  imports Write_Rules
begin

text \<open>
  The schema of the lifecycle database (\<open>schema/userapp-pg-v1.sql\<close> and its additive versions)
  as one predicate on the tables: primary and unique keys, CHECK constraints and foreign keys.
  The statements of the model run under the constraints of the row they write; here every
  transaction is shown to keep the whole schema.
\<close>


section \<open>Tables\<close>

definition table_ok :: "('r \<Rightarrow> 'k) \<Rightarrow> ('r \<Rightarrow> bool) \<Rightarrow> 'r list \<Rightarrow> bool" where
  "table_ok key chk t \<longleftrightarrow> unique_keys key t \<and> list_all chk t"

lemma table_ok_Nil [simp]: "table_ok key chk []"
  by (simp add: table_ok_def)

lemma table_ok_append [simp]:
  "table_ok key chk (t @ [r]) \<longleftrightarrow> table_ok key chk t \<and> lookup key t (key r) = None \<and> chk r"
  by (auto simp: table_ok_def)

lemma table_ok_update:
  assumes "table_ok key chk t" "\<And>r. p r \<Longrightarrow> key (f r) = key r"
    "\<And>r. r \<in> set t \<Longrightarrow> chk r \<Longrightarrow> p r \<Longrightarrow> chk (f r)"
  shows "table_ok key chk (update_where p f t)"
  using assms unique_keys_update_where [of p key f t]
  by (auto simp: table_ok_def list_all_iff update_where_def)

lemma table_ok_delete [simp]: "table_ok key chk t \<Longrightarrow> table_ok key chk (delete_where p t)"
  by (auto simp: table_ok_def list_all_iff delete_where_def [of p t] dest: unique_keys_delete_where)
     (metis unique_keys_delete_where delete_where_def)

lemma table_ok_mono:
  "table_ok key chk t \<Longrightarrow> (\<And>r. r \<in> set t \<Longrightarrow> chk r \<Longrightarrow> chk' r) \<Longrightarrow> table_ok key chk' t"
  by (auto simp: table_ok_def list_all_iff)

definition apps_table :: "application_row list \<Rightarrow> bool" where
  "apps_table t = table_ok ap_app_id application_checks t"

definition ops_table :: "store \<Rightarrow> operation_row list \<Rightarrow> bool" where
  "ops_table st t = table_ok ow_operation_id (\<lambda>r. operation_checks r \<and> app_exists st (ow_app_id r)) t"

definition slots_table :: "store \<Rightarrow> slots_row list \<Rightarrow> bool" where
  "slots_table st t = table_ok sl_app_id (\<lambda>r. slots_checks r \<and> slots_refs st r) t"

definition requests_table :: "store \<Rightarrow> request_row list \<Rightarrow> bool" where
  "requests_table st t =
    table_ok (\<lambda>r. (rq_app_id r, rq_request_id r)) (\<lambda>r. request_checks r \<and> request_refs st r) t"

definition inputs_table :: "store \<Rightarrow> input_row list \<Rightarrow> bool" where
  "inputs_table st t = table_ok in_operation_id (\<lambda>r. in_payload_version r = 1 \<and> length (in_payload_digest r) = 64
     \<and> operation_exists st (in_operation_id r) (in_app_id r) (in_lifecycle_id r)) t"

definition leases_table :: "store \<Rightarrow> lease_row list \<Rightarrow> bool" where
  "leases_table st t = table_ok le_operation_id (\<lambda>r. le_executor_id r \<noteq> []
     \<and> length (le_request_fingerprint r) = 64 \<and> le_receipt_version r = 1
     \<and> operation_exists st (le_operation_id r) (le_app_id r) (le_lifecycle_id r)) t"

definition deadlines_table :: "store \<Rightarrow> deadline_row list \<Rightarrow> bool" where
  "deadlines_table st t = table_ok dl_operation_id (\<lambda>r. 0 < dl_deadline_ms r
     \<and> operation_exists st (dl_operation_id r) (dl_app_id r) (dl_lifecycle_id r)) t"

definition control_deadlines_table :: "store \<Rightarrow> control_deadline_row list \<Rightarrow> bool" where
  "control_deadlines_table st t = table_ok kd_operation_id (\<lambda>r. 0 < kd_deadline_ms r
     \<and> lookup cc_operation_id (st_controls st) (kd_operation_id r) \<noteq> None) t"

definition bindings_table :: "store \<Rightarrow> binding_row list \<Rightarrow> bool" where
  "bindings_table st t = table_ok (\<lambda>r. (bi_service_type r, bi_physical_uid r))
     (\<lambda>r. bi_service_type r = ''user-app-builder'' \<and> bi_physical_uid r \<noteq> []
       \<and> operation_exists st (bi_adopted_by_operation r) (bi_app_id r) (bi_lifecycle_id r)) t"

definition witnesses_table :: "witness_row list \<Rightarrow> bool" where
  "witnesses_table t = table_ok (\<lambda>r. (wi_app_id r, wi_lifecycle_id r)) (\<lambda>_. True) t"

definition activity_table :: "store \<Rightarrow> activity_row list \<Rightarrow> bool" where
  "activity_table st t = table_ok activity_key (\<lambda>r. ac_scope r \<in> {''dev'', ''prod''}
     \<and> lifecycle_exists st (ac_app_id r) (ac_lifecycle_id r)) t"

definition config_versions_table :: "store \<Rightarrow> config_version_row list \<Rightarrow> bool" where
  "config_versions_table st t \<longleftrightarrow>
    table_ok (\<lambda>r. (cv_app_id r, cv_lifecycle_id r, cv_scope r, cv_version r))
      (\<lambda>r. config_version_checks r \<and> app_exists st (cv_app_id r)) t
    \<and> unique_keys (\<lambda>r. (cv_app_id r, cv_lifecycle_id r, cv_scope r, cv_request_id r)) t"

definition configs_table :: "store \<Rightarrow> config_row list \<Rightarrow> bool" where
  "configs_table st t = table_ok (\<lambda>r. (cf_app_id r, cf_lifecycle_id r, cf_scope r)) (config_checks st) t"

definition operation_configs_table :: "store \<Rightarrow> operation_config_row list \<Rightarrow> bool" where
  "operation_configs_table st t = table_ok oc_operation_id (operation_config_checks st) t"

definition intents_table :: "intent_row list \<Rightarrow> bool" where
  "intents_table t = table_ok (\<lambda>r. (it_app_id r, it_scope r)) intent_checks t"

definition controls_table :: "control_row list \<Rightarrow> bool" where
  "controls_table t \<longleftrightarrow> table_ok cc_operation_id control_checks t
    \<and> unique_keys (\<lambda>r. (cc_app_id r, cc_scope r, cc_request_id r)) t
    \<and> unique_keys (\<lambda>r. (cc_app_id r, cc_scope r, cc_generation r)) t"

text \<open>The constraints of the tables of \<open>st\<close>, with the foreign keys looked up in \<open>refs\<close>.\<close>

definition constraints :: "store \<Rightarrow> store \<Rightarrow> bool" where
  "constraints refs st \<longleftrightarrow> apps_table (st_apps st) \<and> ops_table refs (st_ops st)
    \<and> slots_table refs (st_slots st) \<and> requests_table refs (st_requests st)
    \<and> inputs_table refs (st_inputs st) \<and> leases_table refs (st_leases st)
    \<and> deadlines_table refs (st_deadlines st) \<and> control_deadlines_table refs (st_control_deadlines st)
    \<and> bindings_table refs (st_bindings st) \<and> witnesses_table (st_witnesses st)
    \<and> activity_table refs (st_activity st) \<and> config_versions_table refs (st_config_versions st)
    \<and> configs_table refs (st_configs st) \<and> operation_configs_table refs (st_operation_configs st)
    \<and> intents_table (st_intents st) \<and> controls_table (st_controls st)"

definition schema :: "store \<Rightarrow> bool" where
  "schema st = constraints st st"

lemmas table_defs = apps_table_def ops_table_def slots_table_def requests_table_def inputs_table_def
  leases_table_def deadlines_table_def control_deadlines_table_def bindings_table_def
  witnesses_table_def activity_table_def config_versions_table_def configs_table_def
  operation_configs_table_def intents_table_def controls_table_def

text \<open>A later store keeps the rows another one's foreign keys name.\<close>

definition refs_kept :: "store \<Rightarrow> store \<Rightarrow> bool" where
  "refs_kept st st' \<longleftrightarrow> (\<forall>a. app_exists st a \<longrightarrow> app_exists st' a)
    \<and> (\<forall>i a l. operation_exists st i a l \<longrightarrow> operation_exists st' i a l)
    \<and> (\<forall>i a l s. scoped_operation_exists st i a l s \<longrightarrow> scoped_operation_exists st' i a l s)
    \<and> (\<forall>a l s v. version_exists st a l s v \<longrightarrow> version_exists st' a l s v)
    \<and> (\<forall>i. lookup cc_operation_id (st_controls st) i \<noteq> None \<longrightarrow>
          lookup cc_operation_id (st_controls st') i \<noteq> None)"

lemma refs_kept_rows:
  assumes "refs_kept st st'"
  shows "operation_ref st v a l \<Longrightarrow> operation_ref st' v a l"
    and "request_refs st rq \<Longrightarrow> request_refs st' rq"
    and "config_checks st cf \<Longrightarrow> config_checks st' cf"
    and "operation_config_checks st oc \<Longrightarrow> operation_config_checks st' oc"
  using assms
  by (auto simp: refs_kept_def operation_ref_def request_refs_def config_checks_def
      operation_config_checks_def split: option.splits)

lemma refs_kept_tables:
  assumes "refs_kept st st'"
  shows "ops_table st t1 \<Longrightarrow> ops_table st' t1" "requests_table st t2 \<Longrightarrow> requests_table st' t2"
    "inputs_table st t3 \<Longrightarrow> inputs_table st' t3" "leases_table st t4 \<Longrightarrow> leases_table st' t4"
    "deadlines_table st t5 \<Longrightarrow> deadlines_table st' t5"
    "control_deadlines_table st t6 \<Longrightarrow> control_deadlines_table st' t6"
    "bindings_table st t7 \<Longrightarrow> bindings_table st' t7"
    "config_versions_table st t8 \<Longrightarrow> config_versions_table st' t8"
    "configs_table st t9 \<Longrightarrow> configs_table st' t9"
    "operation_configs_table st t10 \<Longrightarrow> operation_configs_table st' t10"
  using assms refs_kept_rows [OF assms]
  by (auto simp: table_defs refs_kept_def elim!: table_ok_mono)

definition lifecycles_kept :: "store \<Rightarrow> store \<Rightarrow> bool" where
  "lifecycles_kept st st' \<longleftrightarrow> (\<forall>a l. lifecycle_exists st a l \<longrightarrow> lifecycle_exists st' a l)"

lemma lifecycles_kept_tables:
  "refs_kept st st' \<Longrightarrow> lifecycles_kept st st' \<Longrightarrow> slots_table st t \<Longrightarrow> slots_table st' t"
  "lifecycles_kept st st' \<Longrightarrow> activity_table st t' \<Longrightarrow> activity_table st' t'"
  using refs_kept_rows [of st st']
  by (auto simp: table_defs slots_refs_def lifecycles_kept_def elim!: table_ok_mono)

lemmas kept_defs = refs_kept_def lifecycles_kept_def app_exists_def lifecycle_exists_def
  operation_exists_def scoped_operation_exists_def version_exists_def

lemma constraints_kept:
  "refs_kept st st' \<Longrightarrow> lifecycles_kept st st' \<Longrightarrow> constraints st t \<Longrightarrow> constraints st' t"
  unfolding constraints_def by (simp add: refs_kept_tables lifecycles_kept_tables)


section \<open>What a statement owes the schema\<close>

text \<open>
  A table of the schema: its rows can be replaced as long as they satisfy the constraints of
  the table, and still hold every key another table refers to (\<open>grows\<close>).
\<close>

locale schema_table =
  fixes get :: "store \<Rightarrow> 'r list"
    and upd :: "('r list \<Rightarrow> 'r list) \<Rightarrow> store \<Rightarrow> store"
    and tbl :: "store \<Rightarrow> 'r list \<Rightarrow> bool"
    and grows :: "'r list \<Rightarrow> 'r list \<Rightarrow> bool"
  assumes present: "schema st \<Longrightarrow> tbl st (get st)"
    and replaced: "schema st \<Longrightarrow> tbl st (f (get st)) \<Longrightarrow> grows (get st) (f (get st)) \<Longrightarrow> schema (upd f st)"
begin

lemma insert_keeps:
  assumes "\<And>st. tbl st (get st) \<Longrightarrow> ok st \<Longrightarrow> tbl st (get st @ [row]) \<and> grows (get st) (get st @ [row])"
  shows "tx_keeps schema (insert_row upd ok row)"
  using assms present replaced
  by (intro tx_keepsI) (auto simp: insert_row_def split: if_splits)

lemma update_one_keeps:
  assumes "\<And>st. tbl st (get st) \<Longrightarrow> list_all (\<lambda>r. p r \<longrightarrow> ok st (f r)) (get st) \<Longrightarrow>
    tbl st (update_where p f (get st)) \<and> grows (get st) (update_where p f (get st))"
  shows "tx_keeps schema (update_one get upd p f ok e)"
  using assms present replaced
  by (intro tx_keepsI) (auto simp: update_one_def split: if_splits)

lemma update_rows_keeps:
  assumes "\<And>st. tbl st (get st) \<Longrightarrow> list_all (\<lambda>r. p r \<longrightarrow> ok st (f r)) (get st) \<Longrightarrow>
    tbl st (update_where p f (get st)) \<and> grows (get st) (update_where p f (get st))"
  shows "tx_keeps schema (update_rows get upd p f ok)"
  using assms present replaced
  by (intro tx_keepsI) (auto simp: update_rows_def split: if_splits)

lemma modify_keeps:
  assumes "\<And>st. tbl st (get st) \<Longrightarrow> tbl st (f (get st)) \<and> grows (get st) (f (get st))"
  shows "tx_keeps schema (tx_modify (upd f))"
  using assms present replaced by (intro tx_keepsI) auto

lemma delete_rows_keeps:
  assumes "\<And>st. tbl st (get st) \<Longrightarrow>
    tbl st (delete_where p (get st)) \<and> grows (get st) (delete_where p (get st))"
  shows "tx_keeps schema (delete_rows upd p)"
  unfolding delete_rows_def using assms by (rule modify_keeps)

lemma delete_one_keeps:
  assumes "\<And>st. tbl st (get st) \<Longrightarrow>
    tbl st (delete_where p (get st)) \<and> grows (get st) (delete_where p (get st))"
  shows "tx_keeps schema (delete_one get upd p e)"
  using assms present replaced
  by (intro tx_keepsI) (auto simp: delete_one_def split: if_splits)

end

text \<open>Tables no other table refers to.\<close>

lemma schema_tableI:
  assumes "\<And>st. constraints st st \<Longrightarrow> tbl st (get st)"
    and "\<And>st f. grows (get st) (f (get st)) \<Longrightarrow> refs_kept st (upd f st) \<and> lifecycles_kept st (upd f st)"
    and "\<And>st st' t. refs_kept st st' \<Longrightarrow> lifecycles_kept st st' \<Longrightarrow> tbl st t \<Longrightarrow> tbl st' t"
    and "\<And>st f r. constraints r st \<Longrightarrow> tbl r (f (get st)) \<Longrightarrow> constraints r (upd f st)"
  shows "schema_table get upd tbl grows"
  using assms constraints_kept unfolding schema_table_def schema_def by metis

interpretation slots: schema_table st_slots st_slots_update slots_table "\<lambda>_ _. True"
  by (rule schema_tableI) (simp_all add: constraints_def kept_defs refs_kept_tables lifecycles_kept_tables)

interpretation requests: schema_table st_requests st_requests_update requests_table "\<lambda>_ _. True"
  by (rule schema_tableI) (simp_all add: constraints_def kept_defs refs_kept_tables lifecycles_kept_tables)

interpretation inputs: schema_table st_inputs st_inputs_update inputs_table "\<lambda>_ _. True"
  by (rule schema_tableI) (simp_all add: constraints_def kept_defs refs_kept_tables lifecycles_kept_tables)

interpretation leases: schema_table st_leases st_leases_update leases_table "\<lambda>_ _. True"
  by (rule schema_tableI) (simp_all add: constraints_def kept_defs refs_kept_tables lifecycles_kept_tables)

interpretation deadlines: schema_table st_deadlines st_deadlines_update deadlines_table "\<lambda>_ _. True"
  by (rule schema_tableI) (simp_all add: constraints_def kept_defs refs_kept_tables lifecycles_kept_tables)

interpretation control_deadlines:
  schema_table st_control_deadlines st_control_deadlines_update control_deadlines_table "\<lambda>_ _. True"
  by (rule schema_tableI) (simp_all add: constraints_def kept_defs refs_kept_tables lifecycles_kept_tables)

interpretation bindings: schema_table st_bindings st_bindings_update bindings_table "\<lambda>_ _. True"
  by (rule schema_tableI) (simp_all add: constraints_def kept_defs refs_kept_tables lifecycles_kept_tables)

interpretation witnesses:
  schema_table st_witnesses st_witnesses_update "\<lambda>_. witnesses_table" "\<lambda>_ _. True"
  by (rule schema_tableI) (simp_all add: constraints_def kept_defs refs_kept_tables lifecycles_kept_tables)

interpretation activity: schema_table st_activity st_activity_update activity_table "\<lambda>_ _. True"
  by (rule schema_tableI) (simp_all add: constraints_def kept_defs refs_kept_tables lifecycles_kept_tables)

interpretation configs: schema_table st_configs st_configs_update configs_table "\<lambda>_ _. True"
  by (rule schema_tableI) (simp_all add: constraints_def kept_defs refs_kept_tables lifecycles_kept_tables)

interpretation operation_configs:
  schema_table st_operation_configs st_operation_configs_update operation_configs_table "\<lambda>_ _. True"
  by (rule schema_tableI) (simp_all add: constraints_def kept_defs refs_kept_tables lifecycles_kept_tables)

interpretation intents: schema_table st_intents st_intents_update "\<lambda>_. intents_table" "\<lambda>_ _. True"
  by (rule schema_tableI) (simp_all add: constraints_def kept_defs refs_kept_tables lifecycles_kept_tables)

text \<open>Tables with referring rows: their keys stay.\<close>

definition covers :: "('r \<Rightarrow> 'k) \<Rightarrow> 'r list \<Rightarrow> 'r list \<Rightarrow> bool" where
  "covers key t t' \<longleftrightarrow> key ` set t \<subseteq> key ` set t'"

lemma covers_append [simp]: "covers key t (t @ [r])"
  by (auto simp: covers_def)

lemma covers_update [simp]:
  assumes "\<And>r. p r \<Longrightarrow> key (f r) = key r"
  shows "covers key t (update_where p f t)"
proof -
  have "map key (update_where p f t) = map key t"
    using assms by (rule update_where_keys)
  then show ?thesis
    by (simp add: covers_def flip: set_map)
qed

lemma covers_exists: "covers key t t' \<Longrightarrow> list_ex (\<lambda>r. key r = k) t \<Longrightarrow> list_ex (\<lambda>r. key r = k) t'"
  by (fastforce simp: covers_def list_ex_iff)

definition operation_key :: "operation_row \<Rightarrow> string \<times> string \<times> string \<times> string" where
  "operation_key r = (ow_operation_id r, ow_app_id r, ow_lifecycle_id r, ow_scope r)"

definition version_key :: "config_version_row \<Rightarrow> string \<times> string \<times> string \<times> int" where
  "version_key r = (cv_app_id r, cv_lifecycle_id r, cv_scope r, cv_version r)"

lemma operation_kept:
  assumes "covers operation_key (st_ops st) (f (st_ops st))"
  shows "operation_exists st i a l \<Longrightarrow> operation_exists (st_ops_update f st) i a l"
    and "scoped_operation_exists st i a l s \<Longrightarrow> scoped_operation_exists (st_ops_update f st) i a l s"
  using assms
  by (fastforce simp: operation_exists_def scoped_operation_exists_def covers_def list_ex_iff operation_key_def)+

lemma version_kept:
  "covers version_key (st_config_versions st) (f (st_config_versions st)) \<Longrightarrow> version_exists st a l s v \<Longrightarrow>
    version_exists (st_config_versions_update f st) a l s v"
  by (fastforce simp: version_exists_def covers_def list_ex_iff version_key_def)

lemma control_kept:
  "covers cc_operation_id t t' \<Longrightarrow> lookup cc_operation_id t i \<noteq> None \<Longrightarrow> lookup cc_operation_id t' i \<noteq> None"
  by (auto simp: covers_def lookup_None_iff)

interpretation ops: schema_table st_ops st_ops_update ops_table "covers operation_key"
  by (rule schema_tableI)
     (simp_all add: constraints_def refs_kept_tables refs_kept_def lifecycles_kept_def operation_kept,
      simp_all add: kept_defs)

interpretation config_versions:
  schema_table st_config_versions st_config_versions_update config_versions_table "covers version_key"
  by (rule schema_tableI)
     (simp_all add: constraints_def refs_kept_tables refs_kept_def lifecycles_kept_def version_kept,
      simp_all add: kept_defs)

interpretation controls:
  schema_table st_controls st_controls_update "\<lambda>_. controls_table" "covers cc_operation_id"
  by (rule schema_tableI)
     (simp_all add: constraints_def refs_kept_tables refs_kept_def lifecycles_kept_def control_kept,
      simp_all add: kept_defs)

definition root_key :: "application_row \<Rightarrow> string \<times> string" where
  "root_key r = (ap_app_id r, ap_lifecycle_id r)"

lemma root_kept:
  assumes "covers root_key (st_apps st) (f (st_apps st))"
  shows "app_exists st a \<Longrightarrow> app_exists (st_apps_update f st) a"
    and "lifecycle_exists st a l \<Longrightarrow> lifecycle_exists (st_apps_update f st) a l"
  using assms by (fastforce simp: app_exists_def lifecycle_exists_def covers_def list_ex_iff root_key_def)+

interpretation apps: schema_table st_apps st_apps_update "\<lambda>_. apps_table" "covers root_key"
  by (rule schema_tableI)
     (simp_all add: constraints_def refs_kept_tables refs_kept_def lifecycles_kept_def root_kept,
      simp_all add: kept_defs)


section \<open>Statements\<close>

interpretation keeping: store_order "\<lambda>s s'. schema s \<longrightarrow> schema s'"
  by unfold_locales auto

lemmas keeps_context = keeping.rel_context [folded tx_keeps_def]

lemmas keeps_reads = store_reads [THEN tx_pure_keeps]

lemma schema_keys:
  assumes "schema st"
  shows "unique_keys ap_app_id (st_apps st)" "unique_keys ow_operation_id (st_ops st)"
    "unique_keys sl_app_id (st_slots st)"
  using assms by (simp_all add: schema_def constraints_def table_defs table_ok_def)

text \<open>Rewriting rows in place: the keys stay, and the new rows pass their checks.\<close>

lemma table_update_obligation:
  assumes "table_ok key chk t" "list_all (\<lambda>r. p r \<longrightarrow> ok (f r)) t" "\<And>r. p r \<Longrightarrow> key (f r) = key r"
    "\<And>r. chk r \<Longrightarrow> p r \<Longrightarrow> ok (f r) \<Longrightarrow> chk (f r)"
  shows "table_ok key chk (update_where p f t)"
  using assms by (auto intro!: table_ok_update simp: list_all_iff)

lemma claim_app_schema: "tx_keeps schema (claim_app a)"
  unfolding claim_app_def
  by ((rule keeps_context apps.update_one_keeps)+, unfold apps_table_def)
     (auto elim!: table_update_obligation simp: root_key_def)

lemma insert_application_schema: "tx_keeps schema (insert_application row)"
proof (rule tx_keepsI)
  fix st x st'
  assume "insert_application row st = Inr (x, st')" "schema st"
  then show "schema st'"
    using apps.present [of st]
    by (auto simp: insert_application_def table_defs intro!: apps.replaced split: if_splits)
qed

lemma create_slots_schema: "tx_keeps schema (create_slots a l)"
  unfolding create_slots_def Let_def by (rule slots.insert_keeps) (simp add: table_defs)

lemma save_slots_schema: "tx_keeps schema (save_slots app previous)"
  unfolding save_slots_def
  by (rule slots.update_one_keeps, unfold slots_table_def)
     (auto intro!: table_ok_update simp: list_all_iff)

lemma insert_operation_schema: "tx_keeps schema (insert_operation ev op)"
  unfolding insert_operation_def
  by (rule keeps_context ops.insert_keeps | simp add: table_defs)+

lemma save_operation_schema: "tx_keeps schema (save_operation ev op previous)"
  unfolding save_operation_def
  by ((rule keeps_context ops.update_one_keeps)+, unfold ops_table_def)
     (auto elim!: table_update_obligation simp: operation_key_def)

lemma count_where_oneD: "count_where p t = 1 \<Longrightarrow> \<exists>r \<in> set t. p r"
  unfolding count_where_def by (metis filter_False length_0_conv zero_neq_one)

text \<open>A root may change its lifecycle once no slot and no activity names the old one.\<close>

lemma schema_new_lifecycle:
  assumes st: "schema st" and apps: "apps_table (f (st_apps st))"
    and covered: "covers ap_app_id (st_apps st) (f (st_apps st))"
    and others: "\<And>r. r \<in> set (st_apps st) \<Longrightarrow> root_key r \<noteq> (a, l) \<Longrightarrow> root_key r \<in> root_key ` set (f (st_apps st))"
    and unnamed: "\<not> lifecycle_referenced st a l"
  shows "schema (st_apps_update f st)"
proof -
  let ?st = "st_apps_update f st"
  have refs: "refs_kept st ?st"
    using covered
    by (simp add: refs_kept_def app_exists_def operation_exists_def scoped_operation_exists_def version_exists_def)
       (fastforce simp: list_ex_iff covers_def)
  have lifecycles: "lifecycle_exists ?st a' l'" if "lifecycle_exists st a' l'" "(a', l') \<noteq> (a, l)" for a' l'
    using that others by (fastforce simp: lifecycle_exists_def list_ex_iff root_key_def image_iff)
  have "slots_table st (st_slots st)" "activity_table st (st_activity st)"
    using st by (simp_all add: schema_def constraints_def)
  then have "slots_table ?st (st_slots st)" "activity_table ?st (st_activity st)"
    using unnamed refs_kept_rows(1) [OF refs] lifecycles
    by (auto simp: slots_table_def activity_table_def slots_refs_def lifecycle_referenced_def list_ex_iff
        elim!: table_ok_mono)
  then show ?thesis
    using st apps refs_kept_tables [OF refs] by (simp add: schema_def constraints_def)
qed

lemma save_app_schema: "tx_keeps schema (save_app ev record old_lifecycle old_revision)"
  unfolding save_app_def
proof (rule keeps_context)
  fix row :: application_row
  let ?p = "\<lambda>r. ap_app_id r = ap_app_id row \<and> ap_lifecycle_id r = old_lifecycle \<and> ap_metadata_revision r = old_revision"
  let ?f = "\<lambda>r. row\<lparr>ap_control_revision := ap_control_revision r\<rparr>"
  let ?ok = "\<lambda>st r. application_checks r
    \<and> (ap_lifecycle_id r = old_lifecycle \<or> \<not> lifecycle_referenced st (ap_app_id r) old_lifecycle)"
  show "tx_keeps schema (update_one st_apps st_apps_update ?p ?f ?ok VersionConflict)"
  proof (rule tx_keepsI)
    fix st x st'
    assume run: "update_one st_apps st_apps_update ?p ?f ?ok VersionConflict st = Inr (x, st')" and st: "schema st"
    have st': "st' = st_apps_update (update_where ?p ?f) st"
      and one: "count_where ?p (st_apps st) = 1" and ok: "list_all (\<lambda>r. ?p r \<longrightarrow> ?ok st (?f r)) (st_apps st)"
      using run by (simp_all add: update_one_def split: if_splits)
    have table: "apps_table (update_where ?p ?f (st_apps st))"
      using apps.present [OF st] ok unfolding apps_table_def by (auto intro!: table_ok_update simp: list_all_iff)
    obtain r where r: "r \<in> set (st_apps st)" "?p r"
      using count_where_oneD [OF one] by blast
    show "schema st'"
    proof (cases "ap_lifecycle_id row = old_lifecycle")
      case True
      then show ?thesis
        unfolding st' by (intro apps.replaced st table covers_update) (simp add: root_key_def)
    next
      case False
      then have "\<not> lifecycle_referenced st (ap_app_id row) old_lifecycle"
        using ok r by (auto simp: list_all_iff)
      then show ?thesis
        unfolding st' using table
        by (intro schema_new_lifecycle [where a = "ap_app_id row" and l = old_lifecycle] st covers_update)
           (auto simp: root_key_def update_where_def image_iff)
    qed
  qed
qed

lemmas keeps_rows = inputs.insert_keeps inputs.delete_rows_keeps deadlines.insert_keeps
  leases.insert_keeps leases.delete_one_keeps config_versions.insert_keeps configs.insert_keeps
  configs.update_one_keeps operation_configs.insert_keeps operation_configs.update_one_keeps
  controls.insert_keeps controls.update_one_keeps controls.update_rows_keeps intents.insert_keeps
  intents.update_one_keeps intents.delete_one_keeps witnesses.insert_keeps requests.insert_keeps
  activity.delete_rows_keeps control_deadlines.insert_keeps control_deadlines.update_one_keeps
  control_deadlines.modify_keeps slots.delete_one_keeps slots.delete_rows_keeps

lemma input_schema: "tx_keeps schema (insert_input ev op input)" "tx_keeps schema (delete_input i)"
  unfolding insert_input_def delete_input_def Let_def
  by (rule keeps_rows; simp add: table_defs)+

lemma op_current_schema: "tx_keeps schema (op_current ev a i l)"
  unfolding op_current_def by (rule keeps_context keeps_reads claim_app_schema)+

lemma bind_operation_deadline_schema: "tx_keeps schema (bind_operation_deadline ev a i l d)"
  unfolding bind_operation_deadline_def
  by (rule keeps_context keeps_reads op_current_schema keeps_rows | simp add: table_defs)+

lemma forget_operation_lease_schema: "tx_keeps schema (forget_operation_lease ev binding)"
  unfolding forget_operation_lease_def
  by (rule keeps_context keeps_reads claim_app_schema keeps_rows | simp add: table_defs)+

lemma insert_version_schema: "tx_keeps schema (insert_version row)"
  unfolding insert_version_def
  by (rule config_versions.insert_keeps)
     (auto simp: table_defs lookup_None_iff list_ex_iff)

lemma current_app_schema: "tx_keeps schema (current_app ev a l)"
  unfolding current_app_def by (rule keeps_context keeps_reads claim_app_schema)+

lemma config_head_row_schema: "tx_keeps schema (update_one st_configs st_configs_update p f config_checks e)"
  if "\<And>r. p r \<Longrightarrow> (cf_app_id (f r), cf_lifecycle_id (f r), cf_scope (f r)) = (cf_app_id r, cf_lifecycle_id r, cf_scope r)"
  using that
  by (intro configs.update_one_keeps, unfold configs_table_def)
     (auto elim!: table_update_obligation)

lemma operation_config_row_schema:
  "tx_keeps schema (update_one st_operation_configs st_operation_configs_update p f operation_config_checks e)"
  if "\<And>r. p r \<Longrightarrow> oc_operation_id (f r) = oc_operation_id r"
  using that
  by (intro operation_configs.update_one_keeps, unfold operation_configs_table_def)
     (auto elim!: table_update_obligation)

lemma save_configuration_schema: "tx_keeps schema (save_configuration ev a scope req)"
  unfolding save_configuration_def
  by (rule keeps_context keeps_reads current_app_schema insert_version_schema config_head_row_schema
      configs.insert_keeps | simp add: table_defs)+

lemma capture_configuration_schema: "tx_keeps schema (capture_configuration ev op)"
  unfolding capture_configuration_def
  by (rule keeps_context keeps_reads operation_configs.insert_keeps | simp add: table_defs)+

lemma owned_operation_schema: "tx_keeps schema (owned_operation ev context)"
  unfolding owned_operation_def by (rule keeps_context keeps_reads op_current_schema)+

lemma bind_configuration_schema: "tx_keeps schema (bind_configuration ev context v target)"
  unfolding bind_configuration_def
  by (rule keeps_context keeps_reads owned_operation_schema operation_config_row_schema | simp)+

lemma record_configuration_schema:
  "tx_keeps schema (record_configuration ev context v target credential business)"
  unfolding record_configuration_def
  by (rule keeps_context keeps_reads owned_operation_schema operation_config_row_schema
      config_head_row_schema | simp)+

lemma insert_control_schema: "tx_keeps schema (insert_control row)"
  unfolding insert_control_def
  by (rule controls.insert_keeps) (auto simp: table_defs lookup_None_iff list_ex_iff)

lemma control_rows_schema:
  assumes "controls_table t" "list_all (\<lambda>r. p r \<longrightarrow> control_checks (f r)) t"
    "\<And>r. control_identity (f r) = control_identity r"
  shows "controls_table (update_where p f t) \<and> covers cc_operation_id t (update_where p f t)"
proof -
  have "cc_operation_id (f r) = cc_operation_id r \<and> cc_app_id (f r) = cc_app_id r \<and> cc_scope (f r) = cc_scope r
    \<and> cc_request_id (f r) = cc_request_id r \<and> cc_generation (f r) = cc_generation r" for r
    using assms(3) [of r] by (cases r; cases "f r"; simp add: control_identity_def control_row.defs)
  then show ?thesis
    using assms(1,2) by (auto simp: controls_table_def elim!: table_update_obligation)
qed

lemma update_control_schema:
  "(\<And>r. control_identity (f r) = control_identity r) \<Longrightarrow> tx_keeps schema (update_control p f)"
  unfolding update_control_def by (rule controls.update_one_keeps) (rule control_rows_schema)

lemma supersede_control_schema: "tx_keeps schema (supersede_control ev i)"
  unfolding supersede_control_def
  by (rule controls.update_rows_keeps) (rule control_rows_schema; simp add: control_identity_def)

lemma insert_intent_schema: "tx_keeps schema (insert_intent intent)"
  unfolding insert_intent_def by (rule intents.insert_keeps) (simp add: table_defs)

lemma retire_head_schema: "tx_keeps schema (retire_head intent)"
  unfolding retire_head_def by (rule intents.delete_one_keeps) (simp add: table_defs)

lemma intent_row_schema:
  assumes "\<And>r. p r \<Longrightarrow> (it_app_id (f r), it_scope (f r)) = (it_app_id r, it_scope r)"
  shows "tx_keeps schema (update_one st_intents st_intents_update p f (\<lambda>_. intent_checks) e)"
  using assms
  by (intro intents.update_one_keeps, unfold intents_table_def) (auto elim!: table_update_obligation)

lemma save_intent_schema: "tx_keeps schema (save_intent ev req head v v')"
  unfolding save_intent_def by (rule keeps_context insert_intent_schema intent_row_schema | simp)+

lemma check_access_schema: "tx_keeps schema (check_access ev a scope b)"
  unfolding check_access_def
  by (rule keeps_context keeps_reads claim_app_schema intent_row_schema | simp)+

lemma insert_witness_schema: "tx_keeps schema (insert_witness ev found)"
  unfolding insert_witness_def by (rule witnesses.insert_keeps) (simp add: table_defs)

lemma insert_lease_schema: "tx_keeps schema (insert_lease row)"
  unfolding insert_lease_def by (rule leases.insert_keeps) (simp add: table_defs)

lemma insert_request_schema: "tx_keeps schema (insert_request row)"
  unfolding insert_request_def by (rule requests.insert_keeps) (simp add: table_defs)

lemma delete_activity_schema: "tx_keeps schema (delete_activity a l)"
  unfolding delete_activity_def
  by (rule keeps_context claim_app_schema activity.delete_rows_keeps | simp add: table_defs)+

lemma upsert_activity_schema: "tx_keeps schema (upsert_activity ev a l at)"
proof (rule tx_keepsI)
  fix st x st'
  assume run: "upsert_activity ev a l at st = Inr (x, st')" and st: "schema st"
  then show "schema st'"
    using activity.present [OF st]
    by (auto simp: upsert_activity_def table_defs activity_key_def intro!: activity.replaced table_ok_update
        split: if_splits option.splits)
qed

lemma insert_binding_schema: "tx_keeps schema (insert_binding ev binding)"
proof (rule tx_keepsI)
  fix st x st'
  assume run: "insert_binding ev binding st = Inr (x, st')" and st: "schema st"
  then show "schema st'"
    using bindings.present [OF st]
    by (auto simp: insert_binding_def table_defs intro!: bindings.replaced split: if_splits)
qed

lemma insert_control_deadline_schema: "tx_keeps schema (insert_control_deadline row)"
  unfolding insert_control_deadline_def by (rule control_deadlines.insert_keeps) (simp add: table_defs)

lemma verify_anchor_schema: "tx_keeps schema (verify_anchor i v)"
  unfolding verify_anchor_def
  by (rule control_deadlines.update_one_keeps, unfold control_deadlines_table_def)
     (auto intro!: table_ok_update)

lemma unheld_schema: "tx_keeps schema (mark_unheld ev control v)" "tx_keeps schema (clear_unheld control)"
  unfolding mark_unheld_def clear_unheld_def
  by (rule keeps_context keeps_reads control_deadlines.modify_keeps |
      auto simp: table_defs intro!: table_ok_update)+

lemma rearm_wake_schema: "tx_keeps schema (rearm_wake ev who)"
  unfolding rearm_wake_def by (rule keeps_context keeps_reads save_app_schema)+

lemma restore_unprovisioned_root_schema: "tx_keeps schema (restore_unprovisioned_root ev app found)"
  unfolding restore_unprovisioned_root_def
  by (rule keeps_context save_app_schema create_slots_schema slots.delete_one_keeps | simp add: table_defs)+

lemma retire_lifecycle_heads_schema: "tx_keeps schema (retire_lifecycle_heads ev app)"
  unfolding retire_lifecycle_heads_def by (rule keeps_context keeps_reads retire_head_schema)+

lemma recreate_schema: "tx_keeps schema (recreate ev a l i)"
  unfolding recreate_def
  by (rule keeps_context keeps_reads claim_app_schema retire_lifecycle_heads_schema save_app_schema
      create_slots_schema insert_request_schema slots.delete_rows_keeps activity.delete_rows_keeps
     | simp add: table_defs)+


section \<open>Every method keeps the schema\<close>

lemmas schema_statements = claim_app_schema input_schema bind_operation_deadline_schema
  forget_operation_lease_schema save_configuration_schema capture_configuration_schema
  bind_configuration_schema record_configuration_schema insert_control_schema insert_intent_schema
  retire_head_schema supersede_control_schema save_intent_schema check_access_schema
  insert_witness_schema insert_lease_schema insert_request_schema upsert_activity_schema
  delete_activity_schema insert_binding_schema insert_control_deadline_schema verify_anchor_schema
  unheld_schema rearm_wake_schema update_control_schema insert_application_schema
  create_slots_schema save_app_schema save_slots_schema insert_operation_schema
  save_operation_schema restore_unprovisioned_root_schema recreate_schema

interpretation schema_kept: root_order "\<lambda>s s'. schema s \<longrightarrow> schema s'"
  by unfold_locales (fold tx_keeps_def, (rule schema_statements | assumption)+)

lemma schema_empty: "schema empty_store"
  by (simp add: schema_def constraints_def empty_store_def table_defs)

lemma schema_step: "store_step st st' \<Longrightarrow> schema st \<Longrightarrow> schema st'"
  using schema_kept.store_step_rel by blast

lemma reachable_schema: "reachable st \<Longrightarrow> schema st"
  by (induction rule: reachable.induct) (auto intro: schema_empty schema_step)

end
