(* ===== verification/Guarded.thy ===== *)
theory Guarded
  imports Write_Rules
begin

text \<open>
  Relations between the tables before and after, for transactions whose writes depend on what
  they read.  The precondition collects the reads and the guards passed on the way; a write
  uses it up.
\<close>

definition tx_from :: "(store \<Rightarrow> bool) \<Rightarrow> (store \<Rightarrow> store \<Rightarrow> bool) \<Rightarrow> (store, 'e, 'a) tx \<Rightarrow> bool" where
  "tx_from P R m \<longleftrightarrow> (\<forall>st x st'. P st \<longrightarrow> m st = Inr (x, st') \<longrightarrow> R st st')"

lemma tx_fromI: "(\<And>st x st'. P st \<Longrightarrow> m st = Inr (x, st') \<Longrightarrow> R st st') \<Longrightarrow> tx_from P R m"
  by (simp add: tx_from_def)

lemma tx_fromD: "tx_from P R m \<Longrightarrow> P st \<Longrightarrow> m st = Inr (x, st') \<Longrightarrow> R st st'"
  unfolding tx_from_def by blast

lemma tx_from_pre: "tx_from Q R m \<Longrightarrow> (\<And>st. P st \<Longrightarrow> Q st) \<Longrightarrow> tx_from P R m"
  unfolding tx_from_def by blast

text \<open>A transaction without a precondition.\<close>

lemma tx_from_rel: "tx_from (\<lambda>_. True) R m \<Longrightarrow> tx_rel R m"
  by (simp add: tx_from_def tx_rel_def)

context store_order
begin

lemma from_rel: "tx_rel R m \<Longrightarrow> tx_from P R m"
  by (auto simp: tx_from_def tx_rel_def)

lemma from_return: "tx_from P R (tx_return x)"
  by (rule from_rel, rule rel_return)

lemma from_fail: "tx_from P R (tx_fail e)"
  by (rule from_rel, rule rel_fail)

lemma from_bind_lift: "(\<And>x. r = Inr x \<Longrightarrow> tx_from P R (k x)) \<Longrightarrow> tx_from P R (tx_bind (tx_lift r) k)"
  by (auto simp: tx_from_def)

lemma from_bind_some: "(\<And>x. v = Some x \<Longrightarrow> tx_from P R (k x)) \<Longrightarrow> tx_from P R (tx_bind (tx_some e v) k)"
  unfolding tx_some_def by (rule from_bind_lift) simp

lemma from_bind_return: "tx_from P R (k x) \<Longrightarrow> tx_from P R (tx_bind (tx_return x) k)"
  by simp

lemma from_then_lift: "(r = Inr () \<Longrightarrow> tx_from P R k) \<Longrightarrow> tx_from P R (tx_then (tx_lift r) k)"
  by (auto simp: tx_from_def)

lemma from_then_require: "(b \<Longrightarrow> tx_from P R k) \<Longrightarrow> tx_from P R (tx_then (tx_require b e) k)"
  by (auto simp: tx_from_def)

lemma from_if: "(b \<Longrightarrow> tx_from P R m) \<Longrightarrow> (\<not> b \<Longrightarrow> tx_from P R k) \<Longrightarrow> tx_from P R (if b then m else k)"
  by simp

lemma from_let: "tx_from P R (k x) \<Longrightarrow> tx_from P R (let y = x in k y)"
  by simp

lemma from_option:
  "(v = None \<Longrightarrow> tx_from P R m) \<Longrightarrow> (\<And>x. v = Some x \<Longrightarrow> tx_from P R (k x)) \<Longrightarrow>
    tx_from P R (case v of None \<Rightarrow> m | Some x \<Rightarrow> k x)"
  by (cases v) auto

lemma from_prod: "(\<And>x y. v = (x, y) \<Longrightarrow> tx_from P R (k x y)) \<Longrightarrow> tx_from P R (case v of (x, y) \<Rightarrow> k x y)"
  by (cases v) auto

lemma from_outcome:
  "(\<And>op. v = Accepted op \<Longrightarrow> tx_from P R (m op)) \<Longrightarrow> (\<And>op. v = Existing op \<Longrightarrow> tx_from P R (k op)) \<Longrightarrow>
    tx_from P R (case v of Accepted op \<Rightarrow> m op | Existing op \<Rightarrow> k op)"
  by (cases v) auto

text \<open>A read leaves the precondition and what it returned.\<close>

lemma from_bind_pure:
  "tx_pure m \<Longrightarrow> (\<And>x. tx_from (\<lambda>st. P st \<and> m st = Inr (x, st)) R (k x)) \<Longrightarrow> tx_from P R (tx_bind m k)"
  unfolding tx_from_def by (auto dest!: tx_pureD)

lemma from_then_pure: "tx_pure m \<Longrightarrow> tx_from P R k \<Longrightarrow> tx_from P R (tx_then m k)"
  unfolding tx_from_def by (auto dest!: tx_pureD)

lemma from_bind_read: "(\<And>x. tx_from (\<lambda>st. P st \<and> x = f st) R (k x)) \<Longrightarrow> tx_from P R (tx_bind (tx_read f) k)"
  unfolding tx_from_def by auto

text \<open>A write keeps the relation; what follows starts from what it established.\<close>

lemma from_bind_post:
  assumes m: "tx_from P R m" and post: "\<And>st x st'. P st \<Longrightarrow> m st = Inr (x, st') \<Longrightarrow> Q x st'"
    and k: "\<And>x. tx_from (Q x) R (k x)"
  shows "tx_from P R (tx_bind m k)"
proof (rule tx_fromI)
  fix st x st'
  assume st: "P st" and run: "tx_bind m k st = Inr (x, st')"
  then obtain y st1 where y: "m st = Inr (y, st1)" "k y st1 = Inr (x, st')"
    by auto
  show "R st st'"
    using trans [OF tx_fromD [OF m st y(1)] tx_fromD [OF k [of y] post [OF st y(1)] y(2)] ] .
qed

lemma from_bind: "tx_from P R m \<Longrightarrow> (\<And>x. tx_from (\<lambda>_. True) R (k x)) \<Longrightarrow> tx_from P R (tx_bind m k)"
  by (rule from_bind_post [where Q = "\<lambda>_ _. True"]) auto

lemma from_then_post:
  assumes m: "tx_from P R m" and post: "\<And>st st'. P st \<Longrightarrow> m st = Inr ((), st') \<Longrightarrow> Q st'"
    and k: "tx_from Q R k"
  shows "tx_from P R (tx_then m k)"
proof (rule tx_fromI)
  fix st x st'
  assume st: "P st" and run: "tx_then m k st = Inr (x, st')"
  then obtain st1 where y: "m st = Inr ((), st1)" "k st1 = Inr (x, st')"
    by auto
  show "R st st'"
    using trans [OF tx_fromD [OF m st y(1)] tx_fromD [OF k post [OF st y(1)] y(2)] ] .
qed

lemma from_then: "tx_from P R m \<Longrightarrow> tx_from (\<lambda>_. True) R k \<Longrightarrow> tx_from P R (tx_then m k)"
  by (rule from_then_post [where Q = "\<lambda>_. True"]) auto

lemmas from_context = from_return from_fail from_bind_return from_bind_lift from_bind_some
  from_then_lift from_then_require from_if from_let from_option from_prod from_outcome from_bind_read

end

end
