(* ===== verification/Lock_Machine.thy ===== *)
theory Lock_Machine
  imports Lifecycle
begin

text \<open>
  What the control plane promises about concurrent work: a machine of application roots, the
  operations they admitted and the slots the open ones hold.  Its steps are the only changes a
  transaction of the store may make to these (\<open>Lock_Refinement\<close>).
\<close>

record lock_root =
  lk_life :: string
  lk_state :: lifecycle_state
  lk_slots :: active_operations

record lock_operation =
  lo_app :: string
  lo_life :: string
  lo_scope :: operation_scope
  lo_ends :: bool
  lo_open :: bool

record lock_state =
  lk_roots :: "string \<Rightarrow> lock_root option"
  lk_ops :: "string \<Rightarrow> lock_operation option"

definition fresh_root :: "string \<Rightarrow> lock_root" where
  "fresh_root l = \<lparr>lk_life = l, lk_state = App_Active, lk_slots = active_operations_default\<rparr>"

definition set_root :: "string \<Rightarrow> lock_root \<Rightarrow> lock_state \<Rightarrow> lock_state" where
  "set_root a r k = k\<lparr>lk_roots := (lk_roots k)(a \<mapsto> r)\<rparr>"

definition set_op :: "string \<Rightarrow> lock_operation \<Rightarrow> lock_state \<Rightarrow> lock_state" where
  "set_op i x k = k\<lparr>lk_ops := (lk_ops k)(i \<mapsto> x)\<rparr>"

definition admitted_root :: "operation_scope \<Rightarrow> bool \<Rightarrow> string \<Rightarrow> lock_root \<Rightarrow> lock_root" where
  "admitted_root s ends i r = r\<lparr>lk_slots := set_slot s (Some i) (lk_slots r),
     lk_state := (if ends then App_Deleting else lk_state r)\<rparr>"

definition finished_root :: "lock_operation \<Rightarrow> bool \<Rightarrow> lock_root \<Rightarrow> lock_root" where
  "finished_root x succeeded r = r\<lparr>lk_slots := set_slot (lo_scope x) None (lk_slots r),
     lk_state := (if lo_ends x then if succeeded then App_Deleted else App_Active else lk_state r)\<rparr>"

inductive lock_step :: "lock_state \<Rightarrow> lock_state \<Rightarrow> bool" where
  register: "lk_roots k a = None \<Longrightarrow> lock_step k (set_root a (fresh_root l) k)"
| admit:
    "lk_roots k a = Some r \<Longrightarrow> lk_state r = App_Active \<Longrightarrow> lk_ops k i = None \<Longrightarrow>
     (\<And>b. userapp_scope_blocks_request s b \<Longrightarrow> slot (lk_slots r) b = None) \<Longrightarrow>
     (ends \<Longrightarrow> s = Scope_Application) \<Longrightarrow>
     lock_step k (set_root a (admitted_root s ends i r)
       (set_op i \<lparr>lo_app = a, lo_life = lk_life r, lo_scope = s, lo_ends = ends, lo_open = True\<rparr> k))"
| finish:
    "lk_ops k i = Some x \<Longrightarrow> lo_open x \<Longrightarrow> lk_roots k (lo_app x) = Some r \<Longrightarrow>
     lk_life r = lo_life x \<Longrightarrow> slot (lk_slots r) (lo_scope x) = Some i \<Longrightarrow>
     lock_step k (set_root (lo_app x) (finished_root x succeeded r) (set_op i (x\<lparr>lo_open := False\<rparr>) k))"
| replace:
    "lk_roots k a = Some r \<Longrightarrow> slots_is_empty (lk_slots r) \<Longrightarrow> lk_state r \<noteq> App_Deleting \<Longrightarrow>
     lock_step k (set_root a (fresh_root l) k)"

inductive_cases lock_stepE: "lock_step k k'"

abbreviation lock_steps :: "lock_state \<Rightarrow> lock_state \<Rightarrow> bool" where
  "lock_steps \<equiv> lock_step\<^sup>*\<^sup>*"


section \<open>Invariants\<close>

definition held_by_open :: "lock_state \<Rightarrow> bool" where
  "held_by_open k \<longleftrightarrow> (\<forall>a r s i. lk_roots k a = Some r \<longrightarrow> slot (lk_slots r) s = Some i \<longrightarrow>
     (\<exists>x. lk_ops k i = Some x \<and> lo_app x = a \<and> lo_life x = lk_life r \<and> lo_scope x = s \<and> lo_open x))"

definition open_is_held :: "lock_state \<Rightarrow> bool" where
  "open_is_held k \<longleftrightarrow> (\<forall>i x. lk_ops k i = Some x \<longrightarrow> lo_open x \<longrightarrow>
     (\<exists>r. lk_roots k (lo_app x) = Some r \<and> lk_life r = lo_life x \<and> slot (lk_slots r) (lo_scope x) = Some i))"

definition roots_exclusive :: "lock_state \<Rightarrow> bool" where
  "roots_exclusive k \<longleftrightarrow> (\<forall>a r. lk_roots k a = Some r \<longrightarrow> slots_exclusive (lk_slots r))"

definition ending :: "lock_state \<Rightarrow> lock_root \<Rightarrow> bool" where
  "ending k r \<longleftrightarrow> (\<exists>s i x. slot (lk_slots r) s = Some i \<and> lk_ops k i = Some x \<and> lo_ends x)"

definition deletion_marked :: "lock_state \<Rightarrow> bool" where
  "deletion_marked k \<longleftrightarrow> (\<forall>a r. lk_roots k a = Some r \<longrightarrow>
     (lk_state r = App_Deleting \<longleftrightarrow> ending k r)
     \<and> (lk_state r = App_Deleted \<longrightarrow> slots_is_empty (lk_slots r)))"

definition ends_application :: "lock_state \<Rightarrow> bool" where
  "ends_application k \<longleftrightarrow> (\<forall>i x. lk_ops k i = Some x \<longrightarrow> lo_ends x \<longrightarrow> lo_scope x = Scope_Application)"

definition lock_ok :: "lock_state \<Rightarrow> bool" where
  "lock_ok k \<longleftrightarrow> held_by_open k \<and> open_is_held k \<and> roots_exclusive k \<and> deletion_marked k \<and> ends_application k"

lemmas lock_defs = set_root_def set_op_def fresh_root_def admitted_root_def finished_root_def

lemma held_by_openD:
  "lock_ok k \<Longrightarrow> lk_roots k a = Some r \<Longrightarrow> slot (lk_slots r) s = Some i \<Longrightarrow>
    \<exists>x. lk_ops k i = Some x \<and> lo_app x = a \<and> lo_life x = lk_life r \<and> lo_scope x = s \<and> lo_open x"
  by (simp add: lock_ok_def held_by_open_def)

lemma open_is_heldD:
  "lock_ok k \<Longrightarrow> lk_ops k i = Some x \<Longrightarrow> lo_open x \<Longrightarrow>
    \<exists>r. lk_roots k (lo_app x) = Some r \<and> lk_life r = lo_life x \<and> slot (lk_slots r) (lo_scope x) = Some i"
  by (simp add: lock_ok_def open_is_held_def)

lemma exclusiveD: "lock_ok k \<Longrightarrow> lk_roots k a = Some r \<Longrightarrow> slots_exclusive (lk_slots r)"
  by (simp add: lock_ok_def roots_exclusive_def)

lemma deletingD: "lock_ok k \<Longrightarrow> lk_roots k a = Some r \<Longrightarrow> lk_state r = App_Deleting \<longleftrightarrow> ending k r"
  by (simp add: lock_ok_def deletion_marked_def)

lemma deletedD: "lock_ok k \<Longrightarrow> lk_roots k a = Some r \<Longrightarrow> lk_state r = App_Deleted \<Longrightarrow> slots_is_empty (lk_slots r)"
  by (simp add: lock_ok_def deletion_marked_def)

lemma endsD: "lock_ok k \<Longrightarrow> lk_ops k i = Some x \<Longrightarrow> lo_ends x \<Longrightarrow> lo_scope x = Scope_Application"
  by (simp add: lock_ok_def ends_application_def)

text \<open>A root without open operations can be put in place of an empty one.\<close>

lemma lock_ok_fresh:
  assumes ok: "lock_ok k" and empty: "\<And>r s. lk_roots k a = Some r \<Longrightarrow> slot (lk_slots r) s = None"
  shows "lock_ok (set_root a (fresh_root l) k)"
proof -
  have closed: "lo_app x \<noteq> a" if "lk_ops k i = Some x" "lo_open x" for i x
    using open_is_heldD [OF ok that] empty by force
  show ?thesis
    unfolding lock_ok_def
  proof (intro conjI)
    show "held_by_open (set_root a (fresh_root l) k)"
      using held_by_openD [OF ok] by (auto simp: held_by_open_def lock_defs)
    show "open_is_held (set_root a (fresh_root l) k)"
      using open_is_heldD [OF ok] closed by (auto simp: open_is_held_def lock_defs)
    show "roots_exclusive (set_root a (fresh_root l) k)"
      using exclusiveD [OF ok] by (auto simp: roots_exclusive_def lock_defs slots_exclusive_def)
    show "deletion_marked (set_root a (fresh_root l) k)"
      using deletingD [OF ok] deletedD [OF ok]
      by (auto simp: deletion_marked_def lock_defs ending_def slots_is_empty_iff)
    show "ends_application (set_root a (fresh_root l) k)"
      using endsD [OF ok] by (auto simp: ends_application_def lock_defs)
  qed
qed

lemma lock_ok_admit:
  assumes ok: "lock_ok k" and r: "lk_roots k a = Some r" "lk_state r = App_Active" and i: "lk_ops k i = None"
    and free: "\<And>b. userapp_scope_blocks_request s b \<Longrightarrow> slot (lk_slots r) b = None"
    and ends: "ends \<Longrightarrow> s = Scope_Application"
  shows "lock_ok (set_root a (admitted_root s ends i r)
     (set_op i \<lparr>lo_app = a, lo_life = lk_life r, lo_scope = s, lo_ends = ends, lo_open = True\<rparr> k))" (is "lock_ok ?k")
proof -
  have unheld: "slot (lk_slots r') b \<noteq> Some i" if "lk_roots k a' = Some r'" for a' r' b
    using held_by_openD [OF ok that] i by force
  have s: "slot (lk_slots r) s = None"
    using free [of s] by (simp add: scope_blocks_iff)
  show ?thesis
    unfolding lock_ok_def
  proof (intro conjI)
    show "held_by_open ?k"
      using held_by_openD [OF ok] unheld r by (auto simp: held_by_open_def lock_defs split: if_splits)
    show "open_is_held ?k"
      unfolding open_is_held_def
    proof (intro allI impI)
      fix j x
      assume x: "lk_ops ?k j = Some x" "lo_open x"
      show "\<exists>r'. lk_roots ?k (lo_app x) = Some r' \<and> lk_life r' = lo_life x \<and> slot (lk_slots r') (lo_scope x) = Some j"
      proof (cases "j = i")
        case False
        then obtain r' where "lk_roots k (lo_app x) = Some r'" "lk_life r' = lo_life x"
          "slot (lk_slots r') (lo_scope x) = Some j"
          using x open_is_heldD [OF ok, of j x] by (auto simp: lock_defs)
        then show ?thesis
          using r(1) s by (cases "lo_app x = a") (auto simp: lock_defs)
      qed (use x in \<open>auto simp: lock_defs\<close>)
    qed
    show "roots_exclusive ?k"
      using exclusiveD [OF ok] slots_exclusive_set [OF exclusiveD [OF ok r(1)] free unheld [OF r(1)] ]
      by (auto simp: roots_exclusive_def lock_defs)
    show "deletion_marked ?k"
      unfolding deletion_marked_def
    proof (intro allI impI)
      fix a' r'
      assume a': "lk_roots ?k a' = Some r'"
      show "(lk_state r' = App_Deleting \<longleftrightarrow> ending ?k r') \<and> (lk_state r' = App_Deleted \<longrightarrow> slots_is_empty (lk_slots r'))"
      proof (cases "a' = a")
        case True
        then have r': "r' = admitted_root s ends i r"
          using a' by (simp add: set_root_def)
        have "\<not> ending k r"
          using deletingD [OF ok r(1)] r(2) by simp
        then have "ending ?k r' = ends"
          unfolding r' ending_def lock_defs by auto
        then show ?thesis
          using r(2) by (simp add: r' admitted_root_def)
      next
        case False
        then have a': "lk_roots k a' = Some r'"
          using a' by (simp add: set_root_def set_op_def)
        have "ending ?k r' = ending k r'"
          using unheld [OF a'] by (simp add: ending_def lock_defs) metis
        then show ?thesis
          using deletingD [OF ok a'] deletedD [OF ok a'] by simp
      qed
    qed
    show "ends_application ?k"
      using endsD [OF ok] ends by (auto simp: ends_application_def lock_defs)
  qed
qed

lemma lock_ok_finish:
  assumes ok: "lock_ok k" and x: "lk_ops k i = Some x" "lo_open x"
    and r: "lk_roots k (lo_app x) = Some r" "lk_life r = lo_life x" "slot (lk_slots r) (lo_scope x) = Some i"
  shows "lock_ok (set_root (lo_app x) (finished_root x succeeded r) (set_op i (x\<lparr>lo_open := False\<rparr>) k))"
    (is "lock_ok ?k")
proof -
  have only: "a = lo_app x \<and> b = lo_scope x" if "lk_roots k a = Some r'" "slot (lk_slots r') b = Some i" for a r' b
    using held_by_openD [OF ok that] x by auto
  show ?thesis
    unfolding lock_ok_def
  proof (intro conjI)
    show "held_by_open ?k"
      unfolding held_by_open_def
    proof (intro allI impI)
      fix a r' b j
      assume a: "lk_roots ?k a = Some r'" "slot (lk_slots r') b = Some j"
      obtain r0 where r0: "lk_roots k a = Some r0" "slot (lk_slots r0) b = Some j" "lk_life r0 = lk_life r'" "j \<noteq> i"
      proof (cases "a = lo_app x")
        case True
        then have r': "r' = finished_root x succeeded r"
          using a(1) by (simp add: set_root_def)
        then have "b \<noteq> lo_scope x" "slot (lk_slots r) b = Some j" "lk_life r = lk_life r'"
          using a(2) by (simp_all add: finished_root_def split: if_splits)
        then show thesis
          using only [OF r(1), of b] r(1) True that by blast
      next
        case False
        then show thesis
          using a only [of a r' b] that [of r'] by (auto simp: lock_defs)
      qed
      then show "\<exists>y. lk_ops ?k j = Some y \<and> lo_app y = a \<and> lo_life y = lk_life r' \<and> lo_scope y = b \<and> lo_open y"
        using held_by_openD [OF ok r0(1,2)] by (simp add: lock_defs)
    qed
    show "open_is_held ?k"
      unfolding open_is_held_def
    proof (intro allI impI)
      fix j y
      assume "lk_ops ?k j = Some y" "lo_open y"
      then have j: "j \<noteq> i" "lk_ops k j = Some y" "lo_open y"
        by (auto simp: lock_defs split: if_splits)
      obtain r' where "lk_roots k (lo_app y) = Some r'" "lk_life r' = lo_life y"
        "slot (lk_slots r') (lo_scope y) = Some j"
        using open_is_heldD [OF ok j(2,3)] by blast
      then show "\<exists>r'. lk_roots ?k (lo_app y) = Some r' \<and> lk_life r' = lo_life y \<and> slot (lk_slots r') (lo_scope y) = Some j"
        using r j(1) by (cases "lo_app y = lo_app x") (auto simp: lock_defs)
    qed
    show "roots_exclusive ?k"
      using exclusiveD [OF ok] slots_exclusive_clear [OF exclusiveD [OF ok r(1)] ]
      by (auto simp: roots_exclusive_def lock_defs)
    show "ends_application ?k"
      using endsD [OF ok] x by (auto simp: ends_application_def lock_defs)
    show "deletion_marked ?k"
      unfolding deletion_marked_def
    proof (intro allI impI)
      fix a r'
      assume a: "lk_roots ?k a = Some r'"
      show "(lk_state r' = App_Deleting \<longleftrightarrow> ending ?k r') \<and> (lk_state r' = App_Deleted \<longrightarrow> slots_is_empty (lk_slots r'))"
      proof (cases "a = lo_app x")
        case True
        then have r': "r' = finished_root x succeeded r"
          using a by (simp add: set_root_def)
        have "lk_state r \<noteq> App_Deleted"
          using deletedD [OF ok r(1)] r(3) by (auto simp: slots_is_empty_iff)
        show ?thesis
        proof (cases "lo_ends x")
          case True
          then have "slots_is_empty (lk_slots r')"
            using exclusiveD [OF ok r(1)] endsD [OF ok x(1)] r(3)
            by (auto simp: r' finished_root_def slots_is_empty_def slots_exclusive_code)
          then show ?thesis
            using True by (auto simp: r' finished_root_def ending_def slots_is_empty_iff)
        next
          case False
          have elsewhere: "b \<noteq> lo_scope x \<Longrightarrow> slot (lk_slots r) b \<noteq> Some i" for b
            using only [OF r(1)] by blast
          have "slot (lk_slots r') b = Some j \<and> lk_ops ?k j = Some y \<and> lo_ends y \<longleftrightarrow>
              slot (lk_slots r) b = Some j \<and> lk_ops k j = Some y \<and> lo_ends y" for b j y
            using False elsewhere [of b] x(1) r(3)
            by (cases "b = lo_scope x"; cases "j = i") (auto simp: r' lock_defs)
          then have "ending ?k r' = ending k r"
            by (simp add: ending_def)
          then show ?thesis
            using False deletingD [OF ok r(1)] \<open>lk_state r \<noteq> App_Deleted\<close> by (simp add: r' finished_root_def)
        qed
      next
        case False
        then have a: "lk_roots k a = Some r'"
          using a by (simp add: set_root_def set_op_def)
        have "slot (lk_slots r') b \<noteq> Some i" for b
          using only [OF a] False by blast
        then have "ending ?k r' = ending k r'"
          by (simp add: ending_def lock_defs) metis
        then show ?thesis
          using deletingD [OF ok a] deletedD [OF ok a] by simp
      qed
    qed
  qed
qed

lemma lock_step_ok: "lock_step k k' \<Longrightarrow> lock_ok k \<Longrightarrow> lock_ok k'"
proof (induction rule: lock_step.induct)
  case (register k a l)
  then show ?case
    by (intro lock_ok_fresh) auto
next
  case (replace k a r l)
  then show ?case
    by (intro lock_ok_fresh) (auto simp: slots_is_empty_iff)
qed (simp_all add: lock_ok_admit lock_ok_finish)

lemma lock_steps_ok: "lock_steps k k' \<Longrightarrow> lock_ok k \<Longrightarrow> lock_ok k'"
  by (induction rule: rtranclp_induct) (auto dest: lock_step_ok)


section \<open>What the machine promises\<close>

text \<open>Two open operations of an application are in different environments.\<close>

lemma open_operations_compatible:
  assumes ok: "lock_ok k" and x: "lk_ops k i = Some x" "lo_open x" and y: "lk_ops k j = Some y" "lo_open y"
    and same: "lo_app x = lo_app y" and ij: "i \<noteq> j"
  shows "\<not> userapp_scope_blocks_request (lo_scope x) (lo_scope y)"
proof -
  obtain r where r: "lk_roots k (lo_app x) = Some r" "slot (lk_slots r) (lo_scope x) = Some i"
    "slot (lk_slots r) (lo_scope y) = Some j"
    using open_is_heldD [OF ok x] open_is_heldD [OF ok y] same by auto
  then have "lo_scope x \<noteq> lo_scope y"
    using ij by auto
  then show ?thesis
    using exclusiveD [OF ok r(1)] r by (simp add: slots_exclusive_def)
qed

lemma deleted_is_quiet:
  "lock_ok k \<Longrightarrow> lk_roots k a = Some r \<Longrightarrow> lk_state r = App_Deleted \<Longrightarrow> lk_ops k i = Some x \<Longrightarrow>
    lo_app x = a \<Longrightarrow> \<not> lo_open x"
  using open_is_heldD [of k i x] deletedD [of k a r] by (auto simp: slots_is_empty_iff)

end
