(* ===== verification/Lock_Refinement.thy ===== *)
theory Lock_Refinement
  imports Schema Guarded Lock_Machine Domain_Laws
begin

text \<open>
  The store refines the lock machine: \<open>locks\<close> reads the roots, the slots and the open
  operations off the tables, and every transaction moves them by steps of \<open>lock_step\<close>.
\<close>


section \<open>The abstraction\<close>

definition scope_text :: "string \<Rightarrow> operation_scope" where
  "scope_text s = (if s = ''dev'' then Scope_Dev else if s = ''prod'' then Scope_Prod else Scope_Application)"

definition lifecycle_text :: "string \<Rightarrow> lifecycle_state" where
  "lifecycle_text s =
    (if s = ''deleting'' then App_Deleting else if s = ''deleted'' then App_Deleted else App_Active)"

definition lock_operation_of :: "operation_row \<Rightarrow> lock_operation" where
  "lock_operation_of row = \<lparr>lo_app = ow_app_id row, lo_life = ow_lifecycle_id row,
     lo_scope = scope_text (ow_scope row), lo_ends = (ow_kind row = ''delete_application''),
     lo_open = (ow_terminal_at_us row = None)\<rparr>"

definition slots_of_row :: "slots_row option \<Rightarrow> active_operations" where
  "slots_of_row found = (case found of
     None \<Rightarrow> active_operations_default
   | Some sl \<Rightarrow> \<lparr>ao_dev = sl_dev_operation_id sl, ao_prod = sl_prod_operation_id sl,
       ao_application = sl_application_operation_id sl\<rparr>)"

definition lock_root_of :: "application_row \<Rightarrow> slots_row option \<Rightarrow> lock_root" where
  "lock_root_of row found = \<lparr>lk_life = ap_lifecycle_id row, lk_state = lifecycle_text (ap_lifecycle_state row),
     lk_slots = slots_of_row found\<rparr>"

definition locks :: "store \<Rightarrow> lock_state" where
  "locks st = \<lparr>lk_roots = (\<lambda>a. map_option (\<lambda>row. lock_root_of row (lookup sl_app_id (st_slots st) a))
       (lookup ap_app_id (st_apps st) a)),
     lk_ops = (\<lambda>i. map_option lock_operation_of (lookup ow_operation_id (st_ops st) i))\<rparr>"

lemma scope_text_name [simp]: "scope_text (scope_name s) = s"
  by (cases s) (simp_all add: scope_text_def name_of_def scope_names_def)

lemma lifecycle_text_name [simp]: "lifecycle_text (lifecycle_name s) = s"
  by (cases s) (simp_all add: lifecycle_text_def name_of_def lifecycle_names_def)

lemma ends_text_name [simp]: "kind_name k = ''delete_application'' \<longleftrightarrow> ends_lifecycle k"
  by (cases k) (simp_all add: ends_lifecycle_def name_of_def kind_names_def)

lemma locks_frame:
  "st_apps st' = st_apps st \<Longrightarrow> st_slots st' = st_slots st \<Longrightarrow> st_ops st' = st_ops st \<Longrightarrow> locks st' = locks st"
  by (simp add: locks_def)

text \<open>What reading an application and an operation says of the machine.\<close>

definition app_at :: "store \<Rightarrow> lifecycle_record \<Rightarrow> bool" where
  "app_at st app \<longleftrightarrow> (\<exists>row. lookup ap_app_id (st_apps st) (lr_app_id app) = Some row \<and> row_matches app row)
     \<and> lookup sl_app_id (st_slots st) (lr_app_id app) = Some (slots_row_of app)"

definition op_at :: "env \<Rightarrow> store \<Rightarrow> operation_record \<Rightarrow> bool" where
  "op_at ev st op \<longleftrightarrow>
    (\<exists>row. lookup ow_operation_id (st_ops st) (or_operation_id op) = Some row \<and> operation_of_row ev row = Inr op)"

definition root_of :: "lifecycle_record \<Rightarrow> lock_root" where
  "root_of app = \<lparr>lk_life = lr_lifecycle_id app, lk_state = lr_state app, lk_slots = lr_active_operations app\<rparr>"

definition lock_of :: "operation_record \<Rightarrow> lock_operation" where
  "lock_of op = \<lparr>lo_app = or_app_id op, lo_life = or_lifecycle_id op, lo_scope = or_scope op,
     lo_ends = ends_lifecycle (or_kind op), lo_open = (\<not> op_is_terminal (or_state op))\<rparr>"

lemma lookup_key: "lookup key t k = Some r \<Longrightarrow> key r = k"
  by (drule lookup_SomeD) simp

lemma repo_app_at:
  assumes "repo_app ev a st = Inr (Some app, st')"
  shows "app_at st app" "lr_app_id app = a"
proof -
  obtain row where "lookup ap_app_id (st_apps st) a = Some row" "row_matches app row"
    "lookup sl_app_id (st_slots st) a = Some (slots_row_of app)"
    using assms by (auto simp: repo_app_def application_of_row_iff split: option.splits)
  moreover from this have "lr_app_id app = a"
    by (auto simp: row_matches_def dest: lookup_key)
  ultimately show "app_at st app" "lr_app_id app = a"
    by (auto simp: app_at_def)
qed

lemma repo_operation_at:
  assumes "repo_operation ev a i st = Inr (Some op, st')"
  shows "op_at ev st op" "or_operation_id op = i" "or_app_id op = a"
proof -
  obtain row where row: "lookup ow_operation_id (st_ops st) i = Some row" "ow_app_id row = a"
    "operation_of_row ev row = Inr op"
    using assms by (auto simp: repo_operation_def split: option.splits if_splits)
  then show "or_operation_id op = i" "or_app_id op = a"
    by (auto elim!: operation_of_rowE dest: lookup_key)
  with row show "op_at ev st op"
    by (auto simp: op_at_def)
qed

lemma root_locks: "app_at st app \<Longrightarrow> lk_roots (locks st) (lr_app_id app) = Some (root_of app)"
  by (auto simp: app_at_def locks_def lock_root_of_def root_of_def row_matches_def slots_of_row_def slots_row_of_def)

lemma op_locks: "op_at ev st op \<Longrightarrow> lk_ops (locks st) (or_operation_id op) = Some (lock_of op)"
  by (auto simp: op_at_def locks_def lock_operation_of_def lock_of_def elim!: operation_of_rowE)


section \<open>The effect of the statements\<close>

lemma update_one_commits:
  "update_one get upd p f ok e st = Inr (u, st') \<longleftrightarrow> count_where p (get st) = 1
    \<and> list_all (\<lambda>r. p r \<longrightarrow> ok st (f r)) (get st) \<and> st' = upd (update_where p f) st"
  by (auto simp: update_one_def)

lemma insert_row_commits: "insert_row upd ok row st = Inr (u, st') \<longleftrightarrow> ok st \<and> st' = upd (\<lambda>t. t @ [row]) st"
  by (auto simp: insert_row_def)

lemma delete_commits:
  "delete_rows upd p st = Inr (u, st') \<longleftrightarrow> st' = upd (delete_where p) st"
  "delete_one get upd p e st = Inr (u, st') \<longleftrightarrow> count_where p (get st) = 1 \<and> st' = upd (delete_where p) st"
  by (auto simp: delete_rows_def delete_one_def)

lemma lookup_update_key:
  assumes "\<And>r. p r \<Longrightarrow> key r = k \<and> key (f r) = key r" "lookup key t k = Some r" "p r"
  shows "lookup key (update_where p f t) = (lookup key t)(k \<mapsto> f r)"
proof (rule ext)
  fix k'
  have "lookup key (update_where p f t) k' = map_option (\<lambda>r. if p r then f r else r) (lookup key t k')"
    using assms(1) by (intro lookup_update_where) blast
  also have "\<dots> = ((lookup key t)(k \<mapsto> f r)) k'"
  proof (cases "lookup key t k'")
    case (Some r')
    then have "key r' = k'"
      by (rule lookup_key)
    then have "p r' \<Longrightarrow> k' = k"
      using assms(1) [of r'] by simp
    then show ?thesis
      using Some assms(2,3) by (cases "k' = k") auto
  qed (use assms(2) in auto)
  finally show "lookup key (update_where p f t) k' = ((lookup key t)(k \<mapsto> f r)) k'" .
qed

text \<open>
  An operation row changes only while it is open, and then under a higher revision: the
  revision a writer compares against names one content of the row.  Revisions stay in the
  range of the column.
\<close>

definition later :: "int \<Rightarrow> int \<Rightarrow> bool" where
  "later v v' \<longleftrightarrow> v < v' \<and> v' \<le> i64_max"

definition evolves :: "operation_row \<Rightarrow> operation_row \<Rightarrow> bool" where
  "evolves r r' \<longleftrightarrow> r' = r \<or> ow_terminal_at_us r = None \<and> later (ow_revision r) (ow_revision r')"

definition ops_evolve :: "store \<Rightarrow> store \<Rightarrow> bool" where
  "ops_evolve st st' \<longleftrightarrow> (\<forall>i. case lookup ow_operation_id (st_ops st) i of
      None \<Rightarrow> pred_option (\<lambda>r. later 0 (ow_revision r)) (lookup ow_operation_id (st_ops st') i)
    | Some r \<Rightarrow> (\<exists>r'. lookup ow_operation_id (st_ops st') i = Some r' \<and> evolves r r'))"

lemma checked_add_later: "checked_add v 1 = Some v' \<Longrightarrow> later v v'"
  by (simp add: later_def checked_add_Some_iff)

lemma evolves_refl [simp]: "evolves r r"
  by (simp add: evolves_def)

lemma evolves_trans: "evolves r r' \<Longrightarrow> evolves r' r'' \<Longrightarrow> evolves r r''"
  by (auto simp: evolves_def later_def)

lemma evolves_later: "evolves r r' \<Longrightarrow> later v (ow_revision r) \<Longrightarrow> later v (ow_revision r')"
  by (auto simp: evolves_def later_def)

lemma ops_evolve_same: "st_ops st' = st_ops st \<Longrightarrow> ops_evolve st st'"
  by (simp add: ops_evolve_def split: option.split)

lemma ops_evolveD:
  "ops_evolve st st' \<Longrightarrow> lookup ow_operation_id (st_ops st) i = Some r \<Longrightarrow>
    \<exists>r'. lookup ow_operation_id (st_ops st') i = Some r' \<and> evolves r r'"
  "ops_evolve st st' \<Longrightarrow> lookup ow_operation_id (st_ops st) i = None \<Longrightarrow>
    lookup ow_operation_id (st_ops st') i = Some r' \<Longrightarrow> later 0 (ow_revision r')"
  by (auto simp: ops_evolve_def dest: spec [where x = i])

lemma ops_evolve_trans:
  assumes "ops_evolve st st'" "ops_evolve st' st''"
  shows "ops_evolve st st''"
  unfolding ops_evolve_def
proof (rule allI)
  fix i
  show "case lookup ow_operation_id (st_ops st) i of
      None \<Rightarrow> pred_option (\<lambda>r. later 0 (ow_revision r)) (lookup ow_operation_id (st_ops st'') i)
    | Some r \<Rightarrow> (\<exists>r''. lookup ow_operation_id (st_ops st'') i = Some r'' \<and> evolves r r'')"
  proof (cases "lookup ow_operation_id (st_ops st) i")
    case None
    then show ?thesis
      using ops_evolveD [OF assms(1), of i] ops_evolveD [OF assms(2), of i]
      by (cases "lookup ow_operation_id (st_ops st') i";
          cases "lookup ow_operation_id (st_ops st'') i") (auto dest: evolves_later)
  next
    case (Some r)
    then show ?thesis
      using ops_evolveD(1) [OF assms(1), of i] ops_evolveD(1) [OF assms(2), of i]
      by (auto intro: evolves_trans)
  qed
qed

lemma ops_evolve_frame: "st_ops st'' = st_ops st' \<Longrightarrow> ops_evolve st st' \<Longrightarrow> ops_evolve st st''"
  using ops_evolve_trans ops_evolve_same by blast

lemma ops_evolve_insert:
  "st_ops st' = st_ops st @ [row] \<Longrightarrow> later 0 (ow_revision row) \<Longrightarrow> ops_evolve st st'"
  by (auto simp: ops_evolve_def split: option.split)

text \<open>The row a save leaves: the progress columns of the record, the others as they were.\<close>

definition saved_row :: "operation_row \<Rightarrow> operation_row \<Rightarrow> operation_row" where
  "saved_row row r = r\<lparr>ow_state := ow_state row, ow_revision := ow_revision row, ow_executor_id := ow_executor_id row,
     ow_step := ow_step row, ow_error_code := ow_error_code row, ow_error_message := ow_error_message row,
     ow_checkpoint_json := ow_checkpoint_json row, ow_updated_at_us := ow_updated_at_us row,
     ow_terminal_at_us := ow_terminal_at_us row\<rparr>"

lemma save_operation_row:
  assumes run: "save_operation ev op' op st = Inr (u, st')" and st: "schema st"
  obtains current row where "lookup ow_operation_id (st_ops st) (or_operation_id op') = Some current"
    "operation_row_of op' (ev_now ev) (ow_terminal_at_us current) = Inr row"
    "ow_app_id current = or_app_id op'" "ow_lifecycle_id current = or_lifecycle_id op'"
    "ow_revision current = or_revision op" "ow_state current = state_name (or_state op)"
    "lookup ow_operation_id (st_ops st') = (lookup ow_operation_id (st_ops st))(or_operation_id op' \<mapsto> saved_row row current)"
    "map ow_operation_id (st_ops st') = map ow_operation_id (st_ops st)"
    "st_apps st' = st_apps st" "st_slots st' = st_slots st"
proof -
  let ?p = "\<lambda>r. ow_operation_id r = or_operation_id op' \<and> ow_app_id r = or_app_id op'
    \<and> ow_lifecycle_id r = or_lifecycle_id op' \<and> ow_revision r = or_revision op
    \<and> ow_state r = state_name (or_state op) \<and> ow_executor_id r = or_executor_id op"
  obtain current row where current: "lookup ow_operation_id (st_ops st) (or_operation_id op') = Some current"
    and row: "operation_row_of op' (ev_now ev) (ow_terminal_at_us current) = Inr row"
    and one: "count_where ?p (st_ops st) = 1"
    and st': "st' = st_ops_update (update_where ?p (saved_row row)) st"
    using run unfolding save_operation_def by (auto simp: update_one_commits tx_some_def saved_row_def [abs_def])
  have "?p current"
    using iffD1 [OF count_where_key_one_iff [OF schema_keys(2) [OF st] ] one] current lookup_key [OF current] by auto
  then show thesis
    using current row st' lookup_update_key [of ?p ow_operation_id _ "saved_row row", OF _ current]
      update_where_keys [of ?p ow_operation_id "saved_row row"]
    by (intro that) (auto simp: saved_row_def)
qed

text \<open>The operation changes its state, nothing else the machine sees.\<close>

lemma save_operation_locks:
  assumes run: "save_operation ev op' op st = Inr (u, st')" and st: "schema st"
  obtains x where "lk_ops (locks st) (or_operation_id op') = Some x"
    "lo_app x = or_app_id op'" "lo_life x = or_lifecycle_id op'" "lo_open x = (\<not> op_is_terminal (or_state op))"
    "locks st' = set_op (or_operation_id op') (x\<lparr>lo_open := \<not> op_is_terminal (or_state op')\<rparr>) (locks st)"
    "lo_open x \<Longrightarrow> later (or_revision op) (or_revision op') \<Longrightarrow> ops_evolve st st'" "st_apps st' = st_apps st"
    "st_slots st' = st_slots st"
proof (rule save_operation_row [OF run st])
  fix current row
  assume current: "lookup ow_operation_id (st_ops st) (or_operation_id op') = Some current"
    and row: "operation_row_of op' (ev_now ev) (ow_terminal_at_us current) = Inr row"
    and c: "ow_app_id current = or_app_id op'" "ow_lifecycle_id current = or_lifecycle_id op'"
      "ow_revision current = or_revision op" "ow_state current = state_name (or_state op)"
    and st': "lookup ow_operation_id (st_ops st')
      = (lookup ow_operation_id (st_ops st))(or_operation_id op' \<mapsto> saved_row row current)"
      "st_apps st' = st_apps st" "st_slots st' = st_slots st"
  have "operation_checks current"
    using ops.present [OF st] lookup_SomeD [OF current] by (simp add: ops_table_def table_ok_def list_all_iff)
  then have "ow_terminal_at_us current = None \<longleftrightarrow> \<not> op_is_terminal (or_state op)"
    using c(4) by (cases "or_state op") (simp_all add: operation_checks_def name_of_def state_names_def)
  moreover have "ow_terminal_at_us row = None \<longleftrightarrow> \<not> op_is_terminal (or_state op')" "ow_revision row = or_revision op'"
    using row by (auto simp: operation_row_of_def)
  ultimately show thesis
    using current c st'
    by (intro that [of "lock_operation_of current"])
       (simp_all add: locks_def lock_operation_of_def set_op_def fun_eq_iff ops_evolve_def evolves_def saved_row_def
          split: option.split)
qed

text \<open>The root takes the lifecycle and the state of the saved record and keeps its slots.\<close>

lemma save_app_locks:
  assumes run: "save_app ev app' l v st = Inr (u, st')" and st: "schema st"
  obtains r where "lk_roots (locks st) (lr_app_id app') = Some r" "lk_life r = l"
    "locks st' = set_root (lr_app_id app') (r\<lparr>lk_life := lr_lifecycle_id app', lk_state := lr_state app'\<rparr>) (locks st)"
proof -
  obtain row where row: "row_matches app' row"
    and one: "count_where (\<lambda>r. ap_app_id r = ap_app_id row \<and> ap_lifecycle_id r = l \<and> ap_metadata_revision r = v)
      (st_apps st) = 1"
    and st': "st' = st_apps_update (update_where
      (\<lambda>r. ap_app_id r = ap_app_id row \<and> ap_lifecycle_id r = l \<and> ap_metadata_revision r = v)
      (\<lambda>r. row\<lparr>ap_control_revision := ap_control_revision r\<rparr>)) st"
    using run by (auto simp: save_app_def update_one_commits dest: application_row_of_matches)
  obtain r where r: "lookup ap_app_id (st_apps st) (ap_app_id row) = Some r" "ap_lifecycle_id r = l" "ap_metadata_revision r = v"
    using iffD1 [OF count_where_key_one_iff [OF schema_keys(1) [OF st] ] one] by auto
  show thesis
    using r row st' lookup_key [OF r(1)]
      lookup_update_key [of "\<lambda>r. ap_app_id r = ap_app_id row \<and> ap_lifecycle_id r = l \<and> ap_metadata_revision r = v"
        ap_app_id "ap_app_id row" "\<lambda>r. row\<lparr>ap_control_revision := ap_control_revision r\<rparr>", OF _ r(1)]
    by (intro that [of "lock_root_of r (lookup sl_app_id (st_slots st) (lr_app_id app'))"])
       (simp_all add: locks_def lock_root_of_def set_root_def row_matches_def fun_eq_iff)
qed

text \<open>The slots are exchanged against the ones that were read.\<close>

lemma save_slots_locks:
  assumes run: "save_slots app' app st = Inr (u, st')" and st: "schema st"
  obtains r where "lk_roots (locks st) (lr_app_id app') = Some r" "lk_life r = lr_lifecycle_id app'"
    "lk_slots r = lr_active_operations app"
    "locks st' = set_root (lr_app_id app') (r\<lparr>lk_slots := lr_active_operations app'\<rparr>) (locks st)"
proof -
  let ?p = "\<lambda>r. sl_app_id r = lr_app_id app' \<and> sl_lifecycle_id r = lr_lifecycle_id app'
        \<and> sl_dev_operation_id r = ao_dev (lr_active_operations app)
        \<and> sl_prod_operation_id r = ao_prod (lr_active_operations app)
        \<and> sl_application_operation_id r = ao_application (lr_active_operations app)"
  let ?f = "\<lambda>r. r\<lparr>sl_dev_operation_id := ao_dev (lr_active_operations app'),
        sl_prod_operation_id := ao_prod (lr_active_operations app'),
        sl_application_operation_id := ao_application (lr_active_operations app')\<rparr>"
  have one: "count_where ?p (st_slots st) = 1" and st': "st' = st_slots_update (update_where ?p ?f) st"
    using run by (simp_all add: save_slots_def update_one_commits)
  obtain sl where sl: "lookup sl_app_id (st_slots st) (lr_app_id app') = Some sl" "?p sl"
    using iffD1 [OF count_where_key_one_iff [OF schema_keys(3) [OF st] ] one] by (auto dest: lookup_key)
  have "slots_refs st sl"
    using slots.present [OF st] lookup_SomeD [OF sl(1)] by (simp add: slots_table_def table_ok_def list_all_iff)
  then obtain row where row: "lookup ap_app_id (st_apps st) (lr_app_id app') = Some row"
    "ap_lifecycle_id row = lr_lifecycle_id app'"
    using sl(2) by (auto simp: slots_refs_def lifecycle_exists_def list_ex_iff lookup_iff_mem [OF schema_keys(1) [OF st] ])
  have slots: "lookup sl_app_id (update_where ?p ?f (st_slots st)) = (lookup sl_app_id (st_slots st))(lr_app_id app' \<mapsto> ?f sl)"
    using sl by (intro lookup_update_key) auto
  show thesis
    using row sl st'
    by (intro that [of "lock_root_of row (Some sl)"])
       (simp_all add: locks_def lock_root_of_def set_root_def slots slots_of_row_def fun_eq_iff)
qed

lemma insert_operation_locks:
  assumes run: "insert_operation ev op st = Inr (u, st')"
  shows "lk_ops (locks st) (or_operation_id op) = None"
    "locks st' = set_op (or_operation_id op) (lock_of op) (locks st)"
proof -
  obtain row where row: "operation_row_of op (ev_now ev) None = Inr row"
    "lookup ow_operation_id (st_ops st) (ow_operation_id row) = None" "st' = st_ops_update (\<lambda>t. t @ [row]) st"
    using run by (auto simp: insert_operation_def insert_row_commits)
  moreover have "lock_operation_of row = lock_of op" "ow_operation_id row = or_operation_id op"
    using row(1) by (auto simp: operation_row_of_def lock_operation_of_def lock_of_def)
  ultimately show "lk_ops (locks st) (or_operation_id op) = None"
    "locks st' = set_op (or_operation_id op) (lock_of op) (locks st)"
    by (auto simp: locks_def set_op_def fun_eq_iff split: option.splits)
qed

text \<open>An empty slots row is as good as none.\<close>

lemma create_slots_locks: "create_slots a l st = Inr (u, st') \<Longrightarrow> locks st' = locks st"
  by (auto simp: create_slots_def Let_def insert_row_commits locks_def lock_root_of_def slots_of_row_def
      active_operations_default_def fun_eq_iff split: option.splits)

lemma slots_deleted_locks:
  assumes st: "schema st" and only: "\<And>r. p r \<Longrightarrow> sl_app_id r = a"
    and empty: "\<And>r. lk_roots (locks st) a = Some r \<Longrightarrow> slots_is_empty (lk_slots r)"
  shows "locks (st_slots_update (delete_where p) st) = locks st"
proof -
  have "slots_of_row (lookup sl_app_id (delete_where p (st_slots st)) a') = slots_of_row (lookup sl_app_id (st_slots st) a')"
    if "lookup ap_app_id (st_apps st) a' = Some row" for a' row
  proof (cases "lookup sl_app_id (st_slots st) a'")
    case None
    then show ?thesis
      using st by (simp add: lookup_delete_where [OF schema_keys(3) [OF st] ])
  next
    case (Some sl)
    have "slots_is_empty (slots_of_row (Some sl))" if "p sl"
      using empty only [OF that] lookup_key [OF Some] Some \<open>lookup ap_app_id (st_apps st) a' = Some row\<close>
      by (auto simp: locks_def lock_root_of_def)
    then show ?thesis
      using Some by (auto simp: lookup_delete_where [OF schema_keys(3) [OF st] ] slots_of_row_def
          slots_is_empty_def active_operations_default_def)
  qed
  then show ?thesis
    by (auto simp: locks_def lock_root_of_def fun_eq_iff split: option.splits)
       (metis (no_types, lifting) map_option_cong)+
qed

lemma insert_application_locks:
  assumes run: "insert_application row st = Inr (inserted, st')"
    and slots: "lookup sl_app_id (st_slots st) (ap_app_id row) = None \<or> \<not> inserted"
  shows "if inserted then lk_roots (locks st) (ap_app_id row) = None
      \<and> locks st' = set_root (ap_app_id row) (lock_root_of row None) (locks st)
    else locks st' = locks st"
  using assms
  by (auto simp: insert_application_def locks_def set_root_def fun_eq_iff split: if_splits option.splits)

lemma claim_app_locks: "claim_app a st = Inr (u, st') \<Longrightarrow> locks st' = locks st"
proof -
  assume "claim_app a st = Inr (u, st')"
  then have "st' = st \<or> (\<exists>p v. st' = st_apps_update (update_where p (\<lambda>r. r\<lparr>ap_control_revision := v\<rparr>)) st)"
    by (auto simp: claim_app_def update_one_commits split: option.splits)
  then show "locks st' = locks st"
    by (auto simp: locks_def lock_root_of_def lookup_update_where fun_eq_iff option.map_comp comp_def
        map_option_case split: option.splits)
qed


section \<open>Transactions that leave the locks alone\<close>

definition quiet :: "store \<Rightarrow> store \<Rightarrow> bool" where
  "quiet st st' \<longleftrightarrow> (schema st \<longrightarrow> schema st' \<and> locks st' = locks st \<and> st_ops st' = st_ops st)"

interpretation quiet_order: store_order quiet
  by unfold_locales (auto simp: quiet_def)

text \<open>Writes beside the roots, the slots and the operations.\<close>

definition aside :: "store \<Rightarrow> store \<Rightarrow> bool" where
  "aside st st' \<longleftrightarrow> locks st' = locks st \<and> st_ops st' = st_ops st"

interpretation aside_order: store_order aside
  by unfold_locales (auto simp: aside_def)

lemma aside_statements:
  "(\<And>st. aside st (upd (\<lambda>t. t @ [row]) st)) \<Longrightarrow> tx_rel aside (insert_row upd ok row)"
  "(\<And>st. aside st (upd (update_where p f) st)) \<Longrightarrow> tx_rel aside (update_one get upd p f chk e)"
  "(\<And>st. aside st (upd (update_where p f) st)) \<Longrightarrow> tx_rel aside (update_rows get upd p f chk)"
  "(\<And>st. aside st (upd (delete_where p) st)) \<Longrightarrow> tx_rel aside (delete_rows upd p)"
  "(\<And>st. aside st (upd (delete_where p) st)) \<Longrightarrow> tx_rel aside (delete_one get upd p e)"
  "(\<And>st. aside st (g st)) \<Longrightarrow> tx_rel aside (tx_modify g)"
  by (auto simp: tx_rel_def insert_row_def update_one_def update_rows_def delete_rows_def
      delete_one_def split: if_splits)

lemmas aside_context = aside_order.rel_context store_reads [THEN aside_order.rel_pure] aside_statements

lemma claim_app_aside: "tx_rel aside (claim_app a)"
  by (auto simp: tx_rel_def aside_def claim_app_locks) (auto simp: claim_app_def update_one_commits split: option.splits)

lemma current_aside: "tx_rel aside (op_current ev a i l)" "tx_rel aside (current_app ev a l)"
  by (unfold op_current_def current_app_def, (rule aside_context claim_app_aside)+)

lemma owned_aside: "tx_rel aside (owned_operation ev context)"
  unfolding owned_operation_def by (rule aside_context current_aside)+

lemma rows_aside:
  "tx_rel aside (insert_input ev op input)" "tx_rel aside (delete_input i)"
  "tx_rel aside (bind_operation_deadline ev a i l d)" "tx_rel aside (forget_operation_lease ev binding)"
  "tx_rel aside (insert_lease lease)" "tx_rel aside (insert_request rq)"
  "tx_rel aside (insert_version row)" "tx_rel aside (insert_control control_row)"
  "tx_rel aside (supersede_control ev i)" "tx_rel aside (insert_intent intent)"
  "tx_rel aside (retire_head intent)" "tx_rel aside (insert_witness ev found)"
  "tx_rel aside (insert_control_deadline deadline)" "tx_rel aside (verify_anchor i v)"
  "tx_rel aside (mark_unheld ev control v)" "tx_rel aside (clear_unheld control)"
  "tx_rel aside (update_control p f)"
  by (unfold insert_input_def delete_input_def bind_operation_deadline_def forget_operation_lease_def
      insert_lease_def insert_request_def insert_version_def insert_control_def supersede_control_def
      insert_intent_def retire_head_def insert_witness_def insert_control_deadline_def verify_anchor_def
      mark_unheld_def clear_unheld_def update_control_def,
      (rule aside_context current_aside claim_app_aside | simp add: aside_def locks_def; fail)+)

lemma configuration_aside:
  "tx_rel aside (save_configuration ev a scope req)" "tx_rel aside (capture_configuration ev op)"
  "tx_rel aside (bind_configuration ev context v target)"
  "tx_rel aside (record_configuration ev context v target credential business)"
  "tx_rel aside (save_intent ev kreq head v v')" "tx_rel aside (check_access ev a scope b)"
  "tx_rel aside (delete_activity a l)"
  by (unfold save_configuration_def capture_configuration_def bind_configuration_def record_configuration_def
      save_intent_def check_access_def delete_activity_def,
      (rule aside_context current_aside owned_aside claim_app_aside rows_aside
        | simp add: aside_def locks_def; fail)+)

lemma upserts_aside: "tx_rel aside (upsert_activity ev a l at)" "tx_rel aside (insert_binding ev binding)"
  by (auto simp: tx_rel_def upsert_activity_def insert_binding_def aside_def locks_def
      split: if_splits option.splits)

lemma aside_quiet: "tx_keeps schema m \<Longrightarrow> tx_rel aside m \<Longrightarrow> tx_rel quiet m"
  by (auto simp: tx_rel_def tx_keeps_def quiet_def aside_def)

lemma set_root_same: "lk_roots k a = Some r \<Longrightarrow> set_root a r k = k"
  by (cases k) (auto simp: set_root_def)

lemma set_op_same: "lk_ops k i = Some x \<Longrightarrow> set_op i x k = k"
  by (cases k) (auto simp: set_op_def)

text \<open>Saving a record whose lifecycle and state are the ones that were read.\<close>

lemma save_app_quiet:
  assumes "\<And>st. P st \<Longrightarrow> app_at st app" "lr_app_id app' = lr_app_id app"
    "lr_lifecycle_id app' = lr_lifecycle_id app" "lr_state app' = lr_state app"
  shows "tx_from P quiet (save_app ev app' l v)"
proof (rule tx_fromI)
  fix st x st'
  assume st: "P st" and run: "save_app ev app' l v st = Inr (x, st')"
  have "locks st' = locks st" if "schema st"
  proof (rule save_app_locks [OF run that])
    fix r
    assume "lk_roots (locks st) (lr_app_id app') = Some r"
      "locks st' = set_root (lr_app_id app') (r\<lparr>lk_life := lr_lifecycle_id app', lk_state := lr_state app'\<rparr>) (locks st)"
    then show ?thesis
      using root_locks [OF assms(1) [OF st] ] assms(2-4) by (auto simp: root_of_def set_root_same)
  qed
  moreover have "st_ops st' = st_ops st"
    using run by (auto simp: save_app_def update_one_commits)
  ultimately show "quiet st st'"
    using tx_keepsD [OF save_app_schema run] by (simp add: quiet_def)
qed

lemmas quiet_reads = store_reads [THEN quiet_order.from_bind_pure]

lemma rearm_wake_quiet: "tx_rel quiet (rearm_wake ev who)"
  unfolding rearm_wake_def
  by (rule tx_from_rel, (rule quiet_order.from_context quiet_reads)+, rule save_app_quiet)
     (auto dest: repo_app_at)

lemmas aside_rows = claim_app_aside rows_aside configuration_aside upserts_aside

interpretation quiet: ledger_order quiet
  by unfold_locales
     (rule rearm_wake_quiet | (rule aside_quiet, rule schema_statements, assumption?, rule aside_rows))+


section \<open>Simulation\<close>

definition lock_rel :: "store \<Rightarrow> store \<Rightarrow> bool" where
  "lock_rel st st' \<longleftrightarrow> (schema st \<and> lock_ok (locks st) \<longrightarrow>
     schema st' \<and> lock_steps (locks st) (locks st') \<and> ops_evolve st st')"

interpretation lock_order: store_order lock_rel
  by unfold_locales (auto simp: lock_rel_def ops_evolve_same dest: lock_steps_ok intro: ops_evolve_trans)

lemma quiet_lock: "tx_rel quiet m \<Longrightarrow> tx_rel lock_rel m"
  by (auto simp: tx_rel_def quiet_def lock_rel_def ops_evolve_same)

lemma lock_fromI:
  assumes "tx_keeps schema m"
    and "\<And>st x st'. P st \<Longrightarrow> schema st \<Longrightarrow> lock_ok (locks st) \<Longrightarrow> m st = Inr (x, st') \<Longrightarrow>
      lock_steps (locks st) (locks st') \<and> ops_evolve st st'"
  shows "tx_from P lock_rel m"
  using assms by (auto simp: tx_from_def lock_rel_def dest: tx_keepsD)

lemma save_operation_lock:
  assumes "\<not> op_is_terminal (or_state op)" "\<not> op_is_terminal (or_state op')" "later (or_revision op) (or_revision op')"
  shows "tx_rel lock_rel (save_operation ev op' op)"
proof (rule tx_from_rel, rule lock_fromI [OF save_operation_schema])
  fix st x st'
  assume "save_operation ev op' op st = Inr (x, st')" "schema st"
  then show "lock_steps (locks st) (locks st') \<and> ops_evolve st st'"
    by (rule save_operation_locks) (use assms in \<open>simp add: set_op_same\<close>)
qed

text \<open>
  The outcome of progress on an operation: a terminal state gives up its slot and settles the
  lifecycle it was to end, any other state leaves the root alone.
\<close>

definition progressed :: "lifecycle_record \<Rightarrow> operation_record \<Rightarrow> lifecycle_record \<Rightarrow> operation_record \<Rightarrow> bool" where
  "progressed app op app' op' \<longleftrightarrow>
    slot (lr_active_operations app) (or_scope op) = Some (or_operation_id op)
    \<and> or_lifecycle_id op = lr_lifecycle_id app
    \<and> lr_app_id app' = lr_app_id app \<and> lr_lifecycle_id app' = lr_lifecycle_id app
    \<and> or_operation_id op' = or_operation_id op \<and> or_app_id op' = or_app_id op
    \<and> or_lifecycle_id op' = or_lifecycle_id op \<and> later (or_revision op) (or_revision op')
    \<and> (if op_is_terminal (or_state op')
       then root_of app' = finished_root (lock_of op) (or_state op' = Op_Succeeded) (root_of app)
       else root_of app' = root_of app)"

lemma settle_app_root:
  assumes "settle_app app op pg = Inr app'"
  shows "root_of app' = finished_root (lock_of op) (pg_state pg = Op_Succeeded) (root_of app)"
    "lr_app_id app' = lr_app_id app" "lr_lifecycle_id app' = lr_lifecycle_id app"
proof -
  obtain app1 where app1: "(case applied_policy op of
        Some policy \<Rightarrow>
          if pg_state pg = Op_Succeeded
          then (let applied = policy_merge (lr_runtime_policy app) policy in
                if applied \<noteq> lr_runtime_policy app
                then try_r (ok_or (InvalidOperation ''metadata revision exhausted'')
                              (checked_add (lr_metadata_revision app) 1)) (\<lambda>revision.
                       Inr (app\<lparr>lr_metadata_revision := revision, lr_runtime_policy := applied\<rparr>))
                else Inr app)
          else Inr app
      | None \<Rightarrow> Inr app) = Inr app1"
    and app': "app' = (if ends_lifecycle (or_kind op)
      then app1\<lparr>lr_active_operations := set_slot (or_scope op) None (lr_active_operations app1),
        lr_state := if pg_state pg = Op_Succeeded then App_Deleted else App_Active\<rparr>
      else app1\<lparr>lr_active_operations := set_slot (or_scope op) None (lr_active_operations app1)\<rparr>)"
    using assms unfolding settle_app_def Let_def try_r_Inr_iff sum.inject by metis
  have "lr_app_id app1 = lr_app_id app" "root_of app1 = root_of app"
    using app1 by (auto simp: root_of_def Let_def split: option.splits if_splits)
  then show "root_of app' = finished_root (lock_of op) (pg_state pg = Op_Succeeded) (root_of app)"
    "lr_app_id app' = lr_app_id app" "lr_lifecycle_id app' = lr_lifecycle_id app"
    unfolding app' by (simp_all add: root_of_def finished_root_def lock_of_def)
qed

lemma advance_progressed:
  assumes "advance app (op\<lparr>or_state := s\<rparr>) pg = Inr (app', op')"
  shows "progressed app op app' op'"
  using assms
proof (rule advance_okE)
  assume *: "lr_lifecycle_id app = pg_lifecycle_id pg" "or_lifecycle_id (op\<lparr>or_state := s\<rparr>) = pg_lifecycle_id pg"
    "slot_matches_operation app (op\<lparr>or_state := s\<rparr>)"
    and app': "(if op_is_terminal (pg_state pg) then settle_app app (claimed_operation (op\<lparr>or_state := s\<rparr>) pg) pg
      else Inr app) = Inr app'"
    and op': "op' = progressed_operation (op\<lparr>or_state := s\<rparr>) pg" "or_revision (op\<lparr>or_state := s\<rparr>) + 1 \<le> i64_max"
  have rev: "later (or_revision op) (or_revision op')"
    using op' by (simp add: later_def)
  show "progressed app op app' op'"
  proof (cases "op_is_terminal (pg_state pg)")
    case True
    then have "settle_app app (claimed_operation (op\<lparr>or_state := s\<rparr>) pg) pg = Inr app'"
      using app' by simp
    from settle_app_root [OF this] show ?thesis
      using * True rev by (simp add: progressed_def op' slot_matches_operation_def lock_of_def finished_root_def)
  next
    case False
    then show ?thesis
      using * app' rev by (simp add: progressed_def op' slot_matches_operation_def)
  qed
qed

lemma advance_progressed_same: "advance app op pg = Inr (app', op') \<Longrightarrow> progressed app op app' op'"
  using advance_progressed [where s = "or_state op" and op = op] by simp

text \<open>Two steps in one transaction, the first of them not terminal.\<close>

lemma progressed_twice:
  assumes "progressed app op app1 op1" "progressed app1 op1 app2 op2" "\<not> op_is_terminal (or_state op1)"
    "or_scope op1 = or_scope op" "or_kind op1 = or_kind op"
  shows "progressed app op app2 op2"
  using assms by (auto simp: progressed_def later_def root_of_def finished_root_def lock_of_def split: if_splits)

lemma advance_twice_progressed:
  assumes 1: "advance app (op\<lparr>or_state := s\<rparr>) pg1 = Inr (app1, op1)" and running: "\<not> op_is_terminal (pg_state pg1)"
    and 2: "advance app1 op1 pg2 = Inr (app2, op2)"
  shows "progressed app op app2 op2"
proof (rule progressed_twice [OF advance_progressed [OF 1] advance_progressed_same [OF 2] ])
  have "op1 = progressed_operation (op\<lparr>or_state := s\<rparr>) pg1"
    using 1 by (rule advance_okE)
  then show "\<not> op_is_terminal (or_state op1)" "or_scope op1 = or_scope op" "or_kind op1 = or_kind op"
    using running by simp_all
qed

end
