(* ===== verification/Lock_Calls.thy ===== *)
theory Lock_Calls
  imports Lock_Refinement
begin

text \<open>
  Every method of the store is a run of the lock machine.  The blocks that change roots, slots
  and operations together are simulated step by step; the rest of a transaction is quiet.
\<close>

lemmas lock_context = lock_order.from_context
lemmas lock_reads = store_reads [THEN lock_order.from_bind_pure]
lemmas quiet_steps = quiet.ledger_methods [THEN quiet_lock]
lemmas schema_keeps = schema_kept.root_methods [folded tx_keeps_def]


section \<open>Progress\<close>

lemma commit_operation_effect:
  assumes run: "commit_operation ev op' op app' app st = Inr (u, st')" and st: "schema st"
    and app: "app_at st app" and op: "op_at ev st op" and ids: "or_operation_id op' = or_operation_id op"
    "lr_app_id app' = lr_app_id app"
  shows "locks st' = set_root (lr_app_id app) (root_of app')
    (set_op (or_operation_id op) ((lock_of op)\<lparr>lo_open := \<not> op_is_terminal (or_state op')\<rparr>) (locks st))"
    "lo_open (lock_of op) \<Longrightarrow> later (or_revision op) (or_revision op') \<Longrightarrow> ops_evolve st st'"
proof -
  obtain st1 st2 where 1: "save_operation ev op' op st = Inr ((), st1)"
    and 2: "save_app ev app' (lr_lifecycle_id app) (lr_metadata_revision app) st1 = Inr ((), st2)"
    and 3: "save_slots app' app st2 = Inr (u, st')"
    using run by (auto simp: commit_operation_def)
  have st1: "schema st1"
    using tx_keepsD [OF save_operation_schema 1 st] .
  have st2: "schema st2"
    using tx_keepsD [OF save_app_schema 2 st1] .
  have l1: "locks st1 = set_op (or_operation_id op) ((lock_of op)\<lparr>lo_open := \<not> op_is_terminal (or_state op')\<rparr>) (locks st)"
    by (rule save_operation_locks [OF 1 st]) (use op_locks [OF op] ids in simp)
  have root: "lk_roots (locks st1) (lr_app_id app) = Some (root_of app)"
    using root_locks [OF app] by (simp add: l1 set_op_def)
  have l2: "locks st2 = set_root (lr_app_id app)
      ((root_of app)\<lparr>lk_life := lr_lifecycle_id app', lk_state := lr_state app'\<rparr>) (locks st1)"
    by (rule save_app_locks [OF 2 st1]) (use root ids in simp)
  show "locks st' = set_root (lr_app_id app) (root_of app')
    (set_op (or_operation_id op) ((lock_of op)\<lparr>lo_open := \<not> op_is_terminal (or_state op')\<rparr>) (locks st))"
    by (rule save_slots_locks [OF 3 st2]) (use ids in \<open>simp add: l1 l2 set_root_def root_of_def\<close>)
  have "st_ops st' = st_ops st1"
    using 2 3 by (auto simp: save_app_def save_slots_def update_one_commits)
  then show "ops_evolve st st'" if "lo_open (lock_of op)" "later (or_revision op) (or_revision op')"
    by - (rule save_operation_locks [OF 1 st], use that ids op_locks [OF op] in \<open>simp add: ops_evolve_frame\<close>)
qed

lemma commit_operation_lock:
  assumes pre: "\<And>st. P st \<Longrightarrow> app_at st app \<and> op_at ev st op" and step: "progressed app op app' op'"
  shows "tx_from P lock_rel (commit_operation ev op' op app' app)"
proof (rule lock_fromI)
  show "tx_keeps schema (commit_operation ev op' op app' app)"
    by (rule schema_keeps)
next
  fix st x st'
  assume "P st" and st: "schema st" and ok: "lock_ok (locks st)"
    and run: "commit_operation ev op' op app' app st = Inr (x, st')"
  then have app: "app_at st app" and op: "op_at ev st op"
    using pre by auto
  note st' = commit_operation_effect(1) [OF run st app op]
  have root: "lk_roots (locks st) (lr_app_id app) = Some (root_of app)"
    using root_locks [OF app] .
  have lock: "lk_ops (locks st) (or_operation_id op) = Some (lock_of op)"
    using op_locks [OF op] .
  have held: "slot (lk_slots (root_of app)) (or_scope op) = Some (or_operation_id op)"
    using step by (simp add: progressed_def root_of_def)
  have x: "lo_open (lock_of op)" "lo_app (lock_of op) = lr_app_id app" "lo_life (lock_of op) = lk_life (root_of app)"
    using held_by_openD [OF ok root held] lock by auto
  have "lock_steps (locks st) (locks st')"
  proof (cases "op_is_terminal (or_state op')")
    case True
    have "lock_step (locks st) (set_root (lo_app (lock_of op))
        (finished_root (lock_of op) (or_state op' = Op_Succeeded) (root_of app))
        (set_op (or_operation_id op) ((lock_of op)\<lparr>lo_open := False\<rparr>) (locks st)))"
      using lock x root held by (intro lock_step.finish) (simp_all add: lock_of_def)
    then show ?thesis
      using True step x st' by (simp add: progressed_def)
  next
    case False
    then show ?thesis
      using step x st' root lock by (simp add: progressed_def set_op_same set_root_same)
  qed
  then show "lock_steps (locks st) (locks st') \<and> ops_evolve st st'"
    using commit_operation_effect(2) [OF run st app op] step x by (simp add: progressed_def)
qed

lemma op_current_at:
  assumes "op_current ev a i l st = Inr ((app, op), st')"
  shows "app_at st' app" "op_at ev st' op" "slot_matches_operation app op"
proof -
  obtain st1 st2 where "repo_app ev a st1 = Inr (Some app, st2)" "repo_operation ev a i st2 = Inr (Some op, st')"
    "slot_matches_operation app op"
    using assms by (auto simp: op_current_def tx_some_def split: if_splits)
  moreover from this have "st2 = st1" "st' = st2"
    using tx_pureD [OF store_reads(1)] tx_pureD [OF store_reads(2)] by blast+
  ultimately show "app_at st' app" "op_at ev st' op" "slot_matches_operation app op"
    using repo_app_at(1) repo_operation_at(1) by blast+
qed

lemma from_current:
  assumes "\<And>app op. tx_from (\<lambda>st. app_at st app \<and> op_at ev st op \<and> slot_matches_operation app op)
    lock_rel (k (app, op))"
  shows "tx_from P lock_rel (tx_bind (op_current ev a i l) k)"
proof (rule lock_order.from_bind_post [where Q = "\<lambda>x st. app_at st (fst x) \<and> op_at ev st (snd x)
    \<and> slot_matches_operation (fst x) (snd x)"])
  show "tx_from P lock_rel (op_current ev a i l)"
    by (rule lock_order.from_rel, rule quiet_steps)
  show "tx_from (\<lambda>st. app_at st (fst x) \<and> op_at ev st (snd x) \<and> slot_matches_operation (fst x) (snd x))
      lock_rel (k x)" for x
    using assms [of "fst x" "snd x"] by simp
qed (auto dest: op_current_at)

lemma op_advance_lock: "tx_rel lock_rel (op_advance ev pg)"
  unfolding op_advance_def
  apply (rule tx_from_rel)
  apply (rule lock_order.from_then, rule lock_order.from_rel, rule quiet_steps)
  apply (rule lock_context lock_reads)+
  apply (rule lock_order.from_then_pure, (rule pure_context store_reads)+)
  apply (rule lock_context lock_reads)+
  apply (rule lock_order.from_then_pure, (rule pure_context store_reads)+)
  apply (rule lock_order.from_then, rule commit_operation_lock)
  apply (auto dest: repo_app_at repo_operation_at advance_progressed_same)[2]
  apply (rule lock_order.from_rel, (rule lock_order.rel_context quiet_steps)+)
  done

text \<open>An operation found in its slot is open; a state that is not terminal keeps it so.\<close>

lemma save_held_lock:
  assumes pre: "\<And>st. P st \<Longrightarrow> \<exists>app. app_at st app \<and> op_at ev st op \<and> slot_matches_operation app op"
    and "\<not> op_is_terminal (or_state op')" "or_operation_id op' = or_operation_id op" "later (or_revision op) (or_revision op')"
  shows "tx_from P lock_rel (save_operation ev op' op)"
proof (rule lock_fromI [OF save_operation_schema])
  fix st x st'
  assume "P st" and st: "schema st" and ok: "lock_ok (locks st)" and run: "save_operation ev op' op st = Inr (x, st')"
  then obtain app where app: "app_at st app" and op: "op_at ev st op" and m: "slot_matches_operation app op"
    using pre by auto
  have "slot (lk_slots (root_of app)) (or_scope op) = Some (or_operation_id op)"
    using m by (simp add: slot_matches_operation_def root_of_def)
  from held_by_openD [OF ok root_locks [OF app] this] have "open": "lo_open (lock_of op)"
    using op_locks [OF op] by auto
  then have "(lock_of op)\<lparr>lo_open := True\<rparr> = lock_of op"
    by simp
  then show "lock_steps (locks st) (locks st') \<and> ops_evolve st st'"
    using assms(2-4) op_locks [OF op] "open"
    by - (rule save_operation_locks [OF run st], simp add: set_op_same lock_of_def)
qed

lemma settle_lock:
  assumes "\<And>st. P st \<Longrightarrow> app_at st app \<and> op_at ev st op"
  shows "tx_from P lock_rel (settle ev app op state step checkpoint code message)"
  unfolding settle_def
  apply (rule lock_context)+
  apply (rule lock_order.from_then, rule commit_operation_lock, erule assms)
   apply (auto dest: advance_progressed)[1]
  apply (rule lock_order.from_rel, (rule lock_order.rel_context quiet_steps)+)
  done

lemma settle_receipt_lock:
  assumes "\<And>st. P st \<Longrightarrow> app_at st app \<and> op_at ev st op" "\<not> op_is_terminal (pg_state pg)"
  shows "tx_from P lock_rel (settle_receipt ev app op pg outcome)"
  unfolding settle_receipt_def
  apply (rule lock_context)+
  apply (rule lock_order.from_then_pure, rule store_reads)
  apply (rule lock_order.from_then, rule commit_operation_lock, erule assms)
   apply (use assms(2) in \<open>auto dest: advance_twice_progressed\<close>)[1]
  apply (rule lock_order.from_rel, (rule lock_order.rel_context quiet_steps)+)
  done

lemma save_open_lock:
  assumes "\<And>st. P st \<Longrightarrow> \<not> op_is_terminal (or_state op)" "\<not> op_is_terminal (or_state op')"
    "later (or_revision op) (or_revision op')"
  shows "tx_from P lock_rel (save_operation ev op' op)"
  using assms tx_relD [OF save_operation_lock [of op op' ev] ] by (intro tx_fromI) blast


section \<open>Recovery\<close>

lemmas lock_blocks = commit_operation_lock [THEN lock_order.from_then] settle_lock settle_receipt_lock
  save_held_lock [THEN lock_order.from_then] save_held_lock from_current
  op_advance_lock [THEN lock_order.from_rel]

lemma observed_lock:
  "tx_rel lock_rel (finalize_observed_wake ev op)"
  "tx_rel lock_rel (settle_fenced_operation ev op evidence note)"
  "tx_rel lock_rel (settle_stale_running_builder ev op evidence note)"
  "tx_rel lock_rel (finalize_observed_hot_success ev op evidence)"
  "tx_rel lock_rel (finalize_legacy_observed_wake ev op evidence)"
  "tx_rel lock_rel (finalize_observed_hot_failure ev op hot)"
  "tx_rel lock_rel (finalize_builder_creation_rejection ev op rejection)"
  by (unfold finalize_observed_wake_def settle_fenced_operation_def settle_stale_running_builder_def
      finalize_observed_hot_success_def finalize_legacy_observed_wake_def finalize_observed_hot_failure_def
      finalize_builder_creation_rejection_def snapshot_current_def,
      (rule tx_from_rel lock_context lock_blocks | simp; fail)+)

lemma receipts_lock:
  "tx_rel lock_rel (finalize_password_recovery ev op password)"
  "tx_rel lock_rel (finalize_deploy_pg_recovery ev op deploy)"
  apply (unfold finalize_password_recovery_def finalize_deploy_pg_recovery_def snapshot_current_def)
  apply (rule tx_from_rel lock_context lock_blocks lock_reads | simp add: recovery_progress_def; fail)+
  done

lemma confirmations_lock:
  "tx_rel lock_rel (confirm_database_preparation_recovery ev op prep)"
  "tx_rel lock_rel (confirm_builder_creation_recovery ev op creation b)"
  "tx_rel lock_rel (reserve_completed_operation ev op)"
  "tx_rel lock_rel (reserve_interrupted_hot ev op lease)"
  by (unfold confirm_database_preparation_recovery_def confirm_builder_creation_recovery_def
      reserve_completed_operation_def reserve_interrupted_hot_def snapshot_current_def next_operation_revision_def,
      (rule tx_from_rel lock_context lock_blocks lock_reads
        | (rule lock_order.from_then_pure, (rule pure_context store_reads)+)
        | auto dest: advance_progressed checked_add_later; fail)+)

text \<open>The deletion recoveries start from a snapshot that is still open.\<close>

lemma deletion_snapshot_open:
  assumes "deletion_snapshot_current ev snapshot st = Inr (op, st')"
  shows "op = snapshot" "\<not> op_is_terminal (or_state op)"
  using assms by (auto simp: deletion_snapshot_current_def tx_some_def split: prod.splits if_splits)

lemma from_deletion_snapshot:
  assumes "\<And>op. op = snapshot \<Longrightarrow> \<not> op_is_terminal (or_state op) \<Longrightarrow> tx_from (\<lambda>_. True) lock_rel (k op)"
  shows "tx_from P lock_rel (tx_bind (deletion_snapshot_current ev snapshot) k)"
proof (rule lock_order.from_bind_post [where Q = "\<lambda>op _. op = snapshot \<and> \<not> op_is_terminal (or_state op)"])
  show "tx_from P lock_rel (deletion_snapshot_current ev snapshot)"
    by (rule lock_order.from_rel, rule quiet_steps)
  show "tx_from (\<lambda>_. op = snapshot \<and> \<not> op_is_terminal (or_state op)) lock_rel (k op)" for op
    using assms [of op] by (auto simp: tx_from_def)
qed (auto dest: deletion_snapshot_open)

lemma deletions_lock:
  "tx_rel lock_rel (reserve_interrupted_deletion ev op)"
  "tx_rel lock_rel (record_deletion_recovery_problem ev op message)"
  "tx_rel lock_rel (finalize_interrupted_deletion ev op evidence)"
  by (unfold reserve_interrupted_deletion_def record_deletion_recovery_problem_def finalize_interrupted_deletion_def
      next_operation_revision_def,
      (rule tx_from_rel lock_context from_deletion_snapshot lock_reads
         save_open_lock [THEN lock_order.from_then] observed_lock [THEN lock_order.from_rel]
       | auto dest: checked_add_later; fail)+)

lemma op_patch_metadata_lock: "tx_rel lock_rel (op_patch_metadata ev patch)"
proof (rule quiet_lock)
  show "tx_rel quiet (op_patch_metadata ev patch)"
    unfolding op_patch_metadata_def
    apply (rule tx_from_rel)
    apply (rule quiet_order.from_then, rule quiet_order.from_rel, rule quiet.ledger_methods)
    apply (rule quiet_order.from_context quiet_reads)+
    apply (rule quiet_order.from_then)
    apply (rule quiet_order.from_context save_app_quiet | auto dest: repo_app_at patch_metadata_frame; fail)+
    done
qed

lemma row_at:
  assumes "lookup ow_operation_id (st_ops st) i = Some row" "operation_of_row ev row = Inr op"
  shows "op_at ev st op"
proof -
  have "ow_operation_id row = or_operation_id op"
    using assms(2) by (rule operation_of_rowE)
  then show ?thesis
    using assms lookup_key [OF assms(1)] by (auto simp: op_at_def)
qed

lemma quarantine_one_lock: "tx_rel lock_rel (quarantine_one ev row)"
  unfolding quarantine_one_def
  apply (rule tx_from_rel)
  apply (rule lock_context lock_reads)+
  apply (rule save_held_lock)
    apply (auto dest: repo_app_at row_at checked_add_later)
  done

lemma quarantine_pages_lock: "tx_rel lock_rel (quarantine_pages ev n after)"
proof (induction n arbitrary: after)
  case (Suc n)
  show ?case
    unfolding quarantine_pages.simps by (rule lock_order.rel_context quarantine_one_lock Suc.IH)+
qed (simp add: lock_order.rel_return)

lemma quarantine_lock: "tx_rel lock_rel (quarantine_local_restart ev)"
  unfolding quarantine_local_restart_def by (rule lock_order.rel_context quarantine_pages_lock)+

lemma reclaimed_lock:
  "tx_rel lock_rel (expire_deployment_update ev op)" "tx_rel lock_rel (finalize_interrupted ev who op)"
  by (unfold expire_deployment_update_def finalize_interrupted_def next_operation_revision_def,
      (rule tx_from_rel lock_context lock_reads save_open_lock [THEN lock_order.from_then] lock_blocks
        | (rule lock_order.from_then lock_order.from_bind, rule lock_order.from_rel, rule quiet_steps)
        | (rule lock_order.from_bind) | auto dest: checked_add_later; fail)+)

lemma bindings_lock:
  "tx_rel lock_rel (commit_resource_binding ev binding pg)"
  "tx_rel lock_rel (commit_builder_registration_adoption ev target i pg)"
  by (unfold commit_resource_binding_def commit_builder_registration_adoption_def,
      (rule lock_order.rel_context quiet_steps op_advance_lock store_reads [THEN lock_order.rel_pure])+)


section \<open>Registration\<close>

text \<open>The statements that do not write operations.\<close>

lemma root_ops:
  "insert_application row st = Inr (b, st') \<Longrightarrow> st_ops st' = st_ops st"
  "claim_app a st = Inr (u, st') \<Longrightarrow> st_ops st' = st_ops st"
  "create_slots a l st = Inr (u, st') \<Longrightarrow> st_ops st' = st_ops st"
  "save_app ev app l v st = Inr (u, st') \<Longrightarrow> st_ops st' = st_ops st"
  "save_slots app app' st = Inr (u, st') \<Longrightarrow> st_ops st' = st_ops st"
  by (auto simp: insert_application_def claim_app_def create_slots_def save_app_def save_slots_def Let_def
      update_one_commits insert_row_commits split: if_splits option.splits)

lemma unregistered_slots:
  assumes st: "schema st" and none: "lookup ap_app_id (st_apps st) a = None"
  shows "lookup sl_app_id (st_slots st) a = None"
proof (rule ccontr)
  assume "lookup sl_app_id (st_slots st) a \<noteq> None"
  then obtain sl where "sl \<in> set (st_slots st)" "sl_app_id sl = a"
    using lookup_SomeD by fastforce
  then have "app_exists st a"
    using slots.present [OF st]
    by (auto simp: slots_table_def table_ok_def list_all_iff slots_refs_def lifecycle_exists_def app_exists_def list_ex_iff)
  then show False
    using none by (auto simp: lookup_None_iff app_exists_def list_ex_iff)
qed

lemma ensure_with_created_lock:
  assumes "lr_state proposed = App_Active"
  shows "tx_rel lock_rel (ensure_with_created ev proposed)"
proof (rule tx_from_rel, rule lock_fromI)
  show "tx_keeps schema (ensure_with_created ev proposed)"
    by (rule schema_keeps)
next
  fix st x st'
  assume st: "schema st" and run: "ensure_with_created ev proposed st = Inr (x, st')"
  obtain row inserted st1 st2 st3 where row: "row_matches proposed row"
    and 1: "insert_application row st = Inr (inserted, st1)"
    and 2: "claim_app (ap_app_id row) st1 = Inr ((), st2)"
    and 3: "(if inserted then create_slots (ap_app_id row) (ap_lifecycle_id row) else tx_return ()) st2 = Inr ((), st3)"
    and 4: "\<exists>y. repo_app ev (ap_app_id row) st3 = Inr (y, st')"
    using run by (auto simp: ensure_with_created_def tx_some_def dest: application_row_of_matches)
  have "locks st' = locks st1"
    using 3 4 claim_app_locks [OF 2] create_slots_locks tx_pureD [OF store_reads(1)]
    by (auto split: if_splits) metis+
  moreover have "inserted \<Longrightarrow> lookup ap_app_id (st_apps st) (ap_app_id row) = None"
    using 1 by (auto simp: insert_application_def split: if_splits)
  then have "lookup sl_app_id (st_slots st) (ap_app_id row) = None \<or> \<not> inserted"
    using unregistered_slots [OF st] by blast
  note insert_application_locks [OF 1 this]
  moreover have "lock_root_of row None = fresh_root (ap_lifecycle_id row)"
    using row assms by (simp add: lock_root_of_def fresh_root_def slots_of_row_def row_matches_def)
  ultimately have "lock_steps (locks st) (locks st')"
    by (auto intro!: lock_step.register split: if_splits)
  moreover have "st_ops st' = st_ops st"
    using 4 3 root_ops(1) [OF 1] root_ops(2) [OF 2] root_ops(3) tx_pureD [OF store_reads(1)]
    by (auto split: if_splits) metis+
  ultimately show "lock_steps (locks st) (locks st') \<and> ops_evolve st st'"
    by (simp add: ops_evolve_same)
qed

lemma ensure_at: "ensure_with_created ev proposed st = Inr ((app, created), st') \<Longrightarrow> app_at st' app"
  using tx_pureD [OF store_reads(1)]
  by (fastforce simp: ensure_with_created_def tx_some_def dest: repo_app_at)


section \<open>Admission\<close>

text \<open>An occupied slot shows up among the active records.\<close>

lemma active_scopes_occupied:
  assumes "active_scopes ev app scopes records st = Inr (records', st')"
    and "record_slot records s \<noteq> None \<or> s \<in> set scopes \<and> slot (lr_active_operations app) s \<noteq> None"
  shows "record_slot records' s \<noteq> None"
  using assms
proof (induction scopes arbitrary: records st)
  case (Cons s' scopes)
  show ?case
  proof (cases "slot (lr_active_operations app) s'")
    case None
    then have "active_scopes ev app scopes records st = Inr (records', st')"
      using Cons.prems(1) by simp
    then show ?thesis
      using Cons.prems(2) None by (intro Cons.IH) auto
  next
    case (Some i)
    then obtain op st1 where "active_scopes ev app scopes (set_record_slot s' (Some op) records) st1 = Inr (records', st')"
      using Cons.prems(1) by (auto simp: tx_some_def split: if_splits)
    then show ?thesis
      using Cons.prems(2) by (rule_tac Cons.IH) (auto split: if_splits)
  qed
qed auto

lemma active_occupied:
  "active ev app st = Inr (records, st') \<Longrightarrow> slot (lr_active_operations app) s \<noteq> None \<Longrightarrow> record_slot records s \<noteq> None"
  unfolding active_def by (erule active_scopes_occupied) (cases s; simp)

definition admits :: "lifecycle_record \<Rightarrow> lifecycle_record \<Rightarrow> operation_record \<Rightarrow> bool" where
  "admits previous app op \<longleftrightarrow> lr_state previous = App_Active \<and> lr_app_id app = lr_app_id previous
    \<and> or_app_id op = lr_app_id previous \<and> or_lifecycle_id op = lr_lifecycle_id previous
    \<and> \<not> op_is_terminal (or_state op) \<and> or_revision op = 1 \<and> (ends_lifecycle (or_kind op) \<longrightarrow> or_scope op = Scope_Application)
    \<and> (\<forall>b. userapp_scope_blocks_request (or_scope op) b \<longrightarrow> slot (lr_active_operations previous) b = None)
    \<and> root_of app = admitted_root (or_scope op) (ends_lifecycle (or_kind op)) (or_operation_id op) (root_of previous)"

lemma admission_admits:
  assumes run: "admission now previous request dup records = Inr (Accepted op, app)"
    and occupied: "\<And>s. slot (lr_active_operations previous) s \<noteq> None \<Longrightarrow> record_slot records s \<noteq> None"
  shows "admits previous app op"
proof -
  have active: "lr_state previous = App_Active" and fresh: "admit_fresh now previous request records = Inr (Accepted op, app)"
    using admission_Accepted_fresh [OF run] by auto
  show ?thesis
    using fresh
  proof (rule admit_fresh_AcceptedE)
    fix app1
    assume free: "find_blocker (kind_scope (ad_kind request)) records = None"
      and app1: "(case ad_metadata request of None \<Rightarrow> Inr previous | Some p \<Rightarrow> patch_metadata previous p) = Inr app1"
      and op: "op = admitted_operation now app1 request"
      and app: "app = app1\<lparr>lr_active_operations :=
         set_slot (kind_scope (ad_kind request)) (Some (ad_operation_id request)) (lr_active_operations app1),
         lr_state := (if ends_lifecycle (ad_kind request) then App_Deleting else lr_state app1)\<rparr>"
    have "slot (lr_active_operations previous) b = None" if "userapp_scope_blocks_request (kind_scope (ad_kind request)) b" for b
      by (rule ccontr) (use free that occupied [of b] in \<open>simp add: find_blocker_None_iff\<close>)
    then show ?thesis
      using active metadata_intent_frame [OF app1]
      by (auto simp: admits_def op app admitted_operation_def root_of_def admitted_root_def ends_lifecycle_def)
  qed
qed

lemma guard_admission_pure: "tx_pure (guard_admission ev app scope)"
  by (rule store_reads)

lemma store_accepted_lock:
  assumes pre: "\<And>st. P st \<Longrightarrow> app_at st previous \<and> admits previous app op"
  shows "tx_from P lock_rel (store_accepted ev input pg app previous op)"
proof (rule lock_fromI)
  show "tx_keeps schema (store_accepted ev input pg app previous op)"
    by (rule schema_keeps)
next
  fix st x st'
  assume "P st" and st: "schema st" and run: "store_accepted ev input pg app previous op st = Inr (x, st')"
  then have admits: "admits previous app op"
    and root: "lk_roots (locks st) (lr_app_id previous) = Some (root_of previous)"
    using root_locks pre by blast+
  let ?config = "case pg of None \<Rightarrow> tx_return ()
    | Some pg \<Rightarrow> tx_then (seed_deployment_credentials ev op pg) (capture_configuration ev op)"
  let ?input = "case input of None \<Rightarrow> tx_return () | Some input \<Rightarrow> insert_input ev op input"
  have quiets: "tx_rel quiet ?config" "tx_rel quiet ?input"
    by (rule quiet_order.rel_context quiet.ledger_methods)+
  obtain st0 st1 st2 st3 st4 where 0: "guard_admission ev app (or_scope op) st = Inr ((), st0)"
    and 1: "insert_operation ev op st0 = Inr ((), st1)"
    and 2: "?config st1 = Inr ((), st2)" "?input st2 = Inr ((), st3)"
    and 3: "save_app ev app (lr_lifecycle_id previous) (lr_metadata_revision previous) st3 = Inr ((), st4)"
    and 4: "save_slots app previous st4 = Inr (x, st')"
    using run by (auto simp: store_accepted_def)
  have st0: "st0 = st"
    using tx_pureD [OF guard_admission_pure 0] .
  note 1 = 1 [unfolded st0]
  have st1: "schema st1"
    using tx_keepsD [OF insert_operation_schema 1 st] .
  have st3: "schema st3" "locks st3 = locks st1" "st_ops st3 = st_ops st1"
    using tx_relD [OF quiets(1) 2(1)] tx_relD [OF quiets(2) 2(2)] st1 by (auto simp: quiet_def)
  have st4: "schema st4"
    using tx_keepsD [OF save_app_schema 3 st3(1)] .
  note l1 = insert_operation_locks [OF 1]
  have ids: "lr_app_id app = lr_app_id previous" "root_of app = admitted_root (or_scope op)
      (ends_lifecycle (or_kind op)) (or_operation_id op) (root_of previous)"
    using admits by (simp_all add: admits_def)
  have root3: "lk_roots (locks st3) (lr_app_id app) = Some (root_of previous)"
    using root by (simp add: st3 l1 set_op_def ids)
  have l4: "locks st4 = set_root (lr_app_id previous)
      ((root_of previous)\<lparr>lk_life := lr_lifecycle_id app, lk_state := lr_state app\<rparr>) (locks st3)"
    by (rule save_app_locks [OF 3 st3(1)]) (use root3 ids in simp)
  have "locks st' = set_root (lr_app_id previous) (root_of app) (set_op (or_operation_id op) (lock_of op) (locks st))"
    by (rule save_slots_locks [OF 4 st4]) (use ids(1) in \<open>simp add: l4 st3 l1 set_root_def root_of_def\<close>)
  moreover have "lock_of op = \<lparr>lo_app = lr_app_id previous, lo_life = lk_life (root_of previous), lo_scope = or_scope op,
      lo_ends = ends_lifecycle (or_kind op), lo_open = True\<rparr>"
    using admits by (simp add: admits_def lock_of_def root_of_def)
  moreover have "lock_step (locks st) (set_root (lr_app_id previous) (root_of app) (set_op (or_operation_id op)
      \<lparr>lo_app = lr_app_id previous, lo_life = lk_life (root_of previous), lo_scope = or_scope op,
      lo_ends = ends_lifecycle (or_kind op), lo_open = True\<rparr> (locks st)))"
    unfolding ids(2) using root l1(1) admits
    by (intro lock_step.admit) (auto simp: admits_def root_of_def)
  moreover obtain row where "operation_row_of op (ev_now ev) None = Inr row" "st_ops st1 = st_ops st @ [row]"
    using 1 by (auto simp: insert_operation_def insert_row_commits)
  then have "ops_evolve st st'"
    using st3(3) root_ops(4) [OF 3] root_ops(5) [OF 4] admits
    by (intro ops_evolve_insert) (auto simp: operation_row_of_def later_def admits_def i64_max_def)
  ultimately show "lock_steps (locks st) (locks st') \<and> ops_evolve st st'"
    by simp
qed

lemma from_ensure:
  assumes proposed: "lr_state proposed = App_Active" and k: "\<And>app. tx_from (\<lambda>st. app_at st app) lock_rel (k app)"
  shows "tx_from P lock_rel (tx_bind (ensure ev proposed) k)"
proof (rule lock_order.from_bind_post [where Q = "\<lambda>app st. app_at st app"])
  show "tx_from P lock_rel (ensure ev proposed)"
    unfolding ensure_def
    by (rule lock_order.from_rel, (rule lock_order.rel_context ensure_with_created_lock proposed)+)
qed (auto simp: ensure_def dest: ensure_at intro: k)

lemma identity_active: "identity i now a = Inr proposed \<Longrightarrow> lr_state proposed = App_Active"
  by (auto simp: identity_def)

lemma mapped_operation_pure: "tx_pure (mapped_operation ev a mapping)"
  unfolding mapped_operation_def by (rule pure_context store_reads)+

lemma admit_with_configuration_lock: "tx_rel lock_rel (admit_with_configuration ev request input pg)"
  unfolding admit_with_configuration_def
  apply (rule tx_from_rel lock_context from_ensure)+
   apply (erule identity_active)
  apply (rule lock_context lock_reads mapped_operation_pure [THEN lock_order.from_bind_pure]
    | (rule lock_order.from_bind_pure, (rule pure_context store_reads)+))+
  apply (rule lock_order.from_then)
   apply (rule lock_context store_accepted_lock)+
    apply (auto dest: active_occupied intro!: admission_admits)[1]
   apply (rule lock_order.from_rel, (rule lock_order.rel_context store_reads [THEN lock_order.rel_pure])+)
  apply (rule lock_order.from_rel, (rule lock_order.rel_context quiet_steps)+)
  done

lemma ensures_lock: "tx_rel lock_rel (ensure_identity ev i)" "tx_rel lock_rel (restore_storage_identity ev found)"
  by (unfold ensure_identity_def restore_storage_identity_def,
      (rule tx_from_rel lock_context from_ensure | auto dest: identity_active split: option.splits; fail)+)

lemma admissions_lock: "tx_rel lock_rel (admit_with_input ev request input)" "tx_rel lock_rel (admit ev request)"
  by (simp_all add: admit_def admit_with_input_def admit_with_configuration_lock)


section \<open>Replacing a root\<close>

text \<open>The statements between dropping the old slots row and creating the new one.\<close>

lemma replace_lock:
  assumes st: "schema st" and root: "lk_roots (locks st) (lr_app_id app) = Some (root_of app)" and empty: "slots_is_empty (lr_active_operations app)"
    and state: "lr_state app \<noteq> App_Deleting"
    and only: "\<And>r. p r \<Longrightarrow> sl_app_id r = lr_app_id app"
    and 1: "st1 = st_slots_update (delete_where p) st" and q: "locks st2 = locks st1" "schema st2"
    and 2: "save_app ev app' l v st2 = Inr (u, st3)"
    and app': "lr_app_id app' = lr_app_id app" "lr_state app' = App_Active"
    and 3: "create_slots a' l' st3 = Inr (w, st4)"
  shows "lock_step (locks st) (locks st4)"
proof -
  have same: "locks st2 = locks st"
    unfolding q(1) 1 using only by (rule slots_deleted_locks [OF st]) (use root empty in \<open>auto simp: root_of_def\<close>)
  have "locks st3 = set_root (lr_app_id app) ((root_of app)\<lparr>lk_life := lr_lifecycle_id app', lk_state := App_Active\<rparr>) (locks st)"
    by (rule save_app_locks [OF 2 q(2)]) (use root app' same in auto)
  moreover have "(root_of app)\<lparr>lk_life := lr_lifecycle_id app', lk_state := App_Active\<rparr> = fresh_root (lr_lifecycle_id app')"
    using empty by (simp add: root_of_def fresh_root_def slots_is_empty_def active_operations_default_def
        active_operations.equality)
  ultimately show ?thesis
    using lock_step.replace [OF root, of "lr_lifecycle_id app'"] empty state create_slots_locks [OF 3]
    by (simp add: root_of_def)
qed

lemma restore_unprovisioned_root_lock:
  assumes "\<And>st. P st \<Longrightarrow> app_at st app" "lr_state app = App_Active"
  shows "tx_from P lock_rel (restore_unprovisioned_root ev app found)"
proof (rule lock_fromI [OF restore_unprovisioned_root_schema])
  fix st x st'
  assume "P st" and st: "schema st" and run: "restore_unprovisioned_root ev app found st = Inr (x, st')"
  let ?p = "\<lambda>r. sl_app_id r = lr_app_id app \<and> sl_lifecycle_id r = lr_lifecycle_id app
          \<and> sl_dev_operation_id r = None \<and> sl_prod_operation_id r = None
          \<and> sl_application_operation_id r = None"
  let ?app = "app\<lparr>lr_lifecycle_id := di_lifecycle_id found, lr_lifecycle_epoch := lr_lifecycle_epoch app + 1,
        lr_metadata_revision := lr_metadata_revision app + 1,
        lr_runtime_policy := (if di_prod_stopped found
          then (lr_runtime_policy app)\<lparr>rp_wake_on_traffic := Some False\<rparr> else lr_runtime_policy app)\<rparr>"
  obtain st3 where "lr_active_operations app = active_operations_default"
    and save: "save_app ev ?app (lr_lifecycle_id app) (lr_metadata_revision app) (st_slots_update (delete_where ?p) st) = Inr ((), st3)"
    and slots: "create_slots (lr_app_id ?app) (lr_lifecycle_id ?app) st3 = Inr ((), st')"
    using run by (auto simp: restore_unprovisioned_root_def Let_def delete_commits split: if_splits)
  moreover have "schema (st_slots_update (delete_where ?p) st)"
    using slots.present [OF st] by (intro slots.replaced [OF st]) (simp_all add: slots_table_def)
  moreover have "lk_roots (locks st) (lr_app_id app) = Some (root_of app)"
    using root_locks assms(1) [OF \<open>P st\<close>] .
  ultimately have "lock_step (locks st) (locks st')"
    using assms(2)
    by (intro replace_lock [OF st, where p = ?p and app' = ?app]) (auto simp: slots_is_empty_iff)
  moreover have "st_ops st' = st_ops st"
    using root_ops(3,4) save slots by fastforce
  ultimately show "lock_steps (locks st) (locks st') \<and> ops_evolve st st'"
    by (auto simp: ops_evolve_same)
qed

lemma retire_quiet: "tx_rel quiet (retire_lifecycle_heads ev app)"
  by (rule quiet.ledger_methods)

lemma recreate_block_lock:
  assumes pre: "\<And>st. P st \<Longrightarrow> app_at st app \<and> lr_app_id app = a" and empty: "slots_is_empty (lr_active_operations app)"
    and state: "lr_state app = App_Deleted"
  shows "tx_from P lock_rel (
    tx_then (retire_lifecycle_heads ev app) (
    tx_bind (tx_some e (checked_add (lr_lifecycle_epoch app) 1)) (\<lambda>epoch.
    let app' = recreated ev app epoch in
    tx_then (delete_rows st_slots_update (\<lambda>r. sl_app_id r = a)) (
    tx_then (delete_rows st_activity_update q) (
    tx_then (save_app ev app' l v) (
    tx_then (create_slots a (lr_lifecycle_id app')) (
    tx_then (insert_request (request app')) (
    tx_return app'))))))))"
proof (rule lock_fromI)
  show "tx_keeps schema (
    tx_then (retire_lifecycle_heads ev app) (
    tx_bind (tx_some e (checked_add (lr_lifecycle_epoch app) 1)) (\<lambda>epoch.
    let app' = recreated ev app epoch in
    tx_then (delete_rows st_slots_update (\<lambda>r. sl_app_id r = a)) (
    tx_then (delete_rows st_activity_update q) (
    tx_then (save_app ev app' l v) (
    tx_then (create_slots a (lr_lifecycle_id app')) (
    tx_then (insert_request (request app')) (
    tx_return app'))))))))"
    by (rule keeps_context retire_lifecycle_heads_schema save_app_schema
      create_slots_schema insert_request_schema slots.delete_rows_keeps activity.delete_rows_keeps
     | simp add: table_defs)+
next
  let ?p = "\<lambda>r. sl_app_id r = a"
  fix st x st'
  assume "P st" and st: "schema st" and run: "(
    tx_then (retire_lifecycle_heads ev app) (
    tx_bind (tx_some e (checked_add (lr_lifecycle_epoch app) 1)) (\<lambda>epoch.
    let app' = recreated ev app epoch in
    tx_then (delete_rows st_slots_update ?p) (
    tx_then (delete_rows st_activity_update q) (
    tx_then (save_app ev app' l v) (
    tx_then (create_slots a (lr_lifecycle_id app')) (
    tx_then (insert_request (request app')) (
    tx_return app')))))))) st = Inr (x, st')"
  obtain st0 epoch st3 st4 where 0: "retire_lifecycle_heads ev app st = Inr ((), st0)"
    and 3: "save_app ev (recreated ev app epoch) l v
      (st_activity_update (delete_where q) (st_slots_update (delete_where ?p) st0)) = Inr ((), st3)"
    and 4: "create_slots a (lr_lifecycle_id (recreated ev app epoch)) st3 = Inr ((), st4)"
    and 5: "insert_request (request (recreated ev app epoch)) st4 = Inr ((), st')"
    using run by (auto simp: delete_commits tx_some_def Let_def)
  let ?st1 = "st_slots_update (delete_where ?p) st0"
  let ?st2 = "st_activity_update (delete_where q) ?st1"
  have st0: "schema st0" "locks st0 = locks st" "st_ops st0 = st_ops st"
    using tx_relD [OF retire_quiet 0] st by (simp_all add: quiet_def)
  have root: "lk_roots (locks st0) (lr_app_id app) = Some (root_of app)"
    using root_locks pre [OF \<open>P st\<close>] st0(2) by auto
  have st1: "schema ?st1"
    using slots.present [OF st0(1)] by (intro slots.replaced [OF st0(1)]) (simp_all add: slots_table_def)
  have st2: "schema ?st2"
    using activity.present [OF st1] by (intro activity.replaced [OF st1]) (simp_all add: activity_table_def)
  have "lock_step (locks st0) (locks st4)"
    by (rule replace_lock [OF st0(1) root empty _ _ refl _ st2 3 _ _ 4])
       (use pre [OF \<open>P st\<close>] in \<open>simp_all add: state recreated_def locks_def\<close>)
  moreover have "locks st' = locks st4"
    using tx_relD [OF rows_aside(6) 5] by (simp add: aside_def)
  moreover have "st_ops st' = st_ops st"
    using root_ops(3) [OF 4] root_ops(4) [OF 3] tx_relD [OF rows_aside(6) 5] st0(3) by (simp add: aside_def)
  ultimately show "lock_steps (locks st) (locks st') \<and> ops_evolve st st'"
    using st0(2) by (auto simp: ops_evolve_same)
qed

lemma recreate_lock: "tx_rel lock_rel (recreate ev a l i)"
  unfolding recreate_def
  apply (rule tx_from_rel)
  apply (rule lock_context)
  apply (rule lock_order.from_then, rule lock_order.from_rel, rule quiet_steps)
  apply (rule lock_context lock_reads)+
   apply (rule recreate_block_lock)
     apply (auto dest: repo_app_at)[3]
  apply (rule lock_context)+
  done

lemma record_restored_lock: "tx_rel lock_rel (record_restored ev found app created)"
  unfolding record_restored_def by (rule lock_order.rel_context quiet_steps)+

lemma restore_identity_lock: "tx_rel lock_rel (restore_identity ev found)"
  unfolding restore_identity_def
  apply (rule tx_from_rel lock_context lock_reads)+
    apply (rule lock_order.from_then, rule lock_order.from_rel, rule quiet_steps)
    apply (rule lock_context lock_reads)+
    apply (rule lock_order.from_bind, rule restore_unprovisioned_root_lock)
  apply (auto dest: repo_app_at)[2]
  apply (rule record_restored_lock [THEN lock_order.from_rel])
  apply (rule lock_context)+
  apply (rule lock_order.from_bind)
  apply (rule lock_order.from_rel, rule ensure_with_created_lock)
  apply (auto dest: identity_active)[1]
  apply (rule lock_context record_restored_lock [THEN lock_order.from_rel])+
  done


section \<open>Cancelling interrupted work\<close>

text \<open>
  The loop ends operations one by one and gives their slots up in the record only; the slots
  are saved at its end.  Seen with the root of the record, each turn is a step of the machine.
\<close>

definition staged :: "store \<Rightarrow> lifecycle_record \<Rightarrow> lock_state" where
  "staged st app = set_root (lr_app_id app) (root_of app) (locks st)"

definition cancels :: "store \<Rightarrow> lifecycle_record \<Rightarrow> store \<Rightarrow> lifecycle_record \<Rightarrow> bool" where
  "cancels st app st' app' \<longleftrightarrow> schema st' \<and> lock_steps (staged st app) (staged st' app')
     \<and> lk_roots (locks st') = lk_roots (locks st) \<and> lr_app_id app' = lr_app_id app
     \<and> lr_lifecycle_id app' = lr_lifecycle_id app \<and> lr_state app' = lr_state app \<and> ops_evolve st st'"

lemma cancels_trans: "cancels st app st1 app1 \<Longrightarrow> cancels st1 app1 st' app' \<Longrightarrow> cancels st app st' app'"
  by (auto simp: cancels_def intro: ops_evolve_trans)

lemma cancelled_operation:
  assumes run: "save_operation ev op' old st = Inr (u, st1)" and st: "schema st" and ok: "lock_ok (staged st app)"
    and op: "op_at ev st old" and step: "progressed app old app' op'" and "op_is_terminal (or_state op')"
    and kind: "\<not> ends_lifecycle (or_kind old)"
  shows "cancels st app st1 app'"
proof -
  let ?i = "or_operation_id old" and ?k = "staged st app"
  have root: "lk_roots ?k (lr_app_id app) = Some (root_of app)"
    by (simp add: staged_def set_root_def)
  have lock: "lk_ops ?k ?i = Some (lock_of old)"
    using op_locks [OF op] by (simp add: staged_def set_root_def)
  have held: "slot (lk_slots (root_of app)) (or_scope old) = Some ?i"
    using step by (simp add: progressed_def root_of_def)
  have x: "lo_open (lock_of old)" "lo_app (lock_of old) = lr_app_id app" "lo_life (lock_of old) = lk_life (root_of app)"
    using held_by_openD [OF ok root held] lock by auto
  have st1: "locks st1 = set_op ?i ((lock_of old)\<lparr>lo_open := False\<rparr>) (locks st)" and evolve: "ops_evolve st st1"
    by (rule save_operation_locks [OF run st], use assms(6) op_locks [OF op] step x in \<open>simp add: progressed_def\<close>)+
  have app': "root_of app' = finished_root (lock_of old) (or_state op' = Op_Succeeded) (root_of app)"
    "lr_app_id app' = lr_app_id app"
    using step assms(6) by (simp_all add: progressed_def)
  have "lock_step ?k (set_root (lo_app (lock_of old))
      (finished_root (lock_of old) (or_state op' = Op_Succeeded) (root_of app))
      (set_op ?i ((lock_of old)\<lparr>lo_open := False\<rparr>) ?k))"
    using lock x root held by (intro lock_step.finish) (simp_all add: lock_of_def)
  then have "lock_step ?k (staged st1 app')"
    using x app' by (simp add: staged_def st1 set_root_def set_op_def)
  moreover have "lr_state app' = lr_state app"
    using app'(1) kind by (simp add: root_of_def finished_root_def lock_of_def)
  ultimately show ?thesis
    using tx_keepsD [OF save_operation_schema run st] step evolve
    by (auto simp: cancels_def st1 set_op_def progressed_def)
qed

lemma cancels_quiet:
  assumes "cancels st app st1 app'" "tx_rel quiet m" "m st1 = Inr (u, st2)"
  shows "cancels st app st2 app'"
proof -
  have "schema st2" "locks st2 = locks st1" "st_ops st2 = st_ops st1"
    using assms tx_relD [OF assms(2,3)] by (simp_all add: cancels_def quiet_def)
  then show ?thesis
    using assms(1) by (auto simp: cancels_def staged_def ops_evolve_frame)
qed

lemma delete_input_quiet: "tx_rel quiet (delete_input i)"
  by (rule quiet.ledger_methods)

lemma cancel_reads: "tx_pure (lease_held i)" "tx_pure (validate_terminal op s)"
  by (rule store_reads)+

lemma cancel_wake_cancels:
  assumes run: "cancel_wake ev control app old st = Inr (app', st')" and st: "schema st" and ok: "lock_ok (staged st app)"
    and op: "op_at ev st old" and kind: "\<not> ends_lifecycle (or_kind old)"
  shows "cancels st app st' app'"
proof -
  let ?pg = "\<lambda>executor_id checkpoint. \<lparr>pg_app_id = or_app_id old, pg_operation_id = or_operation_id old,
         pg_lifecycle_id = or_lifecycle_id old, pg_expected_revision = or_revision old,
         pg_executor_id = executor_id, pg_state = Op_Failed,
         pg_step = ''traffic_wake_observation_failed'', pg_checkpoint = checkpoint,
         pg_error_code = Some ''ERR_OPERATION_CANCELLED'',
         pg_error_message = Some ''Read-only wake observation interrupted by explicit compute control''\<rparr>"
  obtain x c op' st1 st2 where 1: "validate_terminal old Op_Failed st = Inr ((), st1)"
    and pg: "advance app (old\<lparr>or_state := Op_Running\<rparr>) (?pg x c) = Inr (app', op')"
    and 2: "save_operation ev op' old st1 = Inr ((), st2)" "delete_input (or_operation_id old) st2 = Inr ((), st')"
    using run by (auto simp: cancel_wake_def tx_some_def)
  have st1: "st1 = st"
    using tx_pureD [OF cancel_reads(2) 1] .
  have "op_is_terminal (or_state op')"
    using pg by (rule advance_okE) simp
  then have "cancels st app st2 app'"
    using 2 pg st1 by (intro cancelled_operation [OF _ st ok op _ _ kind]) (auto dest: advance_progressed)
  then show ?thesis
    using delete_input_quiet 2(2) by (rule cancels_quiet)
qed

lemma cancel_pending_cancels:
  assumes run: "cancel_pending ev control app old st = Inr (app', st')" and st: "schema st" and ok: "lock_ok (staged st app)"
    and op: "op_at ev st old"
  shows "cancels st app st' app'"
proof -
  let ?op = "old\<lparr>or_state := Op_Failed, or_revision := or_revision old + 1,
        or_step := ''cancelled_before_execution'', or_error_code := Some ''ERR_OPERATION_CANCELLED'',
        or_error_message := Some ''Superseded by an explicit compute control before execution'',
        or_checkpoint := JObj [(''compute_operation_id'', JStr (ctl_operation_id control)),
          (''no_execution_claim'', JBool True)]\<rparr>"
  obtain st0 st1 st2 where 0: "lease_held (or_operation_id old) st = Inr (False, st0)"
    and 1: "validate_terminal old Op_Failed st0 = Inr ((), st1)"
    and matches: "slot_matches_operation app old" "\<not> ends_lifecycle (or_kind old)" "or_revision old = 1"
    and 2: "save_operation ev ?op old st1 = Inr ((), st2)" "delete_input (or_operation_id old) st2 = Inr ((), st')"
    and app': "app' = app\<lparr>lr_active_operations := set_slot (or_scope old) None (lr_active_operations app)\<rparr>"
    using run by (auto simp: cancel_pending_def split: if_splits)
  have "st0 = st"
    using tx_pureD [OF cancel_reads(1) 0] .
  moreover have "st1 = st0"
    using tx_pureD [OF cancel_reads(2) 1] .
  moreover have slot: "slot (lr_active_operations app) (or_scope old) = Some (or_operation_id old)"
    using matches by (simp add: slot_matches_operation_def)
  have "or_lifecycle_id old = lr_lifecycle_id app"
    using held_by_openD [OF ok, of "lr_app_id app" "root_of app" "or_scope old"] slot op_locks [OF op]
    by (auto simp: staged_def set_root_def root_of_def lock_of_def)
  then have "progressed app old app' ?op"
    using slot matches
    by (simp add: progressed_def app' root_of_def finished_root_def lock_of_def later_def i64_max_def)
  ultimately have "cancels st app st2 app'"
    using 2 matches by (intro cancelled_operation [OF _ st ok op]) auto
  then show ?thesis
    using delete_input_quiet 2(2) by (rule cancels_quiet)
qed

lemma cancel_each_cancels:
  assumes "cancel_each ev control app is st = Inr (app', st')" "schema st" "lock_ok (staged st app)"
  shows "cancels st app st' app'"
  using assms
proof (induction "is" arbitrary: app st)
  case Nil
  then show ?case
    by (simp add: cancels_def ops_evolve_same)
next
  case (Cons i "is")
  obtain found app1 st0 st1 where 0: "repo_operation ev (ctl_app_id control) i st = Inr (found, st0)"
    and 1: "(case found of
         None \<Rightarrow> tx_return app
       | Some old \<Rightarrow>
           if or_lifecycle_id old \<noteq> ctl_lifecycle_id control then tx_fail LifecycleConflict
           else if confirmed_wake old then cancel_wake ev control app old
           else if or_state old \<noteq> Op_Pending then tx_return app
           else cancel_pending ev control app old) st0 = Inr (app1, st1)"
    and rest: "cancel_each ev control app1 is st1 = Inr (app', st')"
    using Cons.prems(1) by auto
  have st0: "st0 = st"
    using tx_pureD [OF store_reads(2) 0] .
  have "cancels st app st1 app1"
  proof (cases found)
    case None
    then show ?thesis
      using 1 Cons.prems(2) by (auto simp: cancels_def st0 ops_evolve_same)
  next
    case (Some old)
    have op: "op_at ev st old"
      using 0 Some by (auto dest: repo_operation_at)
    have kind: "confirmed_wake old \<Longrightarrow> \<not> ends_lifecycle (or_kind old)"
      by (simp add: confirmed_wake_def ends_lifecycle_def)
    show ?thesis
      using 1 Some Cons.prems(2) cancel_wake_cancels [OF _ Cons.prems(2,3) op kind]
        cancel_pending_cancels [OF _ Cons.prems(2,3) op]
      by (auto simp: st0 split: if_splits) (simp_all add: cancels_def ops_evolve_same)
  qed
  moreover from this have "schema st1" "lock_ok (staged st1 app1)"
    using Cons.prems(3) lock_steps_ok by (auto simp: cancels_def)
  ultimately show ?case
    using Cons.IH [OF rest] cancels_trans by blast
qed

lemma cancel_interruptible_business_lock: "tx_rel lock_rel (cancel_interruptible_business ev control)"
proof (rule tx_from_rel, rule lock_fromI)
  show "tx_keeps schema (cancel_interruptible_business ev control)"
    by (rule schema_keeps)
next
  fix st x st'
  assume st: "schema st" and ok: "lock_ok (locks st)"
    and run: "cancel_interruptible_business ev control st = Inr (x, st')"
  obtain app app' st1 st2 where 0: "repo_app ev (ctl_app_id control) st = Inr (Some app, st1)"
    and 1: "cancel_each ev control app (ctl_interrupted_operations control) st1 = Inr (app', st2)"
    and 2: "save_slots app' app st2 = Inr (x, st')"
    using run by (auto simp: cancel_interruptible_business_def tx_some_def)
  have st1: "st1 = st"
    using tx_pureD [OF store_reads(1) 0] .
  have root: "lk_roots (locks st) (lr_app_id app) = Some (root_of app)"
    using root_locks repo_app_at(1) [OF 0] by blast
  then have staged: "staged st app = locks st"
    by (simp add: staged_def set_root_same)
  have c: "cancels st app st2 app'"
    using cancel_each_cancels [OF 1] st ok staged st1 by simp
  then have "schema st2" and same: "lr_app_id app' = lr_app_id app" "lr_lifecycle_id app' = lr_lifecycle_id app"
    "lr_state app' = lr_state app" "lk_roots (locks st2) (lr_app_id app) = Some (root_of app)"
    using root by (auto simp: cancels_def)
  then have "locks st' = staged st2 app'"
    by - (rule save_slots_locks [OF 2], auto simp: staged_def root_of_def)
  then show "lock_steps (locks st) (locks st') \<and> ops_evolve st st'"
    using c staged root_ops(5) [OF 2] by (simp add: cancels_def ops_evolve_frame)
qed

lemma claim_control_lock: "tx_rel lock_rel (claim_control ev who v)"
  unfolding claim_control_def
  by (rule lock_order.rel_context store_reads [THEN lock_order.rel_pure] quiet_steps
      quiet.control_writes [THEN quiet_lock] cancel_interruptible_business_lock | simp add: control_identity_def; fail)+


section \<open>Every call\<close>

lemmas lock_methods = quiet_steps op_advance_lock observed_lock receipts_lock confirmations_lock deletions_lock
  op_patch_metadata_lock quarantine_lock reclaimed_lock bindings_lock ensures_lock admissions_lock
  admit_with_configuration_lock recreate_lock restore_identity_lock claim_control_lock

lemmas lock_calls = lock_order.rel_effect store_reads [THEN lock_order.rel_pure] lock_methods

lemma call_groups_lock:
  "tx_rel lock_rel (discovery_call_body ev dc)"
  "tx_rel lock_rel (control_call_body ev cc)"
  "tx_rel lock_rel (control_recovery_call_body ev rc)"
  "tx_rel lock_rel (application_call_body ev ac)"
  "tx_rel lock_rel (operation_call_body ev oc)"
  "tx_rel lock_rel (operation_recovery_call_body ev orc)"
  "tx_rel lock_rel (configuration_call_body ev fc)"
        apply (cases dc; simp add: lock_calls)
       apply (cases cc; simp add: lock_calls)
      apply (cases rc; simp add: lock_calls)
     apply (cases ac; simp add: lock_calls)
    apply (cases oc; simp add: lock_calls)
   apply (cases orc; simp add: lock_calls)
  apply (cases fc; simp add: lock_calls)
  done

lemma call_lock: "tx_rel lock_rel (call_body ev c)"
  by (cases c) (simp_all add: call_groups_lock)

lemma registry_lock: "tx_rel lock_rel (registry_body ev r)"
  by (cases r) (simp_all add: lock_methods lock_order.rel_bind lock_order.rel_return)

lemma store_step_lock: "store_step st st' \<Longrightarrow> lock_rel st st'"
  by (erule store_stepE) (erule tx_relD [OF call_lock] tx_relD [OF registry_lock])+

lemma empty_locks: "locks empty_store = \<lparr>lk_roots = Map.empty, lk_ops = Map.empty\<rparr>"
  by (simp add: locks_def empty_store_def lookup_def fun_eq_iff)

lemma reachable_locks: "reachable st \<Longrightarrow> lock_ok (locks st)"
proof (induction rule: reachable.induct)
  case start
  then show ?case
    by (simp add: empty_locks lock_ok_def held_by_open_def open_is_held_def roots_exclusive_def deletion_marked_def
        ends_application_def)
next
  case (step st st')
  then show ?case
    using store_step_lock [OF step.hyps(2)] reachable_schema [OF step.hyps(1)] lock_steps_ok
    by (auto simp: lock_rel_def)
qed

end
