(* ===== verification/Scenarios.thy ===== *)
theory Scenarios
  imports Lock_Calls Samples
begin

text \<open>
  Runs of the store from the empty tables, on which the theorems about reachable stores are
  instantiated: two operations in flight beside each other, an application being deleted, and an
  operation that is claimed and succeeds.
\<close>

definition sample_env :: env where
  "sample_env = \<lparr>ev_now = 1000000, ev_uuid = ''life'', ev_sha256 = (\<lambda>_. replicate 32 0),
     ev_timestamp = (\<lambda>_. True), ev_read_datetime = (\<lambda>_. None), ev_show_datetime = (\<lambda>_. []),
     ev_parse_json = (\<lambda>_. None)\<rparr>"

definition sample_request :: "string \<Rightarrow> control_command \<Rightarrow> admission_request" where
  "sample_request i command = \<lparr>ad_runtime_policy_on_success = None, ad_command = Some command, ad_metadata = None,
     ad_app_id = ''app'', ad_lifecycle_id = None, ad_operation_id = i, ad_request_id = Some (''request-'' @ i),
     ad_request_fingerprint = replicate 64 (CHR ''0''), ad_kind = command_kind command\<rparr>"

definition sample_admitted :: "string \<Rightarrow> control_command \<Rightarrow> operation_record" where
  "sample_admitted i command = (sample_operation (command_kind command) (Some command))
     \<lparr>or_operation_id := i, or_request_id := Some (''request-'' @ i), or_created_at := 1000000\<rparr>"

definition sample_row :: "string \<Rightarrow> control_command \<Rightarrow> operation_row" where
  "sample_row i command = \<lparr>ow_operation_id = i, ow_app_id = ''app'', ow_lifecycle_id = ''life'',
     ow_kind = kind_name (command_kind command), ow_scope = scope_name (kind_scope (command_kind command)),
     ow_state = ''pending'', ow_revision = 1, ow_origin_request_id = Some (''request-'' @ i),
     ow_request_fingerprint = replicate 64 (CHR ''0''), ow_executor_id = None, ow_step = ''admitted'',
     ow_error_code = None, ow_error_message = None, ow_payload_version = 1,
     ow_command_json = Some (to_text (enc_control_command command)), ow_admitted_metadata_json = None,
     ow_runtime_policy_on_success_json = None, ow_checkpoint_json = to_text JNull,
     ow_created_at_us = 1000000, ow_updated_at_us = 1000000, ow_terminal_at_us = None\<rparr>"

definition sample_root :: "string \<Rightarrow> int \<Rightarrow> application_row" where
  "sample_root state revision = \<lparr>ap_app_id = ''app'', ap_lifecycle_id = ''life'', ap_lifecycle_epoch = 1,
     ap_lifecycle_state = state, ap_metadata_revision = 1, ap_control_revision = revision, ap_name = None,
     ap_tenant_id = None, ap_space_id = None, ap_recycle_enabled = None, ap_wake_on_traffic = None,
     ap_idle_timeout_seconds = None, ap_created_at_us = 1000000, ap_updated_at_us = 1000000\<rparr>"

definition sample_slots :: "string option \<Rightarrow> string option \<Rightarrow> string option \<Rightarrow> slots_row" where
  "sample_slots d p a = \<lparr>sl_app_id = ''app'', sl_lifecycle_id = ''life'',
     sl_dev_operation_id = d, sl_prod_operation_id = p, sl_application_operation_id = a\<rparr>"

definition sample_mapping :: "string \<Rightarrow> request_row" where
  "sample_mapping i = \<lparr>rq_app_id = ''app'', rq_request_id = ''request-'' @ i, rq_target_kind = ''control'',
     rq_operation_id = Some i, rq_lifecycle_id = Some ''life'', rq_previous_lifecycle_id = None,
     rq_new_lifecycle_id = None, rq_created_at_us = 1000000\<rparr>"

definition one_open :: store where
  "one_open = empty_store\<lparr>st_apps := [sample_root ''active'' 2], st_ops := [sample_row ''op'' Cmd_StopBuilder],
     st_slots := [sample_slots (Some ''op'') None None], st_requests := [sample_mapping ''op'']\<rparr>"

definition two_open :: store where
  "two_open = empty_store\<lparr>st_apps := [sample_root ''active'' 3],
     st_ops := [sample_row ''op'' Cmd_StopBuilder, sample_row ''prod'' Cmd_Restart],
     st_slots := [sample_slots (Some ''op'') (Some ''prod'') None],
     st_requests := [sample_mapping ''op'', sample_mapping ''prod'']\<rparr>"

definition deleting :: store where
  "deleting = empty_store\<lparr>st_apps := [sample_root ''deleting'' 2], st_ops := [sample_row ''op'' Cmd_DeleteApplication],
     st_slots := [sample_slots None None (Some ''op'')], st_requests := [sample_mapping ''op'']\<rparr>"

lemma admitted_one:
  "admit sample_env (sample_request ''op'' Cmd_StopBuilder) empty_store
    = Inr (Accepted (sample_admitted ''op'' Cmd_StopBuilder), one_open)"
  by code_simp

lemma admitted_two:
  "admit sample_env (sample_request ''prod'' Cmd_Restart) one_open
    = Inr (Accepted (sample_admitted ''prod'' Cmd_Restart), two_open)"
  by code_simp

lemma admitted_deletion:
  "admit sample_env (sample_request ''op'' Cmd_DeleteApplication) empty_store
    = Inr (Accepted (sample_admitted ''op'' Cmd_DeleteApplication), deleting)"
  by code_simp

text \<open>The first operation is claimed by an executor and succeeds.\<close>

definition claimed :: store where
  "claimed = one_open\<lparr>st_apps := [sample_root ''active'' 3],
     st_ops := [(sample_row ''op'' Cmd_StopBuilder)\<lparr>ow_state := ''running'', ow_revision := 2,
       ow_executor_id := Some ''exec'', ow_step := ''claimed''\<rparr>]\<rparr>"

definition finished :: store where
  "finished = one_open\<lparr>st_apps := [sample_root ''active'' 4],
     st_ops := [(sample_row ''op'' Cmd_StopBuilder)\<lparr>ow_state := ''succeeded'', ow_revision := 3,
       ow_executor_id := Some ''exec'', ow_step := ''done'', ow_terminal_at_us := Some 1000000\<rparr>],
     st_slots := [sample_slots None None None]\<rparr>"

lemma advanced_claim:
  "op_advance sample_env (sample_progress 1 Op_Running ''claimed'' JNull) one_open
    = Inr ((sample_admitted ''op'' Cmd_StopBuilder)\<lparr>or_state := Op_Running, or_revision := 2,
        or_executor_id := Some ''exec'', or_step := ''claimed''\<rparr>, claimed)"
  by code_simp

lemma advanced_success:
  "op_advance sample_env (sample_progress 2 Op_Succeeded ''done'' JNull) claimed
    = Inr ((sample_admitted ''op'' Cmd_StopBuilder)\<lparr>or_state := Op_Succeeded, or_revision := 3,
        or_executor_id := Some ''exec'', or_step := ''done''\<rparr>, finished)"
  by code_simp
lemma step_advances: "op_advance ev progress st = Inr (operation, st') \<Longrightarrow> store_step st st'"
  by (rule store_step.call [where c = "Operation_Call (Advance progress)" and ev = ev]) (auto simp: effect_commits)

lemma step_admits_configuration:
  "admit_with_configuration ev request input pg st = Inr (outcome, st') \<Longrightarrow> store_step st st'"
proof -
  assume run: "admit_with_configuration ev request input pg st = Inr (outcome, st')"
  show "store_step st st'"
  proof (cases input)
    case None
    then have "pg = None"
      using run by (auto simp: admit_with_configuration_def split: if_splits)
    then show ?thesis
      using run None
      by (intro store_step.call [where c = "Application_Call (Admit request)" and ev = ev])
         (auto simp: effect_commits admit_def admit_with_input_def)
  next
    case (Some i)
    then show ?thesis
      using run
      by (intro store_step.call [where c = "Application_Call (Admit_With_Configuration request i pg)" and ev = ev])
         (auto simp: effect_commits)
  qed
qed

lemma step_admits: "admit ev request st = Inr (outcome, st') \<Longrightarrow> store_step st st'"
  unfolding admit_def admit_with_input_def by (rule step_admits_configuration)

lemmas sample_steps = admitted_one [THEN step_admits] admitted_two [THEN step_admits] admitted_deletion [THEN step_admits]
  advanced_claim [THEN step_advances] advanced_success [THEN step_advances]

lemma sample_reachable:
  "reachable one_open" "reachable two_open" "reachable deleting" "reachable claimed" "reachable finished"
  using reachable.step [OF reachable.start sample_steps(1)] reachable.step [OF _ sample_steps(2)]
    reachable.step [OF reachable.start sample_steps(3)] reachable.step [OF _ sample_steps(4)]
    reachable.step [OF _ sample_steps(5)] by blast+

end
