(* ===== verification/Durable.thy ===== *)
theory Durable
  imports Write_Rules "HOL-Library.Sublist"
begin

text \<open>
  What no transaction takes back.  Operations and compute controls keep the columns that say
  what was asked; requests, saved configurations, witnesses, bindings and deadlines are never
  rewritten or removed; tables only grow at their end.
\<close>

definition operation_identity :: "operation_row \<Rightarrow> operation_row" where
  "operation_identity r = r\<lparr>ow_state := [], ow_revision := 0, ow_executor_id := None, ow_step := [],
     ow_error_code := None, ow_error_message := None, ow_checkpoint_json := NotJson [],
     ow_updated_at_us := 0, ow_terminal_at_us := None\<rparr>"

definition deadline_identity :: "control_deadline_row \<Rightarrow> control_deadline_row" where
  "deadline_identity r = r\<lparr>kd_unheld_observed_ms := None\<rparr>"

definition extends :: "('r \<Rightarrow> 'k) \<Rightarrow> 'r list \<Rightarrow> 'r list \<Rightarrow> bool" where
  "extends key t t' = prefix (map key t) (map key t')"

lemma extends_refl [simp]: "extends key t t"
  by (simp add: extends_def)

lemma extends_trans: "extends key t t' \<Longrightarrow> extends key t' t'' \<Longrightarrow> extends key t t''"
  unfolding extends_def by (rule prefix_order.trans)

lemma extends_append [simp]: "extends key t (t @ [r])"
  by (simp add: extends_def)

lemma extends_update: "(\<And>r. p r \<Longrightarrow> key (f r) = key r) \<Longrightarrow> extends key t (update_where p f t)"
  by (simp add: extends_def update_where_keys)

lemma extends_row:
  assumes "extends key t t'" "r \<in> set t"
  shows "\<exists>r' \<in> set t'. key r' = key r"
proof -
  have "prefix (map key t) (map key t')"
    using assms(1) by (simp add: extends_def)
  then have "set (map key t) \<subseteq> set (map key t')"
    by (rule set_mono_prefix)
  then have "key r \<in> key ` set t'"
    using assms(2) by (simp add: image_subset_iff)
  then show ?thesis
    by auto
qed

definition history :: "store \<Rightarrow> store \<Rightarrow> bool" where
  "history st st' \<longleftrightarrow> extends ap_app_id (st_apps st) (st_apps st')
    \<and> extends operation_identity (st_ops st) (st_ops st')
    \<and> extends control_identity (st_controls st) (st_controls st')
    \<and> extends id (st_requests st) (st_requests st')
    \<and> extends id (st_config_versions st) (st_config_versions st')
    \<and> extends id (st_witnesses st) (st_witnesses st')
    \<and> extends id (st_bindings st) (st_bindings st')
    \<and> extends id (st_deadlines st) (st_deadlines st')
    \<and> extends deadline_identity (st_control_deadlines st) (st_control_deadlines st')"

interpretation history_order: store_order history
  by unfold_locales (auto simp: history_def intro: extends_trans)

lemma history_statements:
  "(\<And>st. history st (upd (\<lambda>t. t @ [row]) st)) \<Longrightarrow> tx_rel history (insert_row upd ok row)"
  "(\<And>st. history st (upd (update_where p f) st)) \<Longrightarrow> tx_rel history (update_one get upd p f chk e)"
  "(\<And>st. history st (upd (update_where p f) st)) \<Longrightarrow> tx_rel history (update_rows get upd p f chk)"
  "(\<And>st. history st (upd (delete_where p) st)) \<Longrightarrow> tx_rel history (delete_rows upd p)"
  "(\<And>st. history st (upd (delete_where p) st)) \<Longrightarrow> tx_rel history (delete_one get upd p e)"
  "(\<And>st. history st (g st)) \<Longrightarrow> tx_rel history (tx_modify g)"
  by (auto simp: tx_rel_def insert_row_def update_one_def update_rows_def delete_rows_def
      delete_one_def split: if_splits)

lemmas durable_context = history_order.rel_context store_reads [THEN history_order.rel_pure] history_statements

lemmas identities = operation_identity_def control_identity_def deadline_identity_def

lemma insert_application_durable: "tx_rel history (insert_application row)"
  by (auto simp: history_def tx_rel_def insert_application_def split: if_splits)

lemma root_durable:
  "tx_rel history (claim_app a)" "tx_rel history (create_slots a l)"
  "tx_rel history (save_app ev app l v)" "tx_rel history (save_slots app app')"
  "tx_rel history (insert_operation ev op)" "tx_rel history (save_operation ev op op')"
  by (unfold claim_app_def create_slots_def save_app_def save_slots_def insert_operation_def save_operation_def,
      (rule durable_context | auto simp: history_def identities intro!: extends_update; fail)+)

lemma current_durable: "tx_rel history (op_current ev a i l)" "tx_rel history (current_app ev a l)"
  by (unfold op_current_def current_app_def, (rule durable_context root_durable)+)

lemma owned_durable: "tx_rel history (owned_operation ev context)"
  unfolding owned_operation_def by (rule durable_context current_durable)+

lemma operation_durable:
  "tx_rel history (insert_input ev op input)" "tx_rel history (delete_input i)"
  "tx_rel history (bind_operation_deadline ev a i l d)" "tx_rel history (forget_operation_lease ev binding)"
  "tx_rel history (insert_lease lease)" "tx_rel history (insert_request rq)"
  by (unfold insert_input_def delete_input_def bind_operation_deadline_def forget_operation_lease_def
      insert_lease_def insert_request_def,
      (rule durable_context current_durable root_durable | simp add: history_def; fail)+)

lemma insert_version_durable: "tx_rel history (insert_version row)"
  unfolding insert_version_def by (rule durable_context | simp add: history_def)+

lemma configuration_durable:
  "tx_rel history (save_configuration ev a scope req)" "tx_rel history (capture_configuration ev op)"
  "tx_rel history (bind_configuration ev context v target)"
  "tx_rel history (record_configuration ev context v target credential business)"
  by (unfold save_configuration_def capture_configuration_def bind_configuration_def record_configuration_def,
      (rule durable_context current_durable owned_durable insert_version_durable | simp add: history_def; fail)+)

lemma compute_durable:
  "tx_rel history (insert_control row)" "tx_rel history (supersede_control ev i)"
  "tx_rel history (insert_intent intent)" "tx_rel history (retire_head intent)"
  "tx_rel history (insert_witness ev found)" "tx_rel history (insert_control_deadline deadline)"
  "tx_rel history (verify_anchor i v)" "tx_rel history (mark_unheld ev control v)"
  "tx_rel history (clear_unheld control)"
  by (unfold insert_control_def supersede_control_def insert_intent_def retire_head_def insert_witness_def
      insert_control_deadline_def verify_anchor_def mark_unheld_def clear_unheld_def,
      (rule durable_context | auto simp: history_def identities intro!: extends_update; fail)+)

lemma update_control_durable:
  "(\<And>r. control_identity (f r) = control_identity r) \<Longrightarrow> tx_rel history (update_control p f)"
  unfolding update_control_def
  by (rule history_statements) (auto simp: history_def intro!: extends_update)

lemma intents_durable:
  "tx_rel history (save_intent ev kreq head v v')" "tx_rel history (check_access ev a scope b)"
  by (unfold save_intent_def check_access_def,
      (rule durable_context compute_durable root_durable | simp add: history_def; fail)+)

lemma activity_durable:
  "tx_rel history (upsert_activity ev a l at)" "tx_rel history (insert_binding ev binding)"
  by (auto simp: tx_rel_def upsert_activity_def insert_binding_def history_def split: if_splits option.splits)

lemma delete_activity_durable: "tx_rel history (delete_activity a l)"
  unfolding delete_activity_def by (rule durable_context root_durable | simp add: history_def)+

lemma retire_lifecycle_heads_durable: "tx_rel history (retire_lifecycle_heads ev app)"
  unfolding retire_lifecycle_heads_def by (rule durable_context compute_durable)+

lemma replacement_durable:
  "tx_rel history (rearm_wake ev who)" "tx_rel history (restore_unprovisioned_root ev app found)"
  "tx_rel history (recreate ev a l i)"
  by (unfold rearm_wake_def restore_unprovisioned_root_def recreate_def,
      (rule durable_context root_durable retire_lifecycle_heads_durable operation_durable
        | simp add: history_def; fail)+)

interpretation durable: root_order history
  by unfold_locales
     (rule root_durable operation_durable configuration_durable compute_durable intents_durable
        activity_durable delete_activity_durable replacement_durable insert_application_durable
        update_control_durable | assumption)+

end
