(* ===== verification/Store_Invariants.thy ===== *)
theory Store_Invariants
  imports Scenarios Durable
begin

text \<open>
  What holds of every store the service can reach: the tables satisfy their constraints, the
  slots and the open operations describe the same locks, and the ledger of operations only
  moves forward.
\<close>


section \<open>Rows of a reachable store\<close>

lemma reachable_op:
  assumes "reachable st" "row \<in> set (st_ops st)"
  shows "lookup ow_operation_id (st_ops st) (ow_operation_id row) = Some row"
  using assms(2) lookup_iff_mem [OF schema_keys(2) [OF reachable_schema [OF assms(1)] ] ] by blast

lemma reachable_app:
  assumes "reachable st" "root \<in> set (st_apps st)"
  shows "lookup ap_app_id (st_apps st) (ap_app_id root) = Some root"
  using assms(2) lookup_iff_mem [OF schema_keys(1) [OF reachable_schema [OF assms(1)] ] ] by blast

lemma op_lock:
  "reachable st \<Longrightarrow> row \<in> set (st_ops st) \<Longrightarrow> lk_ops (locks st) (ow_operation_id row) = Some (lock_operation_of row)"
  by (simp add: locks_def reachable_op)

lemma app_lock:
  "reachable st \<Longrightarrow> root \<in> set (st_apps st) \<Longrightarrow>
    lk_roots (locks st) (ap_app_id root)
      = Some (lock_root_of root (lookup sl_app_id (st_slots st) (ap_app_id root)))"
  by (simp add: locks_def reachable_app)

text \<open>A slots row belongs to the current lifecycle of its application.\<close>

lemma slots_root:
  assumes st: "reachable st" and sl: "sl \<in> set (st_slots st)"
  shows "lk_roots (locks st) (sl_app_id sl) = Some r \<Longrightarrow> lk_life r = sl_lifecycle_id sl \<and> lk_slots r = slots_of_row (Some sl)"
    "\<exists>r. lk_roots (locks st) (sl_app_id sl) = Some r"
proof -
  note schema = reachable_schema [OF st]
  have look: "lookup sl_app_id (st_slots st) (sl_app_id sl) = Some sl"
    using sl lookup_iff_mem [OF schema_keys(3) [OF schema] ] by blast
  have "slots_refs st sl"
    using slots.present [OF schema] sl by (simp add: slots_table_def table_ok_def list_all_iff)
  then obtain root where "root \<in> set (st_apps st)" "ap_app_id root = sl_app_id sl" "ap_lifecycle_id root = sl_lifecycle_id sl"
    by (auto simp: slots_refs_def lifecycle_exists_def list_ex_iff)
  then show "\<exists>r. lk_roots (locks st) (sl_app_id sl) = Some r"
    "lk_roots (locks st) (sl_app_id sl) = Some r \<Longrightarrow> lk_life r = sl_lifecycle_id sl \<and> lk_slots r = slots_of_row (Some sl)"
    using app_lock [OF st, of root] look by (auto simp: lock_root_of_def)
qed

lemma lock_operation_of_simps [simp]:
  "lo_app (lock_operation_of row) = ow_app_id row" "lo_life (lock_operation_of row) = ow_lifecycle_id row"
  "lo_scope (lock_operation_of row) = scope_text (ow_scope row)"
  "lo_ends (lock_operation_of row) \<longleftrightarrow> ow_kind row = ''delete_application''"
  "lo_open (lock_operation_of row) \<longleftrightarrow> ow_terminal_at_us row = None"
  by (simp_all add: lock_operation_of_def)

lemma lifecycle_text_iff [simp]:
  "lifecycle_text s = App_Deleting \<longleftrightarrow> s = ''deleting''" "lifecycle_text s = App_Deleted \<longleftrightarrow> s = ''deleted''"
  by (simp_all add: lifecycle_text_def)

lemma sample_run: "store_step\<^sup>*\<^sup>* one_open two_open"
  by (rule r_into_rtranclp, rule sample_steps)


section \<open>The store refines the lock machine\<close>

text \<open>
  C1. Every transaction of the store, read through \<open>locks\<close>, is a run of the lock machine: it
  registers roots, admits an operation into free slots of an active root, finishes an operation
  in the slot it holds, or replaces a root without open operations.
\<close>

theorem store_refines_locks:
  assumes "reachable st" "store_step st st'"
  shows "lock_steps (locks st) (locks st')"
  using store_step_lock [OF assms(2)] reachable_schema [OF assms(1)] reachable_locks [OF assms(1)]
  by (simp add: lock_rel_def)

theorem store_refines_locks_witness: "lock_steps (locks one_open) (locks two_open)"
  by (rule store_refines_locks [OF sample_reachable(1) sample_steps(2)])

text \<open>
  C4. An operation of a reachable store is open exactly as long as the slot of its scope, in the
  slots row of its application and lifecycle, names it.
\<close>

theorem open_operation_holds_slot:
  assumes st: "reachable st" and row: "row \<in> set (st_ops st)"
  shows "ow_terminal_at_us row = None \<longleftrightarrow>
    list_ex (\<lambda>sl. sl_app_id sl = ow_app_id row \<and> sl_lifecycle_id sl = ow_lifecycle_id row
      \<and> slot (slots_of_row (Some sl)) (scope_text (ow_scope row)) = Some (ow_operation_id row)) (st_slots st)"
proof
  assume "ow_terminal_at_us row = None"
  then obtain r where r: "lk_roots (locks st) (ow_app_id row) = Some r" "lk_life r = ow_lifecycle_id row"
    "slot (lk_slots r) (scope_text (ow_scope row)) = Some (ow_operation_id row)"
    using open_is_heldD [OF reachable_locks [OF st] op_lock [OF st row] ] by auto
  then obtain root where "r = lock_root_of root (lookup sl_app_id (st_slots st) (ow_app_id row))"
    by (auto simp: locks_def)
  then obtain sl where sl: "lookup sl_app_id (st_slots st) (ow_app_id row) = Some sl"
    using r(3) by (cases "lookup sl_app_id (st_slots st) (ow_app_id row)"; cases "scope_text (ow_scope row)")
       (auto simp: lock_root_of_def slots_of_row_def active_operations_default_def)
  then have "sl \<in> set (st_slots st)" "sl_app_id sl = ow_app_id row"
    using lookup_SomeD by fastforce+
  then show "list_ex (\<lambda>sl. sl_app_id sl = ow_app_id row \<and> sl_lifecycle_id sl = ow_lifecycle_id row
      \<and> slot (slots_of_row (Some sl)) (scope_text (ow_scope row)) = Some (ow_operation_id row)) (st_slots st)"
    using slots_root(1) [OF st, of sl r] r by (auto simp: list_ex_iff)
next
  assume "list_ex (\<lambda>sl. sl_app_id sl = ow_app_id row \<and> sl_lifecycle_id sl = ow_lifecycle_id row
      \<and> slot (slots_of_row (Some sl)) (scope_text (ow_scope row)) = Some (ow_operation_id row)) (st_slots st)"
  then obtain sl where sl: "sl \<in> set (st_slots st)"
    "slot (slots_of_row (Some sl)) (scope_text (ow_scope row)) = Some (ow_operation_id row)"
    by (auto simp: list_ex_iff)
  then obtain r where "lk_roots (locks st) (sl_app_id sl) = Some r" "lk_slots r = slots_of_row (Some sl)"
    using slots_root [OF st sl(1)] by blast
  then show "ow_terminal_at_us row = None"
    using held_by_openD [OF reachable_locks [OF st], of "sl_app_id sl" r] sl(2) op_lock [OF st row] by fastforce
qed

theorem open_operation_holds_slot_witness:
  "ow_terminal_at_us (sample_row ''prod'' Cmd_Restart) = None \<longleftrightarrow>
    list_ex (\<lambda>sl. sl_app_id sl = ''app'' \<and> sl_lifecycle_id sl = ''life''
      \<and> slot (slots_of_row (Some sl)) Scope_Prod = Some ''prod'') (st_slots two_open)"
  using open_operation_holds_slot [OF sample_reachable(2), of "sample_row ''prod'' Cmd_Restart"]
  by (simp add: two_open_def sample_row_def name_of_def scope_names_def scope_text_def)

text \<open>
  C2. Mutual exclusion: two operations of one application that are open at the same time belong
  to the development and the production environment, one each; an application-wide operation is
  open alone.
\<close>

theorem open_operations_exclusive:
  assumes st: "reachable st" and "row \<in> set (st_ops st)" "row' \<in> set (st_ops st)"
    and "ow_app_id row' = ow_app_id row" "ow_operation_id row' \<noteq> ow_operation_id row"
    and "ow_terminal_at_us row = None" "ow_terminal_at_us row' = None"
  shows "{scope_text (ow_scope row), scope_text (ow_scope row')} = {Scope_Dev, Scope_Prod}"
proof -
  have "\<not> userapp_scope_blocks_request (scope_text (ow_scope row)) (scope_text (ow_scope row'))"
    using open_operations_compatible [OF reachable_locks [OF st] op_lock [OF st assms(2)] _ op_lock [OF st assms(3)] ] assms(4-7)
    by auto
  then show ?thesis
    by (cases "scope_text (ow_scope row)"; cases "scope_text (ow_scope row')") auto
qed

theorem open_operations_exclusive_witness: "{scope_text ''dev'', scope_text ''prod''} = {Scope_Dev, Scope_Prod}"
  using open_operations_exclusive [OF sample_reachable(2), of "sample_row ''op'' Cmd_StopBuilder" "sample_row ''prod'' Cmd_Restart"]
  by (simp add: two_open_def sample_row_def name_of_def scope_names_def)

text \<open>
  C6. The lifecycle state of an application follows its deletion: it is \<open>deleting\<close> exactly while
  a deletion of its current lifecycle is open, and once it is \<open>deleted\<close> no operation of it is open.
\<close>

theorem lifecycle_state_follows_deletion:
  assumes st: "reachable st" and root: "root \<in> set (st_apps st)"
  shows "(ap_lifecycle_state root = ''deleting'' \<longleftrightarrow>
      list_ex (\<lambda>row. ow_app_id row = ap_app_id root \<and> ow_lifecycle_id row = ap_lifecycle_id root
        \<and> ow_kind row = ''delete_application'' \<and> ow_terminal_at_us row = None) (st_ops st))
    \<and> (ap_lifecycle_state root = ''deleted'' \<longrightarrow>
      list_all (\<lambda>row. ow_app_id row = ap_app_id root \<longrightarrow> ow_terminal_at_us row \<noteq> None) (st_ops st))"
proof -
  let ?r = "lock_root_of root (lookup sl_app_id (st_slots st) (ap_app_id root))"
  note ok = reachable_locks [OF st] and r = app_lock [OF st root]
  have state: "lk_state ?r = lifecycle_text (ap_lifecycle_state root)" "lk_life ?r = ap_lifecycle_id root"
    by (simp_all add: lock_root_of_def)
  have "ending (locks st) ?r \<longleftrightarrow>
      list_ex (\<lambda>row. ow_app_id row = ap_app_id root \<and> ow_lifecycle_id row = ap_lifecycle_id root
        \<and> ow_kind row = ''delete_application'' \<and> ow_terminal_at_us row = None) (st_ops st)" (is "_ \<longleftrightarrow> ?open")
  proof
    assume "ending (locks st) ?r"
    then obtain s i x where x: "slot (lk_slots ?r) s = Some i" "lk_ops (locks st) i = Some x" "lo_ends x"
      by (auto simp: ending_def)
    then obtain row where "row \<in> set (st_ops st)" "x = lock_operation_of row"
      by (auto simp: locks_def dest: lookup_SomeD)
    then show ?open
      using held_by_openD [OF ok r x(1)] x state by (auto simp: list_ex_iff)
  next
    assume ?open
    then obtain row where row: "row \<in> set (st_ops st)" "ow_app_id row = ap_app_id root"
      "ow_kind row = ''delete_application''" "ow_terminal_at_us row = None"
      by (auto simp: list_ex_iff)
    then show "ending (locks st) ?r"
      using open_is_heldD [OF ok op_lock [OF st row(1)] ] op_lock [OF st row(1)] r unfolding ending_def by fastforce
  qed
  moreover have "list_all (\<lambda>row. ow_app_id row = ap_app_id root \<longrightarrow> ow_terminal_at_us row \<noteq> None) (st_ops st)"
    if "lk_state ?r = App_Deleted"
    using deleted_is_quiet [OF ok r that op_lock [OF st] ] by (auto simp: list_all_iff)
  ultimately show ?thesis
    using deletingD [OF ok r] unfolding state by simp
qed

theorem lifecycle_state_follows_deletion_witness:
  "ap_lifecycle_state (sample_root ''deleting'' 2) = ''deleting''
    \<and> list_ex (\<lambda>row. ow_kind row = ''delete_application'' \<and> ow_terminal_at_us row = None) (st_ops deleting)"
  using lifecycle_state_follows_deletion [OF sample_reachable(3), of "sample_root ''deleting'' 2"]
  by (simp add: deleting_def sample_root_def sample_row_def)


section \<open>The tables\<close>



text \<open>
  C8. Along any run an operation row changes only while it is open and then under a higher
  revision: a finished operation stays as it is, and a revision read once never names another
  content of the row.
\<close>

lemma run_evolves: "store_step\<^sup>*\<^sup>* st st' \<Longrightarrow> reachable st \<Longrightarrow> reachable st' \<and> ops_evolve st st'"
proof (induction rule: rtranclp_induct)
  case base
  then show ?case
    by (simp add: ops_evolve_same)
next
  case (step st1 st2)
  then have "reachable st1" "ops_evolve st st1"
    by auto
  moreover have "ops_evolve st1 st2"
    using store_step_lock [OF step.hyps(2)] reachable_schema [OF \<open>reachable st1\<close>] reachable_locks [OF \<open>reachable st1\<close>]
    by (simp add: lock_rel_def)
  ultimately show ?case
    using step.hyps(2) by (auto intro: reachable.step ops_evolve_trans)
qed

theorem finished_operations_frozen:
  assumes "reachable st" "store_step\<^sup>*\<^sup>* st st'" "row \<in> set (st_ops st)"
  shows "list_ex (\<lambda>row'. ow_operation_id row' = ow_operation_id row
    \<and> (row' = row \<or> ow_terminal_at_us row = None \<and> ow_revision row < ow_revision row')) (st_ops st')"
proof -
  obtain row' where "lookup ow_operation_id (st_ops st') (ow_operation_id row) = Some row'" "evolves row row'"
    using ops_evolveD(1) run_evolves [OF assms(2,1)] reachable_op [OF assms(1,3)] by blast
  then show ?thesis
    using lookup_SomeD by (fastforce simp: list_ex_iff evolves_def later_def)
qed

theorem finished_operations_frozen_witness:
  "list_ex (\<lambda>row'. ow_operation_id row' = ''op''
    \<and> (row' = sample_row ''op'' Cmd_StopBuilder \<or> ow_revision row' > 1)) (st_ops two_open)"
  using finished_operations_frozen [OF sample_reachable(1) sample_run,
      of "sample_row ''op'' Cmd_StopBuilder"]
  by (auto simp: one_open_def list_ex_iff sample_row_def)

text \<open>
  C36. The revision of every stored operation lies between 1 and the largest 64-bit integer, so
  the column never overflows and the checked increment of the code is the increment of the
  integers.
\<close>

lemma empty_reaches: "reachable st \<Longrightarrow> store_step\<^sup>*\<^sup>* empty_store st"
  by (induction rule: reachable.induct) auto

theorem operation_revisions_bounded:
  assumes "reachable st" "row \<in> set (st_ops st)"
  shows "1 \<le> ow_revision row \<and> ow_revision row \<le> 2 ^ 63 - 1"
  using ops_evolveD(2) [of empty_store st "ow_operation_id row" row] run_evolves [OF empty_reaches [OF assms(1)] reachable.start]
    reachable_op [OF assms]
  by (auto simp: empty_store_def later_def i64_max_def)

theorem operation_revisions_bounded_witness: "1 \<le> ow_revision (sample_row ''op'' Cmd_StopBuilder)"
  using operation_revisions_bounded [OF sample_reachable(1), of "sample_row ''op'' Cmd_StopBuilder"]
  by (simp add: one_open_def)

lemma run_history: "store_step\<^sup>*\<^sup>* st st' \<Longrightarrow> history st st'"
proof (induction rule: rtranclp_induct)
  case (step st1 st2)
  then show ?case
    using durable.store_step_rel history_order.trans by blast
qed (simp add: history_order.refl)



text \<open>
  C37. The calls the service runs in read-only transactions change no table.
\<close>

theorem read_only_calls_change_nothing:
  assumes "call_read_only c" "call_body ev c st = Inr (u, st')"
  shows "st' = st"
  using tx_pureD [OF read_only_call_pure [OF assms(1)] assms(2)] .

theorem read_only_calls_change_nothing_witness:
  "call_body sample_env (Application_Call (Get_Application ''app'')) one_open = Inr ((), one_open)"
proof -
  have "is_ok (get_application sample_env ''app'' one_open)"
    by code_simp
  then obtain st' where "call_body sample_env (Application_Call (Get_Application ''app'')) one_open = Inr ((), st')"
    by (auto simp: is_ok_iff effect_commits)
  then show ?thesis
    using read_only_calls_change_nothing [of "Application_Call (Get_Application ''app'')"]
    by (simp add: application_call_read_only_def)
qed

end
