(* ===== verification/Operation_Commits.thy ===== *)
theory Operation_Commits
  imports Store_Invariants
begin

text \<open>
  What a committed call did to the operation it names: progress is a compare-and-set on the
  revision that returns what the next read returns, terminal progress gives up the slot and the
  private input, and admission adds at most one row.
\<close>


section \<open>Reading a saved operation back\<close>

lemma saved_row_decodes:
  assumes current: "operation_of_row ev current = Inr op" and row: "operation_row_of op' now t = Inr row"
    and op': "op' = op\<lparr>or_state := s, or_revision := v, or_executor_id := x, or_step := step, or_checkpoint := doc,
      or_error_code := code, or_error_message := message\<rparr>"
    and running: "s = Op_Running \<Longrightarrow> nonempty_opt x"
  shows "operation_of_row ev (saved_row row current) = Inr op'"
proof -
  have "row = \<lparr>ow_operation_id = or_operation_id op', ow_app_id = or_app_id op',
      ow_lifecycle_id = or_lifecycle_id op', ow_kind = kind_name (or_kind op'),
      ow_scope = scope_name (or_scope op'), ow_state = state_name (or_state op'),
      ow_revision = or_revision op', ow_origin_request_id = or_request_id op',
      ow_request_fingerprint = or_request_fingerprint op', ow_executor_id = or_executor_id op',
      ow_step = or_step op', ow_error_code = or_error_code op',
      ow_error_message = or_error_message op', ow_payload_version = 1,
      ow_command_json = map_option (\<lambda>c. to_text (enc_control_command c)) (or_command op'),
      ow_admitted_metadata_json = map_option (\<lambda>m. to_text (enc_metadata_patch m)) (or_admitted_metadata op'),
      ow_runtime_policy_on_success_json =
        map_option (\<lambda>p. to_text (enc_runtime_policy p)) (or_runtime_policy_on_success op'),
      ow_checkpoint_json = to_text (or_checkpoint op'),
      ow_created_at_us = or_created_at op', ow_updated_at_us = now,
      ow_terminal_at_us = (if op_is_terminal (or_state op')
        then Some (case t of None \<Rightarrow> now | Some t \<Rightarrow> t) else None)\<rparr>" "1 \<le> v"
    using row by (auto simp: operation_row_of_def op')
  then show ?thesis
    using current running unfolding operation_of_row_def
    by (auto simp: op' saved_row_def from_str_def dec_any_def simp del: each_r.simps split: if_splits)
qed


section \<open>Progress\<close>

lemma repo_operation_row:
  "repo_operation ev a i st = Inr (Some op, st') \<longleftrightarrow> st' = st \<and>
    (\<exists>row. lookup ow_operation_id (st_ops st) i = Some row \<and> ow_app_id row = a \<and> operation_of_row ev row = Inr op)"
  by (auto simp: repo_operation_def split: option.splits if_splits)

lemma advance_terminal: "advance app op pg = Inr (app', op') \<Longrightarrow> \<not> op_is_terminal (or_state op)"
  by (erule advance_okE) (auto simp: claim_granted_def)

lemma op_advance_commitE:
  assumes run: "op_advance ev pg st = Inr (op', st')" and st: "schema st"
  obtains app app' op st0 st1 where "schema st0" "st_ops st0 = st_ops st" "app_at st0 app" "lr_app_id app = pg_app_id pg"
    "repo_operation ev (pg_app_id pg) (pg_operation_id pg) st0 = Inr (Some op, st0)"
    "advance app op pg = Inr (app', op')" "commit_operation ev op' op app' app st0 = Inr ((), st1)"
    "(if op_is_terminal (or_state op') then delete_input (or_operation_id op') else tx_return ()) st1 = Inr ((), st')"
proof -
  obtain app found op app' st0 st1 st2 st3 st4 st5 where 0: "claim_app (pg_app_id pg) st = Inr ((), st0)"
    and 1: "repo_app ev (pg_app_id pg) st0 = Inr (Some app, st1)"
    and 2: "repo_operation ev (pg_app_id pg) (pg_operation_id pg) st1 = Inr (Some op, st2)"
    and 3: "(if needs_authority op pg then check_business_authority ev op else tx_return ()) st2 = Inr ((), st3)"
    and 4: "advance app op pg = Inr (app', op')" "validate_terminal op' (pg_state pg) st3 = Inr ((), st4)"
    and 5: "commit_operation ev op' op app' app st4 = Inr ((), st5)"
    "(if op_is_terminal (or_state op') then delete_input (or_operation_id op') else tx_return ()) st5 = Inr ((), st')"
    using run by (auto simp: op_advance_def tx_some_def)
  have "st1 = st0"
    using tx_pureD [OF store_reads(1) 1] .
  moreover have "st2 = st1"
    using tx_pureD [OF store_reads(2) 2] .
  moreover have "tx_pure (if needs_authority op pg then check_business_authority ev op else tx_return ())"
    by (rule pure_context store_reads)+
  from tx_pureD [OF this 3] have "st3 = st2" .
  moreover have "st4 = st3"
    using tx_pureD [OF cancel_reads(2) 4(2)] .
  moreover have "schema st0" "st_ops st0 = st_ops st"
    using tx_keepsD [OF claim_app_schema 0 st] root_ops(2) [OF 0] by auto
  ultimately show thesis
    using that [of st0 app op app' st5] 1 2 4 5 repo_app_at [OF 1] by simp
qed

lemma progressed_columns:
  "progressed_operation op pg = op\<lparr>or_state := pg_state pg, or_revision := or_revision op + 1,
    or_executor_id := or_executor_id (claimed_operation op pg), or_step := pg_step pg,
    or_checkpoint := pg_checkpoint pg, or_error_code := pg_error_code pg, or_error_message := pg_error_message pg\<rparr>"
  by (simp add: progressed_operation_def claimed_operation_def)

lemma advanced_row:
  assumes run: "op_advance ev pg st = Inr (op', st')" and st: "schema st"
  obtains op row where "lookup ow_operation_id (st_ops st) (pg_operation_id pg) = Some row"
    "ow_app_id row = pg_app_id pg" "operation_of_row ev row = Inr op" "\<not> op_is_terminal (or_state op)"
    "or_revision op = pg_expected_revision pg" "op' = progressed_operation op pg" "claim_granted op pg"
    "repo_operation ev (pg_app_id pg) (pg_operation_id pg) st' = Inr (Some op', st')"
proof (rule op_advance_commitE [OF run st])
  fix app app' op st0 st1
  assume st0: "schema st0" "st_ops st0 = st_ops st"
    and found: "repo_operation ev (pg_app_id pg) (pg_operation_id pg) st0 = Inr (Some op, st0)"
    and adv: "advance app op pg = Inr (app', op')" and commit: "commit_operation ev op' op app' app st0 = Inr ((), st1)"
    and del: "(if op_is_terminal (or_state op') then delete_input (or_operation_id op') else tx_return ()) st1 = Inr ((), st')"
  obtain row where row: "lookup ow_operation_id (st_ops st0) (pg_operation_id pg) = Some row"
    "ow_app_id row = pg_app_id pg" "operation_of_row ev row = Inr op"
    using found by (auto simp: repo_operation_row)
  have op': "op' = progressed_operation op pg" and rev: "or_revision op = pg_expected_revision pg"
    and claim: "claim_granted op pg" and x: "valid_identifier (pg_executor_id pg)"
    using adv by (auto elim: advance_okE)
  have id: "or_operation_id op' = pg_operation_id pg" "or_app_id op' = pg_app_id pg"
    using op' row lookup_key [OF row(1)] by (auto elim!: operation_of_rowE)
  obtain st2 where save: "save_operation ev op' op st0 = Inr ((), st2)" and "st_ops st1 = st_ops st2"
    using commit root_ops(4,5) by (fastforce simp: commit_operation_def)
  then have ops: "st_ops st' = st_ops st2"
    using del by (auto simp: delete_input_def delete_rows_def split: if_splits)
  have "operation_of_row ev (saved_row r row) = Inr op'" if "operation_row_of op' now t = Inr r" for now t r
    using saved_row_decodes [OF row(3) that op' [unfolded progressed_columns] ] claim_granted_executor [OF claim] x
    by (cases "pg_executor_id pg") (simp_all add: nonempty_opt_def valid_identifier_def)
  then have "repo_operation ev (pg_app_id pg) (pg_operation_id pg) st' = Inr (Some op', st')"
    using save row id by - (rule save_operation_row [OF save st0(1)], auto simp: repo_operation_row ops saved_row_def)
  then show thesis
    using that [of row op] row st0(2) op' rev claim advance_terminal [OF adv] by simp
qed

text \<open>
  C9. Progress is a compare-and-set: an update commits only if the stored operation is open and at
  the revision the update expects; it leaves the operation at the next revision with the state,
  step and checkpoint of the update, and a read of the resulting store returns the operation the
  call returned.
\<close>

theorem advance_compare_and_set:
  assumes st: "reachable st" and run: "op_advance ev pg st = Inr (op', st')"
  shows "(\<exists>op. repo_operation ev (pg_app_id pg) (pg_operation_id pg) st = Inr (Some op, st)
      \<and> \<not> op_is_terminal (or_state op) \<and> or_revision op = pg_expected_revision pg)
    \<and> or_revision op' = pg_expected_revision pg + 1 \<and> or_state op' = pg_state pg
    \<and> or_step op' = pg_step pg \<and> or_checkpoint op' = pg_checkpoint pg
    \<and> or_executor_id op' = Some (pg_executor_id pg)
    \<and> repo_operation ev (pg_app_id pg) (pg_operation_id pg) st' = Inr (Some op', st')"
proof (rule advanced_row [OF run reachable_schema [OF st] ])
  fix op row
  assume "lookup ow_operation_id (st_ops st) (pg_operation_id pg) = Some row" "ow_app_id row = pg_app_id pg"
    "operation_of_row ev row = Inr op" "\<not> op_is_terminal (or_state op)" "or_revision op = pg_expected_revision pg"
    "op' = progressed_operation op pg" "repo_operation ev (pg_app_id pg) (pg_operation_id pg) st' = Inr (Some op', st')"
    "claim_granted op pg"
  then show ?thesis
    by (auto simp: repo_operation_row claim_granted_executor)
qed

theorem advance_compare_and_set_witness:
  "or_revision (sample_admitted ''op'' Cmd_StopBuilder) = 1
    \<and> repo_operation sample_env ''app'' ''op'' claimed
      = Inr (Some ((sample_admitted ''op'' Cmd_StopBuilder)\<lparr>or_state := Op_Running, or_revision := 2,
        or_executor_id := Some ''exec'', or_step := ''claimed''\<rparr>), claimed)"
  using advance_compare_and_set [OF sample_reachable(1) advanced_claim]
  by (simp add: sample_progress_def sample_admitted_def sample_operation_def)

text \<open>
  C3. An update is applied at most once: after it committed, the same update is refused by every
  store a later run reaches, whatever the clock of the second attempt.
\<close>

theorem progress_applied_once:
  assumes st: "reachable st" and run: "op_advance ev pg st = Inr (op', st1)" and later: "store_step\<^sup>*\<^sup>* st1 st2"
  shows "\<not> is_ok (op_advance ev' pg st2)"
proof
  assume "is_ok (op_advance ev' pg st2)"
  then obtain op2 st3 where run2: "op_advance ev' pg st2 = Inr (op2, st3)"
    by (auto simp: is_ok_iff)
  have st1: "reachable st1"
    using reachable.step [OF st step_advances [OF run] ] .
  then have st2: "reachable st2" and evolve: "ops_evolve st1 st2"
    using run_evolves [OF later] by auto
  obtain row where row: "lookup ow_operation_id (st_ops st1) (pg_operation_id pg) = Some row"
    "ow_revision row = pg_expected_revision pg + 1"
    by (rule advanced_row [OF run reachable_schema [OF st] ]) (auto simp: repo_operation_row elim!: operation_of_rowE)
  obtain row2 where "lookup ow_operation_id (st_ops st2) (pg_operation_id pg) = Some row2"
    "ow_revision row2 = pg_expected_revision pg"
    by (rule advanced_row [OF run2 reachable_schema [OF st2] ]) (auto elim!: operation_of_rowE)
  then show False
    using ops_evolveD(1) [OF evolve row(1)] row(2) by (auto simp: evolves_def later_def)
qed

theorem progress_applied_once_witness:
  "\<not> is_ok (op_advance sample_env (sample_progress 1 Op_Running ''claimed'' JNull) finished)"
  by (rule progress_applied_once [OF sample_reachable(1) advanced_claim r_into_rtranclp])
     (rule sample_steps)

text \<open>
  C10. A terminal update frees the slot of the operation's scope and removes its private input in
  the same transaction.
\<close>

theorem terminal_progress_releases:
  assumes st: "reachable st" and run: "op_advance ev pg st = Inr (op', st')" and terminal: "op_is_terminal (pg_state pg)"
  shows "list_ex (\<lambda>sl. sl_app_id sl = pg_app_id pg) (st_slots st')
    \<and> list_all (\<lambda>sl. sl_app_id sl = pg_app_id pg \<longrightarrow> slot (slots_of_row (Some sl)) (or_scope op') = None) (st_slots st')
    \<and> list_all (\<lambda>r. in_operation_id r \<noteq> pg_operation_id pg) (st_inputs st')"
proof (rule op_advance_commitE [OF run reachable_schema [OF st] ])
  fix app app' op st0 st1
  assume st0: "schema st0" and app: "app_at st0 app" "lr_app_id app = pg_app_id pg"
    and found: "repo_operation ev (pg_app_id pg) (pg_operation_id pg) st0 = Inr (Some op, st0)"
    and adv: "advance app op pg = Inr (app', op')" and commit: "commit_operation ev op' op app' app st0 = Inr ((), st1)"
    and del: "(if op_is_terminal (or_state op') then delete_input (or_operation_id op') else tx_return ()) st1 = Inr ((), st')"
  have st': "reachable st'"
    using reachable.step [OF st step_advances [OF run] ] .
  have op: "op_at ev st0 op" "or_operation_id op = pg_operation_id pg"
    using repo_operation_at [OF found] by auto
  have op': "op' = progressed_operation op pg"
    using adv by (rule advance_okE)
  note step = advance_progressed_same [OF adv, unfolded progressed_def]
  have st1: "st' = st_inputs_update (delete_where (\<lambda>r. in_operation_id r = pg_operation_id pg)) st1"
    using del terminal op by (simp add: op' delete_input_def delete_rows_def)
  have "locks st' = locks st1"
    by (simp add: st1 locks_def)
  then have root: "lk_roots (locks st') (pg_app_id pg) = Some (root_of app')"
    using commit_operation_effect(1) [OF commit st0 app(1) op(1)] step app(2) by (simp add: set_root_def)
  have free: "slot (lk_slots (root_of app')) (or_scope op') = None"
    using step terminal by (simp add: op' finished_root_def lock_of_def)
  have "slot (slots_of_row (Some sl)) (or_scope op') = None" if "sl \<in> set (st_slots st')" "sl_app_id sl = pg_app_id pg" for sl
    using slots_root(1) [OF st' that(1), of "root_of app'"] root that(2) free by simp
  moreover have "list_ex (\<lambda>sl. sl_app_id sl = pg_app_id pg) (st_slots st')"
  proof -
    obtain st2 where save: "save_slots app' app st2 = Inr ((), st1)"
      using commit by (auto simp: commit_operation_def)
    then have "map sl_app_id (st_slots st1) = map sl_app_id (st_slots st2)"
      by (auto simp: save_slots_def update_one_commits update_where_keys)
    then have "sl_app_id ` set (st_slots st1) = sl_app_id ` set (st_slots st2)"
      by (metis list.set_map)
    moreover obtain sl where "sl \<in> set (st_slots st2)" "sl_app_id sl = lr_app_id app'"
      using save by (auto simp: save_slots_def update_one_commits dest!: count_where_oneD [unfolded One_nat_def])
    then have "pg_app_id pg \<in> sl_app_id ` set (st_slots st2)"
      using step app(2) by (metis image_eqI)
    ultimately have "pg_app_id pg \<in> sl_app_id ` set (st_slots st1)"
      by simp
    then show ?thesis
      by (auto simp: st1 list_ex_iff)
  qed
  ultimately show ?thesis
    by (auto simp: list_all_iff st1 delete_where_def)
qed

theorem terminal_progress_releases_witness:
  "st_slots finished = [sample_slots None None None]
    \<and> list_all (\<lambda>sl. slot (slots_of_row (Some sl)) Scope_Dev = None) (st_slots finished)"
  using terminal_progress_releases [OF sample_reachable(4) advanced_success]
  by (simp add: finished_def sample_progress_def sample_slots_def sample_admitted_def sample_operation_def)


section \<open>Admission\<close>

text \<open>The calls around the insertion of a new operation leave the operations alone.\<close>

definition same_ops :: "store \<Rightarrow> store \<Rightarrow> bool" where
  "same_ops st st' \<longleftrightarrow> st_ops st' = st_ops st"

interpretation same_ops_order: store_order same_ops
  by unfold_locales (auto simp: same_ops_def)

lemma aside_same_ops: "tx_rel aside m \<Longrightarrow> tx_rel same_ops m"
  by (auto simp: tx_rel_def aside_def same_ops_def)

lemma save_app_same_ops: "tx_rel same_ops (save_app ev app l v)"
  by (auto simp: tx_rel_def same_ops_def dest: root_ops)

lemma rearm_wake_same_ops: "tx_rel same_ops (rearm_wake ev who)"
  unfolding rearm_wake_def
  by (rule same_ops_order.rel_context store_reads [THEN same_ops_order.rel_pure] save_app_same_ops)+

interpretation same_ops: ledger_order same_ops
  by unfold_locales (rule rearm_wake_same_ops | (rule aside_same_ops, rule aside_rows))+

lemma store_accepted_ops:
  assumes "store_accepted ev input pg app previous op st = Inr (u, st')"
  obtains row where "operation_row_of op (ev_now ev) None = Inr row" "st_ops st' = st_ops st @ [row]"
    "lookup ow_operation_id (st_ops st) (or_operation_id op) = None"
proof -
  let ?config = "case pg of None \<Rightarrow> tx_return ()
    | Some pg \<Rightarrow> tx_then (seed_deployment_credentials ev op pg) (capture_configuration ev op)"
  let ?input = "case input of None \<Rightarrow> tx_return () | Some input \<Rightarrow> insert_input ev op input"
  have same: "tx_rel same_ops ?config" "tx_rel same_ops ?input"
    by (rule same_ops_order.rel_context same_ops.ledger_methods)+
  obtain st0 st1 st2 st3 st4 where 0: "guard_admission ev app (or_scope op) st = Inr ((), st0)"
    and 1: "insert_operation ev op st0 = Inr ((), st1)"
    and 2: "?config st1 = Inr ((), st2)" "?input st2 = Inr ((), st3)"
    and 3: "save_app ev app (lr_lifecycle_id previous) (lr_metadata_revision previous) st3 = Inr ((), st4)"
    and 4: "save_slots app previous st4 = Inr (u, st')"
    using assms by (auto simp: store_accepted_def)
  have "st_ops st' = st_ops st1"
    using root_ops(5) [OF 4] root_ops(4) [OF 3] tx_relD [OF same(1) 2(1)] tx_relD [OF same(2) 2(2)]
    by (simp add: same_ops_def)
  moreover have "st0 = st"
    using tx_pureD [OF guard_admission_pure 0] .
  moreover obtain row where "operation_row_of op (ev_now ev) None = Inr row" "st_ops st1 = st_ops st0 @ [row]"
    "lookup ow_operation_id (st_ops st0) (ow_operation_id row) = None"
    using 1 by (auto simp: insert_operation_def insert_row_commits)
  moreover from this(1) have "ow_operation_id row = or_operation_id op"
    by (auto simp: operation_row_of_def)
  ultimately show thesis
    using that by simp
qed

lemma ensure_ops: "ensure ev proposed st = Inr (app, st') \<Longrightarrow> st_ops st' = st_ops st"
proof -
  assume "ensure ev proposed st = Inr (app, st')"
  then obtain row inserted st1 st2 st3 where 1: "insert_application row st = Inr (inserted, st1)"
    and 2: "claim_app (ap_app_id row) st1 = Inr ((), st2)"
    and 3: "(if inserted then create_slots (ap_app_id row) (ap_lifecycle_id row) else tx_return ()) st2 = Inr ((), st3)"
    and 4: "\<exists>y. repo_app ev (ap_app_id row) st3 = Inr (y, st')"
    by (auto simp: ensure_def ensure_with_created_def tx_some_def)
  show ?thesis
    using 4 3 root_ops(1) [OF 1] root_ops(2) [OF 2] root_ops(3) tx_pureD [OF store_reads(1)]
    by (auto split: if_splits) metis+
qed

text \<open>The records of the slots are stored operations.\<close>

lemma active_scopes_stored:
  assumes "active_scopes ev app scopes records st = Inr (records', st')" "record_slot records' s = Some op"
    and "\<And>op. record_slot records s = Some op \<Longrightarrow> op_at ev st op"
  shows "op_at ev st op"
  using assms
proof (induction scopes arbitrary: records)
  case (Cons s' scopes)
  show ?case
  proof (cases "slot (lr_active_operations app) s'")
    case None
    then show ?thesis
      using Cons by simp
  next
    case (Some i)
    then obtain op1 st1 where 1: "repo_operation ev (lr_app_id app) i st = Inr (Some op1, st1)"
      and rest: "active_scopes ev app scopes (set_record_slot s' (Some op1) records) st1 = Inr (records', st')"
      using Cons.prems(1) by (auto simp: tx_some_def split: if_splits)
    have "st1 = st"
      using tx_pureD [OF store_reads(2) 1] .
    with rest show ?thesis
      using Cons.prems(2,3) repo_operation_at(1) [OF 1] by (rule_tac Cons.IH) (auto split: if_splits)
  qed
qed simp

lemma active_stored: "active ev app st = Inr (records, st') \<Longrightarrow> record_slot records s = Some op \<Longrightarrow> op_at ev st op"
proof -
  assume run: "active ev app st = Inr (records, st')" and op: "record_slot records s = Some op"
  have "record_slot active_records_default s = None"
    by (cases s) (simp_all add: active_records_default_def)
  then show "op_at ev st op"
    by (intro active_scopes_stored [OF run [unfolded active_def] op]) simp
qed

lemma mapped_stored: "mapped_operation ev a mapping st = Inr (Some op, st') \<Longrightarrow> op_at ev st op"
  by (auto simp: mapped_operation_def request_operation_def tx_some_def split: option.splits if_splits
      dest: repo_operation_at)

lemma admit_fresh_not_Existing: "admit_fresh now app request records \<noteq> Inr (Existing op, app')"
  by (auto simp: admit_fresh_def Let_def split: option.splits)

lemma admission_ExistingD:
  assumes "admission now app request dup records = Inr (Existing op, app')"
  shows "(dup = Some op \<or> dup = None \<and> record_slot records Scope_Dev = Some op)
    \<and> or_kind op = ad_kind request \<and> or_request_fingerprint op = ad_request_fingerprint request
    \<and> or_command op = ad_command request"
proof (cases dup)
  case None
  note run = assms [unfolded admission_def None option.case Let_def]
  let ?joined = "if kind_scope (ad_kind request) = Scope_Dev then ar_dev records else None"
  have "(case ?joined of Some j \<Rightarrow> if joinable app request j then Inr (Existing j, app) else admit_fresh now app request records
      | None \<Rightarrow> admit_fresh now app request records) = Inr (Existing op, app')"
    using run by (simp only: try_r_Inr_iff if_Inl_iff) blast
  then obtain j where "?joined = Some j" "joinable app request j" "op = j"
    using admit_fresh_not_Existing by (cases ?joined) (auto simp del: split_paired_Ex split: if_splits)
  then show ?thesis
    using None by (auto simp: joinable_def split: if_splits)
next
  case (Some d)
  show ?thesis
    using assms unfolding admission_def Some by (auto simp: if_Inl_iff)
qed

lemma active_pure: "tx_pure (active ev app)"
  by (rule store_reads)

lemma store_request_mapping_same_ops: "tx_rel same_ops (store_request_mapping ev request_id mapping op)"
  by (rule same_ops.ledger_methods)

lemma ensure_app:
  assumes run: "ensure ev proposed st = Inr (app, st')" and "identity uuid now a = Inr proposed"
  shows "app_at st' app" "lr_app_id app = a"
proof -
  obtain row inserted st1 where row: "application_row_of proposed (ev_now ev) = Inr row"
    and found: "repo_app ev (ap_app_id row) st1 = Inr (Some app, st')"
    using run by (auto simp: ensure_def ensure_with_created_def tx_some_def)
  show "app_at st' app" "lr_app_id app = a"
    using repo_app_at [OF found] tx_pureD [OF store_reads(1) found] application_row_of_matches [OF row] assms(2)
    by (auto simp: row_matches_def identity_def)
qed

lemma admit_runE:
  assumes "admit_with_configuration ev request input pg st = Inr (outcome, st')"
  obtains previous app by_id by_request mapping records st1 where "app_at st1 previous" "st_ops st1 = st_ops st"
    "lr_app_id previous = ad_app_id request"
    "repo_operation ev (ad_app_id request) (ad_operation_id request) st1 = Inr (by_id, st1)"
    "mapped_operation ev (ad_app_id request) mapping st1 = Inr (by_request, st1)"
    "active ev previous st1 = Inr (records, st1)"
    "admission (ev_now ev) previous request (opt_or by_id by_request) records = Inr (outcome, app)"
    "case outcome of Accepted op \<Rightarrow> \<exists>u st2. store_accepted ev input pg app previous op st1 = Inr (u, st2) \<and> st_ops st' = st_ops st2
      | Existing op \<Rightarrow> st_ops st' = st_ops st1"
proof -
  obtain proposed previous by_id mapping by_request records app st1 st2 st3 st4 st5 st6 st7 u where
    1: "ensure ev proposed st = Inr (previous, st1)" "identity (ev_uuid ev) (ev_now ev) (ad_app_id request) = Inr proposed"
    and 2: "repo_operation ev (ad_app_id request) (ad_operation_id request) st1 = Inr (by_id, st2)"
    and 3: "(case ad_request_id request of None \<Rightarrow> tx_return None | Some i \<Rightarrow> repo_request (ad_app_id request) i) st2
      = Inr (mapping, st3)"
    and 4: "mapped_operation ev (ad_app_id request) mapping st3 = Inr (by_request, st4)"
    and 5: "active ev previous st4 = Inr (records, st5)"
    and 6: "admission (ev_now ev) previous request (opt_or by_id by_request) records = Inr (outcome, app)"
    and 7: "(case outcome of Accepted operation \<Rightarrow> store_accepted ev input pg app previous operation
      | Existing operation \<Rightarrow>
          (case pg of None \<Rightarrow> tx_return () | Some pg \<Rightarrow> verify_captured_credentials operation pg)) st5 = Inr ((), st6)"
    and 8: "store_request_mapping ev (ad_request_id request) mapping (outcome_operation outcome) st6 = Inr ((), st7)"
    and 9: "st' = st7"
    using assms by (auto simp: admit_with_configuration_def tx_some_def split: if_splits)
  have pure: "st2 = st1" "st3 = st2" "st4 = st3" "st5 = st4"
    using tx_pureD [OF store_reads(2) 2] 3 tx_pureD [OF mapped_operation_pure 4] tx_pureD [OF active_pure 5]
    by (auto simp: repo_request_def split: option.splits)
  have mapped: "st_ops st7 = st_ops st6"
    using tx_relD [OF store_request_mapping_same_ops 8] by (simp add: same_ops_def)
  have "case outcome of Accepted op \<Rightarrow> \<exists>u st2. store_accepted ev input pg app previous op st1 = Inr (u, st2) \<and> st_ops st' = st_ops st2
      | Existing op \<Rightarrow> st_ops st' = st_ops st1"
  proof (cases outcome)
    case (Accepted op)
    then show ?thesis
      using 7 mapped 9 pure by auto
  next
    case (Existing op)
    have "tx_pure (case pg of None \<Rightarrow> tx_return () | Some pg \<Rightarrow> verify_captured_credentials op pg)"
      by (rule pure_context store_reads)+
    then show ?thesis
      using 7 mapped 9 pure Existing by (auto dest: tx_pureD)
  qed
  then show thesis
    using that 1 2 4 5 6 ensure_ops [OF 1(1)] pure ensure_app [OF 1] by simp
qed

lemma op_at_read: "op_at ev st op \<longleftrightarrow> repo_operation ev (or_app_id op) (or_operation_id op) st = Inr (Some op, st)"
  by (auto simp: op_at_def repo_operation_row elim: operation_of_rowE)

lemma op_at_frame: "st_ops st' = st_ops st \<Longrightarrow> op_at ev st' op = op_at ev st op"
  by (simp add: op_at_def)

lemma admit_accepted:
  assumes "admit_with_configuration ev request input pg st = Inr (Accepted op, st')"
  shows "lookup ow_operation_id (st_ops st) (ad_operation_id request) = None"
    "or_operation_id op = ad_operation_id request \<and> or_app_id op = ad_app_id request
      \<and> or_kind op = ad_kind request \<and> or_state op = Op_Pending \<and> or_revision op = 1"
    "\<exists>row. operation_row_of op (ev_now ev) None = Inr row \<and> st_ops st' = st_ops st @ [row]"
proof -
  obtain previous app dup records st1 u st2 where st1: "st_ops st1 = st_ops st" "lr_app_id previous = ad_app_id request"
    and adm: "admission (ev_now ev) previous request dup records = Inr (Accepted op, app)"
    and run: "store_accepted ev input pg app previous op st1 = Inr (u, st2)" "st_ops st' = st_ops st2"
    by (rule admit_runE [OF assms]) auto
  show *: "or_operation_id op = ad_operation_id request \<and> or_app_id op = ad_app_id request
      \<and> or_kind op = ad_kind request \<and> or_state op = Op_Pending \<and> or_revision op = 1"
    using admission_Accepted_fresh [OF adm] st1(2)
    by (auto elim!: admit_fresh_AcceptedE simp: admitted_operation_def dest: metadata_intent_frame)
  obtain row where "operation_row_of op (ev_now ev) None = Inr row" "st_ops st2 = st_ops st1 @ [row]"
    "lookup ow_operation_id (st_ops st1) (or_operation_id op) = None"
    by (rule store_accepted_ops [OF run(1)])
  then show "lookup ow_operation_id (st_ops st) (ad_operation_id request) = None"
    "\<exists>row. operation_row_of op (ev_now ev) None = Inr row \<and> st_ops st' = st_ops st @ [row]"
    using run(2) st1 * by simp_all
qed

lemma admit_existing:
  assumes "admit_with_configuration ev request input pg st = Inr (Existing op, st')"
  shows "st_ops st' = st_ops st" "op_at ev st op"
    "or_kind op = ad_kind request \<and> or_command op = ad_command request
      \<and> or_request_fingerprint op = ad_request_fingerprint request"
    "lookup ow_operation_id (st_ops st) (ad_operation_id request) = Some row \<Longrightarrow> ow_app_id row = ad_app_id request \<Longrightarrow>
      or_operation_id op = ad_operation_id request"
proof -
  obtain previous app by_id by_request mapping records st1 where st1: "st_ops st1 = st_ops st" "st_ops st' = st_ops st1"
    and by_id: "repo_operation ev (ad_app_id request) (ad_operation_id request) st1 = Inr (by_id, st1)"
    and by_request: "mapped_operation ev (ad_app_id request) mapping st1 = Inr (by_request, st1)"
    and records: "active ev previous st1 = Inr (records, st1)"
    and adm: "admission (ev_now ev) previous request (opt_or by_id by_request) records = Inr (Existing op, app)"
    by (rule admit_runE [OF assms]) auto
  note e = admission_ExistingD [OF adm]
  have "op_at ev st1 op"
  proof (cases "opt_or by_id by_request")
    case None
    then show ?thesis
      using e active_stored [OF records, of Scope_Dev] by auto
  next
    case (Some op')
    then show ?thesis
      using e by_id by_request repo_operation_at(1) mapped_stored
      by (cases by_id) (auto simp: opt_or_def split: option.splits)
  qed
  then show "st_ops st' = st_ops st" "op_at ev st op"
    "or_kind op = ad_kind request \<and> or_command op = ad_command request
      \<and> or_request_fingerprint op = ad_request_fingerprint request"
    using st1 e op_at_frame [OF st1(1)] by simp_all
  show "or_operation_id op = ad_operation_id request"
    if row: "lookup ow_operation_id (st_ops st) (ad_operation_id request) = Some row" "ow_app_id row = ad_app_id request"
  proof -
    obtain op' where "by_id = Some op'"
      using by_id row st1(1) by (auto simp: repo_operation_def split: option.splits)
    then show ?thesis
      using e by_id repo_operation_at(2) by (auto simp: opt_or_def)
  qed
qed

text \<open>
  C11. Admission adds at most one operation.  An accepted request appends exactly one row, pending at
  revision 1 under the identity the request chose, which no row had before; a request answered with
  an existing operation leaves the operations as they are and names a stored operation of the same
  kind, command and fingerprint.
\<close>

theorem admission_effect:
  assumes "admit_with_configuration ev request input pg st = Inr (outcome, st')"
  shows "case outcome of
      Accepted op \<Rightarrow> lookup ow_operation_id (st_ops st) (ad_operation_id request) = None
        \<and> (or_operation_id op = ad_operation_id request \<and> or_app_id op = ad_app_id request
          \<and> or_kind op = ad_kind request \<and> or_state op = Op_Pending \<and> or_revision op = 1)
        \<and> (\<exists>row. operation_row_of op (ev_now ev) None = Inr row \<and> st_ops st' = st_ops st @ [row])
    | Existing op \<Rightarrow> st_ops st' = st_ops st
        \<and> repo_operation ev (or_app_id op) (or_operation_id op) st = Inr (Some op, st)
        \<and> (or_kind op = ad_kind request \<and> or_command op = ad_command request
          \<and> or_request_fingerprint op = ad_request_fingerprint request)"
proof (cases outcome)
  case (Accepted op)
  show ?thesis
    unfolding Accepted using admit_accepted [OF assms [unfolded Accepted] ] by simp
next
  case (Existing op)
  show ?thesis
    unfolding Existing using admit_existing [OF assms [unfolded Existing] ] by (simp add: op_at_read)
qed

theorem admission_effect_witness:
  "lookup ow_operation_id (st_ops one_open) ''prod'' = None
    \<and> st_ops two_open = st_ops one_open @ [sample_row ''prod'' Cmd_Restart]"
  using admission_effect [OF admitted_two [unfolded admit_def admit_with_input_def] ]
  by (simp add: sample_request_def one_open_def two_open_def)

text \<open>
  C5. Admission is idempotent: once a request was accepted, repeating it in any later store, with any
  clock and input, never admits a second operation; when the call returns, it returns the operation
  of the first answer and leaves the operations as they are.
\<close>

lemma identity_ids: "ow_operation_id (operation_identity r) = ow_operation_id r" "ow_app_id (operation_identity r) = ow_app_id r"
  by (simp_all add: operation_identity_def)

lemma operation_stays:
  assumes "history st st'" "row \<in> set (st_ops st)"
  shows "\<exists>row'. row' \<in> set (st_ops st') \<and> ow_operation_id row' = ow_operation_id row \<and> ow_app_id row' = ow_app_id row"
proof -
  obtain row' where "row' \<in> set (st_ops st')" and same: "operation_identity row' = operation_identity row"
    using extends_row assms unfolding history_def by metis
  then show ?thesis
    by (metis identity_ids)
qed

lemma operation_row_of_ids:
  "operation_row_of op now t = Inr row \<Longrightarrow> ow_operation_id row = or_operation_id op \<and> ow_app_id row = or_app_id op"
  by (auto simp: operation_row_of_def)

theorem admission_idempotent:
  assumes st: "reachable st" and run: "admit_with_configuration ev request input pg st = Inr (Accepted op, st1)"
    and later: "store_step\<^sup>*\<^sup>* st1 st2"
    and again: "admit_with_configuration ev' request input' pg' st2 = Inr (outcome, st3)"
  shows "\<exists>op'. outcome = Existing op' \<and> or_operation_id op' = or_operation_id op \<and> st_ops st3 = st_ops st2"
proof -
  note first = admit_accepted [OF run]
  obtain row where r: "operation_row_of op (ev_now ev) None = Inr row" "st_ops st1 = st_ops st @ [row]"
    using first(3) by blast
  then have row: "row \<in> set (st_ops st1)" "ow_operation_id row = ad_operation_id request"
    "ow_app_id row = ad_app_id request"
    using operation_row_of_ids [OF r(1)] first(2) by simp_all
  have "store_step st st1"
    by (rule step_admits_configuration [OF run])
  then have "reachable st2"
    using reachable.step [OF st] run_evolves [OF later] by blast
  obtain row2 where row2: "row2 \<in> set (st_ops st2)" "ow_operation_id row2 = ad_operation_id request"
    "ow_app_id row2 = ad_app_id request"
    using operation_stays [OF run_history [OF later] row(1)] row by auto
  then have found: "lookup ow_operation_id (st_ops st2) (ad_operation_id request) = Some row2"
    using reachable_op [OF \<open>reachable st2\<close> row2(1)] by simp
  show ?thesis
  proof (cases outcome)
    case (Accepted op')
    then show ?thesis
      using admit_accepted(1) again found by simp
  next
    case (Existing op')
    then show ?thesis
      using admit_existing [OF again [unfolded Existing] ] found row2 first by auto
  qed
qed

lemma replayed_one:
  "admit sample_env (sample_request ''op'' Cmd_StopBuilder) two_open
    = Inr (Existing (sample_admitted ''op'' Cmd_StopBuilder), two_open\<lparr>st_apps := [sample_root ''active'' 4]\<rparr>)"
  by code_simp

theorem admission_idempotent_witness:
  "or_operation_id (sample_admitted ''op'' Cmd_StopBuilder) = ''op''
    \<and> st_ops (two_open\<lparr>st_apps := [sample_root ''active'' 4]\<rparr>) = st_ops two_open"
  using admission_idempotent [OF reachable.start admitted_one [unfolded admit_def admit_with_input_def]
      sample_run replayed_one [unfolded admit_def admit_with_input_def] ]
  by (simp add: sample_admitted_def)

end
