(* ===== verification/Restart.thy ===== *)
theory Restart
  imports Operation_Commits Table_Laws
begin

text \<open>
  The scan a restarted process runs before it serves: page by page, every operation whose
  executor died with the process is moved to \<open>recovery_required\<close>.
\<close>

definition interrupted :: "operation_row \<Rightarrow> bool" where
  "interrupted r \<longleftrightarrow> ow_state r \<in> {''running'', ''waiting_retry''}"

lemma interrupted_rows_page: "interrupted_rows after st = page ow_operation_id interrupted after 256 (st_ops st)"
  by (simp add: interrupted_rows_def interrupted_def [abs_def])


section \<open>One page\<close>

text \<open>The operations named by \<open>ids\<close> are quarantined, the others are as they were.\<close>

definition quarantines :: "string set \<Rightarrow> store \<Rightarrow> store \<Rightarrow> bool" where
  "quarantines ids st st' \<longleftrightarrow> schema st' \<and> map ow_operation_id (st_ops st') = map ow_operation_id (st_ops st)
    \<and> (\<forall>i. i \<notin> ids \<longrightarrow> lookup ow_operation_id (st_ops st') i = lookup ow_operation_id (st_ops st) i)
    \<and> (\<forall>i \<in> ids. \<exists>r. lookup ow_operation_id (st_ops st') i = Some r \<and> ow_state r = ''recovery_required'')"

lemma quarantine_one_effect:
  assumes run: "quarantine_one ev row st = Inr (u, st')" and st: "schema st"
  shows "quarantines {ow_operation_id row} st st'"
proof -
  let ?op = "\<lambda>op revision. op\<lparr>or_revision := revision, or_state := Op_RecoveryRequired,
        or_error_code := Some ''ERR_BACKEND_ERROR'',
        or_error_message := Some ''Previous local executor stopped; remote outcome requires verification''\<rparr>"
  obtain current op app revision st1 where current: "lookup ow_operation_id (st_ops st) (ow_operation_id row) = Some current"
    "operation_of_row ev current = Inr op"
    and 1: "repo_app ev (or_app_id op) st = Inr (Some app, st1)"
    and save1: "save_operation ev (?op op revision) op st1 = Inr (u, st')"
    using run by (auto simp: quarantine_one_def tx_some_def storage_r_def split: if_splits)
  define op' where "op' = ?op op revision"
  have op': "or_operation_id op' = or_operation_id op" "or_state op' = Op_RecoveryRequired"
    by (simp_all add: op'_def)
  have save: "save_operation ev op' op st = Inr (u, st')"
    using save1 tx_pureD [OF store_reads(1) 1] by (simp add: op'_def)
  have id: "or_operation_id op' = ow_operation_id row"
    using op' current lookup_key [OF current(1)] by (auto elim!: operation_of_rowE)
  show ?thesis
    by (rule save_operation_row [OF save st])
       (use tx_keepsD [OF save_operation_schema save st] id op' in
         \<open>auto simp: quarantines_def saved_row_def operation_row_of_def name_of_def state_names_def\<close>)
qed

lemma quarantines_other:
  assumes "quarantines ids st st'" "schema st" "ow_operation_id r \<notin> ids"
  shows "r \<in> set (st_ops st') \<longleftrightarrow> r \<in> set (st_ops st)"
proof -
  have "lookup ow_operation_id (st_ops st') (ow_operation_id r) = lookup ow_operation_id (st_ops st) (ow_operation_id r)"
    and st': "schema st'"
    using assms by (simp_all add: quarantines_def)
  then show ?thesis
    using lookup_iff_mem [OF schema_keys(2) [OF assms(2)] ] lookup_iff_mem [OF schema_keys(2) [OF st'] ] by metis
qed

lemma quarantines_named:
  assumes "quarantines ids st st'" "r \<in> set (st_ops st')" "ow_operation_id r \<in> ids"
  shows "\<not> interrupted r"
proof -
  have "schema st'"
    using assms(1) by (simp add: quarantines_def)
  then have "lookup ow_operation_id (st_ops st') (ow_operation_id r) = Some r"
    using assms(2) lookup_iff_mem [OF schema_keys(2)] by metis
  then show ?thesis
    using assms(1,3) by (force simp: quarantines_def interrupted_def)
qed

lemma quarantines_trans:
  "quarantines ids st st1 \<Longrightarrow> quarantines ids' st1 st' \<Longrightarrow> quarantines (ids \<union> ids') st st'"
  unfolding quarantines_def by (auto; metis)

lemma quarantine_rows_effect:
  "tx_each (quarantine_one ev) rows st = Inr (u, st') \<Longrightarrow> schema st \<Longrightarrow> quarantines (ow_operation_id ` set rows) st st'"
proof (induction rows arbitrary: st)
  case Nil
  then show ?case
    by (simp add: quarantines_def)
next
  case (Cons row rows)
  then obtain st1 where 1: "quarantine_one ev row st = Inr ((), st1)" "tx_each (quarantine_one ev) rows st1 = Inr (u, st')"
    by auto
  have q: "quarantines {ow_operation_id row} st st1"
    by (rule quarantine_one_effect [OF 1(1) Cons.prems(2)])
  then have "schema st1"
    by (simp add: quarantines_def)
  then show ?case
    using quarantines_trans [OF q Cons.IH [OF 1(2)] ] by simp
qed


section \<open>The scan\<close>

abbreviation cursor :: "string option \<Rightarrow> string" where
  "cursor after \<equiv> case after of None \<Rightarrow> [] | Some a \<Rightarrow> a"

definition ahead :: "string option \<Rightarrow> store \<Rightarrow> nat" where
  "ahead after st = length (filter (\<lambda>i. cursor after < i) (map ow_operation_id (st_ops st)))"

text \<open>Behind the cursor nothing is left to quarantine.\<close>

definition swept :: "string option \<Rightarrow> store \<Rightarrow> bool" where
  "swept after st \<longleftrightarrow> (\<forall>r \<in> set (st_ops st). interrupted r \<longrightarrow> cursor after < ow_operation_id r)"

lemma page_swept:
  assumes st: "schema st" and rows: "rows = page ow_operation_id interrupted after 256 (st_ops st)" "rows \<noteq> []"
    and swept: "swept after st" and q: "quarantines (ow_operation_id ` set rows) st st'"
  shows "swept (last_key ow_operation_id rows) st'" "ahead (last_key ow_operation_id rows) st' < ahead after st"
proof -
  let ?l = "last rows"
  have l: "last_key ow_operation_id rows = Some (ow_operation_id ?l)"
    using rows(2) by (simp add: last_key_def)
  have "?l \<in> set rows"
    using rows(2) by simp
  then have mem: "?l \<in> set (st_ops st)" "cursor after < ow_operation_id ?l"
    using rows(1) by (auto simp: page_beyond set_beyond dest!: in_set_takeD)
  show "swept (last_key ow_operation_id rows) st'"
    unfolding swept_def l
  proof (intro ballI impI)
    fix r
    assume r: "r \<in> set (st_ops st')" "interrupted r"
    have out: "ow_operation_id r \<notin> ow_operation_id ` set rows"
      using quarantines_named [OF q r(1)] r(2) by blast
    have "r \<in> set (st_ops st)"
      using r(1) quarantines_other [OF q st out] by blast
    then have "r \<in> set (beyond ow_operation_id interrupted after (st_ops st))"
      using swept r(2) by (simp add: set_beyond swept_def)
    then have "r \<in> set (beyond ow_operation_id interrupted (Some (ow_operation_id ?l)) (st_ops st))"
      using out beyond_page [OF schema_keys(2) [OF st], of 256 interrupted after] rows(1)
      by (auto split: if_splits)
    then show "cursor (Some (ow_operation_id ?l)) < ow_operation_id r"
      by (simp add: set_beyond)
  qed
  have "map ow_operation_id (st_ops st') = map ow_operation_id (st_ops st)"
    using q by (simp add: quarantines_def)
  then show "ahead (last_key ow_operation_id rows) st' < ahead after st"
    using filter_above_shrinks [of "ow_operation_id ?l" "map ow_operation_id (st_ops st)" "\<lambda>_. True" "cursor after" id] mem
    by (simp add: ahead_def l)
qed

lemma page_rows: "r \<in> set (page ow_operation_id interrupted after n rows) \<Longrightarrow> r \<in> set rows \<and> interrupted r"
  by (auto simp: page_beyond set_beyond dest!: in_set_takeD)

lemma same_operation:
  assumes "schema st" "r \<in> set (st_ops st)" "x \<in> set (st_ops st)" "ow_operation_id r = ow_operation_id x"
  shows "r = x"
  using lookup_iff_mem [OF schema_keys(2) [OF assms(1)], of "ow_operation_id x"] assms(2-4) by (metis option.inject)

lemma no_page:
  assumes "page ow_operation_id interrupted after 256 (st_ops st) = []" "swept after st" "r \<in> set (st_ops st)"
  shows "\<not> interrupted r"
proof
  assume "interrupted r"
  then have "r \<in> set (beyond ow_operation_id interrupted after (st_ops st))"
    using assms(2,3) by (simp add: set_beyond swept_def)
  then show False
    using assms(1) by (simp add: page_beyond)
qed

lemma quarantine_enough_fuel:
  assumes "quarantine_pages ev fuel after st = Inr (result, st')" "schema st" "swept after st" "ahead after st < fuel"
  shows "result = Some () \<and> (\<forall>r \<in> set (st_ops st'). \<not> interrupted r)
    \<and> (\<forall>r \<in> set (st_ops st). \<not> interrupted r \<longrightarrow> r \<in> set (st_ops st'))"
  using assms
proof (induction fuel arbitrary: after st)
  case (Suc fuel)
  let ?rows = "page ow_operation_id interrupted after 256 (st_ops st)"
  show ?case
  proof (cases "?rows = []")
    case True
    then show ?thesis
      using Suc.prems(1) no_page [OF True Suc.prems(3)] by (simp add: interrupted_rows_page)
  next
    case False
    then obtain st1 where each: "tx_each (quarantine_one ev) ?rows st = Inr ((), st1)"
      and rest: "quarantine_pages ev fuel (last_key ow_operation_id ?rows) st1 = Inr (result, st')"
      using Suc.prems(1) by (auto simp: interrupted_rows_page)
    note q = quarantine_rows_effect [OF each Suc.prems(2)]
    note s = page_swept [OF Suc.prems(2) refl False Suc.prems(3) q]
    have IH: "result = Some () \<and> (\<forall>r \<in> set (st_ops st'). \<not> interrupted r)
      \<and> (\<forall>r \<in> set (st_ops st1). \<not> interrupted r \<longrightarrow> r \<in> set (st_ops st'))"
      using q s Suc.prems(4) by (intro Suc.IH [OF rest]) (auto simp: quarantines_def)
    have "r \<in> set (st_ops st1)" if r: "r \<in> set (st_ops st)" "\<not> interrupted r" for r
    proof -
      have "ow_operation_id r \<noteq> ow_operation_id x" if "x \<in> set ?rows" for x
        using page_rows [OF that] r same_operation [OF Suc.prems(2), of r x] by blast
      then show ?thesis
        using quarantines_other [OF q Suc.prems(2)] r(1) by blast
    qed
    then show ?thesis
      using IH by blast
  qed
qed simp

lemma restart_scan:
  assumes "quarantine_local_restart ev st = Inr (result, st')" "schema st"
  shows "result = Some () \<and> (\<forall>r \<in> set (st_ops st'). \<not> interrupted r)
    \<and> (\<forall>r \<in> set (st_ops st). \<not> interrupted r \<longrightarrow> r \<in> set (st_ops st'))"
proof (rule quarantine_enough_fuel)
  show "quarantine_pages ev (Suc (length (st_ops st))) None st = Inr (result, st')"
    using assms(1) by (simp add: quarantine_local_restart_def)
  have "ow_operation_id r \<noteq> []" if "r \<in> set (st_ops st)" for r
    using ops.present [OF assms(2)] that by (simp add: ops_table_def table_ok_def list_all_iff operation_checks_def)
  then show "swept None st"
    by (auto simp: swept_def neq_Nil_conv) (metis Nil_less_Cons)
  show "ahead None st < Suc (length (st_ops st))"
    by (simp add: ahead_def filter_map le_imp_less_Suc)
qed (rule assms(2))

text \<open>
  C15. The scan a restarted executor runs ends: on a reachable store it never runs out of the
  page budget (one page more than there are operations), whatever the number of pages. When it
  commits, no operation is left \<open>running\<close> or \<open>waiting_retry\<close>, and every operation that was
  neither is stored as before.
\<close>

theorem restart_scan_completes:
  assumes "reachable st" "quarantine_local_restart ev st = Inr (result, st')"
  shows "result = Some ()
    \<and> (\<forall>r \<in> set (st_ops st'). ow_state r \<notin> {''running'', ''waiting_retry''})
    \<and> (\<forall>r \<in> set (st_ops st). ow_state r \<notin> {''running'', ''waiting_retry''} \<longrightarrow> r \<in> set (st_ops st'))"
  by (rule restart_scan [OF assms(2) reachable_schema [OF assms(1)], unfolded interrupted_def])

definition quarantined :: store where
  "quarantined = claimed\<lparr>st_ops := [(sample_row ''op'' Cmd_StopBuilder)\<lparr>ow_state := ''recovery_required'', ow_revision := 3,
       ow_executor_id := Some ''exec'', ow_step := ''claimed'', ow_error_code := Some ''ERR_BACKEND_ERROR'',
       ow_error_message := Some ''Previous local executor stopped; remote outcome requires verification''\<rparr>]\<rparr>"

lemma quarantined_claim: "quarantine_local_restart sample_env claimed = Inr (Some (), quarantined)"
  by code_simp

theorem restart_scan_completes_witness:
  "list_all (\<lambda>r. ow_state r \<noteq> ''running'') (st_ops quarantined)"
  using restart_scan_completes [OF sample_reachable(4) quarantined_claim] by (simp add: list_all_iff)

end
