(* ===== verification/History_Laws.thy ===== *)
theory History_Laws
  imports Operation_Commits
begin

text \<open>
  Rows that are appended and never rewritten are found again in every later store, and what
  a read of an application returns.
\<close>

lemma lookup_prefix: "lookup key t k = Some r \<Longrightarrow> lookup key (t @ t') k = Some r"
  by (induction t) (auto split: if_splits)

lemma extends_lookup: "extends id t t' \<Longrightarrow> lookup key t k = Some r \<Longrightarrow> lookup key t' k = Some r"
  by (auto simp: extends_def prefix_def lookup_prefix)

lemma history_lookup:
  assumes "history st st'"
  shows "lookup key (st_deadlines st) k = Some d \<Longrightarrow> lookup key (st_deadlines st') k = Some d"
    "lookup key' (st_config_versions st) k' = Some v \<Longrightarrow> lookup key' (st_config_versions st') k' = Some v"
    "lookup key'' (st_bindings st) k'' = Some b \<Longrightarrow> lookup key'' (st_bindings st') k'' = Some b"
    "lookup key3 (st_witnesses st) k3 = Some w \<Longrightarrow> lookup key3 (st_witnesses st') k3 = Some w"
  using assms by (auto simp: history_def elim: extends_lookup)

lemma Inr_Pair_Some: "Inr (Some x, s) = Inr (Some y, s') \<Longrightarrow> x = y"
  by simp

lemma op_advance_history: "tx_rel history (op_advance ev progress)"
  by (rule durable.root_methods)

lemma repo_app_iff:
  "repo_app ev a st = Inr (Some app, st') \<longleftrightarrow> st' = st \<and> (\<exists>row. lookup ap_app_id (st_apps st) a = Some row \<and> row_matches app row)
    \<and> lookup sl_app_id (st_slots st) a = Some (slots_row_of app) \<and> application_storable ev app"
  by (auto simp: repo_app_def application_of_row_iff split: option.splits)

end
