(* ===== verification/Volume_Recovery.thy ===== *)
theory Volume_Recovery
  imports History_Laws Recovery_Witness
begin

text \<open>
  The recovered volumes of a lifecycle: the page-wise subtraction of completed storage removals
  is the one-shot filter over the whole operation table, and the witness a recovery recorded is
  read back unchanged for ever.
\<close>


section \<open>What remains\<close>

text \<open>The resources a row retires; a row that is no usable removal retires none.\<close>

definition retired_by :: "env \<Rightarrow> discovered_identity \<Rightarrow> operation_row \<Rightarrow> resource_identity list \<times> resource_identity list" where
  "retired_by ev witness row =
    (case operation_of_row ev row of
       Inl _ \<Rightarrow> ([], [])
     | Inr operation \<Rightarrow> (case confirmed_retirement witness operation of Inl _ \<Rightarrow> ([], []) | Inr retired \<Rightarrow> retired))"

definition retired_volumes ::
  "env \<Rightarrow> (resource_identity list \<times> resource_identity list \<Rightarrow> resource_identity list) \<Rightarrow> operation_row list \<Rightarrow>
   discovered_identity \<Rightarrow> resource_identity list" where
  "retired_volumes ev side rows witness = concat (map (side \<circ> retired_by ev witness) rows)"

definition remaining_volumes ::
  "env \<Rightarrow> string \<Rightarrow> string \<Rightarrow> operation_row list \<Rightarrow> discovered_identity \<Rightarrow> discovered_identity" where
  "remaining_volumes ev app_id lifecycle_id rows witness =
    (let removals = filter (retires app_id lifecycle_id) rows in
     subtract_resources witness (retired_volumes ev fst removals witness) (retired_volumes ev snd removals witness))"

lemma subtract_resources_ids [simp]:
  "di_app_id (subtract_resources w p d) = di_app_id w" "di_lifecycle_id (subtract_resources w p d) = di_lifecycle_id w"
  by (simp_all add: subtract_resources_def)

lemma confirmed_retirement_subtract [simp]:
  "confirmed_retirement (subtract_resources w p d) = confirmed_retirement w"
  by (rule ext) (simp add: confirmed_retirement_def)

lemma retired_by_subtract [simp]: "retired_by ev (subtract_resources w p d) = retired_by ev w"
  by (rule ext) (simp add: retired_by_def split: sum.split)

lemma retired_volumes_subtract [simp]:
  "retired_volumes ev side rows (subtract_resources w p d) = retired_volumes ev side rows w"
  by (simp add: retired_volumes_def)

lemma subtract_resources_empty [simp]: "subtract_resources w [] [] = w"
  by (simp add: subtract_resources_def)

lemma subtract_resources_append:
  "subtract_resources (subtract_resources w p d) p' d' = subtract_resources w (p @ p') (d @ d')"
  by (simp add: subtract_resources_def conj_commute)

lemma subtract_row_retired:
  "subtract_row ev row w = subtract_resources w (fst (retired_by ev w row)) (snd (retired_by ev w row))"
  by (simp add: subtract_row_def retired_by_def subtract_confirmed_retirement_def split: sum.splits prod.splits)

lemma fold_subtract:
  "fold (subtract_row ev) rows w =
    subtract_resources w (retired_volumes ev fst rows w) (retired_volumes ev snd rows w)"
proof (induction rows arbitrary: w)
  case (Cons row rows)
  then show ?case
    by (simp add: subtract_row_retired subtract_resources_append) (simp add: retired_volumes_def)
qed (simp add: retired_volumes_def)

text \<open>Nothing is left to subtract from empty lists, so the early exit changes no result.\<close>

lemma subtract_nothing: "di_dev_volumes w = [] \<Longrightarrow> di_prod_volumes w = [] \<Longrightarrow> subtract_resources w p d = w"
  by (simp add: subtract_resources_def)

lemma remaining_loop_fold:
  "unique_keys ow_operation_id rows \<Longrightarrow>
   remaining_loop ev a l rows after w = fold (subtract_row ev) (beyond ow_operation_id (retires a l) after rows) w"
proof (induction ev a l rows after w rule: remaining_loop.induct)
  case (1 ev a l rows after w)
  let ?p = "page ow_operation_id (retires a l) after retirement_page_size rows"
  note page = beyond_page [OF 1(2), of retirement_page_size "retires a l" after]
  show ?case
  proof (cases "di_dev_volumes w = [] \<and> di_prod_volumes w = []")
    case True
    then show ?thesis
      by (simp add: remaining_loop.simps [of _ _ _ _ _ w] fold_subtract subtract_nothing)
  next
    case False
    have "?p \<noteq> []" if "\<not> length ?p < retirement_page_size"
      using that by (auto simp: retirement_page_size_def)
    then show ?thesis
      using 1(1) [OF False refl refl _ 1(2)] page False
      by (subst remaining_loop.simps) (auto simp: Let_def last_key_def retirement_page_size_def)
  qed
qed

lemma retired_volumes_set:
  "set (retired_volumes ev side rows w) = (\<Union>row \<in> set rows. set (side (retired_by ev w row)))"
  by (simp add: retired_volumes_def)

lemma subtract_resources_sets:
  "set p = set p' \<Longrightarrow> set d = set d' \<Longrightarrow> subtract_resources w p d = subtract_resources w p' d'"
  by (simp add: subtract_resources_def list_ex_iff)

lemma remaining_loop_volumes:
  assumes "unique_keys ow_operation_id rows" "list_all (\<lambda>r. ow_operation_id r \<noteq> []) rows"
  shows "remaining_loop ev a l rows None w = remaining_volumes ev a l rows w"
proof -
  have "set (beyond ow_operation_id (retires a l) None rows) = set (filter (retires a l) rows)"
    using assms(2) by (auto simp: set_beyond list_all_iff neq_Nil_conv)
  then show ?thesis
    unfolding remaining_loop_fold [OF assms(1)] fold_subtract remaining_volumes_def Let_def
    by (intro subtract_resources_sets) (simp_all only: retired_volumes_set)
qed

text \<open>
  C24. Paging, order and the early exit of the retirement scan are invisible: on a store that
  satisfies the schema, the volumes reported as remaining are those of the recorded witness that
  no usable completed removal of that lifecycle names, computed in one pass over the operation
  table; every failure is a failure to read the witness itself.
\<close>

theorem remaining_witness_is_filter:
  assumes "schema st"
  shows "remaining_witness ev app_id lifecycle_id st =
    tx_bind (original_witness app_id lifecycle_id)
      (\<lambda>found. tx_return (map_option (remaining_volumes ev app_id lifecycle_id (st_ops st)) found)) st"
proof -
  have "list_all (\<lambda>r. ow_operation_id r \<noteq> []) (st_ops st)"
    using ops.present [OF assms] by (auto simp: ops_table_def table_ok_def list_all_iff operation_checks_def)
  note loop = remaining_loop_volumes [OF schema_keys(2) [OF assms] this]
  show ?thesis
  proof (cases "original_witness app_id lifecycle_id st")
    case (Inr r)
    then obtain found where "original_witness app_id lifecycle_id st = Inr (found, st)"
      by (auto simp: original_witness_def split: option.splits if_splits)
    then show ?thesis
      by (simp add: remaining_witness_def tx_bind_def tx_read_def tx_return_def loop cong: map_option_cong)
  qed (simp add: remaining_witness_def tx_bind_def)
qed

text \<open>An application recovered with two production volumes, one of which a completed clear retired.\<close>

definition volume :: "string \<Rightarrow> resource_identity" where
  "volume name = \<lparr>ri_kind = Res_PersistentVolumeClaim, ri_name = name, ri_uid = ''uid-'' @ name, ri_resource_version = Some ''1''\<rparr>"

definition sample_discovery :: discovered_identity where
  "sample_discovery = \<lparr>di_app_id = ''app'', di_lifecycle_id = ''life'', di_dev_uid = None, di_prod_uid = Some ''u'',
     di_dev_stopped = False, di_prod_stopped = False, di_dev_volumes = [],
     di_prod_volumes = [volume ''data'', volume ''logs'']\<rparr>"

definition recovered :: store where
  "recovered = empty_store\<lparr>st_apps := [sample_root ''active'' 2], st_slots := [sample_slots None None None],
     st_witnesses := [\<lparr>wi_app_id = ''app'', wi_lifecycle_id = ''life'',
       wi_witness_json = to_text (enc_discovered_identity sample_discovery), wi_created_at_us = 1000000\<rparr>]\<rparr>"

lemma restored_discovery:
  "restore_identity sample_env sample_discovery empty_store = Inr ((sample_app Scope_Dev)\<lparr>lr_created_at := 1000000,
     lr_active_operations := active_operations_default\<rparr>, recovered)"
  by code_simp

definition cleared_row :: operation_row where
  "cleared_row = (sample_row ''op'' (Cmd_ClearStorage True))\<lparr>ow_state := ''succeeded'', ow_revision := 4,
     ow_executor_id := Some ''exec'', ow_terminal_at_us := Some 1000000,
     ow_checkpoint_json := to_text (JObj [(''context'', enc_execution_context sample_context),
       (''target'', JObj [(''directories'', JArr []),
         (''snapshot'', JObj [(''app_id'', JStr ''app''), (''operation_id'', JStr ''op''),
           (''resources'', JArr [enc_resource_identity (volume ''data'')])]),
         (''type'', JStr ''production'')])])\<rparr>"

definition cleared :: store where
  "cleared = recovered\<lparr>st_ops := [cleared_row]\<rparr>"

lemma cleared_schema: "schema cleared"
  by code_simp

lemma cleared_volumes:
  "remaining_volumes sample_env ''app'' ''life'' (st_ops cleared) sample_discovery
    = sample_discovery\<lparr>di_prod_volumes := [volume ''logs'']\<rparr>"
  by code_simp

lemma cleared_witness: "original_witness ''app'' ''life'' cleared = Inr (Some sample_discovery, cleared)"
  by code_simp

theorem remaining_witness_is_filter_witness:
  "schema cleared \<and> remaining_witness sample_env ''app'' ''life'' cleared
    = Inr (Some (sample_discovery\<lparr>di_prod_volumes := [volume ''logs'']\<rparr>), cleared)"
  unfolding remaining_witness_is_filter [OF cleared_schema]
  by (simp add: cleared_schema cleared_witness cleared_volumes tx_bind_def tx_return_def)


section \<open>The record of a recovery\<close>

lemma intent_keeps_history: "tx_rel history (insert_stopped_intent ev found scope)"
  by (unfold insert_stopped_intent_def find_intent_def insert_intent_def)
     (rule durable_context | simp add: history_def; fail)+

abbreviation find_witness :: "store \<Rightarrow> string \<times> string \<Rightarrow> witness_row option" where
  "find_witness st \<equiv> lookup (\<lambda>r. (wi_app_id r, wi_lifecycle_id r)) (st_witnesses st)"

lemma original_witness_iff:
  "original_witness a l st = Inr (Some w, st') \<longleftrightarrow> st' = st \<and> (\<exists>row. find_witness st (a, l) = Some row
    \<and> from_str ''decode recovery witness'' dec_discovered_identity (wi_witness_json row) = Inr w
    \<and> validate_discovered_identity w = Inr () \<and> di_app_id w = a \<and> di_lifecycle_id w = l)"
  by (auto simp: original_witness_def split: option.splits if_splits)

lemma inserted_witness:
  assumes "insert_witness ev found st = Inr (u, st')" "validate_discovered_identity found = Inr ()"
  shows "original_witness (di_app_id found) (di_lifecycle_id found) st' = Inr (Some found, st')"
  using assms by (auto simp: insert_witness_def insert_row_commits original_witness_iff from_str_def discovered_json.dec_enc)

lemma witness_persists:
  assumes "original_witness a l st = Inr (Some found, st)" "history st st'"
  shows "original_witness a l st' = Inr (Some found, st')"
proof -
  have "find_witness st' k = Some row" if "find_witness st k = Some row" for k row
    using history_lookup(4) [OF assms(2) that] .
  then show ?thesis
    using assms(1) unfolding original_witness_iff by blast
qed

lemma record_restored_witness:
  assumes run: "record_restored ev found app True st = Inr (app', st')"
    and valid: "validate_discovered_identity found = Inr ()"
  shows "original_witness (di_app_id found) (di_lifecycle_id found) st' = Inr (Some found, st')"
proof -
  obtain st1 st2 where 1: "insert_witness ev found st = Inr ((), st1)"
    and 2: "(if di_dev_stopped found then insert_stopped_intent ev found Scope_Dev else tx_return ()) st1 = Inr ((), st2)"
    and 3: "(if di_prod_stopped found then insert_stopped_intent ev found Scope_Prod else tx_return ()) st2 = Inr ((), st')"
    using run by (auto simp: record_restored_def split: if_splits)
  have "history st1 st'"
    using tx_relD [OF intent_keeps_history] history_order.trans 2 3 history_order.refl by (auto split: if_splits; blast)
  then show ?thesis
    by (rule witness_persists [OF inserted_witness [OF 1 valid] ])
qed

lemma ensure_created:
  "ensure_with_created ev proposed st = Inr ((app, created), st') \<Longrightarrow>
   lookup ap_app_id (st_apps st) (lr_app_id proposed) = None \<Longrightarrow> created"
  by (auto simp: ensure_with_created_def insert_application_def row_matches_def
      dest!: application_row_of_matches split: if_splits)

lemma identity_app_id: "identity uuid now app_id = Inr proposed \<Longrightarrow> lr_app_id proposed = app_id"
  by (auto simp: identity_def)

lemma restore_fresh:
  assumes run: "restore_identity ev found st = Inr (app, st')"
    and fresh: "lookup ap_app_id (st_apps st) (di_app_id found) = None"
  obtains app' st1 where "validate_discovered_identity found = Inr ()" "record_restored ev found app' True st1 = Inr (app, st')"
proof -
  have "repo_app ev (di_app_id found) st = Inr (None, st)"
    using fresh by (simp add: repo_app_def tx_bind_def tx_read_def tx_return_def)
  then obtain proposed app' created st1 where valid: "validate_discovered_identity found = Inr ()"
    and proposed: "identity (ev_uuid ev) (ev_now ev) (di_app_id found) = Inr proposed"
    and ensure: "ensure_with_created ev (proposed\<lparr>lr_lifecycle_id := di_lifecycle_id found\<rparr>) st = Inr ((app', created), st1)"
    and rec: "record_restored ev found app' created st1 = Inr (app, st')"
    using run by (auto simp: restore_identity_def)
  have created
    using ensure_created [OF ensure] identity_app_id [OF proposed] fresh by simp
  then show ?thesis
    using that valid rec by simp
qed

text \<open>
  C25. What a recovery recorded is read back unchanged: after a committed recovery of an
  application that had no root, the stored witness decodes to exactly the discovered identity, in
  that store and in every store reached from it.
\<close>

theorem recovery_round_trip:
  assumes "restore_identity ev found st = Inr (app, st')"
    and "lookup ap_app_id (st_apps st) (di_app_id found) = None"
    and "store_step\<^sup>*\<^sup>* st' later_st"
  shows "original_witness (di_app_id found) (di_lifecycle_id found) later_st = Inr (Some found, later_st)"
proof -
  obtain app' st1 where "validate_discovered_identity found = Inr ()" "record_restored ev found app' True st1 = Inr (app, st')"
    using restore_fresh [OF assms(1,2)] .
  from record_restored_witness [OF this(2,1)] run_history [OF assms(3)] show ?thesis
    by (rule witness_persists)
qed

theorem recovery_round_trip_witness:
  "original_witness ''app'' ''life'' recovered = Inr (Some sample_discovery, recovered)"
  using recovery_round_trip [OF restored_discovery _ rtranclp.rtrancl_refl]
  by (simp add: sample_discovery_def empty_store_def lookup_def)

end
