(* ===== verification/Admission_Liveness.thy ===== *)
theory Admission_Liveness
  imports History_Laws
begin

text \<open>
  Admission cannot get stuck: a well-formed request for an active application with nothing in
  flight commits.  Every statement of the transaction is shown to find its row and to pass the
  constraints of its table.
\<close>


section \<open>Statements that commit\<close>

lemma keyed_update_commits:
  assumes "unique_keys key (get st)" "lookup key (get st) k = Some r" "\<And>x. p x \<Longrightarrow> key x = k" "p r" "ok st (f r)"
  shows "update_one get upd p f ok e st = Inr ((), upd (update_where p f) st)"
proof -
  have p: "p = (\<lambda>x. key x = k \<and> p x)"
    using assms(3) by blast
  have "count_where p (get st) = 1"
    using assms(1,2,4) by (subst p) (simp add: count_where_key)
  moreover have "x = r" if "x \<in> set (get st)" "p x" for x
    using lookup_iff_mem [OF assms(1), of k x] assms(2,3) that by simp
  then have "list_all (\<lambda>x. p x \<longrightarrow> ok st (f x)) (get st)"
    using assms(5) by (auto simp: list_all_iff)
  ultimately show ?thesis
    by (simp add: update_one_commits)
qed

lemma claim_commits:
  assumes st: "schema st" and row: "lookup ap_app_id (st_apps st) a = Some row" "ap_control_revision row < i64_max"
  shows "\<exists>f. claim_app a st = Inr ((), st_apps_update f st)
    \<and> lookup ap_app_id (f (st_apps st)) a = Some (row\<lparr>ap_control_revision := ap_control_revision row + 1\<rparr>)"
proof -
  have checks: "application_checks row"
    using apps.present [OF st] lookup_SomeD [OF row(1)] by (simp add: apps_table_def table_ok_def list_all_iff)
  have inc: "checked_add (ap_control_revision row) 1 = Some (ap_control_revision row + 1)" "ap_control_revision row > 0"
    using checks row(2) by (simp_all add: checked_add_def application_checks_def i64_min_def)
  have id: "ap_app_id row = a"
    using lookup_SomeD [OF row(1)] by simp
  let ?p = "\<lambda>r. ap_app_id r = a \<and> ap_control_revision r = ap_control_revision row
            \<and> ap_lifecycle_id r = ap_lifecycle_id row \<and> ap_lifecycle_state r = ap_lifecycle_state row"
  let ?f = "\<lambda>r. r\<lparr>ap_control_revision := ap_control_revision row + 1\<rparr>"
  have "update_one st_apps st_apps_update ?p ?f (\<lambda>_. application_checks) VersionConflict st
      = Inr ((), st_apps_update (update_where ?p ?f) st)"
    using checks id by (intro keyed_update_commits [where key = ap_app_id and get = st_apps, OF schema_keys(1) [OF st] row(1)]) (auto simp: application_checks_def)
  then show ?thesis
    using row(1) inc id
    by (intro exI [of _ "update_where ?p ?f"]) (simp add: claim_app_def tx_bind_def tx_read_def tx_lift_def lookup_update_where)
qed

lemma ensure_commits:
  assumes st: "schema st" and row: "lookup ap_app_id (st_apps st) a = Some row" "ap_control_revision row < i64_max"
    and app: "repo_app ev a st = Inr (Some app, st)" and proposed: "identity uuid (ev_now ev) a = Inr proposed" "uuid \<noteq> []"
  shows "\<exists>f. ensure ev proposed st = Inr (app, st_apps_update f st) \<and> schema (st_apps_update f st)
    \<and> repo_app ev a (st_apps_update f st) = Inr (Some app, st_apps_update f st)"
proof -
  obtain f where claim: "claim_app a st = Inr ((), st_apps_update f st)"
    and f: "lookup ap_app_id (f (st_apps st)) a = Some (row\<lparr>ap_control_revision := ap_control_revision row + 1\<rparr>)"
    using claim_commits [OF st row] by blast
  let ?st = "st_apps_update f st"
  have schema: "schema ?st"
    by (rule tx_keepsD [OF claim_app_schema claim st])
  have found: "repo_app ev a ?st = Inr (Some app, ?st)"
    using app f row(1) by (auto simp: repo_app_iff row_matches_def)
  have "a \<noteq> []"
    using app repo_app_at(2) [OF app] by (auto simp: repo_app_iff application_storable_def)
  then obtain new where new: "application_row_of proposed (ev_now ev) = Inr new" "application_checks new" "ap_app_id new = a"
    using proposed
    by (auto simp: identity_def application_row_of_def i64_of_u64_def runtime_policy_default_def transpose_r_def
        application_checks_def name_of_def lifecycle_names_def)
  have "insert_application new st = Inr (False, st)"
    using new row(1) by (simp add: insert_application_def)
  then show ?thesis
    using claim new schema found
    by (intro exI [of _ f])
       (simp add: ensure_def ensure_with_created_def tx_bind_def tx_then_def tx_lift_def tx_return_def tx_some_def storage_r_def)
qed


section \<open>Requests for an idle application\<close>

text \<open>Nothing is in flight and no compute head is registered.\<close>

definition idle :: "env \<Rightarrow> store \<Rightarrow> lifecycle_record \<Rightarrow> bool" where
  "idle ev st app \<longleftrightarrow> repo_app ev (lr_app_id app) st = Inr (Some app, st) \<and> lr_state app = App_Active
    \<and> lr_active_operations app = active_operations_default
    \<and> list_all (\<lambda>r. it_app_id r \<noteq> lr_app_id app) (st_intents st)"

text \<open>The column bounds of the root: the counters and the timeout fit their 64-bit columns.\<close>

definition timeout_in_range :: "lifecycle_record \<Rightarrow> bool" where
  "timeout_in_range app \<longleftrightarrow> pred_option (\<lambda>n. n \<le> i64_max) (rp_idle_timeout_seconds (lr_runtime_policy app))"

definition root_in_range :: "store \<Rightarrow> lifecycle_record \<Rightarrow> bool" where
  "root_in_range st app \<longleftrightarrow> timeout_in_range app
    \<and> list_all (\<lambda>r. ap_app_id r = lr_app_id app \<longrightarrow> ap_control_revision r < i64_max) (st_apps st)"

definition well_formed :: "env \<Rightarrow> lifecycle_record \<Rightarrow> admission_request \<Rightarrow> bool" where
  "well_formed ev app request \<longleftrightarrow> validate_admission_request request = Inr ()
    \<and> validate_input ev (ad_kind request) (ad_request_fingerprint request) (ad_command request) None = Inr ()
    \<and> valid_identifier (ad_app_id request) \<and> ad_app_id request = lr_app_id app
    \<and> ad_lifecycle_id request = Some (lr_lifecycle_id app) \<and> ad_metadata request = None
    \<and> length (ad_request_fingerprint request) = 64
    \<and> ad_kind request \<notin> {Kind_AdoptApplication, Kind_ResetDevDatabasePassword, Kind_ResetProdDatabasePassword}"

definition unused :: "store \<Rightarrow> admission_request \<Rightarrow> bool" where
  "unused st request \<longleftrightarrow> lookup ow_operation_id (st_ops st) (ad_operation_id request) = None
    \<and> (case ad_request_id request of None \<Rightarrow> True
       | Some i \<Rightarrow> lookup (\<lambda>r. (rq_app_id r, rq_request_id r)) (st_requests st) (ad_app_id request, i) = None)"

text \<open>The root after the request took its slot.\<close>

definition taken :: "lifecycle_record \<Rightarrow> admission_request \<Rightarrow> lifecycle_record" where
  "taken app request = app\<lparr>lr_active_operations :=
      set_slot (kind_scope (ad_kind request)) (Some (ad_operation_id request)) active_operations_default,
     lr_state := (if ends_lifecycle (ad_kind request) then App_Deleting else lr_state app)\<rparr>"

lemma idle_admission:
  assumes "idle ev st app" "well_formed ev app request"
  shows "admission now app request None active_records_default
    = Inr (Accepted (admitted_operation now app request), taken app request)"
  using assms
  by (auto simp: idle_def well_formed_def admission_def validate_active_def admit_fresh_def find_blocker_def Let_def
      active_records_default_def taken_def admitted_operation_def)

lemma idle_active: "idle ev st app \<Longrightarrow> active ev app st = Inr (active_records_default, st)"
  by (simp add: idle_def active_def scope_all_def active_operations_default_def tx_return_def)

lemma pending_name: "state_name Op_Pending = ''pending''"
  by (simp add: name_of_def state_names_def)

lemma admitted_row:
  assumes "operation_row_of (admitted_operation now app request) now' None = Inr row"
  shows "ow_operation_id row = ad_operation_id request" "ow_app_id row = lr_app_id app"
    "ow_lifecycle_id row = lr_lifecycle_id app" "ow_kind row = kind_name (ad_kind request)"
    "ow_scope row = scope_name (kind_scope (ad_kind request))" "ow_state row = ''pending''" "ow_revision row = 1"
    "ow_request_fingerprint row = ad_request_fingerprint request" "ow_payload_version row = 1" "ow_terminal_at_us row = None"
  using assms pending_name by (auto simp: operation_row_of_def admitted_operation_def)

lemma idle_facts:
  assumes "idle ev st app"
  shows "lr_app_id app \<noteq> []" "lr_lifecycle_id app \<noteq> []" "app_exists st (lr_app_id app)"
  using assms by (auto simp: idle_def repo_app_iff application_storable_def app_exists_def list_ex_iff dest!: lookup_SomeD)

lemma well_formed_facts:
  assumes "well_formed ev app request"
  shows "ad_operation_id request \<noteq> []" "length (ad_request_fingerprint request) = 64"
    "operation_scope_check (scope_name (kind_scope (ad_kind request))) (kind_name (ad_kind request))"
    "ad_request_id request \<noteq> Some []"
  using assms operation_scope_check_kind [of "ad_kind request"]
  by (auto simp: well_formed_def validate_admission_request_def split: if_splits)

lemma insert_operation_commits:
  assumes app: "idle ev st app" and request: "well_formed ev app request" "unused st request"
  obtains row where "insert_operation ev (admitted_operation (ev_now ev) app request) st = Inr ((), st_ops_update (\<lambda>t. t @ [row]) st)"
    "ow_operation_id row = ad_operation_id request" "ow_app_id row = lr_app_id app" "ow_lifecycle_id row = lr_lifecycle_id app"
proof -
  obtain row where row: "operation_row_of (admitted_operation (ev_now ev) app request) (ev_now ev) None = Inr row"
    by (simp add: operation_row_of_def admitted_operation_def)
  note ids = admitted_row [OF row]
  have "operation_checks row"
    using well_formed_facts [OF request(1)] idle_facts [OF app] by (simp add: operation_checks_def ids)
  then have "insert_operation ev (admitted_operation (ev_now ev) app request) st = Inr ((), st_ops_update (\<lambda>t. t @ [row]) st)"
    using request(2) idle_facts(3) [OF app]
    by (simp add: insert_operation_def insert_row_def row ids unused_def tx_bind_def tx_lift_def storage_r_def)
  then show thesis
    using ids(1-3) by (rule that)
qed

lemma idle_guard: "idle ev st app \<Longrightarrow> guard_admission ev (taken app request) scope st = Inr ((), st)"
proof -
  assume "idle ev st app"
  then have "lookup (\<lambda>r. (it_app_id r, it_scope r)) (st_intents st) (lr_app_id app, s) = None" for s
    by (auto simp: idle_def lookup_None_iff list_all_iff)
  then show ?thesis
    by (cases scope) (simp_all add: guard_admission_def current_control_def read_scoped_head_def find_intent_def taken_def
        tx_bind_def tx_then_def tx_read_def tx_return_def)
qed

lemma taken_row:
  assumes "timeout_in_range app" "application_storable ev app"
  obtains row where "application_row_of (taken app request) now = Inr row" "application_checks (row\<lparr>ap_control_revision := v\<rparr>) \<longleftrightarrow> 1 \<le> v"
    "ap_app_id row = lr_app_id app" "ap_lifecycle_id row = lr_lifecycle_id app"
proof -
  have "i64_of_u64 (rp_idle_timeout_seconds (lr_runtime_policy app)) = Inr (rp_idle_timeout_seconds (lr_runtime_policy app))"
    using assms(1) by (auto simp: timeout_in_range_def i64_of_u64_def transpose_r_def split: option.splits)
  then obtain row where row: "application_row_of (taken app request) now = Inr row"
    using assms(2) by (auto simp: application_row_of_def taken_def application_storable_def)
  have "lifecycle_name s \<in> {''active'', ''deleting'', ''deleted''}" for s
    by (cases s) (simp_all add: name_of_def lifecycle_names_def)
  then have "application_checks (row\<lparr>ap_control_revision := v\<rparr>) \<longleftrightarrow> 1 \<le> v"
    using application_row_of_matches [OF row] assms(2)
    by (auto simp: application_checks_def row_matches_def taken_def application_storable_def split: option.splits)
  then show thesis
    using that [OF row] application_row_of_matches [OF row] by (auto simp: row_matches_def taken_def)
qed

lemma save_taken:
  assumes st: "schema st" and app: "idle ev st app" and range: "timeout_in_range app"
  obtains f where "save_app ev (taken app request) (lr_lifecycle_id app) (lr_metadata_revision app) st = Inr ((), st_apps_update f st)"
    "lifecycle_exists (st_apps_update f st) (lr_app_id app) (lr_lifecycle_id app)"
proof -
  obtain old where old: "lookup ap_app_id (st_apps st) (lr_app_id app) = Some old" "row_matches app old" "application_storable ev app"
    using app by (auto simp: idle_def repo_app_iff)
  obtain row where row: "application_row_of (taken app request) (ev_now ev) = Inr row"
    "application_checks (row\<lparr>ap_control_revision := ap_control_revision old\<rparr>) \<longleftrightarrow> 1 \<le> ap_control_revision old"
    "ap_app_id row = lr_app_id app" "ap_lifecycle_id row = lr_lifecycle_id app"
    by (rule taken_row [OF range old(3)])
  have "application_checks old"
    using apps.present [OF st] lookup_SomeD [OF old(1)] by (simp add: apps_table_def table_ok_def list_all_iff)
  then have checks: "application_checks (row\<lparr>ap_control_revision := ap_control_revision old\<rparr>)"
    using row(2) by (simp add: application_checks_def)
  let ?p = "\<lambda>r. ap_app_id r = ap_app_id row \<and> ap_lifecycle_id r = lr_lifecycle_id app \<and> ap_metadata_revision r = lr_metadata_revision app"
  let ?f = "\<lambda>r. row\<lparr>ap_control_revision := ap_control_revision r\<rparr>"
  have "update_one st_apps st_apps_update ?p ?f (\<lambda>st r. application_checks r
        \<and> (ap_lifecycle_id r = lr_lifecycle_id app \<or> \<not> lifecycle_referenced st (ap_app_id r) (lr_lifecycle_id app))) VersionConflict st
      = Inr ((), st_apps_update (update_where ?p ?f) st)"
    using old checks row(3,4)
    by (intro keyed_update_commits [where key = ap_app_id and get = st_apps, OF schema_keys(1) [OF st] old(1)])
       (auto simp: row_matches_def)
  moreover have "lookup ap_app_id (update_where ?p ?f (st_apps st)) (lr_app_id app) = Some (?f old)"
    using old row(3) by (subst lookup_update_where) (auto simp: row_matches_def)
  then have "lifecycle_exists (st_apps_update (update_where ?p ?f) st) (lr_app_id app) (lr_lifecycle_id app)"
    using row(3,4) by (auto simp: lifecycle_exists_def list_ex_iff dest!: lookup_SomeD)
  ultimately show thesis
    using row(1) by (intro that [of "update_where ?p ?f"]) (simp_all add: save_app_def tx_bind_def tx_lift_def storage_r_def)
qed

lemma save_taken_slots:
  assumes st: "schema st" and app: "lookup sl_app_id (st_slots st) (lr_app_id app) = Some (slots_row_of app)"
    and idle: "lr_active_operations app = active_operations_default"
    and refs: "lifecycle_exists st (lr_app_id app) (lr_lifecycle_id app)"
      "operation_exists st (ad_operation_id request) (lr_app_id app) (lr_lifecycle_id app)"
  obtains f where "save_slots (taken app request) app st = Inr ((), st_slots_update f st)"
  by (rule that, unfold save_slots_def,
      rule keyed_update_commits [where key = sl_app_id and get = st_slots, OF schema_keys(3) [OF st] app])
     (use idle refs in \<open>cases "kind_scope (ad_kind request)";
       simp add: slots_row_of_def taken_def slots_checks_def slots_refs_def operation_ref_def active_operations_default_def\<close>)+

lemma idle_updates [simp]:
  "idle ev (st_ops_update f st) app = idle ev st app"
  by (auto simp: idle_def repo_app_iff)

lemma store_accepted_commits:
  assumes st: "schema st" and app: "idle ev st app" "timeout_in_range app"
    and request: "well_formed ev app request" "unused st request"
  obtains st' where "store_accepted ev None None (taken app request) app (admitted_operation (ev_now ev) app request) st = Inr ((), st')"
    "st_requests st' = st_requests st" "app_exists st' (lr_app_id app)"
    "operation_exists st' (ad_operation_id request) (lr_app_id app) (lr_lifecycle_id app)"
proof -
  let ?op = "admitted_operation (ev_now ev) app request"
  obtain row where insert: "insert_operation ev ?op st = Inr ((), st_ops_update (\<lambda>t. t @ [row]) st)"
    and ids: "ow_operation_id row = ad_operation_id request" "ow_app_id row = lr_app_id app" "ow_lifecycle_id row = lr_lifecycle_id app"
    by (rule insert_operation_commits [OF app(1) request])
  let ?st1 = "st_ops_update (\<lambda>t. t @ [row]) st"
  have st1: "schema ?st1" "idle ev ?st1 app"
    using tx_keepsD [OF insert_operation_schema insert st] app(1) by simp_all
  obtain f where save: "save_app ev (taken app request) (lr_lifecycle_id app) (lr_metadata_revision app) ?st1 = Inr ((), st_apps_update f ?st1)"
    and root: "lifecycle_exists (st_apps_update f ?st1) (lr_app_id app) (lr_lifecycle_id app)"
    by (rule save_taken [OF st1 app(2)])
  let ?st2 = "st_apps_update f ?st1"
  have st2: "schema ?st2" "operation_exists ?st2 (ad_operation_id request) (lr_app_id app) (lr_lifecycle_id app)"
    using tx_keepsD [OF save_app_schema save st1(1)] ids by (simp_all add: operation_exists_def)
  obtain g where slots: "save_slots (taken app request) app ?st2 = Inr ((), st_slots_update g ?st2)"
    using app(1) by (auto simp: idle_def repo_app_iff intro: save_taken_slots [OF st2(1) _ _ root st2(2)])
  have "guard_database_admin ?op = Inr ()" "or_scope ?op = kind_scope (ad_kind request)"
    using request(1) by (auto simp: guard_database_admin_def admitted_operation_def well_formed_def)
  then have run: "store_accepted ev None None (taken app request) app ?op st = Inr ((), st_slots_update g ?st2)"
    using insert save slots idle_guard [OF app(1)]
    by (simp add: store_accepted_def tx_then_def tx_bind_def tx_lift_def tx_return_def)
  show thesis
    using st2(2) root
    by (intro that [OF run]) (auto simp: app_exists_def lifecycle_exists_def operation_exists_def list_ex_iff)
qed

lemma mapping_commits:
  assumes "app_exists st (lr_app_id app)" "operation_exists st (ad_operation_id request) (lr_app_id app) (lr_lifecycle_id app)"
    and "well_formed ev app request" "unused st' request" "st_requests st = st_requests st'"
  obtains st'' where "store_request_mapping ev (ad_request_id request) None (admitted_operation now app request) st = Inr ((), st'')"
proof (cases "ad_request_id request")
  case None
  then show ?thesis
    using that by (simp add: store_request_mapping_def tx_return_def)
next
  case (Some i)
  then show ?thesis
    using that assms well_formed_facts(4) [OF assms(3)]
    by (auto simp: store_request_mapping_def insert_request_def insert_row_def unused_def request_checks_def request_refs_def
        admitted_operation_def well_formed_def)
qed

lemma idle_admits:
  assumes "reachable st" "idle ev st app" "root_in_range st app" "well_formed ev app request" "unused st request"
    and "ev_uuid ev \<noteq> []"
  shows "\<exists>st'. admit ev request st = Inr (Accepted (admitted_operation (ev_now ev) app request), st')"
proof -
  note schema = reachable_schema [OF assms(1)]
  have found: "repo_app ev (lr_app_id app) st = Inr (Some app, st)"
    using assms(2) by (simp add: idle_def)
  then obtain row where row1: "lookup ap_app_id (st_apps st) (lr_app_id app) = Some row"
    by (auto simp: repo_app_iff)
  then have row: "lookup ap_app_id (st_apps st) (lr_app_id app) = Some row" "ap_control_revision row < i64_max"
    using assms(3) lookup_SomeD [OF row1] by (simp_all add: root_in_range_def list_all_iff)
  obtain proposed where proposed: "identity (ev_uuid ev) (ev_now ev) (lr_app_id app) = Inr proposed"
    using assms(4) by (auto simp: identity_def well_formed_def)
  obtain f where ensure: "ensure ev proposed st = Inr (app, st_apps_update f st)"
    and st1: "schema (st_apps_update f st)" "repo_app ev (lr_app_id app) (st_apps_update f st) = Inr (Some app, st_apps_update f st)"
    using ensure_commits [OF schema row found proposed assms(6)] by blast
  let ?st1 = "st_apps_update f st"
  have idle: "idle ev ?st1 app" and unused: "unused ?st1 request"
    using assms(2,5) st1(2) by (auto simp: idle_def unused_def split: option.splits)
  obtain st2 where accepted: "store_accepted ev None None (taken app request) app (admitted_operation (ev_now ev) app request) ?st1 = Inr ((), st2)"
    "st_requests st2 = st_requests ?st1" "app_exists st2 (lr_app_id app)"
    "operation_exists st2 (ad_operation_id request) (lr_app_id app) (lr_lifecycle_id app)"
    using store_accepted_commits [OF st1(1) idle _ assms(4) unused] assms(3) by (auto simp: root_in_range_def)
  obtain st3 where mapping: "store_request_mapping ev (ad_request_id request) None (admitted_operation (ev_now ev) app request) st2 = Inr ((), st3)"
    by (rule mapping_commits [OF accepted(3,4) assms(4) unused accepted(2)])
  have reads: "repo_operation ev (ad_app_id request) (ad_operation_id request) ?st1 = Inr (None, ?st1)"
    "(case ad_request_id request of None \<Rightarrow> tx_return None | Some i \<Rightarrow> repo_request (ad_app_id request) i) ?st1 = Inr (None, ?st1)"
    using unused by (auto simp: unused_def repo_operation_def repo_request_def tx_bind_def tx_read_def tx_lift_def tx_return_def
        storage_r_def transpose_r_def split: option.splits)
  have "admit ev request st = Inr (Accepted (admitted_operation (ev_now ev) app request), st3)"
    using assms(4) proposed ensure reads idle_active [OF idle] idle_admission [OF idle assms(4)] accepted(1) mapping
    by (simp add: admit_def admit_with_input_def admit_with_configuration_def well_formed_def tx_bind_def tx_then_def tx_lift_def
        tx_return_def mapped_operation_def opt_or_def outcome_operation_def)
  then show ?thesis
    by blast
qed


text \<open>The sample application after its first operation finished accepts the next one.\<close>

definition next_request :: admission_request where
  "next_request = (sample_request ''next'' Cmd_RestartBuilder)\<lparr>ad_lifecycle_id := Some ''life''\<rparr>"

definition idle_app :: lifecycle_record where
  "idle_app = (sample_app Scope_Dev)\<lparr>lr_created_at := 1000000, lr_active_operations := active_operations_default\<rparr>"

lemma finished_idle:
  "idle sample_env finished idle_app" "unused finished next_request" "well_formed sample_env idle_app next_request"
  by code_simp+

lemma finished_in_range: "root_in_range finished idle_app"
  by (simp add: root_in_range_def timeout_in_range_def finished_def idle_app_def sample_app_def sample_root_def
      runtime_policy_default_def i64_max_def)



section \<open>Fingerprints\<close>

text \<open>
  Admission and the table only ask for 64 characters, the codec that reads the row back for 64
  hexadecimal digits: an operation admitted under another fingerprint holds its slot, and no
  read of it succeeds.
\<close>

lemma unreadable_fingerprint:
  assumes "\<not> hex64 (ow_request_fingerprint row)"
  shows "\<exists>e. operation_of_row ev row = Inl e"
proof (cases "operation_of_row ev row")
  case (Inr op)
  then show ?thesis
    using assms by (simp add: operation_of_row_def)
qed blast


definition odd_request :: admission_request where
  "odd_request = next_request\<lparr>ad_request_fingerprint := replicate 64 (CHR ''z'')\<rparr>"

lemma finished_odd: "unused finished odd_request" "well_formed sample_env idle_app odd_request"
  by code_simp+



section \<open>Adopting an application\<close>

lemma inserted_kind:
  assumes "insert_operation ev op st = Inr (u, st')"
  shows "or_kind op \<noteq> Kind_AdoptApplication"
proof -
  obtain row where row: "operation_row_of op (ev_now ev) None = Inr row" "operation_checks row"
    using assms by (auto simp: insert_operation_def insert_row_commits)
  then have "ow_kind row = kind_name (or_kind op)" "ow_scope row = scope_name (kind_scope (or_kind op))"
    by (auto simp: operation_row_of_def)
  then show ?thesis
    using row(2) operation_scope_check_kind [of "or_kind op"] by (simp add: operation_checks_def)
qed

text \<open>
  C38. The adoption of an application is never admitted: the scope constraint of the operation
  table does not list its kind, so every admission of such a request fails and writes nothing.
\<close>

theorem application_adoption_never_admitted:
  assumes "ad_kind request = Kind_AdoptApplication"
  shows "admit_with_configuration ev request input pg st \<noteq> Inr (Accepted op, st')"
proof
  assume run: "admit_with_configuration ev request input pg st = Inr (Accepted op, st')"
  obtain app previous st1 u st2 where "store_accepted ev input pg app previous op st1 = Inr (u, st2)"
    by (rule admit_runE [OF run]) auto
  then obtain st3 st4 where "insert_operation ev op st3 = Inr ((), st4)"
    by (auto simp: store_accepted_def)
  then show False
    using inserted_kind admit_accepted(2) [OF run] assms by metis
qed

theorem application_adoption_never_admitted_witness:
  "admit_with_configuration sample_env (next_request\<lparr>ad_kind := Kind_AdoptApplication, ad_command := None\<rparr>) None None finished
    \<noteq> Inr (Accepted (sample_admitted ''next'' Cmd_RestartBuilder), finished)"
  by (rule application_adoption_never_admitted) simp

end
