(* ===== verification/Store_Protocols.thy ===== *)
theory Store_Protocols
  imports History_Laws
begin

text \<open>
  Protocols the store offers its callers: the retry of lost races, deadlines that are written
  once, and adoptions that are permanent.
\<close>


section \<open>Retries\<close>

text \<open>The store attempt \<open>k\<close> starts from, after the other writers committed \<open>k\<close> times.\<close>

definition disturbed :: "(nat \<Rightarrow> store \<Rightarrow> store) \<Rightarrow> nat \<Rightarrow> store \<Rightarrow> store" where
  "disturbed other k st = fold other [0..<k] st"

definition lost :: "(nat \<Rightarrow> 'a action) \<Rightarrow> (nat \<Rightarrow> store \<Rightarrow> store) \<Rightarrow> store \<Rightarrow> nat \<Rightarrow> bool" where
  "lost body other st k \<longleftrightarrow> body k (disturbed other k st) = Inl VersionConflict"

definition attempt_result :: "'a action \<Rightarrow> store \<Rightarrow> (store_error + 'a) \<times> store" where
  "attempt_result m st = (case m st of Inr (value, st') \<Rightarrow> (Inr value, st') | Inl e \<Rightarrow> (Inl e, st))"

lemma disturbed_simps [simp]:
  "disturbed other 0 st = st" "disturbed other (Suc k) st = other k (disturbed other k st)"
  by (simp_all add: disturbed_def)



section \<open>Values written once\<close>

abbreviation deadline_bound :: "string \<Rightarrow> string \<Rightarrow> string \<Rightarrow> int \<Rightarrow> store \<Rightarrow> bool" where
  "deadline_bound a i l d st \<equiv> lookup dl_operation_id (st_deadlines st) i
    = Some \<lparr>dl_operation_id = i, dl_app_id = a, dl_lifecycle_id = l, dl_deadline_ms = d\<rparr>"

lemma bind_deadline_bound:
  assumes "bind_operation_deadline ev a i l d st = Inr (bound, st')"
  shows "deadline_bound a i l bound st'" "deadline_bound a i l old st \<Longrightarrow> bound = old"
proof -
  obtain x st1 where 1: "op_current ev a i l st = Inr (x, st1)"
    and 2: "(case lookup dl_operation_id (st_deadlines st1) i of
        Some row \<Rightarrow> if dl_app_id row = a \<longrightarrow> dl_lifecycle_id row \<noteq> l then tx_fail LifecycleConflict else tx_return (dl_deadline_ms row)
      | None \<Rightarrow> tx_then (insert_row st_deadlines_update
              (\<lambda>st. lookup dl_operation_id (st_deadlines st) i = None \<and> operation_exists st i a l)
              \<lparr>dl_operation_id = i, dl_app_id = a, dl_lifecycle_id = l, dl_deadline_ms = d\<rparr>)
            (tx_return d)) st1 = Inr (bound, st')"
    using assms by (auto simp: bind_operation_deadline_def split: if_splits)
  have *: "row = \<lparr>dl_operation_id = i, dl_app_id = dl_app_id row, dl_lifecycle_id = dl_lifecycle_id row, dl_deadline_ms = dl_deadline_ms row\<rparr>"
    if "lookup dl_operation_id t i = Some row" for t row
    using lookup_SomeD [OF that] by simp
  show "deadline_bound a i l bound st'"
    using 2 by (auto simp: insert_row_commits dest: * split: option.splits if_splits)
  show "bound = old" if "deadline_bound a i l old st"
    using 2 history_lookup(1) [OF tx_relD [OF current_durable(1) 1] that] by auto
qed

text \<open>
  C29. A deadline is written once: after a committed binding, every later store reports the
  bound deadline, and every later binding for the same operation that commits, with whatever
  deadline it proposes, returns it.
\<close>

theorem deadline_first_write_wins:
  assumes "bind_operation_deadline ev a i l d st = Inr (bound, st1)" "store_step\<^sup>*\<^sup>* st1 st2"
  shows "operation_deadline a i st2 = Inr (Some bound, st2)
    \<and> (bind_operation_deadline ev' a i l d' st2 = Inr (again, st3) \<longrightarrow> again = bound)"
proof -
  have "deadline_bound a i l bound st2"
    by (rule history_lookup(1) [OF run_history [OF assms(2)] bind_deadline_bound(1) [OF assms(1)] ])
  then show ?thesis
    using bind_deadline_bound(2) by (auto simp: operation_deadline_def tx_read_def)
qed

lemma sample_deadline: "bind_operation_deadline sample_env ''app'' ''op'' ''life'' 5 claimed = Inr (5,
  claimed\<lparr>st_apps := [sample_root ''active'' 4],
    st_deadlines := [\<lparr>dl_operation_id = ''op'', dl_app_id = ''app'', dl_lifecycle_id = ''life'', dl_deadline_ms = 5\<rparr>]\<rparr>)"
  by code_simp

theorem deadline_first_write_wins_witness:
  "operation_deadline ''app'' ''op'' (claimed\<lparr>st_apps := [sample_root ''active'' 4],
      st_deadlines := [\<lparr>dl_operation_id = ''op'', dl_app_id = ''app'', dl_lifecycle_id = ''life'', dl_deadline_ms = 5\<rparr>]\<rparr>)
    = Inr (Some 5, claimed\<lparr>st_apps := [sample_root ''active'' 4],
      st_deadlines := [\<lparr>dl_operation_id = ''op'', dl_app_id = ''app'', dl_lifecycle_id = ''life'', dl_deadline_ms = 5\<rparr>]\<rparr>)"
  using deadline_first_write_wins [OF sample_deadline rtranclp.rtrancl_refl] by blast


text \<open>The adoption of a physical builder.\<close>

abbreviation binding_key :: "binding_row \<Rightarrow> string \<times> string" where
  "binding_key r \<equiv> (bi_service_type r, bi_physical_uid r)"

lemma get_binding_persists:
  assumes "get_resource_binding service uid st = Inr (Some binding, st')" "history st later_st"
  shows "get_resource_binding service uid later_st = Inr (Some binding, later_st)"
proof -
  have "st' = st"
    using tx_pureD [OF read_only0(18) assms(1)] .
  then obtain row where row: "lookup binding_key (st_bindings st) (show_service_type service, uid) = Some row"
    and "bi_service_type row = show_service_type UserappBuilder"
      "binding = \<lparr>rb_app_id = bi_app_id row, rb_lifecycle_id = bi_lifecycle_id row,
            rb_service_type = UserappBuilder, rb_physical_uid = bi_physical_uid row,
            rb_adopted_by_operation = bi_adopted_by_operation row\<rparr>"
    using assms(1) by (auto simp: get_resource_binding_def split: option.splits if_splits)
  then show ?thesis
    using history_lookup(3) [OF assms(2) row]
    by (simp add: get_resource_binding_def tx_bind_def tx_read_def tx_return_def)
qed

lemma commit_binding_bound:
  assumes "commit_resource_binding ev b progress st = Inr (op, st')"
  obtains st1 where "history st st1" "history st1 st'"
    "get_resource_binding (rb_service_type b) (rb_physical_uid b) st1 = Inr (Some b, st1)"
proof -
  obtain app x st1 st2 st3 st4 st5 where 1: "claim_app (rb_app_id b) st = Inr ((), st1)"
    and 2: "repo_app ev (rb_app_id b) st1 = Inr (Some app, st2)"
    and 3: "repo_operation ev (rb_app_id b) (pg_operation_id progress) st2 = Inr (x, st3)"
    and 4: "insert_binding ev b st3 = Inr ((), st4)"
    and 5: "get_resource_binding (rb_service_type b) (rb_physical_uid b) st4 = Inr (Some b, st5)"
    and 6: "op_advance ev progress st5 = Inr (op, st')"
    using assms by (auto simp: commit_resource_binding_def tx_some_def split: if_splits)
  have eq: "st2 = st1" "st3 = st2" "st5 = st4"
    using tx_pureD [OF store_reads(1) 2] tx_pureD [OF store_reads(2) 3] tx_pureD [OF read_only0(18) 5] by simp_all
  have "history st st4"
    using history_order.trans tx_relD [OF root_durable(1) 1] tx_relD [OF activity_durable(2) 4] eq by blast
  moreover have "history st4 st'"
    using tx_relD [OF op_advance_history 6] eq by simp
  ultimately show thesis
    using that 5 eq by blast
qed

text \<open>
  C26. An adoption is permanent: once a physical builder was bound by a committed adoption, every
  later store returns that binding for its uid, and a later adoption of the same builder that
  commits is the same binding again.
\<close>

theorem adoption_is_permanent:
  assumes "commit_resource_binding ev binding progress st = Inr (op, st1)" "store_step\<^sup>*\<^sup>* st1 st2"
  shows "get_resource_binding (rb_service_type binding) (rb_physical_uid binding) st2 = Inr (Some binding, st2)
    \<and> (commit_resource_binding ev' other progress' st2 = Inr (op', st3)
        \<and> rb_service_type other = rb_service_type binding \<and> rb_physical_uid other = rb_physical_uid binding
      \<longrightarrow> other = binding)"
proof -
  obtain st0 where "history st0 st1"
    and 0: "get_resource_binding (rb_service_type binding) (rb_physical_uid binding) st0 = Inr (Some binding, st0)"
    by (rule commit_binding_bound [OF assms(1)])
  then have "history st0 st2"
    using run_history [OF assms(2)] history_order.trans by blast
  then have found: "get_resource_binding (rb_service_type binding) (rb_physical_uid binding) st2 = Inr (Some binding, st2)"
    by (rule get_binding_persists [OF 0])
  moreover have "other = binding"
    if run: "commit_resource_binding ev' other progress' st2 = Inr (op', st3)"
      and same: "rb_service_type other = rb_service_type binding" "rb_physical_uid other = rb_physical_uid binding"
  proof -
    obtain st4 where st4: "history st2 st4"
      and again: "get_resource_binding (rb_service_type other) (rb_physical_uid other) st4 = Inr (Some other, st4)"
      by (rule commit_binding_bound [OF run])
    show ?thesis
      using again [unfolded same] unfolding get_binding_persists [OF found st4] by (rule sym [OF Inr_Pair_Some])
  qed
  ultimately show ?thesis
    by blast
qed

definition sample_binding :: resource_binding where
  "sample_binding = \<lparr>rb_app_id = ''app'', rb_lifecycle_id = ''life'', rb_service_type = UserappBuilder,
     rb_physical_uid = ''uid'', rb_adopted_by_operation = ''op''\<rparr>"

definition adopting_row :: operation_row where
  "adopting_row = (sample_row ''op'' Cmd_StopBuilder)\<lparr>ow_kind := ''adopt_builder'', ow_command_json := None,
     ow_state := ''running'', ow_revision := 2, ow_executor_id := Some ''exec'', ow_step := ''claimed''\<rparr>"

definition adopting :: store where
  "adopting = claimed\<lparr>st_ops := [adopting_row]\<rparr>"

definition adopted :: store where
  "adopted = finished\<lparr>st_apps := [sample_root ''active'' 5],
     st_ops := [adopting_row\<lparr>ow_state := ''succeeded'', ow_revision := 3, ow_step := ''done'', ow_terminal_at_us := Some 1000000\<rparr>],
     st_bindings := [\<lparr>bi_service_type = show_service_type UserappBuilder, bi_physical_uid = ''uid'', bi_app_id = ''app'',
       bi_lifecycle_id = ''life'', bi_adopted_by_operation = ''op'', bi_created_at_us = 1000000\<rparr>]\<rparr>"

lemma sample_adoption:
  "commit_resource_binding sample_env sample_binding (sample_progress 2 Op_Succeeded ''done'' JNull) adopting
    = Inr ((sample_operation Kind_AdoptBuilder None)\<lparr>or_request_id := Some ''request-op'', or_state := Op_Succeeded,
        or_revision := 3, or_executor_id := Some ''exec'', or_step := ''done'', or_created_at := 1000000\<rparr>, adopted)"
  by code_simp

theorem adoption_is_permanent_witness:
  "get_resource_binding UserappBuilder ''uid'' adopted = Inr (Some sample_binding, adopted)"
  using adoption_is_permanent [OF sample_adoption rtranclp.rtrancl_refl] by (simp add: sample_binding_def)

end
