(* ===== verification/Store_Contracts.thy ===== *)
theory Store_Contracts
  imports History_Laws
begin

text \<open>
  What is written is read back: rows and their records, mutex receipts and private configuration
  versions; observations only move forward; and the progress policy of compute controls is the
  walk along the stages of their action.
\<close>


section \<open>Rows and records\<close>




section \<open>Mutex receipts\<close>

lemma inserted_lease:
  assumes "validate_identity context (ec_app_id context) = Inr ()" "validate_receipt receipt = Inr ()" "receipt_in_range receipt"
  shows "lease_binding_of_row \<lparr>le_operation_id = ec_operation_id context, le_app_id = ec_app_id context,
          le_lifecycle_id = ec_lifecycle_id context, le_executor_id = ec_executor_id context,
          le_request_fingerprint = ec_request_fingerprint context, le_receipt_version = 1,
          le_receipt_json = to_text (enc_lease_receipt receipt), le_created_at_us = now\<rparr>
    = Inr \<lparr>lb_context = context, lb_receipt = receipt\<rparr>"
  using assms by (cases "context") (simp add: lease_binding_of_row_def Let_def from_str_def receipt_json.dec_enc storage_r_def)

text \<open>
  C27. A mutex receipt an executor bound is what a recovery reads: after a committed binding, the
  stored receipt decodes to the same owner and the same receipt, on the first binding and on a
  replay.
\<close>

theorem lease_round_trip:
  assumes "bind_operation_lease ev context receipt st = Inr (u, st')" "receipt_in_range receipt"
  shows "get_operation_lease (ec_app_id context) (ec_operation_id context) st'
    = Inr (Some \<lparr>lb_context = context, lb_receipt = receipt\<rparr>, st')"
proof -
  obtain app op previous st1 st2 st3 where
    valid: "validate_identity context (ec_app_id context) = Inr ()" "validate_receipt receipt = Inr ()"
    and 1: "op_current ev (ec_app_id context) (ec_operation_id context) (ec_lifecycle_id context) st = Inr ((app, op), st1)"
    and 2: "check_business_authority ev op st1 = Inr ((), st2)"
    and 3: "get_operation_lease (ec_app_id context) (ec_operation_id context) st2 = Inr (previous, st3)"
    and 4: "(case previous of Some previous \<Rightarrow> tx_require (previous = \<lparr>lb_context = context, lb_receipt = receipt\<rparr>) VersionConflict
      | None \<Rightarrow> insert_lease \<lparr>le_operation_id = ec_operation_id context, le_app_id = ec_app_id context,
          le_lifecycle_id = ec_lifecycle_id context, le_executor_id = ec_executor_id context,
          le_request_fingerprint = ec_request_fingerprint context, le_receipt_version = 1,
          le_receipt_json = to_text (enc_lease_receipt receipt), le_created_at_us = ev_now ev\<rparr>) st3 = Inr (u, st')"
    using assms(1) by (auto simp: bind_operation_lease_def split: if_splits)
  have "st3 = st2"
    by (rule tx_pureD [OF read_only0(8) 3])
  show ?thesis
  proof (cases previous)
    case None
    then show ?thesis
      using 4 inserted_lease [OF valid assms(2)]
      by (auto simp: insert_lease_def insert_row_commits get_operation_lease_def tx_bind_def tx_read_def tx_lift_def transpose_r_def)
  next
    case (Some b)
    then show ?thesis
      using 3 4 \<open>st3 = st2\<close> by auto
  qed
qed

definition sample_receipt_lease :: lease_receipt where
  "sample_receipt_lease = DockerLease UserappBuilder 1 2 ''0123456789abcdef0123456789abcdef''"

definition leased :: store where
  "leased = claimed\<lparr>st_apps := [sample_root ''active'' 4],
     st_leases := [\<lparr>le_operation_id = ''op'', le_app_id = ''app'', le_lifecycle_id = ''life'', le_executor_id = ''exec'',
       le_request_fingerprint = replicate 64 (CHR ''0''), le_receipt_version = 1,
       le_receipt_json = to_text (enc_lease_receipt sample_receipt_lease), le_created_at_us = 1000000\<rparr>]\<rparr>"

lemma sample_lease_bound:
  "bind_operation_lease sample_env sample_context sample_receipt_lease claimed = Inr ((), leased)"
  by code_simp

theorem lease_round_trip_witness:
  "get_operation_lease ''app'' ''op'' leased
    = Inr (Some \<lparr>lb_context = sample_context, lb_receipt = sample_receipt_lease\<rparr>, leased)"
  using lease_round_trip [OF sample_lease_bound] by (simp add: sample_receipt_lease_def receipt_in_range_def u64_max_def)


section \<open>Activity\<close>

text \<open>No observation is lost and none moves back.\<close>

definition activity_forward :: "store \<Rightarrow> store \<Rightarrow> bool" where
  "activity_forward st st' \<longleftrightarrow> (\<forall>r \<in> set (st_activity st). \<exists>r' \<in> set (st_activity st').
    activity_key r' = activity_key r \<and> ac_last_accessed_at_us r \<le> ac_last_accessed_at_us r')"

interpretation forward_order: store_order activity_forward
proof
  fix a b c
  assume ab: "activity_forward a b" and bc: "activity_forward b c"
  show "activity_forward a c"
    unfolding activity_forward_def
  proof
    fix r
    assume "r \<in> set (st_activity a)"
    then obtain r1 where "r1 \<in> set (st_activity b)" "activity_key r1 = activity_key r" "ac_last_accessed_at_us r \<le> ac_last_accessed_at_us r1"
      using ab by (auto simp: activity_forward_def)
    moreover from this obtain r2 where "r2 \<in> set (st_activity c)" "activity_key r2 = activity_key r1" "ac_last_accessed_at_us r1 \<le> ac_last_accessed_at_us r2"
      using bc by (auto simp: activity_forward_def)
    ultimately show "\<exists>r' \<in> set (st_activity c). activity_key r' = activity_key r \<and> ac_last_accessed_at_us r \<le> ac_last_accessed_at_us r'"
      by (intro bexI [of _ r2]) simp_all
  qed
qed (auto simp: activity_forward_def)

lemma claim_app_forward: "tx_rel activity_forward (claim_app a)"
  by (auto simp: tx_rel_def activity_forward_def claim_app_def update_one_commits split: option.splits)

lemma upsert_activity_forward: "tx_rel activity_forward (upsert_activity ev a l at)"
proof (rule tx_relI)
  fix st u st'
  assume "upsert_activity ev a l at st = Inr (u, st')"
  then consider r where "st_activity st' = st_activity st @ [r]"
    | "st_activity st' = update_where (\<lambda>r. activity_key r = (a, l, ''prod'') \<and> ac_last_accessed_at_us r < at)
        (\<lambda>r. r\<lparr>ac_last_accessed_at_us := at, ac_updated_at_us := ev_now ev\<rparr>) (st_activity st)"
    by (auto simp: upsert_activity_def split: if_splits option.splits)
  then show "activity_forward st st'"
  proof cases
    case 2
    let ?f = "\<lambda>r. if activity_key r = (a, l, ''prod'') \<and> ac_last_accessed_at_us r < at
      then r\<lparr>ac_last_accessed_at_us := at, ac_updated_at_us := ev_now ev\<rparr> else r"
    have "?f r \<in> set (st_activity st')" if "r \<in> set (st_activity st)" for r
      using that unfolding 2 update_where_def set_map by (rule imageI)
    moreover have "activity_key (?f r) = activity_key r" "ac_last_accessed_at_us r \<le> ac_last_accessed_at_us (?f r)" for r
      by (simp_all add: activity_key_def)
    ultimately show ?thesis
      unfolding activity_forward_def by blast
  qed (auto simp: activity_forward_def)
qed

lemma flush_activity_forward: "tx_rel activity_forward (flush_activity ev row)"
  unfolding flush_activity_def
  by (rule forward_order.rel_context claim_app_forward upsert_activity_forward store_reads [THEN forward_order.rel_pure])+

text \<open>
  C32. Activity only moves forward: a flushed batch of observations keeps every stored
  observation and never replaces it by an earlier one, whatever the order and the age of the
  observations in the batch.
\<close>

theorem activity_moves_forward:
  assumes "flush_batch ev rows st = Inr (u, st')" "r \<in> set (st_activity st)"
  shows "\<exists>r'. r' \<in> set (st_activity st') \<and> activity_key r' = activity_key r
    \<and> ac_last_accessed_at_us r \<le> ac_last_accessed_at_us r'"
proof -
  have "tx_rel activity_forward (flush_batch ev rows)"
    unfolding flush_batch_def by (rule forward_order.rel_context flush_activity_forward)+
  then have "activity_forward st st'"
    using assms(1) by (rule tx_relD)
  then show ?thesis
    using assms(2) by (auto simp: activity_forward_def)
qed

definition accessed :: "int \<Rightarrow> int \<Rightarrow> store" where
  "accessed revision at = finished\<lparr>st_apps := [sample_root ''active'' revision],
     st_activity := [\<lparr>ac_app_id = ''app'', ac_lifecycle_id = ''life'', ac_scope = ''prod'',
       ac_last_accessed_at_us = at, ac_updated_at_us = 1000000\<rparr>]\<rparr>"

lemma sample_flush:
  "flush_batch sample_env [\<lparr>ay_app_id = ''app'', ay_lifecycle_id = ''life'', ay_lifecycle_epoch = 1, ay_last_accessed = Some 9\<rparr>,
     \<lparr>ay_app_id = ''app'', ay_lifecycle_id = ''life'', ay_lifecycle_epoch = 1, ay_last_accessed = Some 5\<rparr>] (accessed 4 7)
    = Inr ((), accessed 6 9)"
  by code_simp

theorem activity_moves_forward_witness: "list_ex (\<lambda>r'. 7 \<le> ac_last_accessed_at_us r') (st_activity (accessed 6 9))"
  using activity_moves_forward [OF sample_flush, of "hd (st_activity (accessed 4 7))"]
  by (auto simp: accessed_def)


section \<open>Private configuration\<close>

abbreviation version_key :: "config_version_row \<Rightarrow> string \<times> string \<times> string \<times> int" where
  "version_key r \<equiv> (cv_app_id r, cv_lifecycle_id r, cv_scope r, cv_version r)"

text \<open>The version a request saved.\<close>

definition saved_version :: "string \<Rightarrow> operation_scope \<Rightarrow> save_configuration_request \<Rightarrow> int \<Rightarrow> config_version_row \<Rightarrow> bool" where
  "saved_version a scope request version row \<longleftrightarrow> version_key row = (a, sv_lifecycle_id request, scope_name scope, version)
    \<and> cv_request_id row = sv_request_id request \<and> cv_pg_username row = pg_username (sv_pg request)
    \<and> cv_pg_password row = pg_password (sv_pg request) \<and> cv_expected_revision row = sv_expected_revision request"

lemma version_keys: "schema st \<Longrightarrow> unique_keys version_key (st_config_versions st)"
  by (simp add: schema_def constraints_def config_versions_table_def table_ok_def)

text \<open>The two branches of a save: the replay of a request, and a new version.\<close>

definition replayed_save :: "save_configuration_request \<Rightarrow> config_row option \<Rightarrow> config_version_row \<Rightarrow> saved_configuration action" where
  "replayed_save request previous replay =
    (if cv_expected_revision replay \<noteq> sv_expected_revision request
             \<or> cv_pg_username replay \<noteq> pg_username (sv_pg request)
             \<or> cv_pg_password replay \<noteq> pg_password (sv_pg request)
             \<or> cv_payload_version replay \<noteq> 1
          then tx_fail (InvalidOperation ''Configuration save identity was reused with different input'')
          else
            tx_bind (tx_some (InvalidOperation ''Configuration replay has no current head'') previous) (\<lambda>previous.
            tx_bind (tx_lift (config_status previous)) (\<lambda>status.
            tx_return \<lparr>sd_config_version = cv_version replay, sd_status = status\<rparr>)))"

definition save_head ::
  "env \<Rightarrow> string \<Rightarrow> operation_scope \<Rightarrow> save_configuration_request \<Rightarrow> string \<Rightarrow> config_row option \<Rightarrow> int \<Rightarrow> int \<Rightarrow>
   saved_configuration action" where
  "save_head ev app_id scope_value request scope previous revision version =
        tx_then ((if previous = None
             then let row = \<lparr>cf_app_id = app_id, cf_lifecycle_id = sv_lifecycle_id request, cf_scope = scope,
                 cf_revision = version, cf_saved_version = version, cf_applied_version = None,
                 cf_applying_version = None, cf_applying_operation_id = None,
                 cf_updated_at_us = ev_now ev\<rparr> in
               insert_row st_configs_update
                 (\<lambda>st. config_checks st row
                   \<and> lookup (\<lambda>r. (cf_app_id r, cf_lifecycle_id r, cf_scope r)) (st_configs st)
                       (app_id, sv_lifecycle_id request, scope) = None) row
             else update_one st_configs st_configs_update
               (\<lambda>r. cf_app_id r = app_id \<and> cf_lifecycle_id r = sv_lifecycle_id request
                 \<and> cf_scope r = scope \<and> cf_revision r = revision)
               (\<lambda>r. r\<lparr>cf_revision := version, cf_saved_version := version, cf_updated_at_us := ev_now ev\<rparr>)
               config_checks VersionConflict)) (
        tx_bind (config_head app_id (sv_lifecycle_id request) scope_value) (\<lambda>found.
        tx_bind (tx_some NotFound found) (\<lambda>row.
        tx_bind (tx_lift (config_status row)) (\<lambda>status.
        tx_return \<lparr>sd_config_version = version, sd_status = status\<rparr>))))"

definition new_version :: "env \<Rightarrow> string \<Rightarrow> save_configuration_request \<Rightarrow> string \<Rightarrow> int \<Rightarrow> int \<Rightarrow> config_version_row" where
  "new_version ev app_id request scope revision version =
     \<lparr>cv_app_id = app_id, cv_lifecycle_id = sv_lifecycle_id request, cv_scope = scope,
              cv_version = version, cv_request_id = sv_request_id request, cv_expected_revision = revision,
              cv_payload_version = 1, cv_pg_username = pg_username (sv_pg request),
              cv_pg_password = pg_password (sv_pg request), cv_created_at_us = ev_now ev\<rparr>"

definition fresh_save ::
  "env \<Rightarrow> string \<Rightarrow> operation_scope \<Rightarrow> save_configuration_request \<Rightarrow> string \<Rightarrow> config_row option \<Rightarrow> saved_configuration action" where
  "fresh_save ev app_id scope_value request scope previous =
        tx_bind (repo_app ev app_id) (\<lambda>found.
        tx_bind (tx_some NotFound found) (\<lambda>app.
        tx_bind (active ev app) (\<lambda>active.
        tx_then ((case record_slot active scope_value of
              None \<Rightarrow> tx_return ()
            | Some operation \<Rightarrow>
                (case or_command operation of
                   Some (Cmd_ResetDatabasePassword _ _) \<Rightarrow> tx_fail (OperationInProgress (blocker operation))
                 | _ \<Rightarrow> tx_return ()))) (
        tx_bind (tx_lift (transpose_r config_status previous)) (\<lambda>status.
        let revision = (case status of None \<Rightarrow> 0 | Some s \<Rightarrow> fs_revision s) in
        if revision \<noteq> sv_expected_revision request
        then tx_fail VersionConflict else
        tx_bind (tx_some (InvalidOperation ''Configuration version exhausted'') (checked_add revision 1)) (\<lambda>version.
        tx_then (insert_version (new_version ev app_id request scope revision version)) (
        save_head ev app_id scope_value request scope previous revision version)))))))"

lemma save_configuration_branches:
  "save_configuration ev app_id scope_value request =
    tx_bind (tx_lift (configuration_scope scope_value)) (\<lambda>scope.
    tx_then (tx_lift (map_err (\<lambda>_. InvalidOperation ''Invalid configuration save request identity'')
        (validate_identifier (sv_request_id request) ''request_id''))) (
    tx_then (tx_lift (crate_validate_pg (sv_pg request))) (
    if sv_expected_revision request < 0
    then tx_fail (InvalidOperation ''Configuration revision must not be negative'') else
    tx_then (current_app ev app_id (sv_lifecycle_id request)) (
    tx_bind (config_head app_id (sv_lifecycle_id request) scope_value) (\<lambda>previous.
    tx_bind (tx_read (\<lambda>st. lookup (\<lambda>r. (cv_app_id r, cv_lifecycle_id r, cv_scope r, cv_request_id r))
        (st_config_versions st) (app_id, sv_lifecycle_id request, scope, sv_request_id request))) (\<lambda>replay.
    (case replay of
        Some replay \<Rightarrow> replayed_save request previous replay
      | None \<Rightarrow> fresh_save ev app_id scope_value request scope previous)))))))"
  unfolding save_configuration_def replayed_save_def fresh_save_def save_head_def new_version_def by (rule refl)

lemma configuration_scope_name: "configuration_scope scope = Inr name \<Longrightarrow> name = scope_name scope"
  by (auto simp: configuration_scope_def split: if_splits)

lemma save_head_versions:
  assumes "save_head ev a s request scope previous revision version st = Inr (saved, st')"
  shows "sd_config_version saved = version" "st_config_versions st' = st_config_versions st"
  using assms
  by (auto simp: save_head_def insert_row_commits update_one_commits tx_some_def Let_def
      dest!: tx_pureD [OF read_only0(10)] split: if_splits)

lemma fresh_save_row:
  assumes "fresh_save ev a scope request (scope_name scope) previous st = Inr (saved, st')"
  shows "\<exists>row \<in> set (st_config_versions st'). saved_version a scope request (sd_config_version saved) row"
proof -
  obtain revision version st1 st2 where "revision = sv_expected_revision request"
    and 1: "insert_version (new_version ev a request (scope_name scope) revision version) st1 = Inr ((), st2)"
    and 2: "save_head ev a scope request (scope_name scope) previous revision version st2 = Inr (saved, st')"
    using assms by (auto simp: fresh_save_def tx_some_def Let_def split: if_splits)
  then show ?thesis
    using save_head_versions [OF 2] by (auto simp: insert_version_def insert_row_commits new_version_def saved_version_def)
qed

lemma save_configuration_row:
  assumes "save_configuration ev a scope request st = Inr (saved, st')"
  shows "\<exists>row \<in> set (st_config_versions st'). saved_version a scope request (sd_config_version saved) row"
proof -
  obtain name previous st1 st2 where name: "configuration_scope scope = Inr name"
    and branch: "(case lookup (\<lambda>r. (cv_app_id r, cv_lifecycle_id r, cv_scope r, cv_request_id r)) (st_config_versions st2)
        (a, sv_lifecycle_id request, name, sv_request_id request) of
        Some replay \<Rightarrow> replayed_save request previous replay
      | None \<Rightarrow> fresh_save ev a scope request name previous) st2 = Inr (saved, st')"
    using assms by (auto simp: save_configuration_branches split: if_splits)
  show ?thesis
  proof (cases "lookup (\<lambda>r. (cv_app_id r, cv_lifecycle_id r, cv_scope r, cv_request_id r)) (st_config_versions st2)
      (a, sv_lifecycle_id request, name, sv_request_id request)")
    case None
    then show ?thesis
      using branch fresh_save_row configuration_scope_name [OF name] by simp
  next
    case (Some replay)
    then show ?thesis
      using branch lookup_SomeD [OF Some] configuration_scope_name [OF name]
      by (auto simp: replayed_save_def saved_version_def tx_some_def split: if_splits)
  qed
qed

text \<open>
  C28. Private configuration is versioned and immutable: when a save commits, first time or replayed,
  the version it reports exists under the application, lifecycle and scope of the request with
  exactly the credentials of the request, and every later store returns that same row for it.
\<close>

theorem configuration_versions_immutable:
  assumes "reachable st" "save_configuration ev a scope request st = Inr (saved, st1)"
    "store_step\<^sup>*\<^sup>* st1 st2"
  shows "\<exists>row. find_version a (sv_lifecycle_id request) (scope_name scope) (sd_config_version saved) st2 = Inr (Some row, st2)
    \<and> cv_request_id row = sv_request_id request \<and> cv_pg_username row = pg_username (sv_pg request)
    \<and> cv_pg_password row = pg_password (sv_pg request)"
proof -
  have schema: "schema st1"
    by (rule tx_keepsD [OF save_configuration_schema assms(2) reachable_schema [OF assms(1)] ])
  obtain row where row: "row \<in> set (st_config_versions st1)" "saved_version a scope request (sd_config_version saved) row"
    using save_configuration_row [OF assms(2)] by blast
  then have "lookup version_key (st_config_versions st1) (a, sv_lifecycle_id request, scope_name scope, sd_config_version saved) = Some row"
    using lookup_iff_mem [OF version_keys [OF schema] ] by (simp add: saved_version_def)
  then have "lookup version_key (st_config_versions st2) (a, sv_lifecycle_id request, scope_name scope, sd_config_version saved) = Some row"
    by (rule history_lookup(2) [OF run_history [OF assms(3)] ])
  then show ?thesis
    using row(2) by (simp add: find_version_def tx_read_def saved_version_def)
qed

definition sample_save :: save_configuration_request where
  "sample_save = \<lparr>sv_lifecycle_id = ''life'', sv_request_id = ''save'', sv_expected_revision = 0,
     sv_pg = \<lparr>pg_username = ''admin'', pg_password = ''secret''\<rparr>\<rparr>"

definition sample_saved :: store where
  "sample_saved = finished\<lparr>st_apps := [sample_root ''active'' 5],
     st_config_versions := [\<lparr>cv_app_id = ''app'', cv_lifecycle_id = ''life'', cv_scope = ''prod'', cv_version = 1,
       cv_request_id = ''save'', cv_expected_revision = 0, cv_payload_version = 1, cv_pg_username = ''admin'',
       cv_pg_password = ''secret'', cv_created_at_us = 1000000\<rparr>],
     st_configs := [\<lparr>cf_app_id = ''app'', cf_lifecycle_id = ''life'', cf_scope = ''prod'', cf_revision = 1,
       cf_saved_version = 1, cf_applied_version = None, cf_applying_version = None, cf_applying_operation_id = None,
       cf_updated_at_us = 1000000\<rparr>]\<rparr>"

lemma saved_sample:
  "save_configuration sample_env ''app'' Scope_Prod sample_save finished = Inr (\<lparr>sd_config_version = 1,
     sd_status = \<lparr>fs_lifecycle_id = ''life'', fs_scope = Scope_Prod, fs_revision = 1, fs_saved_version = 1,
       fs_applied_version = None, fs_applying_version = None, fs_applying_operation_id = None, fs_pending = True\<rparr>\<rparr>, sample_saved)"
  by code_simp

theorem configuration_versions_immutable_witness:
  "\<exists>row. find_version ''app'' ''life'' ''prod'' 1 sample_saved = Inr (Some row, sample_saved) \<and> cv_pg_password row = ''secret''"
  using configuration_versions_immutable [OF sample_reachable(5) saved_sample rtranclp.rtrancl_refl]
  by (simp add: sample_save_def name_of_def scope_names_def) blast


section \<open>Compute stages\<close>

text \<open>
  C31. The progress policy of a compute control is the walk of its action: a report is admitted
  exactly when it repeats or takes the next stage on the path of the action (stop, or stop and
  start again), completion and success come together, failures carry diagnostics, progress
  carries none, and a plain failure is only possible while nothing was mutated; so the
  stage never goes back.
\<close>

theorem compute_progress_policy:
  "(validate_compute_progress_transition action current_stage state next_stage code message lease = Inr ()
     \<longleftrightarrow> progress_admitted action current_stage state next_stage code message lease)
   \<and> (progress_admitted action (Some stage) state next_stage code message lease \<longrightarrow> stage_rank stage \<le> stage_rank next_stage)"
proof (intro conjI impI progress_policy_iff)
  assume "progress_admitted action (Some stage) state next_stage code message lease"
  then have "path_step action stage next_stage"
    by (simp add: progress_admitted_def)
  then show "stage_rank stage \<le> stage_rank next_stage"
    by (rule path_step_rank)
qed

theorem compute_progress_policy_witness:
  "validate_compute_progress_transition Act_Stop (Some St_Stopped) Ctl_Succeeded St_Completed Diag_Absent Diag_Absent True = Inr ()
   \<and> stage_rank St_Stopped \<le> stage_rank St_Completed"
proof -
  have "progress_admitted Act_Stop (Some St_Stopped) Ctl_Succeeded St_Completed Diag_Absent Diag_Absent True"
    by (simp add: progress_admitted_def path_step_code)
  then show ?thesis
    using compute_progress_policy by blast
qed

end
