(* ===== verification/Recreation.thy ===== *)
theory Recreation
  imports History_Laws
begin

text \<open>
  The recreation of a deleted application: a new lifecycle with empty slots on the same root, and
  nothing left in flight of the old one.
\<close>

lemma row_matches_revision [simp]: "row_matches app (r\<lparr>ap_control_revision := v\<rparr>) = row_matches app r"
  by (simp add: row_matches_def)

lemma claim_reads:
  assumes "claim_app a st = Inr (u, st')"
  shows "repo_app ev a st' = Inr (Some app, st') \<longleftrightarrow> repo_app ev a st = Inr (Some app, st)" "st_requests st' = st_requests st"
  using assms
  by (auto simp: claim_app_def update_one_commits repo_app_iff lookup_update_where split: option.splits if_splits)

lemma saved_app:
  assumes run: "save_app ev app' l v st = Inr (u, st')" and st: "schema st"
  shows "\<exists>row. lookup ap_app_id (st_apps st') (lr_app_id app') = Some row \<and> row_matches app' row" "st_slots st' = st_slots st"
proof -
  obtain row where row: "row_matches app' row"
    and one: "count_where (\<lambda>r. ap_app_id r = ap_app_id row \<and> ap_lifecycle_id r = l \<and> ap_metadata_revision r = v)
      (st_apps st) = 1"
    and st': "st' = st_apps_update (update_where
      (\<lambda>r. ap_app_id r = ap_app_id row \<and> ap_lifecycle_id r = l \<and> ap_metadata_revision r = v)
      (\<lambda>r. row\<lparr>ap_control_revision := ap_control_revision r\<rparr>)) st"
    using run by (auto simp: save_app_def update_one_commits dest: application_row_of_matches)
  obtain r where r: "lookup ap_app_id (st_apps st) (ap_app_id row) = Some r" "ap_lifecycle_id r = l" "ap_metadata_revision r = v"
    using iffD1 [OF count_where_key_one_iff [OF schema_keys(1) [OF st] ] one] by auto
  have "lookup ap_app_id (st_apps st') (ap_app_id row) = Some (row\<lparr>ap_control_revision := ap_control_revision r\<rparr>)"
    using r lookup_key [OF r(1)] unfolding st' by (simp, subst lookup_update_where) auto
  then show "\<exists>row. lookup ap_app_id (st_apps st') (lr_app_id app') = Some row \<and> row_matches app' row" "st_slots st' = st_slots st"
    using row st' by (auto simp: row_matches_def)
qed

lemma recreate_freshE:
  assumes run: "recreate ev a l i st = Inr (app', st')"
    and fresh: "lookup (\<lambda>r. (rq_app_id r, rq_request_id r)) (st_requests st) (a, i) = None"
  obtains app epoch st1 st2 st3 st4 where "claim_app a st = Inr ((), st1)" "repo_app ev a st1 = Inr (Some app, st1)"
    "lr_lifecycle_id app = l" "lr_state app = App_Deleted" "slots_is_empty (lr_active_operations app)"
    "retire_lifecycle_heads ev app st1 = Inr ((), st2)" "checked_add (lr_lifecycle_epoch app) 1 = Some epoch"
    "app' = recreated ev app epoch"
    "save_app ev app' l (lr_metadata_revision app)
      (st_activity_update (delete_where (\<lambda>r. ac_app_id r = a \<and> ac_lifecycle_id r = l)) (st_slots_update (delete_where (\<lambda>r. sl_app_id r = a)) st2))
      = Inr ((), st3)" "create_slots a (lr_lifecycle_id app') st3 = Inr ((), st4)"
    "insert_request \<lparr>rq_app_id = a, rq_request_id = i, rq_target_kind = ''recreate'',
              rq_operation_id = None, rq_lifecycle_id = None,
              rq_previous_lifecycle_id = Some l,
              rq_new_lifecycle_id = Some (lr_lifecycle_id app'), rq_created_at_us = ev_now ev\<rparr> st4 = Inr ((), st')"
proof -
  obtain st1 app st1' where 1: "claim_app a st = Inr ((), st1)" "repo_app ev a st1 = Inr (Some app, st1')"
    using run by (auto simp: recreate_def tx_some_def)
  have eq: "st1' = st1"
    by (rule tx_pureD [OF store_reads(1) 1(2)])
  have none: "lookup (\<lambda>r. (rq_app_id r, rq_request_id r)) (st_requests st1) (a, i) = None"
    using fresh claim_reads(2) [OF 1(1)] by simp
  show thesis
    using run 1 eq none
    by (auto simp: recreate_def tx_some_def repo_request_def delete_commits Let_def split: if_splits intro!: that)
qed

lemma recreated_reads:
  assumes ev: "ev_timestamp ev (ev_now ev)" and app: "application_storable ev app" "slots_is_empty (lr_active_operations app)"
    and uuid: "ev_uuid ev \<noteq> []" and epoch: "checked_add (lr_lifecycle_epoch app) 1 = Some epoch"
  shows "application_storable ev (recreated ev app epoch)"
    "slots_row_of (recreated ev app epoch) = \<lparr>sl_app_id = lr_app_id app, sl_lifecycle_id = ev_uuid ev,
       sl_dev_operation_id = None, sl_prod_operation_id = None, sl_application_operation_id = None\<rparr>"
  using assms
  by (auto simp: application_storable_def recreated_def runtime_policy_default_def checked_add_Some_iff slots_row_of_def slots_is_empty_def)

lemma nothing_open:
  assumes st: "reachable st" and app: "repo_app ev a st = Inr (Some app, st)" "slots_is_empty (lr_active_operations app)"
    and row: "row \<in> set (st_ops st)" "ow_app_id row = a"
  shows "ow_terminal_at_us row \<noteq> None"
proof
  assume "ow_terminal_at_us row = None"
  then obtain r where r: "lk_roots (locks st) a = Some r" "slot (lk_slots r) (scope_text (ow_scope row)) = Some (ow_operation_id row)"
    using open_is_heldD [OF reachable_locks [OF st] op_lock [OF st row(1)] ] row(2) by auto
  have "r = root_of app"
    using root_locks [OF repo_app_at(1) [OF app(1)] ] repo_app_at(2) [OF app(1)] r(1) by simp
  then show False
    using r(2) app(2) by (cases "scope_text (ow_scope row)") (simp_all add: root_of_def slots_is_empty_def)
qed

lemma two_deletions:
  assumes "schema st"
  shows "schema (st_activity_update (delete_where q) (st_slots_update (delete_where p) st))"
proof -
  have st1: "schema (st_slots_update (delete_where p) st)"
    using slots.present [OF assms] by (intro slots.replaced [OF assms]) (simp_all add: slots_table_def)
  show ?thesis
    using activity.present [OF st1] by (intro activity.replaced [OF st1]) (simp_all add: activity_table_def)
qed

lemma recreate_replay:
  assumes run: "recreate ev a l i st = Inr (again, st')" and found: "repo_app ev a st = Inr (Some app, st)"
    and mapping: "\<exists>row. lookup (\<lambda>r. (rq_app_id r, rq_request_id r)) (st_requests st) (a, i) = Some row \<and> rq_target_kind row = ''recreate''"
  shows "again = app"
proof -
  obtain st1 where 1: "claim_app a st = Inr ((), st1)"
    using run by (auto simp: recreate_def)
  have "repo_app ev a st1 = Inr (Some app, st1)"
    using found claim_reads(1) [OF 1] by simp
  then show ?thesis
    using run 1 mapping claim_reads(2) [OF 1]
    by (auto simp: recreate_def tx_some_def repo_request_def split: if_splits)
qed

lemma recreation_effect:
  assumes st: "schema st" and run: "recreate ev a l i st = Inr (app', st')"
    and fresh: "lookup (\<lambda>r. (rq_app_id r, rq_request_id r)) (st_requests st) (a, i) = None"
    and ev: "ev_timestamp ev (ev_now ev)" "ev_uuid ev \<noteq> []"
  obtains app where "repo_app ev a st = Inr (Some app, st)" "lr_lifecycle_id app = l" "lr_state app = App_Deleted"
    "slots_is_empty (lr_active_operations app)" "app' = recreated ev app (lr_lifecycle_epoch app + 1)"
    "st_ops st' = st_ops st" "repo_app ev a st' = Inr (Some app', st')"
    "\<exists>row. lookup (\<lambda>r. (rq_app_id r, rq_request_id r)) (st_requests st') (a, i) = Some row \<and> rq_target_kind row = ''recreate''"
proof -
  obtain app epoch st1 st2 st3 st4 where 1: "claim_app a st = Inr ((), st1)" "repo_app ev a st1 = Inr (Some app, st1)"
    and app: "lr_lifecycle_id app = l" "lr_state app = App_Deleted" "slots_is_empty (lr_active_operations app)"
    and 2: "retire_lifecycle_heads ev app st1 = Inr ((), st2)" and epoch: "checked_add (lr_lifecycle_epoch app) 1 = Some epoch"
    and app': "app' = recreated ev app epoch"
    and 3: "save_app ev app' l (lr_metadata_revision app)
      (st_activity_update (delete_where (\<lambda>r. ac_app_id r = a \<and> ac_lifecycle_id r = l)) (st_slots_update (delete_where (\<lambda>r. sl_app_id r = a)) st2))
      = Inr ((), st3)" and 4: "create_slots a (lr_lifecycle_id app') st3 = Inr ((), st4)"
    and 5: "insert_request \<lparr>rq_app_id = a, rq_request_id = i, rq_target_kind = ''recreate'',
              rq_operation_id = None, rq_lifecycle_id = None,
              rq_previous_lifecycle_id = Some l,
              rq_new_lifecycle_id = Some (lr_lifecycle_id app'), rq_created_at_us = ev_now ev\<rparr> st4 = Inr ((), st')"
    by (rule recreate_freshE [OF run fresh])
  have read: "repo_app ev a st = Inr (Some app, st)"
    using 1(2) claim_reads(1) [OF 1(1)] by simp
  have id: "lr_app_id app = a"
    by (rule repo_app_at(2) [OF read])
  have epoch1: "epoch = lr_lifecycle_epoch app + 1"
    using epoch by (simp add: checked_add_Some_iff)
  have st1: "schema st1"
    by (rule tx_keepsD [OF claim_app_schema 1(1) st])
  have st2: "schema st2" "st_ops st2 = st_ops st1"
    using tx_relD [OF retire_quiet 2] st1 by (simp_all add: quiet_def)
  let ?st2 = "st_activity_update (delete_where (\<lambda>r. ac_app_id r = a \<and> ac_lifecycle_id r = l)) (st_slots_update (delete_where (\<lambda>r. sl_app_id r = a)) st2)"
  have schema2: "schema ?st2"
    by (rule two_deletions [OF st2(1)])
  have ops: "st_ops st' = st_ops st"
    using root_ops(2) [OF 1(1)] st2(2) root_ops(4) [OF 3] root_ops(3) [OF 4] tx_relD [OF rows_aside(6) 5] by (simp add: aside_def)
  have storable: "application_storable ev app"
    using read by (simp add: repo_app_iff)
  note new = recreated_reads [OF ev(1) storable app(3) ev(2) epoch, folded app']
  have ids: "lr_app_id app' = a" "lr_lifecycle_id app' = ev_uuid ev"
    by (simp_all add: app' recreated_def id)
  have st': "st_apps st' = st_apps st3" "lookup sl_app_id (st_slots st') a = Some (slots_row_of app')"
    using 4 5 new(2) ids id by (auto simp: create_slots_def insert_request_def insert_row_commits Let_def)
  have found: "repo_app ev a st' = Inr (Some app', st')"
    using saved_app(1) [OF 3 schema2] st' new(1) ids by (simp add: repo_app_iff)
  have mapping: "\<exists>row. lookup (\<lambda>r. (rq_app_id r, rq_request_id r)) (st_requests st') (a, i) = Some row \<and> rq_target_kind row = ''recreate''"
    using 5 by (auto simp: insert_request_def insert_row_commits)
  show thesis
    using read app app' [unfolded epoch1] ops found mapping by (rule that)
qed


definition deleted_app :: store where
  "deleted_app = empty_store\<lparr>st_apps := [sample_root ''deleted'' 6], st_slots := [sample_slots None None None]\<rparr>"

definition recreating_env :: env where
  "recreating_env = sample_env\<lparr>ev_uuid := ''life-2''\<rparr>"

definition recreated_app :: store where
  "recreated_app = empty_store\<lparr>
     st_apps := [(sample_root ''active'' 7)\<lparr>ap_lifecycle_id := ''life-2'', ap_lifecycle_epoch := 2\<rparr>],
     st_slots := [(sample_slots None None None)\<lparr>sl_lifecycle_id := ''life-2''\<rparr>],
     st_requests := [\<lparr>rq_app_id = ''app'', rq_request_id = ''again'', rq_target_kind = ''recreate'', rq_operation_id = None,
       rq_lifecycle_id = None, rq_previous_lifecycle_id = Some ''life'', rq_new_lifecycle_id = Some ''life-2'',
       rq_created_at_us = 1000000\<rparr>]\<rparr>"

lemma sample_recreation:
  "recreate recreating_env ''app'' ''life'' ''again'' deleted_app
    = Inr ((sample_app Scope_Dev)\<lparr>lr_lifecycle_id := ''life-2'', lr_lifecycle_epoch := 2, lr_created_at := 1000000,
        lr_active_operations := active_operations_default\<rparr>, recreated_app)"
  by code_simp

lemma deleted_app_schema: "schema deleted_app"
  by code_simp


end
