(* ===== verification/Compute_Guard.thy ===== *)
theory Compute_Guard
  imports History_Laws
begin

text \<open>
  Business operations beside compute controls: nothing is admitted in a scope whose current
  compute control is not settled.
\<close>

lemma current_control_pure: "tx_pure (current_control ev app scope)"
  by (rule store_reads)

lemma guard_each:
  assumes "guard_admission ev app s st = Inr (u, st')" "scope \<in> set (guarded_scopes s)"
  shows "\<exists>found. current_control ev app scope st = Inr (found, st) \<and> (\<forall>c. found = Some c \<longrightarrow> ctl_is_terminal (ctl_state c))"
proof -
  have each: "\<exists>found. current_control ev app scope st = Inr (found, st) \<and> (\<forall>c. found = Some c \<longrightarrow> ctl_is_terminal (ctl_state c))"
    if "tx_each (\<lambda>scope. tx_bind (current_control ev app scope) (\<lambda>found. case found of None \<Rightarrow> tx_return ()
        | Some control \<Rightarrow> tx_require (ctl_is_terminal (ctl_state control)) (control_conflict control))) scopes st = Inr (u, st')"
      "scope \<in> set scopes" for scopes st u st'
    using that
  proof (induction scopes arbitrary: st)
    case (Cons s scopes)
    then obtain found st1 where "current_control ev app s st = Inr (found, st1)" "\<forall>c. found = Some c \<longrightarrow> ctl_is_terminal (ctl_state c)"
      "tx_each (\<lambda>scope. tx_bind (current_control ev app scope) (\<lambda>found. case found of None \<Rightarrow> tx_return ()
        | Some control \<Rightarrow> tx_require (ctl_is_terminal (ctl_state control)) (control_conflict control))) scopes st1 = Inr (u, st')"
      by (auto split: option.splits)
    moreover from this(1) have "st1 = st"
      by (rule tx_pureD [OF current_control_pure])
    ultimately show ?case
      using Cons.IH [of st] Cons.prems(2) by auto
  qed simp
  show ?thesis
    by (rule each [OF assms(1) [unfolded guard_admission_def] assms(2)])
qed

abbreviation find_head :: "store \<Rightarrow> string \<Rightarrow> operation_scope \<Rightarrow> intent_row option" where
  "find_head st a scope \<equiv> lookup (\<lambda>r. (it_app_id r, it_scope r)) (st_intents st) (a, scope_name scope)"

lemma current_control_head:
  assumes "current_control ev app scope st = Inr (found, st')" "find_head st (lr_app_id app) scope = Some head"
    "it_lifecycle_id head = lr_lifecycle_id app" "it_control_operation_id head = Some i"
  shows "\<exists>row control. lookup cc_operation_id (st_controls st) i = Some row \<and> decode_control ev row = Inr control \<and> found = Some control"
proof -
  have "it_app_id head = lr_app_id app" "it_scope head = scope_name scope"
    using lookup_SomeD [OF assms(2)] by simp_all
  then have "read_scoped_head ev app scope st = Inr (Head_Current head, st)"
    using assms(2,3) by (simp add: read_scoped_head_def find_intent_def classify_scoped_head_def tx_bind_def tx_read_def tx_return_def)
  then show ?thesis
    using assms(1,4)
    by (auto simp: current_control_def get_control_def tx_some_def transpose_r_def split: option.splits if_splits)
qed

lemma decode_control_terminal:
  assumes "decode_control ev row = Inr control" "ctl_is_terminal (ctl_state control)"
  shows "cc_state row \<in> {''succeeded'', ''failed'', ''superseded''}"
proof -
  have "compute_state_of (cc_state row) = Inr (ctl_state control)"
    using assms(1) by (auto simp: decode_control_def split: if_splits)
  then show ?thesis
    using assms(2) by (auto simp: compute_state_of_def name_in_def compute_state_names_def split: if_splits)
qed

lemma ensure_heads:
  assumes "ensure ev proposed st = Inr (app, st')"
  shows "st_intents st' = st_intents st" "st_controls st' = st_controls st"
proof -
  obtain row inserted st1 st2 st3 where 1: "insert_application row st = Inr (inserted, st1)" "claim_app (ap_app_id row) st1 = Inr ((), st2)"
    "(if inserted then create_slots (ap_app_id row) (ap_lifecycle_id row) else tx_return ()) st2 = Inr ((), st3)"
    "repo_app ev (ap_app_id row) st3 = Inr (Some app, st')"
    using assms by (auto simp: ensure_def ensure_with_created_def tx_some_def)
  have "st' = st3"
    by (rule tx_pureD [OF store_reads(1) 1(4)])
  then show "st_intents st' = st_intents st" "st_controls st' = st_controls st"
    using 1(1-3)
    by (auto simp: insert_application_def claim_app_def create_slots_def update_one_commits insert_row_commits Let_def
        split: if_splits option.splits)
qed

lemma accepted_guard:
  assumes "admit_with_configuration ev request input pg st = Inr (Accepted op, st')"
  shows "\<exists>app st1. guard_admission ev app (or_scope op) st1 = Inr ((), st1) \<and> lr_app_id app = or_app_id op
    \<and> lr_lifecycle_id app = or_lifecycle_id op \<and> st_intents st1 = st_intents st \<and> st_controls st1 = st_controls st"
proof -
  obtain proposed previous by_id mapping by_request records app st1 st2 st3 st4 st5 st6 where
    1: "ensure ev proposed st = Inr (previous, st1)"
    and 2: "repo_operation ev (ad_app_id request) (ad_operation_id request) st1 = Inr (by_id, st2)"
    and 3: "(case ad_request_id request of None \<Rightarrow> tx_return None | Some i \<Rightarrow> repo_request (ad_app_id request) i) st2
      = Inr (mapping, st3)"
    and 4: "mapped_operation ev (ad_app_id request) mapping st3 = Inr (by_request, st4)"
    and 5: "active ev previous st4 = Inr (records, st5)"
    and 6: "admission (ev_now ev) previous request (opt_or by_id by_request) records = Inr (Accepted op, app)"
    and 7: "store_accepted ev input pg app previous op st5 = Inr ((), st6)"
    using assms by (auto simp: admit_with_configuration_def tx_some_def split: if_splits)
  have pure: "st2 = st1" "st3 = st2" "st4 = st3" "st5 = st4"
    using tx_pureD [OF store_reads(2) 2] 3 tx_pureD [OF mapped_operation_pure 4] tx_pureD [OF active_pure 5]
    by (auto simp: repo_request_def split: option.splits)
  obtain st7 where guard: "guard_admission ev app (or_scope op) st5 = Inr ((), st7)"
    using 7 by (auto simp: store_accepted_def)
  have "st7 = st5"
    by (rule tx_pureD [OF guard_admission_pure guard])
  moreover have "lr_app_id app = or_app_id op \<and> lr_lifecycle_id app = or_lifecycle_id op"
    using admission_Accepted_fresh [OF 6] by (auto elim!: admit_fresh_AcceptedE simp: admitted_operation_def)
  ultimately show ?thesis
    using guard ensure_heads [OF 1] pure by metis
qed

text \<open>
  C12. No business operation starts beside an unsettled compute control: when an operation is
  accepted, every compute control that is current in a scope the operation touches (both
  environments for an application-wide one) has succeeded, failed or been superseded.
\<close>

theorem admission_respects_compute_controls:
  assumes "admit_with_configuration ev request input pg st = Inr (Accepted op, st')"
    and "scope \<in> set (guarded_scopes (or_scope op))"
    and "lookup (\<lambda>r. (it_app_id r, it_scope r)) (st_intents st) (or_app_id op, scope_name scope) = Some head"
    and "it_lifecycle_id head = or_lifecycle_id op" "it_control_operation_id head = Some i"
  shows "\<exists>row. lookup cc_operation_id (st_controls st) i = Some row
    \<and> cc_state row \<in> {''succeeded'', ''failed'', ''superseded''}"
proof -
  obtain app st1 where guard: "guard_admission ev app (or_scope op) st1 = Inr ((), st1)"
    and app: "lr_app_id app = or_app_id op" "lr_lifecycle_id app = or_lifecycle_id op"
    and st1: "st_intents st1 = st_intents st" "st_controls st1 = st_controls st"
    using accepted_guard [OF assms(1)] by blast
  obtain found where "current_control ev app scope st1 = Inr (found, st1)" "\<forall>c. found = Some c \<longrightarrow> ctl_is_terminal (ctl_state c)"
    using guard_each [OF guard assms(2)] by blast
  then show ?thesis
    using current_control_head [of ev app scope st1 found st1 head i] assms(3-5) app st1 decode_control_terminal by fastforce
qed

definition sample_control :: control_row where
  "sample_control = \<lparr>cc_operation_id = ''stop'', cc_app_id = ''app'', cc_lifecycle_id = ''life'', cc_scope = ''dev'',
     cc_generation = 1, cc_revision = 2, cc_action = ''stop'', cc_state = ''succeeded'', cc_request_id = ''stop'',
     cc_request_fingerprint = replicate 64 (CHR ''0''), cc_executor_id = Some ''exec'', cc_stage = ''completed'',
     cc_evidence_json = to_text (JArr []), cc_checkpoint_json = to_text JNull, cc_lease_json = None, cc_error_code = None,
     cc_error_message = None, cc_created_at_us = 1000000, cc_updated_at_us = 1000000, cc_terminal_at_us = Some 1000000\<rparr>"

definition sample_head :: intent_row where
  "sample_head = \<lparr>it_app_id = ''app'', it_scope = ''dev'',
     it_lifecycle_id = ''life'', it_generation = 1, it_revision = 1, it_desired_state = ''stopped'',
     it_control_operation_id = Some ''stop'', it_updated_at_us = 1000000\<rparr>"

definition stopped :: store where
  "stopped = finished\<lparr>st_controls := [sample_control], st_intents := [sample_head]\<rparr>"

definition restarted :: store where
  "restarted = stopped\<lparr>st_apps := [sample_root ''active'' 5],
     st_ops := st_ops finished @ [sample_row ''again'' Cmd_RestartBuilder],
     st_slots := [sample_slots (Some ''again'') None None],
     st_requests := st_requests finished @ [sample_mapping ''again'']\<rparr>"

lemma admitted_after_stop:
  "admit sample_env (sample_request ''again'' Cmd_RestartBuilder) stopped
    = Inr (Accepted (sample_admitted ''again'' Cmd_RestartBuilder), restarted)"
  by code_simp

theorem admission_respects_compute_controls_witness:
  "\<exists>row. lookup cc_operation_id (st_controls stopped) ''stop'' = Some row \<and> cc_state row \<in> {''succeeded'', ''failed'', ''superseded''}"
  by (rule admission_respects_compute_controls [OF admitted_after_stop [unfolded admit_def admit_with_input_def],
        where scope = Scope_Dev and head = sample_head])
     (simp_all add: stopped_def sample_head_def sample_admitted_def sample_operation_def name_of_def scope_names_def)

end
