(* ===== verification/Control_Requests.thy ===== *)
theory Control_Requests
  imports Compute_Guard
begin

text \<open>
  Requests for compute controls: repeating one is answered with the control it made, and a new
  control fences off the executors of every earlier one in its scope.
\<close>


section \<open>What admission wrote\<close>

abbreviation request_key :: "control_row \<Rightarrow> string \<times> string \<times> string" where
  "request_key r \<equiv> (cc_app_id r, cc_scope r, cc_request_id r)"

abbreviation asked :: "control_request \<Rightarrow> string \<times> string \<times> string" where
  "asked request \<equiv> (kq_app_id request, scope_name (kq_scope request), kq_request_id request)"

lemma decode_control_ids:
  assumes "decode_control ev row = Inr control"
  shows "ctl_operation_id control = cc_operation_id row" "ctl_generation control = cc_generation row"
  using assms by (auto simp: decode_control_def split: if_splits)

lemma inserted_control:
  assumes "insert_control row st = Inr (u, st')"
  shows "lookup cc_operation_id (st_controls st') (cc_operation_id row) = Some row"
    "lookup request_key (st_controls st') (request_key row) = Some row"
proof -
  have "lookup cc_operation_id (st_controls st) (cc_operation_id row) = None"
    "lookup request_key (st_controls st) (request_key row) = None"
    using assms by (auto simp: insert_control_def insert_row_commits lookup_None_iff list_ex_iff)
  then show "lookup cc_operation_id (st_controls st') (cc_operation_id row) = Some row"
    "lookup request_key (st_controls st') (request_key row) = Some row"
    using assms by (auto simp: insert_control_def insert_row_commits)
qed

lemma fold_max_above: "x \<in> set xs \<or> x \<le> m \<Longrightarrow> x \<le> fold max xs (m :: int)"
proof (induction xs arbitrary: m)
  case (Cons y xs)
  then have "x \<in> set xs \<or> x \<le> max y m"
    by (simp add: le_max_iff_disj) blast
  from Cons.IH [OF this] show ?case
    by simp
qed simp

lemma next_generation_above:
  assumes "next_generation a s st = Inr (g, st')" "r \<in> set (st_controls st)" "cc_app_id r = a" "cc_scope r = s"
  shows "cc_generation r < g"
proof -
  define top where "top = fold max (map cc_generation (filter (\<lambda>r. cc_app_id r = a \<and> cc_scope r = s) (st_controls st))) 0"
  have "cc_generation r \<le> top"
    unfolding top_def using assms(2-4) by (intro fold_max_above) auto
  moreover have "g = top + 1"
    using assms(1) by (auto simp: next_generation_def tx_some_def checked_add_Some_iff top_def [symmetric] split: option.splits)
  ultimately show ?thesis
    by simp
qed

lemma get_control_pure: "tx_pure (get_control ev i i')"
  by (rule store_reads)

lemma succeed_head_pure: "tx_pure (succeed_head ev request b head)"
  by (rule store_reads)

lemma succeed_head_generation:
  assumes "succeed_head ev request idle_only head st = Inr ((g, rest), st')"
  shows "\<exists>st1. next_generation (kq_app_id request) (scope_name (kq_scope request)) st = Inr (g, st1)"
proof (cases head)
  case None
  then show ?thesis
    using assms by (auto simp: succeed_head_def)
next
  case (Some h)
  define old where "old = (case it_control_operation_id h of None \<Rightarrow> tx_return ([], None)
    | Some i \<Rightarrow> tx_bind (get_control ev (kq_app_id request) i) (\<lambda>found.
        tx_bind (tx_some (InvalidOperation ''Compute intent target is missing'') found) (\<lambda>old.
        (if ctl_is_terminal (ctl_state old) then tx_return (ctl_interrupted_operations old, None)
         else if \<not> may_supersede request idle_only old then tx_fail (control_conflict old)
         else tx_return (ctl_interrupted_operations old @ [ctl_operation_id old], Some (ctl_operation_id old))))))"
  obtain x st1 st2 where old: "old st = Inr (x, st1)"
    and g: "next_generation (kq_app_id request) (scope_name (kq_scope request)) st1 = Inr (g, st2)"
    using assms unfolding Some succeed_head_def option.case old_def [symmetric] by (auto split: if_splits)
  have "st1 = st"
    using old unfolding old_def
    by (auto simp: tx_some_def dest!: tx_pureD [OF get_control_pure] split: option.splits if_splits)
  then show ?thesis
    using g by blast
qed

lemma save_intent_controls: "save_intent ev request head g v st = Inr (u, st') \<Longrightarrow> st_controls st' = st_controls st"
  by (cases head) (auto simp: save_intent_def Let_def insert_intent_def insert_row_commits update_one_commits)

lemma save_intent_head:
  assumes run: "save_intent ev request head g v st = Inr (u, st')" and st: "unique_keys (\<lambda>r. (it_app_id r, it_scope r)) (st_intents st)"
  shows "\<exists>r. find_head st' (kq_app_id request) (kq_scope request) = Some r
      \<and> it_generation r = g \<and> it_control_operation_id r = Some (kq_operation_id request)"
proof (cases head)
  case None
  then show ?thesis
    using run by (auto simp: save_intent_def Let_def insert_intent_def insert_row_commits)
next
  case (Some h)
  define p where "p = (\<lambda>r :: intent_row. it_app_id r = kq_app_id request \<and> it_scope r = scope_name (kq_scope request)
    \<and> it_lifecycle_id r = kq_lifecycle_id request \<and> it_revision r = it_revision h \<and> it_generation r = it_generation h)"
  have "count_where p (st_intents st) = 1"
    using run unfolding Some save_intent_def Let_def option.case update_one_commits p_def by blast
  then have "filter p (st_intents st) \<noteq> []"
    by (auto simp: count_where_def)
  then obtain r where r: "r \<in> set (st_intents st)" "p r"
    by (auto simp: filter_empty_conv)
  then have "find_head st (kq_app_id request) (kq_scope request) = Some r"
    using st by (simp add: lookup_iff_mem p_def)
  then show ?thesis
    using run r(2) unfolding Some save_intent_def Let_def option.case update_one_commits p_def [symmetric]
    by (auto simp: lookup_update_where)
qed


lemma before_insert:
  assumes "read_scoped_head ev app scope st = Inr (scoped, st1)"
    "(case scoped of Head_Current head \<Rightarrow> tx_return (Some head) | Head_Historical head \<Rightarrow> tx_then (retire_head head) (tx_return None)
      | Head_Absent \<Rightarrow> tx_return None) st1 = Inr (head, st2)"
    "unique_keys (\<lambda>r. (it_app_id r, it_scope r)) (st_intents st)"
  shows "st_controls st2 = st_controls st" "unique_keys (\<lambda>r. (it_app_id r, it_scope r)) (st_intents st2)"
proof -
  have "st1 = st"
    using assms(1) by (rule tx_pureD [OF read_only6])
  then show "st_controls st2 = st_controls st" "unique_keys (\<lambda>r. (it_app_id r, it_scope r)) (st_intents st2)"
    using assms(2,3) by (auto simp: retire_head_def delete_commits split: scoped_compute_head.splits)
qed

lemma supersede_frame:
  assumes "(case s of None \<Rightarrow> tx_return () | Some i \<Rightarrow> supersede_control ev i) st = Inr (u, st')"
  shows "st_intents st' = st_intents st" "map control_identity (st_controls st') = map control_identity (st_controls st)"
  using assms
  by (auto simp: supersede_control_def update_rows_def control_identity_def update_where_keys split: option.splits if_splits)

text \<open>The row a new control is stored as, and the head that names it.\<close>

definition control_made :: "control_request \<Rightarrow> control_row \<Rightarrow> bool" where
  "control_made request row \<longleftrightarrow> cc_operation_id row = kq_operation_id request \<and> request_key row = asked request"

definition idle_check :: "bool \<Rightarrow> intent_row option \<Rightarrow> unit action" where
  "idle_check idle_only head = (case head of
      Some head \<Rightarrow>
        if idle_only then
          tx_bind (tx_lift (storage_r (desired_state_of (it_desired_state head)))) (\<lambda>desired.
          if desired = Desired_Stopped
          then tx_fail VersionConflict else
          tx_return ())
        else tx_return ()
    | None \<Rightarrow> tx_return ())"

lemma idle_check_same: "idle_check idle_only head st = Inr (u, st') \<Longrightarrow> st' = st"
  by (auto simp: idle_check_def split: option.splits if_splits)

lemma committed_elims:
  "tx_bind m k st = Inr r \<Longrightarrow> (\<And>x st'. m st = Inr (x, st') \<Longrightarrow> k x st' = Inr r \<Longrightarrow> P) \<Longrightarrow> P"
  "tx_then m' k' st = Inr r \<Longrightarrow> (\<And>st'. m' st = Inr ((), st') \<Longrightarrow> k' st' = Inr r \<Longrightarrow> P) \<Longrightarrow> P"
  "(if c then tx_fail e else m'') st = Inr r \<Longrightarrow> (m'' st = Inr r \<Longrightarrow> P) \<Longrightarrow> P"
  "(case p of (g, v, i, s) \<Rightarrow> f g v i s) st = Inr r \<Longrightarrow> (\<And>g v i s. p = (g, v, i, s) \<Longrightarrow> f g v i s st = Inr r \<Longrightarrow> P) \<Longrightarrow> P"
  by (auto split: if_splits prod.splits)

lemma fresh_steps:
  assumes "admit_control_fresh ev request idle_only app st = Inr (control, st')"
  obtains (steps) records scoped head g v inherited supersedes row found st1 st2 st3 st3' st4 st5 st6 st7 st8 where
      "active ev app st = Inr (records, st1)"
      "read_scoped_head ev app (kq_scope request) st1 = Inr (scoped, st2)"
      "(case scoped of Head_Current head \<Rightarrow> tx_return (Some head) | Head_Historical head \<Rightarrow> tx_then (retire_head head) (tx_return None)
      | Head_Absent \<Rightarrow> tx_return None) st2 = Inr (head, st3')"
      "idle_check idle_only head st3' = Inr ((), st3)"
      "succeed_head ev request idle_only head st3 = Inr ((g, v, inherited, supersedes), st4)"
      "(case supersedes of None \<Rightarrow> tx_return () | Some i \<Rightarrow> supersede_control ev i) st4 = Inr ((), st5)"
      "insert_control row st5 = Inr ((), st6)"
      "cc_operation_id row = kq_operation_id request" "request_key row = asked request" "cc_generation row = g"
      "save_intent ev request head g v st6 = Inr ((), st7)"
      "get_control ev (kq_app_id request) (kq_operation_id request) st7 = Inr (found, st8)" "tx_some NotFound found st8 = Inr (control, st')"
proof -
  show thesis
    using assms unfolding admit_control_fresh_def Let_def idle_check_def [symmetric]
    by - (elim committed_elims, hypsubst, rule steps, (assumption | simp)+)
qed

lemma fresh_control:
  assumes run: "admit_control_fresh ev request idle_only app st = Inr (control, st')"
    and st: "unique_keys (\<lambda>r. (it_app_id r, it_scope r)) (st_intents st)"
  obtains row head where "control_made request row" "lookup request_key (st_controls st') (asked request) = Some row"
    "decode_control ev row = Inr control" "find_head st' (kq_app_id request) (kq_scope request) = Some head"
    "it_generation head = cc_generation row" "it_control_operation_id head = Some (kq_operation_id request)"
    "\<forall>r \<in> set (st_controls st). cc_app_id r = kq_app_id request \<and> cc_scope r = scope_name (kq_scope request) \<longrightarrow>
      cc_generation r < cc_generation row"
proof -
  obtain records scoped head g v inherited supersedes row found st1 st2 st3 st3' st4 st5 st6 st7 st8 where
    1: "active ev app st = Inr (records, st1)"
    and 2: "read_scoped_head ev app (kq_scope request) st1 = Inr (scoped, st2)"
    and 3: "(case scoped of Head_Current head \<Rightarrow> tx_return (Some head) | Head_Historical head \<Rightarrow> tx_then (retire_head head) (tx_return None)
      | Head_Absent \<Rightarrow> tx_return None) st2 = Inr (head, st3')"
    and check: "idle_check idle_only head st3' = Inr ((), st3)"
    and 4: "succeed_head ev request idle_only head st3 = Inr ((g, v, inherited, supersedes), st4)"
    and 5: "(case supersedes of None \<Rightarrow> tx_return () | Some i \<Rightarrow> supersede_control ev i) st4 = Inr ((), st5)"
    and 6: "insert_control row st5 = Inr ((), st6)"
    and row: "cc_operation_id row = kq_operation_id request" "request_key row = asked request" "cc_generation row = g"
    and 7: "save_intent ev request head g v st6 = Inr ((), st7)"
    and 8: "get_control ev (kq_app_id request) (kq_operation_id request) st7 = Inr (found, st8)" "tx_some NotFound found st8 = Inr (control, st')"
    by (rule fresh_steps [OF run])
  have eq: "st1 = st" "st4 = st3" "st8 = st7" "st3' = st3"
    using idle_check_same [OF check] tx_pureD [OF active_pure 1] tx_pureD [OF succeed_head_pure 4] tx_pureD [OF get_control_pure 8(1)] by blast+
  have before: "st_controls st3 = st_controls st" "unique_keys (\<lambda>r. (it_app_id r, it_scope r)) (st_intents st3)"
    using before_insert [OF 2 3] st eq by simp_all
  have "st_intents st6 = st_intents st5"
    using 6 by (auto simp: insert_control_def insert_row_commits)
  then obtain h where h: "find_head st7 (kq_app_id request) (kq_scope request) = Some h" "it_generation h = g"
    "it_control_operation_id h = Some (kq_operation_id request)"
    using save_intent_head [OF 7] before(2) supersede_frame(1) [OF 5] eq by auto
  have controls: "st_controls st7 = st_controls st6"
    by (rule save_intent_controls [OF 7])
  have "decode_control ev row = Inr control"
    using 8 inserted_control(1) [OF 6] row(1) controls by (auto simp: get_control_def tx_some_def transpose_r_def split: if_splits option.splits)
  moreover have "cc_generation r < g" if "r \<in> set (st_controls st)" "cc_app_id r = kq_app_id request" "cc_scope r = scope_name (kq_scope request)" for r
    using succeed_head_generation [OF 4] next_generation_above that before(1) by metis
  ultimately show thesis
    using that [of row h] row h inserted_control(2) [OF 6] controls eq 8(2) by (auto simp: control_made_def tx_some_def split: option.splits)
qed


section \<open>Admission\<close>

lemma admit_control_cases:
  assumes "admit_control ev request idle_only st = Inr (control, st')"
  obtains (Replay) row where "lookup request_key (st_controls st) (asked request) = Some row"
      "decode_control ev row = Inr control" "st_controls st' = st_controls st"
  | (Fresh) app st1 where "lookup request_key (st_controls st) (asked request) = None"
      "admit_control_fresh ev request idle_only app st1 = Inr (control, st')"
      "st_controls st1 = st_controls st" "st_intents st1 = st_intents st"
proof -
  obtain found app replay st1 st2 where 1: "claim_app (kq_app_id request) st = Inr ((), st1)"
    and 2: "repo_app ev (kq_app_id request) st1 = Inr (found, st2)"
    and replay: "replay = lookup request_key (st_controls st2) (asked request)"
    and 3: "(case replay of Some replay \<Rightarrow>
          if cc_lifecycle_id replay \<noteq> kq_lifecycle_id request
             \<or> cc_request_fingerprint replay \<noteq> kq_request_fingerprint request
             \<or> cc_action replay \<noteq> name_of compute_action_names (kq_action request)
          then tx_fail (RequestReplayConflict ''Compute request identity was reused with different input'')
          else tx_lift (decode_control ev replay)
      | None \<Rightarrow> admit_control_fresh ev request idle_only app) st2 = Inr (control, st')"
    using assms unfolding admit_control_def
    by (elim committed_elims) (auto simp: tx_some_def split: option.splits)
  have "st2 = st1"
    using 2 by (rule tx_pureD [OF store_reads(1)])
  then have same: "st_controls st2 = st_controls st" "st_intents st2 = st_intents st"
    using 1 by (auto simp: claim_app_def update_one_commits split: option.splits if_splits)
  show thesis
  proof (cases replay)
    case None
    then show thesis
      using Fresh [of app st2] 3 replay same by simp
  next
    case (Some row)
    then show thesis
      using Replay [of row] replay [symmetric] 3 same by (auto split: if_splits)
  qed
qed

lemma extends_identity_lookup:
  assumes "extends kept t t'" "lookup key t k = Some r" "\<And>r r'. kept r = kept r' \<Longrightarrow> key r = key r'"
  shows "\<exists>r'. lookup key t' k = Some r' \<and> kept r' = kept r"
proof -
  have "\<exists>r'. lookup key t' k = Some r' \<and> kept r' = kept r" if "map kept t' = map kept t @ more" for more
    using that assms(2)
  proof (induction t arbitrary: t')
    case (Cons x t)
    then obtain x' t'' where "t' = x' # t''" "kept x' = kept x" "map kept t'' = map kept t @ more"
      by (auto simp: Cons_eq_map_conv map_eq_Cons_conv)
    then show ?case
      using Cons.IH [of t''] Cons.prems(2) assms(3) [of x' x] by (auto split: if_splits)
  qed simp
  then show ?thesis
    using assms(1) by (auto simp: extends_def prefix_def)
qed

lemma request_row_persists:
  assumes "history st st'" "lookup request_key (st_controls st) k = Some row"
  shows "\<exists>row'. lookup request_key (st_controls st') k = Some row' \<and> cc_operation_id row' = cc_operation_id row
    \<and> cc_generation row' = cc_generation row"
proof -
  have identity: "request_key r = request_key r' \<and> cc_operation_id r = cc_operation_id r' \<and> cc_generation r = cc_generation r'"
    if "control_identity r = control_identity r'" for r r'
    using that by (cases r; cases r') (simp add: control_identity_def)
  have "extends control_identity (st_controls st) (st_controls st')"
    using assms(1) by (simp add: history_def)
  from extends_identity_lookup [OF this assms(2)] show ?thesis
    using identity by blast
qed


lemma admitted_request_row:
  assumes "admit_control ev request idle_only st = Inr (control, st')" "schema st"
  shows "\<exists>row. lookup request_key (st_controls st') (asked request) = Some row
    \<and> cc_operation_id row = ctl_operation_id control \<and> cc_generation row = ctl_generation control"
  using assms(1)
proof (cases rule: admit_control_cases)
  case (Replay row)
  then show ?thesis
    using decode_control_ids [OF Replay(2)] by simp
next
  case (Fresh app st1)
  have unique: "unique_keys (\<lambda>r. (it_app_id r, it_scope r)) (st_intents st1)"
    using assms(2) Fresh(4) by (simp add: schema_def constraints_def intents_table_def table_ok_def)
  show ?thesis
  proof (rule fresh_control [OF Fresh(2) unique])
    fix row
    assume "lookup request_key (st_controls st') (asked request) = Some row" "decode_control ev row = Inr control"
    then show ?thesis
      using decode_control_ids [of ev row control] by simp
  qed
qed

lemma current_executor_head:
  assumes "compute_current ev who st = Inr (current, st')"
  shows "\<exists>head. find_head st (xi_app_id who) (xi_scope who) = Some head \<and> it_generation head = xi_generation who
    \<and> it_control_operation_id head = Some (xi_operation_id who)"
  using assms unfolding compute_current_def find_intent_def
  by (auto simp: tx_some_def dest!: tx_pureD [OF store_reads(1)] split: option.splits if_splits)

text \<open>
  C14. A compute request is idempotent: once it was admitted, repeating it at any later time either
  fails or is answered with the same control, and makes no new one.
\<close>

theorem control_request_idempotent:
  assumes "reachable st" "admit_control ev request idle_only st = Inr (control, st1)" "store_step\<^sup>*\<^sup>* st1 st2"
    and "kq_app_id again = kq_app_id request" "kq_scope again = kq_scope request" "kq_request_id again = kq_request_id request"
    and "admit_control ev' again idle_only' st2 = Inr (control', st3)"
  shows "ctl_operation_id control' = ctl_operation_id control \<and> ctl_generation control' = ctl_generation control
    \<and> st_controls st3 = st_controls st2"
proof -
  obtain row where row: "lookup request_key (st_controls st1) (asked request) = Some row"
    "cc_operation_id row = ctl_operation_id control" "cc_generation row = ctl_generation control"
    using admitted_request_row [OF assms(2) reachable_schema [OF assms(1)] ] by blast
  obtain row' where row': "lookup request_key (st_controls st2) (asked again) = Some row'"
    "cc_operation_id row' = ctl_operation_id control" "cc_generation row' = ctl_generation control"
    using request_row_persists [OF run_history [OF assms(3)] row(1)] row(2,3) assms(4-6) by auto
  from assms(7) show ?thesis
  proof (cases rule: admit_control_cases)
    case (Replay row)
    then show ?thesis
      using decode_control_ids [OF Replay(2)] row' by simp
  next
    case (Fresh app st4)
    then show ?thesis
      using row' by simp
  qed
qed

text \<open>
  C13. A new compute control fences off every earlier one: its generation is above that of every
  control of its application and scope, and from the store it leaves no executor of that scope is
  current but one that carries its operation and its generation.
\<close>

theorem new_control_fences_earlier:
  assumes "reachable st" "admit_control ev request idle_only st = Inr (control, st')"
    and "lookup (\<lambda>r. (cc_app_id r, cc_scope r, cc_request_id r)) (st_controls st)
      (kq_app_id request, scope_name (kq_scope request), kq_request_id request) = None"
  shows "(\<forall>r \<in> set (st_controls st). cc_app_id r = kq_app_id request \<and> cc_scope r = scope_name (kq_scope request) \<longrightarrow>
      cc_generation r < ctl_generation control)
    \<and> (compute_current ev' who st' = Inr (current, st'') \<and> xi_app_id who = kq_app_id request \<and> xi_scope who = kq_scope request \<longrightarrow>
      xi_operation_id who = kq_operation_id request \<and> xi_generation who = ctl_generation control)"
  using assms(2)
proof (cases rule: admit_control_cases)
  case (Replay row)
  then show ?thesis
    using assms(3) by simp
next
  case (Fresh app st1)
  have unique: "unique_keys (\<lambda>r. (it_app_id r, it_scope r)) (st_intents st1)"
    using reachable_schema [OF assms(1)] Fresh(4) by (simp add: schema_def constraints_def intents_table_def table_ok_def)
  obtain row head where row: "control_made request row" "lookup request_key (st_controls st') (asked request) = Some row"
      "decode_control ev row = Inr control"
    and head: "find_head st' (kq_app_id request) (kq_scope request) = Some head"
      "it_generation head = cc_generation row" "it_control_operation_id head = Some (kq_operation_id request)"
    and above: "\<forall>r \<in> set (st_controls st1). cc_app_id r = kq_app_id request \<and> cc_scope r = scope_name (kq_scope request) \<longrightarrow>
      cc_generation r < cc_generation row"
    by (rule fresh_control [OF Fresh(2) unique])
  moreover have "xi_operation_id who = kq_operation_id request \<and> xi_generation who = cc_generation row"
    if "compute_current ev' who st' = Inr (current, st'')" "xi_app_id who = kq_app_id request" "xi_scope who = kq_scope request"
    using current_executor_head [OF that(1)] head that(2,3) by auto
  ultimately show ?thesis
    using decode_control_ids(2) [OF row(3)] Fresh(3) by auto
qed


section \<open>A restart that is stopped\<close>

definition sample_control_request :: "string \<Rightarrow> compute_action \<Rightarrow> control_request" where
  "sample_control_request i action = \<lparr>kq_app_id = ''app'', kq_lifecycle_id = ''life'', kq_scope = Scope_Dev,
     kq_operation_id = i, kq_request_id = i, kq_request_fingerprint = replicate 64 (CHR ''0''), kq_action = action,
     kq_restart_image_roll = False, kq_builder_startup_mode = PreserveBusinessIntent\<rparr>"

definition sample_control_record :: "string \<Rightarrow> int \<Rightarrow> compute_action \<Rightarrow> string list \<Rightarrow> control_record" where
  "sample_control_record i g action interrupted = \<lparr>ctl_created_at = 1000000, ctl_app_id = ''app'', ctl_lifecycle_id = ''life'',
     ctl_request_id = i, ctl_scope = Scope_Dev, ctl_operation_id = i,
     ctl_request_fingerprint = replicate 64 (CHR ''0''), ctl_generation = g, ctl_revision = 1, ctl_action = action,
     ctl_state = Ctl_Pending, ctl_executor_id = None, ctl_stage = ''accepted'',
     ctl_checkpoint = initial_checkpoint (sample_control_request i action),
     ctl_error_code = None, ctl_error_message = None, ctl_lease = None, ctl_interrupted_operations = interrupted\<rparr>"

definition pending_control :: "string \<Rightarrow> int \<Rightarrow> compute_action \<Rightarrow> string list \<Rightarrow> control_row" where
  "pending_control i g action interrupted = sample_control\<lparr>cc_operation_id := i, cc_generation := g, cc_revision := 1,
     cc_action := name_of compute_action_names action, cc_state := ''pending'', cc_request_id := i, cc_executor_id := None,
     cc_stage := ''accepted'', cc_evidence_json := to_text (JArr (map JStr interrupted)),
     cc_checkpoint_json := to_text (initial_checkpoint (sample_control_request i action)), cc_terminal_at_us := None\<rparr>"

definition restarting :: store where
  "restarting = finished\<lparr>st_apps := [sample_root ''active'' 5], st_controls := [pending_control ''restart'' 1 Act_Restart [] ],
     st_intents := [sample_head\<lparr>it_desired_state := ''running'', it_control_operation_id := Some ''restart''\<rparr>]\<rparr>"

definition stopping :: "int \<Rightarrow> store" where
  "stopping v = finished\<lparr>st_apps := [sample_root ''active'' v],
     st_controls := [(pending_control ''restart'' 1 Act_Restart [])\<lparr>cc_state := ''superseded'', cc_revision := 2,
       cc_terminal_at_us := Some 1000000\<rparr>, pending_control ''stop'' 2 Act_Stop [''restart''] ],
     st_intents := [sample_head\<lparr>it_generation := 2, it_revision := 2\<rparr>]\<rparr>"

lemma restart_admitted:
  "admit_control sample_env (sample_control_request ''restart'' Act_Restart) False finished
    = Inr (sample_control_record ''restart'' 1 Act_Restart [], restarting)"
  by code_simp

lemma stop_admitted:
  "admit_control sample_env (sample_control_request ''stop'' Act_Stop) False restarting
    = Inr (sample_control_record ''stop'' 2 Act_Stop [''restart''], stopping 6)"
  by code_simp

lemma stop_repeated:
  "admit_control sample_env ((sample_control_request ''stop'' Act_Stop)\<lparr>kq_operation_id := ''other''\<rparr>) False (stopping 6)
    = Inr (sample_control_record ''stop'' 2 Act_Stop [''restart''], stopping 7)"
  by code_simp

definition stop_executor :: executor_identity where
  "stop_executor = \<lparr>xi_app_id = ''app'', xi_lifecycle_id = ''life'', xi_scope = Scope_Dev, xi_operation_id = ''stop'',
     xi_generation = 2, xi_executor_id = ''exec''\<rparr>"

lemma stop_current:
  "compute_current sample_env stop_executor (stopping 6) = Inr (sample_control_record ''stop'' 2 Act_Stop [''restart''], stopping 6)"
  by code_simp

lemma restarting_reachable: "reachable restarting"
proof (rule reachable.step [OF sample_reachable(5)])
  show "store_step finished restarting"
    by (rule store_step.call [where c = "Control_Call (Admit_Compute_Control (sample_control_request ''restart'' Act_Restart))"
          and ev = sample_env]) (simp add: effect_commits restart_admitted)
qed

theorem control_request_idempotent_witness:
  "ctl_operation_id (sample_control_record ''stop'' 2 Act_Stop [''restart'']) = ''stop''
    \<and> st_controls (stopping 7) = st_controls (stopping 6)"
  using control_request_idempotent [OF restarting_reachable stop_admitted rtranclp.rtrancl_refl _ _ _ stop_repeated]
  by (simp add: sample_control_request_def sample_control_record_def)

theorem new_control_fences_earlier_witness:
  "cc_generation (hd (st_controls restarting)) < ctl_generation (sample_control_record ''stop'' 2 Act_Stop [''restart''])
    \<and> compute_current sample_env stop_executor (stopping 6) = Inr (sample_control_record ''stop'' 2 Act_Stop [''restart''], stopping 6)
    \<and> \<not> (\<exists>c s. compute_current sample_env (stop_executor\<lparr>xi_operation_id := ''restart'', xi_generation := 1\<rparr>) (stopping 6) = Inr (c, s))"
  using new_control_fences_earlier [OF restarting_reachable stop_admitted, of sample_env "stop_executor\<lparr>xi_operation_id := ''restart'', xi_generation := 1\<rparr>"]
    stop_current
  by (simp add: sample_control_request_def sample_control_record_def stop_executor_def restarting_def pending_control_def
      sample_control_def name_of_def scope_names_def)

end
