(* ===== verification/Spec2Isabelle.thy ===== *)
theory Spec2Isabelle
  imports Operation_Histories Restart Volume_Recovery Admission_Liveness Store_Protocols Store_Contracts
    Recreation Control_Requests
begin

text \<open>
  A verification development for the UserApp control plane of rcoder, the part of the repository
  that decides what may happen to a user's application and records durably what did: the
  contracts in \<open>crates/shared_types/src/userapp\<close> and the transactional store in
  \<open>crates/rcoder-storage/src/userapp_lifecycle\<close>.

  \<^bold>\<open>The program.\<close>
  A service holds a store over PostgreSQL (or SQLite).  A request is \<^emph>\<open>admitted\<close> as an operation of
  a kind (start, stop, clear storage, delete, ..) in a scope (development, production, whole
  application); an open operation occupies the slot of its scope, and conflicting requests are
  refused.  An executor claims an operation and reports \<^emph>\<open>progress\<close>; destructive kinds must record
  typed evidence in a fixed order before they may succeed, and terminal progress frees the slot.
  \<^emph>\<open>Compute controls\<close> (stop and restart of a runtime) have a ledger of their own, take priority
  over business operations and interrupt them.  \<^emph>\<open>Recovery\<close> settles what a dead executor left:
  operations, controls, deadlines, mutex receipts, lost registrations, volumes.  Every method of
  the store is one transaction; a lost race is retried a bounded number of times.

  \<^bold>\<open>How the code is modelled.\<close>
  Structs are records and enums datatypes, field by field; \<open>Result\<close> is a sum type with the error on
  the left, and every early return is a branch.  A table is the list of its rows in insertion
  order, the database the record \<open>store\<close> of sixteen tables.  A transaction is a function from the
  store to an error or a value and a new store (\<open>Prelude\<close>), so a failed transaction writes nothing;
  the SQL statements are \<open>insert_row\<close>, \<open>update_one\<close> (which fails unless it changes exactly one
  row), \<open>update_rows\<close>, \<open>delete_rows\<close>, \<open>delete_one\<close> and \<open>page\<close> (\<open>Repo\<close>), each with the CHECK
  constraints and foreign keys of its table.  Concurrency between transactions is their
  serialization, as the isolation level of the store gives it: \<open>store_step\<close> is one committed
  method call under any environment, \<open>reachable\<close> its closure from the empty tables.  Counters are
  integers with the checked 64-bit additions written out.  What the code takes from libraries is
  the parameter \<open>env\<close>: the clock, the UUID source, SHA-256, the ranges and formats of chrono, and the
  JSON parser for nested texts; nothing is assumed of it unless a theorem says so.  JSON values
  are a datatype with the readers and writers \<open>serde\<close> derives; a JSON column holds such a value.

  \<^bold>\<open>Theories and sources.\<close>
  \<^item> \<open>Prelude\<close>: results, transactions, tables, chains, characters.  \<open>Json\<close>: JSON values, typed
    readers and the locale \<open>json_codec\<close> every wire format interprets.
  \<^item> \<open>Identifiers\<close> (\<open>validation.rs\<close>, \<open>pg_utils.rs\<close>), \<open>Ip_Address\<close> (\<open>std::net\<close>), \<open>Lifecycle\<close> and
    \<open>Lifecycle_Wire\<close> (\<open>userapp/lifecycle.rs\<close>): kinds, scopes, slots, commands, claims.
  \<^item> \<open>Resource_Evidence\<close>, \<open>Operation_Evidence\<close>, \<open>Database_Evidence\<close>, \<open>Builder_Evidence\<close>,
    \<open>Evidence_Wire\<close>: the evidence documents (\<open>app_resource_deletion.rs\<close>, \<open>userapp/db_password.rs\<close>,
    \<open>builder_control.rs\<close>, \<open>operation_lease.rs\<close>, \<open>resource_binding.rs\<close>, \<open>dev_cleanup.rs\<close>, ..) with their
    codecs and validators.
  \<^item> \<open>Lifecycle_Domain\<close> (\<open>domain.rs\<close>): \<open>admission\<close>, \<open>advance\<close> and the evidence rules.
  \<^item> \<open>Compute_Contracts\<close> (\<open>userapp/compute_control.rs\<close>, \<open>compute_recovery.rs\<close>, \<open>discovery.rs\<close>).
  \<^item> \<open>Codec\<close> (\<open>common/codec.rs\<close>), \<open>Tables\<close> (\<open>db/models.rs\<close>, \<open>schema/userapp-pg-v1.sql\<close>), \<open>Repo\<close>
    (\<open>common/repo.rs\<close>), \<open>Schema\<close> (the constraints as a predicate on the store).
  \<^item> \<open>Operation_Access\<close>, \<open>Operations\<close> (\<open>common/ops/application.rs\<close>, \<open>operation.rs\<close>,
    \<open>common/activity.rs\<close>, \<open>common/mod.rs\<close>), \<open>Configuration\<close> (\<open>common/configuration.rs\<close>), \<open>Compute\<close> (\<open>common/compute.rs\<close>),
    \<open>Recovery\<close> (\<open>ops/recovery.rs\<close>, \<open>observed.rs\<close>, \<open>deletion_recovery.rs\<close>, ..), \<open>Compute_Execution\<close>
    (\<open>common/compute_execution.rs\<close>), \<open>Compute_Recovery\<close> (\<open>common/compute_recovery.rs\<close>),
    \<open>Recovery_Witness\<close> (\<open>recovery_witness.rs\<close>, \<open>builder_registration.rs\<close>).
  \<^item> \<open>Store_Calls\<close>: one constructor per method of the store traits and the transaction it
    runs, as \<open>common/mod.rs\<close> dispatches them; \<open>store_step\<close> and \<open>reachable\<close>.

  \<^bold>\<open>What the lemmas show.\<close>
  \<^item> \<open>Domain_Laws\<close>, \<open>Evidence_Protocol\<close>, \<open>Evidence_Histories\<close>, \<open>Operation_Histories\<close>: the locale
    \<open>evidence_rule\<close> states what a family of evidence rules promises of one update; it is interpreted
    on the five validators of \<open>domain.rs\<close> and gives the shape of the whole history of a successful
    operation, and the exclusivity of the executor that recorded it.
  \<^item> \<open>Frames\<close>, \<open>Write_Rules\<close>, \<open>Guarded\<close>: a relation on stores that is reflexive, transitive and
    respected by each statement (\<open>ledger_order\<close>, \<open>root_order\<close>) is respected by every method.
    \<open>Schema\<close> instantiates them with the table constraints, \<open>Durable\<close> with what is never taken back.
  \<^item> \<open>Lock_Machine\<close>, \<open>Lock_Refinement\<close>, \<open>Lock_Calls\<close>: an abstract machine of roots, slots and open
    operations with its invariants, and the simulation: every method of the store is a run of it.
    \<open>Store_Invariants\<close> reads the invariants back on the tables.
  \<^item> \<open>Operation_Commits\<close>, \<open>Admission_Liveness\<close>, \<open>Compute_Guard\<close>: the effect of a committed admission
    or progress report, that admission cannot get stuck on an idle application, and that it
    respects unsettled compute controls.  \<open>Control_Requests\<close>: a compute request is idempotent, and a
    new control fences off the executors of the earlier ones in its scope.
  \<^item> \<open>Restart\<close>, \<open>Volume_Recovery\<close>, \<open>Recreation\<close>, \<open>Store_Protocols\<close>, \<open>Store_Contracts\<close> over
    \<open>Table_Laws\<close> and \<open>History_Laws\<close>: the recovery scans, paging and retries end and compute what
    their one-pass specification says; what is written once is read back in every later store.
  \<^item> \<open>Samples\<close>, \<open>Scenarios\<close>: concrete documents and runs from the empty tables on which the
    theorems are instantiated.

  \<^bold>\<open>Bounds and fuel.\<close>
  The restart scan (\<open>quarantine_pages\<close>) is the only definition with fuel: one page more than there
  are operations, enough because each page moves the cursor past at least one of them
  (\<open>quarantine_enough_fuel\<close>).  The retirement scans \<open>remaining_loop\<close> and \<open>retained_loop\<close> are total by a
  measure on the rows beyond the cursor; all other loops run over lists.  \<open>run_attempts\<close> counts the
  three attempts of the code, and its budget error is unreachable (\<open>run_store_retries\<close>).

  \<^bold>\<open>Not modelled.\<close>
  The services around the store: HTTP handlers, the engine and the application manager, which
  call container runtimes, file servers, proxies and agents over asynchronous I/O and reach the
  modelled code only through recorded evidence; process supervision and file-system work;
  generated gRPC types; telemetry; connection pooling, migrations and the project, preview and
  agent tables; the vendored database driver.  Their decisions that must survive a crash are
  taken by the store modelled here.  Of the modelled crates, the HTTP views of
  \<open>userapp/lifecycle.rs\<close> and \<open>runtime_control.rs\<close>, the runtime traits of \<open>builder_control.rs\<close> and the
  shell builders of \<open>pg_utils.rs\<close> are left out for the same reason.
\<close>

text \<open>
  C40. The scope conflict matrix: an in-flight operation blocks a request exactly when
  the two share a scope or one of them is application-wide; the relation is symmetric,
  so the development and the production environment are the only two scopes that can
  be in flight together.
\<close>

theorem scope_conflict_matrix:
  "(userapp_scope_blocks_request r b \<longleftrightarrow> r = b \<or> Scope_Application \<in> {r, b})
   \<and> userapp_scope_blocks_request r b = userapp_scope_blocks_request b r"
  using scope_blocks_iff scope_blocks_sym by simp blast

end
